(* ===== verification/Prelude.thy ===== *)
theory Prelude
  imports Main "HOL-Library.AList" "HOL-Library.Multiset" "HOL-Library.Sublist" "HOL-Library.State_Monad"
begin

text \<open>
  The prelude of the Naglfar development: the vocabulary of Go that every component uses.

  \<^item> \<open>error\<close> is Go's \<open>error\<close> value, split by what the sources test it for (the Kubernetes
    client's not-found and already-exists, Docker's not-found, and the two error types of
    \<open>pkg/tiup/common.go\<close>); \<open>'a go\<close> is the outcome of code that may panic.
  \<^item> Go maps are association lists read by \<open>map_of\<close> and written by \<open>AList.update\<close> and
    \<open>AList.delete\<close>. The list is the order in which a \<open>range\<close> loop visits the map, which
    Go leaves unspecified: a statement about every list is a statement about every order.
    A map that may be nil is an \<open>option\<close> of such a list.
  \<^item> \<open>sort_Slice\<close> is \<open>sort.Slice\<close>, with the locale \<open>weak_order\<close> of the comparisons it is
    called with.
  \<^item> The string functions of Go's \<open>strings\<close>, \<open>strconv\<close> and \<open>path\<close> packages that the
    sources call.
\<close>

named_theorems gomap_simps \<open>lookups in updated Go maps\<close>
named_theorems gostr_simps \<open>string functions of the Go library\<close>

section \<open>Errors and panics\<close>

datatype error =
    ErrNotFound string          \<comment> \<open>Kubernetes status reason NotFound\<close>
  | ErrAlreadyExists string     \<comment> \<open>Kubernetes status reason AlreadyExists\<close>
  | ErrDockerNotFound string    \<comment> \<open>Docker: no such container or image\<close>
  | ErrClusterDuplicated string
  | ErrClusterNotExist string
  | ErrMsg string

primrec error_text :: "error \<Rightarrow> string" where
  "error_text (ErrNotFound s) = s"
| "error_text (ErrAlreadyExists s) = s"
| "error_text (ErrDockerNotFound s) = s"
| "error_text (ErrClusterDuplicated c) = ''cluster name '' @ c @ '' is duplicated''"
| "error_text (ErrClusterNotExist c) = ''cluster name '' @ c @ '' is not exist''"
| "error_text (ErrMsg s) = s"

text \<open>
  \<open>client.IgnoreNotFound\<close> of controller-runtime, and the test \<open>apierrors.IsNotFound\<close> it is
  built on: the not-found error of the API server becomes nil, every other value stays.
\<close>

fun IsNotFound :: "error option \<Rightarrow> bool" where
  "IsNotFound (Some (ErrNotFound _)) = True"
| "IsNotFound _ = False"

definition IgnoreNotFound :: "error option \<Rightarrow> error option" where
  "IgnoreNotFound e = (if IsNotFound e then None else e)"

fun IsAlreadyExists :: "error option \<Rightarrow> bool" where
  "IsAlreadyExists (Some (ErrAlreadyExists _)) = True"
| "IsAlreadyExists _ = False"

fun IsErrDockerNotFound :: "error \<Rightarrow> bool" where
  "IsErrDockerNotFound (ErrDockerNotFound _) = True"
| "IsErrDockerNotFound _ = False"

lemma IgnoreNotFound_None_iff:
  "IgnoreNotFound e = None \<longleftrightarrow> e = None \<or> (\<exists>s. e = Some (ErrNotFound s))"
  by (cases e rule: IsNotFound.cases) (auto simp: IgnoreNotFound_def)

text \<open>\<open>if err := check(); err != nil { return err }\<close> followed by the rest.\<close>

definition or_else :: "error option \<Rightarrow> error option \<Rightarrow> error option" where
  "or_else e rest = (case e of Some err \<Rightarrow> Some err | None \<Rightarrow> rest)"

lemma or_else_None_iff [simp]: "or_else e rest = None \<longleftrightarrow> e = None \<and> rest = None"
  by (simp add: or_else_def split: option.splits)

text \<open>\<open>Running\<close> is a loop that has used up the fuel its model was given: the code is still looping.\<close>

datatype 'a go = Done 'a | Panicked string | Running

primrec go_bind :: "'a go \<Rightarrow> ('a \<Rightarrow> 'b go) \<Rightarrow> 'b go" where
  "go_bind (Done x) f = f x"
| "go_bind (Panicked p) f = Panicked p"
| "go_bind Running f = Running"

definition nil_deref :: string where
  "nil_deref = ''invalid memory address or nil pointer dereference''"

lemma go_bind_Done_iff [simp]:
  "go_bind m f = Done y \<longleftrightarrow> (\<exists>x. m = Done x \<and> f x = Done y)"
  by (cases m) auto

lemma go_bind_Panicked_iff:
  "go_bind m f = Panicked p \<longleftrightarrow> m = Panicked p \<or> (\<exists>x. m = Done x \<and> f x = Panicked p)"
  by (cases m) auto

lemma case_sum_Done_Inr [simp]:
  "(case x of Inl e \<Rightarrow> Done (Inl (f e)) | Inr y \<Rightarrow> g y) = Done (Inr z) \<longleftrightarrow> (\<exists>y. x = Inr y \<and> g y = Done (Inr z))"
  by (cases x) auto

lemma case_sum_Panicked [simp]:
  "(case x of Inl e \<Rightarrow> Done (f e) | Inr y \<Rightarrow> g y) = Panicked p \<longleftrightarrow> (\<exists>y. x = Inr y \<and> g y = Panicked p)"
  by (cases x) auto

section \<open>Go maps\<close>

type_synonym ('k, 'v) gomap = "('k \<times> 'v) list"

abbreviation gm_keys :: "('k, 'v) gomap \<Rightarrow> 'k set" where
  "gm_keys m \<equiv> fst ` set m"

text \<open>A well-formed map holds each key once; \<open>len\<close> is then the number of keys.\<close>

abbreviation gm_wf :: "('k, 'v) gomap \<Rightarrow> bool" where
  "gm_wf m \<equiv> distinct (map fst m)"

text \<open>Reading a nil map gives the zero value, writing one panics.\<close>

definition nil_get :: "('k, 'v) gomap option \<Rightarrow> 'k \<Rightarrow> 'v option" where
  "nil_get m k = (case m of None \<Rightarrow> None | Some al \<Rightarrow> map_of al k)"

definition nil_put :: "('k, 'v) gomap option \<Rightarrow> 'k \<Rightarrow> 'v \<Rightarrow> ('k, 'v) gomap option go" where
  "nil_put m k v =
     (case m of None \<Rightarrow> Panicked ''assignment to entry in nil map''
      | Some al \<Rightarrow> Done (Some (AList.update k v al)))"

definition nil_del :: "('k, 'v) gomap option \<Rightarrow> 'k \<Rightarrow> ('k, 'v) gomap option" where
  "nil_del m k = map_option (AList.delete k) m"

definition nil_entries :: "('k, 'v) gomap option \<Rightarrow> ('k \<times> 'v) list" where
  "nil_entries m = (case m of None \<Rightarrow> [] | Some al \<Rightarrow> al)"

lemma map_of_update [gomap_simps]:
  "map_of (AList.update k v m) j = (if j = k then Some v else map_of m j)"
  by (simp add: update_conv')

lemma map_of_delete_if [gomap_simps]:
  "map_of (AList.delete k m) j = (if j = k then None else map_of m j)"
  by (simp add: delete_conv')

lemma nil_get_put [gomap_simps]:
  "nil_put m k v = Done m' \<Longrightarrow> nil_get m' j = (if j = k then Some v else nil_get m j)"
  by (cases m) (auto simp: nil_put_def nil_get_def map_of_update)

lemma nil_get_del [gomap_simps]:
  "nil_get (nil_del m k) j = (if j = k then None else nil_get m j)"
  by (cases m) (auto simp: nil_del_def nil_get_def map_of_delete_if)

lemma nil_put_Done_iff: "(\<exists>m'. nil_put m k v = Done m') \<longleftrightarrow> m \<noteq> None"
  by (cases m) (auto simp: nil_put_def)

lemma gm_wf_update [simp]: "gm_wf m \<Longrightarrow> gm_wf (AList.update k v m)"
  by (rule distinct_update)

lemma gm_wf_delete [simp]: "gm_wf m \<Longrightarrow> gm_wf (AList.delete k m)"
  by (rule distinct_delete)

lemma map_of_eq_Some_iff_in: "gm_wf m \<Longrightarrow> map_of m k = Some v \<longleftrightarrow> (k, v) \<in> set m"
  by (rule map_of_eq_Some_iff)

lemma map_of_not_None_iff: "(\<exists>v. map_of m k = Some v) \<longleftrightarrow> k \<in> gm_keys m"
  by (metis map_of_eq_None_iff not_None_eq)

lemma gm_keys_update: "gm_keys (AList.update k v m) = insert k (gm_keys m)"
  by (induction m) auto

lemma gm_keys_delete: "gm_keys (AList.delete k m) = gm_keys m - {k}"
  by (induction m) auto

section \<open>sort.Slice\<close>

text \<open>
  \<open>sort.Slice\<close> permutes the slice into an order that agrees with \<open>less\<close>; it is not stable.
  Insertion sort is one such order. Where the source shuffles the slice first, every order
  the library may return is reached from some shuffle.
\<close>

fun insert_less :: "('a \<Rightarrow> 'a \<Rightarrow> bool) \<Rightarrow> 'a \<Rightarrow> 'a list \<Rightarrow> 'a list" where
  "insert_less lt x [] = [x]"
| "insert_less lt x (y # ys) = (if lt y x then y # insert_less lt x ys else x # y # ys)"

definition sort_Slice :: "('a \<Rightarrow> 'a \<Rightarrow> bool) \<Rightarrow> 'a list \<Rightarrow> 'a list" where
  "sort_Slice lt xs = foldr (insert_less lt) xs []"

lemma mset_insert_less: "mset (insert_less lt x xs) = add_mset x (mset xs)"
  by (induction xs) auto

lemma set_insert_less [simp]: "set (insert_less lt x xs) = insert x (set xs)"
  by (induction xs) auto

lemma mset_sort_Slice [simp]: "mset (sort_Slice lt xs) = mset xs"
  by (induction xs) (simp_all add: sort_Slice_def mset_insert_less)

lemma set_sort_Slice [simp]: "set (sort_Slice lt xs) = set xs"
  by (metis mset_sort_Slice set_mset_mset)

lemma distinct_sort_Slice [simp]: "distinct (sort_Slice lt xs) = distinct xs"
  by (metis mset_sort_Slice mset_eq_imp_distinct_iff)

lemma length_sort_Slice [simp]: "length (sort_Slice lt xs) = length xs"
  by (metis mset_sort_Slice size_mset)

text \<open>The contract of a comparison: a strict weak order.\<close>

locale weak_order =
  fixes lt :: "'a \<Rightarrow> 'a \<Rightarrow> bool"
  assumes less_asym: "lt x y \<Longrightarrow> \<not> lt y x"
    and not_less_trans: "\<not> lt y x \<Longrightarrow> \<not> lt z y \<Longrightarrow> \<not> lt z x"
begin

lemma sorted_insert_less:
  "sorted_wrt (\<lambda>a b. \<not> lt b a) xs \<Longrightarrow> sorted_wrt (\<lambda>a b. \<not> lt b a) (insert_less lt x xs)"
  by (induction xs) (auto dest: less_asym not_less_trans)

lemma sorted_sort_Slice: "sorted_wrt (\<lambda>a b. \<not> lt b a) (sort_Slice lt xs)"
  by (induction xs) (simp_all add: sort_Slice_def sorted_insert_less)

end

interpretation int_order: weak_order "(<) :: int \<Rightarrow> int \<Rightarrow> bool"
  by unfold_locales auto

lemma sorted_sort_Slice_int: "sorted (sort_Slice (<) (xs :: int list))"
proof -
  have "(\<lambda>a b. \<not> b < a) = ((\<le>) :: int \<Rightarrow> int \<Rightarrow> bool)" by (simp add: fun_eq_iff not_less)
  with int_order.sorted_sort_Slice show ?thesis by (metis)
qed

lemma sort_Slice_int: "sort_Slice (<) (xs :: int list) = sort xs"
  by (rule properties_for_sort [symmetric]) (simp_all add: sorted_sort_Slice_int)

text \<open>Sorting integers hides the order in which a map was ranged over.\<close>

lemma sort_Slice_int_perm: "mset xs = mset ys \<Longrightarrow> sort_Slice (<) (xs :: int list) = sort_Slice (<) ys"
  by (simp add: sort_Slice_int properties_for_sort)

end
