(* ===== verification/GoStrings.thy ===== *)
theory GoStrings
  imports Prelude
begin

text \<open>
  The functions of Go's \<open>strings\<close>, \<open>strconv\<close> and \<open>path\<close> packages that the sources call,
  over \<open>string\<close> as a list of bytes. \<open>Split\<close> is only called with a non-empty separator.
\<close>

section \<open>strconv\<close>

fun show_nat :: "nat \<Rightarrow> string" where
  "show_nat n =
     (if n < 10 then [char_of (48 + n)] else show_nat (n div 10) @ [char_of (48 + n mod 10)])"

declare show_nat.simps [simp del]

definition Itoa :: "int \<Rightarrow> string" where
  "Itoa i = (if i < 0 then CHR ''-'' # show_nat (nat (- i)) else show_nat (nat i))"

definition digit_val :: "char \<Rightarrow> nat option" where
  "digit_val c = (let d = of_char c :: nat in if 48 \<le> d \<and> d < 58 then Some (d - 48) else None)"

fun parse_digits :: "nat \<Rightarrow> string \<Rightarrow> nat option" where
  "parse_digits acc [] = Some acc"
| "parse_digits acc (c # cs) =
     (case digit_val c of None \<Rightarrow> None | Some d \<Rightarrow> parse_digits (10 * acc + d) cs)"

text \<open>
  \<open>strconv.Atoi\<close> for a 64-bit \<open>int\<close>: a syntax error gives 0, a value out of range the nearest
  bound, both with the error.
\<close>

definition Atoi :: "string \<Rightarrow> int \<times> error option" where
  "Atoi s =
     (let (neg, ds) = (case s of
          [] \<Rightarrow> (False, [])
        | c # cs \<Rightarrow> (if c = CHR ''-'' then (True, cs) else if c = CHR ''+'' then (False, cs)
                    else (False, s)))
      in case (if ds = [] then None else parse_digits 0 ds) of
           None \<Rightarrow> (0, Some (ErrMsg (''strconv.Atoi: parsing '' @ s @ '': invalid syntax'')))
         | Some n \<Rightarrow>
             (let v = (if neg then - int n else int n)
              in if v < - (2 ^ 63)
                 then (- (2 ^ 63), Some (ErrMsg (''strconv.Atoi: parsing '' @ s @ '': value out of range'')))
                 else if 2 ^ 63 \<le> v
                 then (2 ^ 63 - 1, Some (ErrMsg (''strconv.Atoi: parsing '' @ s @ '': value out of range'')))
                 else (v, None)))"

lemma digit_val_char_of: "d < 10 \<Longrightarrow> digit_val (char_of (48 + d)) = Some d"
  by (simp add: digit_val_def)

lemma show_nat_nonempty [simp]: "show_nat n \<noteq> []"
  by (subst show_nat.simps) simp

lemma parse_digits_append:
  "parse_digits a (xs @ ys) = (case parse_digits a xs of None \<Rightarrow> None | Some b \<Rightarrow> parse_digits b ys)"
  by (induction xs arbitrary: a) (auto split: option.split)

lemma parse_digits_show_nat: "parse_digits 0 (show_nat n) = Some n"
proof (induction n rule: show_nat.induct)
  case (1 n)
  show ?case
  proof (cases "n < 10")
    case True
    then show ?thesis by (subst show_nat.simps) (simp add: digit_val_char_of)
  next
    case False
    with 1 show ?thesis
      by (subst show_nat.simps) (simp add: parse_digits_append digit_val_char_of)
  qed
qed

lemma show_nat_digits: "c \<in> set (show_nat n) \<Longrightarrow> digit_val c \<noteq> None"
proof (induction n rule: show_nat.induct)
  case (1 n)
  then show ?case
    by (subst (asm) (2) show_nat.simps) (auto simp: digit_val_char_of split: if_splits)
qed

lemma Itoa_nonempty [simp]: "Itoa i \<noteq> []"
  by (simp add: Itoa_def)

lemma Itoa_chars: "c \<in> set (Itoa i) \<Longrightarrow> c = CHR ''-'' \<or> digit_val c \<noteq> None"
  by (auto simp: Itoa_def show_nat_digits split: if_splits)

lemma Itoa_no_slash: "CHR ''/'' \<notin> set (Itoa i)"
  using Itoa_chars [of "CHR ''/''" i] by (auto simp: digit_val_def)

lemma hd_show_nat: "hd (show_nat n) \<noteq> CHR ''-'' \<and> hd (show_nat n) \<noteq> CHR ''+''"
  using show_nat_digits [of "hd (show_nat n)" n] by (auto simp: digit_val_def)

lemma Atoi_Itoa: "- (2 ^ 63) \<le> i \<Longrightarrow> i < 2 ^ 63 \<Longrightarrow> Atoi (Itoa i) = (i, None)"
proof -
  assume b: "- (2 ^ 63) \<le> i" "i < 2 ^ 63"
  have sign: "(case show_nat n of [] \<Rightarrow> (False, []) | c # cs \<Rightarrow>
      (if c = CHR ''-'' then (True, cs) else if c = CHR ''+'' then (False, cs) else (False, show_nat n)))
      = (False, show_nat n)" for n
    using hd_show_nat [of n] by (cases "show_nat n") auto
  show ?thesis
    using b by (auto simp: Atoi_def Itoa_def sign parse_digits_show_nat)
qed

lemma digit_chars:
  "char_of (48 :: nat) = CHR ''0''" "char_of (49 :: nat) = CHR ''1''" "char_of (50 :: nat) = CHR ''2''"
  "char_of (51 :: nat) = CHR ''3''" "char_of (52 :: nat) = CHR ''4''" "char_of (53 :: nat) = CHR ''5''"
  "char_of (54 :: nat) = CHR ''6''" "char_of (55 :: nat) = CHR ''7''" "char_of (56 :: nat) = CHR ''8''"
  "char_of (57 :: nat) = CHR ''9''"
  by code_simp+

text \<open>Printing a numeral by rewriting.\<close>

lemmas Itoa_eval = Itoa_def show_nat.simps digit_chars

lemma show_nat_inject: "show_nat m = show_nat n \<Longrightarrow> m = n"
  by (metis option.inject parse_digits_show_nat)

lemma Itoa_eq_iff [simp]: "Itoa i = Itoa j \<longleftrightarrow> i = j"
proof -
  have "show_nat n \<noteq> CHR ''-'' # xs" for n xs
    using hd_show_nat [of n] by auto
  then show ?thesis
    by (auto simp: Itoa_def dest: show_nat_inject split: if_splits) (metis eq_nat_nat_iff linorder_not_less show_nat_inject)+
qed

lemma Itoa_inject: "Itoa i = Itoa j \<Longrightarrow> - (2 ^ 63) \<le> i \<Longrightarrow> i < 2 ^ 63 \<Longrightarrow>
  - (2 ^ 63) \<le> j \<Longrightarrow> j < 2 ^ 63 \<Longrightarrow> i = j"
  by (metis Atoi_Itoa prod.inject)

section \<open>strings\<close>

definition HasPrefix :: "string \<Rightarrow> string \<Rightarrow> bool" where
  "HasPrefix s p = (take (length p) s = p)"

definition HasSuffix :: "string \<Rightarrow> string \<Rightarrow> bool" where
  "HasSuffix s p = HasPrefix (rev s) (rev p)"

fun Contains :: "string \<Rightarrow> string \<Rightarrow> bool" where
  "Contains [] sub = (sub = [])"
| "Contains (c # cs) sub = (HasPrefix (c # cs) sub \<or> Contains cs sub)"

function split_from :: "string \<Rightarrow> string \<Rightarrow> string \<Rightarrow> string list" where
  "split_from sep acc s =
     (if s = [] \<or> sep = [] then [rev acc @ s]
      else if HasPrefix s sep then rev acc # split_from sep [] (drop (length sep) s)
      else split_from sep (hd s # acc) (tl s))"
  by pat_completeness auto
termination
  by (relation "measure (\<lambda>(sep, acc, s). length s)") auto

declare split_from.simps [simp del]

definition Split :: "string \<Rightarrow> string \<Rightarrow> string list" where
  "Split s sep = split_from sep [] s"

fun Join :: "string list \<Rightarrow> string \<Rightarrow> string" where
  "Join [] sep = []"
| "Join [x] sep = x"
| "Join (x # y # xs) sep = x @ sep @ Join (y # xs) sep"

definition is_space :: "char \<Rightarrow> bool" where
  "is_space c = (of_char c \<in> {9 :: nat, 10, 11, 12, 13, 32})"

definition TrimSpace :: "string \<Rightarrow> string" where
  "TrimSpace s = rev (dropWhile is_space (rev (dropWhile is_space s)))"

lemma HasPrefix_singleton [simp]: "HasPrefix (c # cs) [d] \<longleftrightarrow> c = d"
  by (auto simp: HasPrefix_def)

lemma split_from_no_sep: "d \<notin> set s \<Longrightarrow> split_from [d] acc s = [rev acc @ s]"
proof (induction s arbitrary: acc)
  case Nil
  then show ?case by (simp add: split_from.simps)
next
  case (Cons c s)
  then show ?case by (subst split_from.simps) auto
qed

lemma split_from_sep:
  "d \<notin> set x \<Longrightarrow> split_from [d] acc (x @ d # rest) = (rev acc @ x) # split_from [d] [] rest"
proof (induction x arbitrary: acc)
  case Nil
  then show ?case by (subst split_from.simps) simp
next
  case (Cons c x)
  then show ?case by (subst split_from.simps) auto
qed

lemma Split_Join:
  "xs \<noteq> [] \<Longrightarrow> (\<forall>x\<in>set xs. d \<notin> set x) \<Longrightarrow> Split (Join xs [d]) [d] = xs"
  unfolding Split_def
  by (induction xs "[d]" rule: Join.induct) (simp_all add: split_from_no_sep split_from_sep)

lemma TrimSpace_hd: "TrimSpace s \<noteq> [] \<Longrightarrow> \<not> is_space (last (TrimSpace s))"
  by (simp add: TrimSpace_def last_rev hd_dropWhile)

section \<open>path\<close>

text \<open>\<open>path.Clean\<close>: the segments are processed left to right with a stack.\<close>

fun clean_segs :: "bool \<Rightarrow> string list \<Rightarrow> string list \<Rightarrow> string list" where
  "clean_segs rooted stack [] = rev stack"
| "clean_segs rooted stack (x # xs) =
     (if x = [] \<or> x = ''.'' then clean_segs rooted stack xs
      else if x = ''..'' then
        (case stack of
           [] \<Rightarrow> clean_segs rooted (if rooted then [] else [''..'']) xs
         | y # ys \<Rightarrow> clean_segs rooted (if y = ''..'' then ''..'' # stack else ys) xs)
      else clean_segs rooted (x # stack) xs)"

definition path_Clean :: "string \<Rightarrow> string" where
  "path_Clean p =
     (if p = [] then ''.''
      else let rooted = (hd p = CHR ''/'');
               body = Join (clean_segs rooted [] (Split p ''/'')) ''/''
           in if rooted then CHR ''/'' # body else if body = [] then ''.'' else body)"

definition path_Join :: "string list \<Rightarrow> string" where
  "path_Join xs =
     (let ys = filter (\<lambda>x. x \<noteq> []) xs
      in if ys = [] then [] else path_Clean (Join ys ''/''))"

definition path_Base :: "string \<Rightarrow> string" where
  "path_Base p =
     (if p = [] then ''.''
      else let q = rev (dropWhile (\<lambda>c. c = CHR ''/'') (rev p))
           in if q = [] then ''/'' else rev (takeWhile (\<lambda>c. c \<noteq> CHR ''/'') (rev q)))"

lemma clean_segs_plain:
  "(\<forall>x\<in>set xs. x \<noteq> [] \<and> x \<noteq> ''.'' \<and> x \<noteq> ''..'') \<Longrightarrow> clean_segs r st xs = rev st @ xs"
  by (induction xs arbitrary: st) auto

lemma path_Join_mnt:
  assumes "CHR ''/'' \<notin> set name" "name \<noteq> []" "name \<noteq> ''.''" "name \<noteq> ''..''"
  shows "path_Join [''/mnt'', name] = ''/mnt/'' @ name"
proof -
  have "Split (''/mnt'' @ ''/'' @ name) ''/'' = [[], ''mnt'', name]"
    using Split_Join [of "[[], ''mnt'', name]" "CHR ''/''"] assms by simp
  with assms show ?thesis
    by (simp add: path_Join_def path_Clean_def)
qed

end
