(* ===== verification/Util.thy ===== *)
theory Util
  imports GoStrings
begin

text \<open>
  \<open>pkg/util\<close>, \<open>pkg/ref\<close> and \<open>pkg/kubeutil\<close>: string slices, byte sizes, RFC 3339 times,
  references to Kubernetes objects and the retry loop of the clients.

  The sizes are human-readable strings; reading and printing them is the work of
  \<open>github.com/docker/go-units\<close>, which is not part of the repository. The record \<open>units\<close>
  carries its two functions as a parameter of everything that computes with sizes.
\<close>

section \<open>pkg/util/slice.go\<close>

fun StringsContains :: "string list \<Rightarrow> string \<Rightarrow> bool" where
  "StringsContains [] target = False"
| "StringsContains (elem # list) target = (if elem = target then True else StringsContains list target)"

text \<open>\<open>make([]string, 0, len(list)-1)\<close> panics on an empty list: the capacity is negative.\<close>

definition StringsRemove :: "string list \<Rightarrow> string \<Rightarrow> string list go" where
  "StringsRemove list target =
     (if list = [] then Panicked ''makeslice: cap out of range''
      else Done (filter (\<lambda>elem. target \<noteq> elem) list))"

lemma StringsContains_iff [simp]: "StringsContains xs t \<longleftrightarrow> t \<in> set xs"
  by (induction xs) auto

lemma StringsRemove_Done:
  "StringsRemove xs t = Done ys \<Longrightarrow> ys = filter (\<lambda>x. t \<noteq> x) xs \<and> t \<notin> set ys"
  by (auto simp: StringsRemove_def split: if_splits)

lemma StringsRemove_present: "t \<in> set xs \<Longrightarrow> StringsRemove xs t = Done (filter (\<lambda>x. t \<noteq> x) xs)"
  by (auto simp: StringsRemove_def)

section \<open>pkg/util/bytes_size.go\<close>

type_synonym bytes_size = string

text \<open>
  \<open>RAMInBytes\<close> is \<open>units.RAMInBytes\<close>; \<open>BytesSize\<close> is \<open>units.BytesSize\<close> on the \<open>float64\<close> of an
  \<open>int64\<close>, the only argument the sources give it.
\<close>

record units =
  RAMInBytes :: "string \<Rightarrow> error + int"
  BytesSize :: "int \<Rightarrow> string"

definition int64 :: "int \<Rightarrow> int" where
  "int64 x = (x + 2 ^ 63) mod 2 ^ 64 - 2 ^ 63"

definition ToSize :: "units \<Rightarrow> bytes_size \<Rightarrow> error + int" where
  "ToSize u b = RAMInBytes u b"

definition Unwrap :: "units \<Rightarrow> bytes_size \<Rightarrow> int go" where
  "Unwrap u b =
     (case ToSize u b of
        Inl _ \<Rightarrow> Panicked (''BytesSize('' @ b @ '') is invalid'')
      | Inr sz \<Rightarrow> Done sz)"

definition Size :: "units \<Rightarrow> int \<Rightarrow> bytes_size" where
  "Size u sz = BytesSize u sz"

definition Zero :: "units \<Rightarrow> bytes_size" where
  "Zero u = Size u 0"

definition Sub :: "units \<Rightarrow> bytes_size \<Rightarrow> bytes_size \<Rightarrow> bytes_size go" where
  "Sub u b other =
     go_bind (Unwrap u b) (\<lambda>x. go_bind (Unwrap u other) (\<lambda>y. Done (Size u (int64 (x - y)))))"

lemma int64_id: "- (2 ^ 63) \<le> x \<Longrightarrow> x < 2 ^ 63 \<Longrightarrow> int64 x = x"
  by (simp add: int64_def)

lemma int64_range: "- (2 ^ 63) \<le> int64 x \<and> int64 x < 2 ^ 63"
  by (simp add: int64_def)

text \<open>Two sizes that parse to non-negative 64-bit numbers never overflow in \<open>Sub\<close>.\<close>

lemma Sub_exact:
  assumes "Unwrap u a = Done x" "Unwrap u b = Done y" "0 \<le> x" "x < 2 ^ 63" "0 \<le> y" "y < 2 ^ 63"
  shows "Sub u a b = Done (BytesSize u (x - y))"
  using assms by (simp add: Sub_def Size_def int64_id)

lemma Sub_Done_iff:
  "(\<exists>c. Sub u a b = Done c) \<longleftrightarrow> (\<exists>x. Unwrap u a = Done x) \<and> (\<exists>y. Unwrap u b = Done y)"
  by (auto simp: Sub_def)

section \<open>pkg/util/math.go\<close>

text \<open>
  \<open>RandOne\<close> panics on an empty slice (\<open>rand.Intn(0)\<close>); the generator is a parameter that
  gives an index below its argument.
\<close>

definition RandOne :: "(nat \<Rightarrow> nat) \<Rightarrow> string list \<Rightarrow> string go" where
  "RandOne rnd strSlice =
     (if strSlice = [] then Panicked ''invalid argument to Intn''
      else Done (strSlice ! (rnd (length strSlice) mod length strSlice)))"

definition max_duration :: int where
  "max_duration = 2 ^ 63 - 1"

definition MinDuration :: "int list \<Rightarrow> int" where
  "MinDuration durations = foldl (\<lambda>m d. if d < m then d else m) max_duration durations"

lemma RandOne_in: "RandOne rnd xs = Done x \<Longrightarrow> x \<in> set xs"
  by (auto simp: RandOne_def split: if_splits)

lemma foldl_min_le: "foldl (\<lambda>m d. if d < m then d else m) a xs \<le> (a :: int)"
  by (induction xs arbitrary: a) (auto, smt (verit, best))

lemma foldl_min_le_elem: "d \<in> set xs \<Longrightarrow> foldl (\<lambda>m d. if d < m then d else m) (a :: int) xs \<le> d"
proof (induction xs arbitrary: a)
  case Nil
  then show ?case by simp
next
  case (Cons x xs)
  then show ?case
    using foldl_min_le [of "if x < a then x else a" xs] by (auto split: if_splits)
qed

lemma foldl_min_in:
  "foldl (\<lambda>m d. if d < m then d else m) (a :: int) xs = a \<or>
   foldl (\<lambda>m d. if d < m then d else m) a xs \<in> set xs"
proof (induction xs arbitrary: a)
  case Nil
  then show ?case by simp
next
  case (Cons x xs)
  then show ?case using Cons [of x] Cons [of a] by auto
qed

section \<open>RFC 3339 times\<close>

text \<open>
  \<open>time.Parse(time.RFC3339, s)\<close> as nanoseconds since 0001-01-01T00:00:00 UTC, the instant whose
  \<open>IsZero\<close> is true: fixed-width fields, an optional fraction of a second and a zone.
\<close>

definition num2 :: "string \<Rightarrow> (int \<times> string) option" where
  "num2 s =
     (case s of
        a # b # r \<Rightarrow>
          (case (digit_val a, digit_val b) of
             (Some x, Some y) \<Rightarrow> Some (int (10 * x + y), r)
           | _ \<Rightarrow> None)
      | _ \<Rightarrow> None)"

definition expect :: "char \<Rightarrow> string \<Rightarrow> string option" where
  "expect c s = (case s of d # r \<Rightarrow> if d = c then Some r else None | [] \<Rightarrow> None)"

definition is_leap :: "int \<Rightarrow> bool" where
  "is_leap y = (y mod 4 = 0 \<and> (y mod 100 \<noteq> 0 \<or> y mod 400 = 0))"

definition days_in :: "int \<Rightarrow> int \<Rightarrow> int" where
  "days_in y m =
     (if m = 2 then (if is_leap y then 29 else 28)
      else if m = 4 \<or> m = 6 \<or> m = 9 \<or> m = 11 then 30 else 31)"

definition days_before :: "int \<Rightarrow> int \<Rightarrow> int" where
  "days_before y m = sum_list (map (\<lambda>k. days_in y (int k)) [1..<nat m])"

definition days_since :: "int \<Rightarrow> int \<Rightarrow> int \<Rightarrow> int" where
  "days_since y m d =
     365 * (y - 1) + (y - 1) div 4 - (y - 1) div 100 + (y - 1) div 400 + days_before y m + (d - 1)"

fun frac_nanos :: "nat \<Rightarrow> int \<Rightarrow> string \<Rightarrow> int \<times> string" where
  "frac_nanos w acc [] = (acc, [])"
| "frac_nanos w acc (c # cs) =
     (case digit_val c of
        None \<Rightarrow> (acc, c # cs)
      | Some d \<Rightarrow> frac_nanos (w - 1) (acc + (if w = 0 then 0 else int d * 10 ^ (w - 1))) cs)"

definition parse_frac :: "string \<Rightarrow> int \<times> string" where
  "parse_frac s =
     (case s of
        p # c # r \<Rightarrow>
          (if (p = CHR ''.'' \<or> p = CHR '','') \<and> digit_val c \<noteq> None
           then frac_nanos 9 0 (c # r) else (0, s))
      | _ \<Rightarrow> (0, s))"

definition parse_zone :: "string \<Rightarrow> int option" where
  "parse_zone s =
     (case s of
        [] \<Rightarrow> None
      | c # r \<Rightarrow>
          (if c = CHR ''Z'' then (if r = [] then Some 0 else None)
           else if c = CHR ''+'' \<or> c = CHR ''-'' then
             do { (hh, r1) \<leftarrow> num2 r;
                  r2 \<leftarrow> expect CHR '':'' r1;
                  (mm, r3) \<leftarrow> num2 r2;
                  (if r3 = [] \<and> hh \<le> 24 \<and> mm < 60
                   then Some ((if c = CHR ''-'' then - 1 else 1) * (hh * 60 + mm) * 60) else None) }
           else None))"

definition time_Parse :: "string \<Rightarrow> int option" where
  "time_Parse s =
     do { (y1, r) \<leftarrow> num2 s;
          (y2, r) \<leftarrow> num2 r;
          r \<leftarrow> expect CHR ''-'' r;
          (mo, r) \<leftarrow> num2 r;
          r \<leftarrow> expect CHR ''-'' r;
          (d, r) \<leftarrow> num2 r;
          r \<leftarrow> expect CHR ''T'' r;
          (h, r) \<leftarrow> num2 r;
          r \<leftarrow> expect CHR '':'' r;
          (mi, r) \<leftarrow> num2 r;
          r \<leftarrow> expect CHR '':'' r;
          (sec, r) \<leftarrow> num2 r;
          (let (nanos, r) = parse_frac r; y = 100 * y1 + y2
           in if 1 \<le> mo \<and> mo \<le> 12 \<and> 1 \<le> d \<and> d \<le> days_in y mo \<and> h < 24 \<and> mi < 60 \<and> sec < 60
              then do { off \<leftarrow> parse_zone r;
                        Some ((((days_since y mo d * 24 + h) * 60 + mi) * 60 + sec - off)
                              * 1000000000 + nanos) }
              else None) }"

definition timeIsZero :: "string \<Rightarrow> bool" where
  "timeIsZero timeStr = (time_Parse timeStr = Some 0)"

text \<open>What Docker reports for a container that never started, and for one that did.\<close>

lemma timeIsZero_never: "timeIsZero ''0001-01-01T00:00:00Z''"
  by code_simp

lemma timeIsZero_started: "\<not> timeIsZero ''2020-10-30T08:15:02.123456789Z''"
  by code_simp

lemma timeIsZero_invalid: "\<not> timeIsZero ''''"
  by code_simp

section \<open>pkg/ref/ref.go\<close>

record nsname =
  nn_Namespace :: string
  nn_Name :: string

record ref =
  ref_Namespace :: string
  ref_Name :: string
  ref_UID :: string

record owner_ref =
  or_APIVersion :: string
  or_Kind :: string
  or_Name :: string
  or_UID :: string

text \<open>
  The fields of \<open>metav1.ObjectMeta\<close> the sources read or write. \<open>DeletionTimestamp.IsZero()\<close> is
  \<open>meta_DeletionTimestamp = None\<close>; \<open>meta_Controller\<close> is what \<open>metav1.GetControllerOf\<close> finds.
\<close>

record object_meta =
  meta_Name :: string
  meta_Namespace :: string
  meta_UID :: string
  meta_DeletionTimestamp :: "int option"
  meta_Finalizers :: "string list"
  meta_Controller :: "owner_ref option"

definition CreateRef :: "object_meta \<Rightarrow> ref" where
  "CreateRef m = \<lparr>ref_Namespace = meta_Namespace m, ref_Name = meta_Name m, ref_UID = meta_UID m\<rparr>"

definition ParseKey :: "string \<Rightarrow> ref go" where
  "ParseKey key =
     (case Split key ''/'' of
        [a, b, c] \<Rightarrow> Done \<lparr>ref_Namespace = a, ref_Name = b, ref_UID = c\<rparr>
      | _ \<Rightarrow> Panicked (''invalid key: '' @ key))"

definition Namespaced :: "ref \<Rightarrow> nsname" where
  "Namespaced r = \<lparr>nn_Namespace = ref_Namespace r, nn_Name = ref_Name r\<rparr>"

definition Key :: "ref \<Rightarrow> string" where
  "Key r = ref_Namespace r @ ''/'' @ ref_Name r @ ''/'' @ ref_UID r"

text \<open>Kubernetes names, namespaces and UIDs hold no slash.\<close>

definition plain_ref :: "ref \<Rightarrow> bool" where
  "plain_ref r \<longleftrightarrow>
     CHR ''/'' \<notin> set (ref_Namespace r) \<and> CHR ''/'' \<notin> set (ref_Name r) \<and> CHR ''/'' \<notin> set (ref_UID r)"

lemma Split_Key:
  assumes "plain_ref r"
  shows "Split (Key r) ''/'' = [ref_Namespace r, ref_Name r, ref_UID r]"
  using Split_Join [of "[ref_Namespace r, ref_Name r, ref_UID r]" "CHR ''/''"] assms
  by (simp add: Key_def plain_ref_def)

lemma ParseKey_of_Key: "plain_ref r \<Longrightarrow> ParseKey (Key r) = Done r"
  by (simp add: ParseKey_def Split_Key)

lemma Key_inject: "plain_ref r \<Longrightarrow> plain_ref q \<Longrightarrow> Key r = Key q \<longleftrightarrow> r = q"
  by (metis ParseKey_of_Key go.inject(1))

section \<open>pkg/kubeutil/kube.go\<close>

text \<open>
  \<open>Retry\<close> runs a stateful call until it succeeds, at most \<open>attempts\<close> times but always once;
  \<open>i\<close> counts the calls made.
\<close>

function Retry_from :: "int \<Rightarrow> int \<Rightarrow> ('s, error option) state \<Rightarrow> ('s, error option) state" where
  "Retry_from i attempts f =
     do { err \<leftarrow> f;
          case err of
            None \<Rightarrow> State_Monad.return None
          | Some e \<Rightarrow>
              if i \<ge> attempts - 1
              then State_Monad.return (Some (ErrMsg (''after '' @ Itoa attempts @
                     '' attempts, last error: '' @ error_text e)))
              else Retry_from (i + 1) attempts f }"
  by pat_completeness auto
termination
  by (relation "measure (\<lambda>(i, attempts, f). nat (attempts - i))") auto

declare Retry_from.simps [simp del]

text \<open>The state after \<open>k\<close> calls that all failed; \<open>None\<close> if one of them succeeded.\<close>

fun after_failures :: "('s, error option) state \<Rightarrow> nat \<Rightarrow> 's \<Rightarrow> 's option" where
  "after_failures f 0 s = Some s"
| "after_failures f (Suc k) s =
     (case run_state f s of
        (None, _) \<Rightarrow> None
      | (Some _, s') \<Rightarrow> after_failures f k s')"

lemma Retry_from_None_iff:
  "run_state (Retry_from i attempts f) s = (None, s') \<longleftrightarrow>
   (\<exists>k < nat (max 1 (attempts - i)). \<exists>t. after_failures f k s = Some t \<and> run_state f t = (None, s'))"
proof (induction i attempts f arbitrary: s rule: Retry_from.induct)
  case (1 i attempts f)
  obtain err t where call: "run_state f s = (err, t)" by (cases "run_state f s")
  show ?case
  proof (cases err)
    case None
    have "(\<exists>k < nat (max 1 (attempts - i)). \<exists>u. after_failures f k s = Some u \<and>
        run_state f u = (None, s')) \<longleftrightarrow> s' = t"
      using call None by (auto intro!: exI [of _ 0] elim: after_failures.elims)
    then show ?thesis using call None by (subst Retry_from.simps) auto
  next
    case (Some e)
    show ?thesis
    proof (cases "i \<ge> attempts - 1")
      case True
      then have one: "nat (max 1 (attempts - i)) = 1" by simp
      show ?thesis unfolding one using call Some True by (subst Retry_from.simps) auto
    next
      case False
      then have bound: "nat (max 1 (attempts - i)) = Suc (nat (max 1 (attempts - (i + 1))))"
        by (simp add: max_def Suc_nat_eq_nat_zadd1)
      have "run_state (Retry_from i attempts f) s = run_state (Retry_from (i + 1) attempts f) t"
        using call Some False by (subst Retry_from.simps) auto
      with "1.IH" [OF False, of t] show ?thesis
        unfolding bound using call Some by (auto simp: Ex_less_Suc2)
    qed
  qed
qed

definition Retry :: "int \<Rightarrow> ('s, error option) state \<Rightarrow> ('s, error option) state" where
  "Retry attempts f = Retry_from 0 attempts f"

end
