(* ===== verification/Relationship.thy ===== *)
theory Relationship
  imports Util
begin

text \<open>
  \<open>api/v1/relationship_types.go\<close>: the cluster-wide relationship object, which records which
  resource is placed on which machine and with what binding, the accepted requests and the
  exclusive machine locks, together with the disk kinds of \<open>api/v1/machine_types.go\<close> its
  bindings use. Each of the four fields of the status starts out nil, until the relationship
  controller has run.
\<close>

section \<open>Data\<close>

text \<open>\<open>DiskKind\<close> is a string; the two named values and every other (the empty one included).\<close>

datatype DiskKind = NVMEKind | OtherKind | UnknownKind string

record DiskBinding =
  db_Kind :: DiskKind
  db_Size :: bytes_size
  db_Device :: string
  db_OriginPath :: string
  db_MountPath :: string

record ResourceBinding =
  rb_Memory :: bytes_size
  rb_CPUSet :: "int list"
  rb_Disks :: "(string, DiskBinding) gomap"

record ResourceRef =
  rr_Ref :: ref
  rr_Binding :: ResourceBinding

record MachineRef =
  mr_Ref :: ref
  mr_Binding :: ResourceBinding

type_synonym ResourceRefList = "ResourceRef list"

type_synonym AcceptResources = "ref list"

record RelationshipStatus =
  MachineToResources :: "(string, ResourceRefList) gomap option"
  ResourceToMachine :: "(string, MachineRef) gomap option"
  AcceptedRequests :: "AcceptResources option"
  MachineLocks :: "(string, ref) gomap option"

record Relationship =
  rel_Meta :: object_meta
  rel_Status :: RelationshipStatus

section \<open>Operations\<close>

fun IfExist :: "AcceptResources option \<Rightarrow> ref \<Rightarrow> bool" where
  "IfExist None r = False"
| "IfExist (Some []) r = False"
| "IfExist (Some (item # a)) r = (if item = r then True else IfExist (Some a) r)"

definition Remove :: "AcceptResources option \<Rightarrow> ref \<Rightarrow> AcceptResources option" where
  "Remove a r = Some (filter (\<lambda>item. item \<noteq> r) (case a of None \<Rightarrow> [] | Some xs \<Rightarrow> xs))"

definition Clone :: "ResourceRefList \<Rightarrow> ResourceRefList" where
  "Clone r = foldl (\<lambda>resources ref. resources @ [ref]) [] r"

text \<open>\<open>controllers/testresource_controller.go\<close>: \<open>refsRemove\<close> panics on an empty list.\<close>

definition refsRemove :: "ResourceRefList \<Rightarrow> ref \<Rightarrow> ResourceRefList go" where
  "refsRemove list resource =
     (if list = [] then Panicked ''makeslice: cap out of range''
      else Done (filter (\<lambda>elem. rr_Ref elem \<noteq> resource) list))"

lemma Clone_id [simp]: "Clone r = r"
proof -
  have "foldl (\<lambda>resources ref. resources @ [ref]) acc r = acc @ r" for acc
    by (induction r arbitrary: acc) auto
  then show ?thesis by (simp add: Clone_def)
qed

lemma IfExist_Some: "IfExist (Some a) r \<longleftrightarrow> r \<in> set a"
  by (induction a) auto

lemma IfExist_iff: "IfExist a r \<longleftrightarrow> (\<exists>xs. a = Some xs \<and> r \<in> set xs)"
  by (cases a) (auto simp: IfExist_Some)

lemma IfExist_Remove: "IfExist (Remove a r) q \<longleftrightarrow> q \<noteq> r \<and> IfExist a q"
  by (cases a) (auto simp: Remove_def IfExist_iff)

section \<open>Reading the status\<close>

text \<open>The resources placed on a machine: the zero value of a missing key is the empty list.\<close>

definition resources_on :: "RelationshipStatus \<Rightarrow> string \<Rightarrow> ResourceRefList" where
  "resources_on s key = (case nil_get (MachineToResources s) key of None \<Rightarrow> [] | Some l \<Rightarrow> l)"

definition zero_binding :: ResourceBinding where
  "zero_binding = \<lparr>rb_Memory = [], rb_CPUSet = [], rb_Disks = []\<rparr>"

definition zero_MachineRef :: MachineRef where
  "zero_MachineRef =
     \<lparr>mr_Ref = \<lparr>ref_Namespace = [], ref_Name = [], ref_UID = []\<rparr>, mr_Binding = zero_binding\<rparr>"

definition machine_of :: "RelationshipStatus \<Rightarrow> string \<Rightarrow> MachineRef" where
  "machine_of s key =
     (case nil_get (ResourceToMachine s) key of None \<Rightarrow> zero_MachineRef | Some m \<Rightarrow> m)"

text \<open>\<open>Initialized\<close>: the relationship controller has run, so no write of a map panics.\<close>

definition Initialized :: "RelationshipStatus \<Rightarrow> bool" where
  "Initialized s \<longleftrightarrow>
     MachineToResources s \<noteq> None \<and> ResourceToMachine s \<noteq> None \<and>
     AcceptedRequests s \<noteq> None \<and> MachineLocks s \<noteq> None"

text \<open>
  The body of \<open>RelationshipReconciler.Reconcile\<close> on the status
  (\<open>controllers/relationship_controller.go\<close>): each nil field becomes empty.
\<close>

definition needs_init :: "RelationshipStatus \<Rightarrow> bool" where
  "needs_init s \<longleftrightarrow>
     MachineToResources s = None \<or> ResourceToMachine s = None \<or>
     AcceptedRequests s = None \<or> MachineLocks s = None"

definition initialize :: "RelationshipStatus \<Rightarrow> RelationshipStatus" where
  "initialize s =
     (let s = (if MachineToResources s = None then s\<lparr>MachineToResources := Some []\<rparr> else s);
          s = (if ResourceToMachine s = None then s\<lparr>ResourceToMachine := Some []\<rparr> else s);
          s = (if AcceptedRequests s = None then s\<lparr>AcceptedRequests := Some []\<rparr> else s);
          s = (if MachineLocks s = None then s\<lparr>MachineLocks := Some []\<rparr> else s)
      in s)"

lemma needs_init_iff: "needs_init s \<longleftrightarrow> \<not> Initialized s"
  by (auto simp: needs_init_def Initialized_def)

lemma initialize_keeps:
  "nil_get (MachineToResources (initialize s)) k = nil_get (MachineToResources s) k"
  "nil_get (ResourceToMachine (initialize s)) k = nil_get (ResourceToMachine s) k"
  "nil_get (MachineLocks (initialize s)) k = nil_get (MachineLocks s) k"
  "IfExist (AcceptedRequests (initialize s)) r = IfExist (AcceptedRequests s) r"
  by (auto simp: initialize_def nil_get_def Let_def)

lemma Initialized_initialize: "Initialized (initialize s)"
  by (auto simp: initialize_def Initialized_def Let_def)

lemma initialize_id: "Initialized s \<Longrightarrow> initialize s = s"
  by (auto simp: initialize_def Initialized_def Let_def)

end
