(* ===== verification/Machine.thy ===== *)
theory Machine
  imports Relationship
begin

text \<open>
  \<open>api/v1/machine_types.go\<close>: a host machine, what it offers to tests (\<open>Available\<close>) and what
  is left of that once the resources already placed on it are taken off (\<open>Rest\<close>); and the
  defaulting and validating webhook of machines (\<open>api/v1/machine_webhook.go\<close>).
\<close>

section \<open>Data\<close>

text \<open>\<open>MachineState\<close> is a string: the three named states and every other.\<close>

datatype MachineState = MachineShutdown | MachineStarting | MachineReady | UnknownMachineState string

record ReserveResources =
  rsv_Cores :: int
  rsv_Memory :: bytes_size

record StorageDevice =
  sd_Filesystem :: string
  sd_Total :: bytes_size
  sd_Used :: bytes_size
  sd_MountPoint :: string

record MachineInfo =
  mi_Architecture :: string
  mi_Threads :: int
  mi_Memory :: bytes_size
  mi_StorageDevices :: "(string, StorageDevice) gomap"

record DiskResource =
  dr_Size :: bytes_size
  dr_Kind :: DiskKind
  dr_MountPath :: string

record AvailableResource =
  ar_Memory :: bytes_size
  ar_IdleCPUSet :: "int list"
  ar_Disks :: "(string, DiskResource) gomap"

record MachineSpec =
  ms_Host :: string
  ms_DockerPort :: int
  ms_DockerVersion :: string
  ms_DockerTLS :: bool
  ms_Reserve :: "ReserveResources option"
  ms_ExclusiveDisks :: "string list"

record MachineStatus =
  mst_State :: MachineState
  mst_ChaosPort :: int
  mst_Info :: "MachineInfo option"
  mst_UploadPort :: int

record Machine =
  m_Meta :: object_meta
  m_Spec :: MachineSpec
  m_Status :: MachineStatus

definition machine_key :: "Machine \<Rightarrow> string" where
  "machine_key m = Key (CreateRef (m_Meta m))"

section \<open>CPU sets\<close>

text \<open>\<open>for i := 0; i < int(threads); i++\<close>: no iteration when \<open>threads\<close> is negative.\<close>

definition makeCPUSet :: "int \<Rightarrow> int list" where
  "makeCPUSet threads = map int [0..<nat threads]"

definition deleteCPUSet :: "int list \<Rightarrow> int list \<Rightarrow> int list" where
  "deleteCPUSet cpuSet allocSet =
     (let set = fold List.insert cpuSet [];
          set = fold removeAll allocSet set
      in sort_Slice (<) set)"

fun cpuSetStr_from :: "nat \<Rightarrow> string \<Rightarrow> int list \<Rightarrow> string" where
  "cpuSetStr_from i str [] = str"
| "cpuSetStr_from i str (core # cpuSet) =
     cpuSetStr_from (Suc i) (if i = 0 then Itoa core else str @ '','' @ Itoa core) cpuSet"

definition cpuSetStr :: "int list \<Rightarrow> string" where
  "cpuSetStr cpuSet = cpuSetStr_from 0 [] cpuSet"

lemma set_fold_insert: "set (fold List.insert xs acc) = set xs \<union> set acc"
  by (induction xs arbitrary: acc) auto

lemma distinct_fold_insert: "distinct acc \<Longrightarrow> distinct (fold List.insert xs acc)"
  by (induction xs arbitrary: acc) auto

lemma set_fold_removeAll: "set (fold removeAll xs acc) = set acc - set xs"
  by (induction xs arbitrary: acc) auto

lemma distinct_fold_removeAll: "distinct acc \<Longrightarrow> distinct (fold removeAll xs acc)"
  by (induction xs arbitrary: acc) (auto simp: distinct_removeAll)

lemma set_makeCPUSet [simp]: "set (makeCPUSet n) = {0..<n}"
proof -
  have "int ` {0..<nat n} = {0..<n}"
    by (cases "0 \<le> n") (auto simp: image_int_atLeastLessThan)
  then show ?thesis by (simp add: makeCPUSet_def)
qed

lemma set_deleteCPUSet [simp]: "set (deleteCPUSet xs ys) = set xs - set ys"
  by (simp add: deleteCPUSet_def Let_def set_fold_removeAll set_fold_insert)

lemma sorted_deleteCPUSet [simp]: "sorted (deleteCPUSet xs ys)"
  by (simp add: deleteCPUSet_def Let_def sorted_sort_Slice_int)

lemma distinct_deleteCPUSet [simp]: "distinct (deleteCPUSet xs ys)"
  by (simp add: deleteCPUSet_def Let_def distinct_fold_removeAll distinct_fold_insert)

lemma cpuSetStr_from_Suc:
  "cpuSetStr_from (Suc i) str xs = str @ concat (map (\<lambda>c. '','' @ Itoa c) xs)"
  by (induction xs arbitrary: i str) auto

lemma cpuSetStr_Join: "cpuSetStr xs = Join (map Itoa xs) '',''"
proof -
  have "Itoa x @ concat (map (\<lambda>c. '','' @ Itoa c) xs) = Join (Itoa x # map Itoa xs) '',''" for x xs
    by (induction xs arbitrary: x) auto
  then show ?thesis
    by (cases xs) (auto simp: cpuSetStr_def cpuSetStr_from_Suc)
qed

section \<open>Available\<close>

definition disk_kind :: "string \<Rightarrow> DiskKind" where
  "disk_kind device = (if HasPrefix (path_Base device) ''nvme'' then NVMEKind else OtherKind)"

fun exclusive_disks ::
  "units \<Rightarrow> string list \<Rightarrow> (string, StorageDevice) gomap \<Rightarrow> (string, DiskResource) gomap
     \<Rightarrow> (string, DiskResource) gomap go" where
  "exclusive_disks u excl [] disks = Done disks"
| "exclusive_disks u excl ((device, disk) # devs) disks =
     (if device \<in> set excl
      then go_bind (Sub u (sd_Total disk) (sd_Used disk)) (\<lambda>sz.
             exclusive_disks u excl devs
               (AList.update device
                  \<lparr>dr_Size = sz, dr_Kind = disk_kind device, dr_MountPath = sd_MountPoint disk\<rparr> disks))
      else exclusive_disks u excl devs disks)"

definition Available :: "units \<Rightarrow> Machine \<Rightarrow> AvailableResource option go" where
  "Available u r =
     (case mst_Info (m_Status r) of
        None \<Rightarrow> Done None
      | Some info \<Rightarrow>
          (case ms_Reserve (m_Spec r) of
             None \<Rightarrow> Panicked nil_deref
           | Some reserve \<Rightarrow>
               go_bind (Sub u (mi_Memory info) (rsv_Memory reserve)) (\<lambda>mem.
               go_bind (exclusive_disks u (ms_ExclusiveDisks (m_Spec r)) (mi_StorageDevices info) [])
                 (\<lambda>disks. Done (Some
                   \<lparr>ar_Memory = mem,
                    ar_IdleCPUSet = deleteCPUSet (makeCPUSet (mi_Threads info))
                                                 (makeCPUSet (rsv_Cores reserve)),
                    ar_Disks = disks\<rparr>)))))"

section \<open>Rest\<close>

fun take_disks :: "DiskBinding list \<Rightarrow> (string, DiskResource) gomap \<Rightarrow> (string, DiskResource) gomap option" where
  "take_disks [] disks = Some disks"
| "take_disks (b # bs) disks =
     (case map_of disks (db_Device b) of
        None \<Rightarrow> None
      | Some _ \<Rightarrow> take_disks bs (AList.delete (db_Device b) disks))"

fun Rest_loop :: "units \<Rightarrow> AvailableResource \<Rightarrow> ResourceRefList \<Rightarrow> AvailableResource option go" where
  "Rest_loop u rest [] = Done (Some rest)"
| "Rest_loop u rest (refer # resources) =
     (let b = rr_Binding refer;
          idle = deleteCPUSet (ar_IdleCPUSet rest) (rb_CPUSet b)
      in go_bind (Sub u (ar_Memory rest) (rb_Memory b)) (\<lambda>mem.
           if rb_Disks b \<noteq> []
           then (case take_disks (map snd (rb_Disks b)) (ar_Disks rest) of
                   None \<Rightarrow> Done None
                 | Some disks \<Rightarrow>
                     Rest_loop u (rest\<lparr>ar_IdleCPUSet := idle, ar_Memory := mem, ar_Disks := disks\<rparr>)
                       resources)
           else Rest_loop u (rest\<lparr>ar_IdleCPUSet := idle, ar_Memory := mem\<rparr>) resources))"

definition Rest :: "units \<Rightarrow> Machine \<Rightarrow> ResourceRefList \<Rightarrow> AvailableResource option go" where
  "Rest u r resources =
     go_bind (Available u r) (\<lambda>rest.
       case rest of None \<Rightarrow> Done None | Some rest \<Rightarrow> Rest_loop u rest resources)"

text \<open>The devices and the cores a list of placed resources holds.\<close>

definition binding_devices :: "ResourceBinding \<Rightarrow> string list" where
  "binding_devices b = map (db_Device \<circ> snd) (rb_Disks b)"

definition devices_of :: "ResourceRefList \<Rightarrow> string list" where
  "devices_of rs = concat (map (binding_devices \<circ> rr_Binding) rs)"

definition cpus_of :: "ResourceRefList \<Rightarrow> int list" where
  "cpus_of rs = concat (map (rb_CPUSet \<circ> rr_Binding) rs)"

lemma devices_of_simps [simp]:
  "devices_of [] = []"
  "devices_of (r # rs) = binding_devices (rr_Binding r) @ devices_of rs"
  "devices_of (rs @ qs) = devices_of rs @ devices_of qs"
  by (simp_all add: devices_of_def)

lemma cpus_of_simps [simp]:
  "cpus_of [] = []"
  "cpus_of (r # rs) = rb_CPUSet (rr_Binding r) @ cpus_of rs"
  "cpus_of (rs @ qs) = cpus_of rs @ cpus_of qs"
  by (simp_all add: cpus_of_def)

lemma take_disks_Some_iff:
  "(\<exists>d'. take_disks bs disks = Some d') \<longleftrightarrow>
   distinct (map db_Device bs) \<and> db_Device ` set bs \<subseteq> gm_keys disks"
proof (induction bs arbitrary: disks)
  case Nil
  then show ?case by simp
next
  case (Cons b bs)
  show ?case
  proof (cases "map_of disks (db_Device b)")
    case None
    then have "db_Device b \<notin> gm_keys disks" by (simp add: map_of_eq_None_iff)
    with None show ?thesis by auto
  next
    case (Some v)
    then have "db_Device b \<in> gm_keys disks" by (metis map_of_not_None_iff)
    with Some show ?thesis by (auto simp: Cons.IH gm_keys_delete) (metis imageI)
  qed
qed

lemma take_disks_keys:
  "take_disks bs disks = Some d' \<Longrightarrow> gm_keys d' = gm_keys disks - db_Device ` set bs"
  by (induction bs arbitrary: disks) (auto simp: gm_keys_delete split: option.splits)

lemma take_disks_lookup:
  "take_disks bs disks = Some d' \<Longrightarrow>
   map_of d' k = (if k \<in> db_Device ` set bs then None else map_of disks k)"
  by (induction bs arbitrary: disks) (auto simp: map_of_delete_if split: option.splits if_splits)

lemma take_disks_wf: "take_disks bs disks = Some d' \<Longrightarrow> gm_wf disks \<Longrightarrow> gm_wf d'"
  by (induction bs arbitrary: disks) (auto split: option.splits)

lemma Rest_loop_unfold:
  "Rest_loop u rest (refer # rs) =
     go_bind (Sub u (ar_Memory rest) (rb_Memory (rr_Binding refer))) (\<lambda>mem.
       case take_disks (map snd (rb_Disks (rr_Binding refer))) (ar_Disks rest) of
         None \<Rightarrow> Done None
       | Some disks \<Rightarrow>
           Rest_loop u (rest\<lparr>ar_IdleCPUSet := deleteCPUSet (ar_IdleCPUSet rest) (rb_CPUSet (rr_Binding refer)),
                             ar_Memory := mem, ar_Disks := disks\<rparr>) rs)"
  by (cases "rb_Disks (rr_Binding refer)") (auto simp: Let_def)

lemmas Rest_loop_simps = Rest_loop.simps(1) Rest_loop_unfold

lemma Rest_loop_cpus:
  "Rest_loop u rest rs = Done (Some rest') \<Longrightarrow>
   set (ar_IdleCPUSet rest') = set (ar_IdleCPUSet rest) - set (cpus_of rs)"
  by (induction rs arbitrary: rest)
    (auto simp: Rest_loop_unfold simp del: Rest_loop.simps(2) split: option.splits)

lemma Rest_loop_sorted:
  "Rest_loop u rest rs = Done (Some rest') \<Longrightarrow> sorted (ar_IdleCPUSet rest) \<Longrightarrow>
   distinct (ar_IdleCPUSet rest) \<Longrightarrow> sorted (ar_IdleCPUSet rest') \<and> distinct (ar_IdleCPUSet rest')"
  by (induction rs arbitrary: rest)
    (auto simp: Rest_loop_unfold simp del: Rest_loop.simps(2) split: option.splits)

lemma Rest_loop_disks:
  "Rest_loop u rest rs = Done (Some rest') \<Longrightarrow>
   map_of (ar_Disks rest') d = (if d \<in> set (devices_of rs) then None else map_of (ar_Disks rest) d)"
proof (induction rs arbitrary: rest)
  case Nil
  then show ?case by simp
next
  case (Cons r rs)
  let ?bs = "map snd (rb_Disks (rr_Binding r))"
  from Cons.prems obtain disks mem where
    disks: "take_disks ?bs (ar_Disks rest) = Some disks" and
    rec: "Rest_loop u (rest\<lparr>ar_IdleCPUSet := deleteCPUSet (ar_IdleCPUSet rest) (rb_CPUSet (rr_Binding r)),
             ar_Memory := mem, ar_Disks := disks\<rparr>) rs = Done (Some rest')"
    by (auto simp: Rest_loop_unfold simp del: Rest_loop.simps(2) split: option.splits)
  have "map_of (ar_Disks rest') d = (if d \<in> set (devices_of rs) then None else map_of disks d)"
    using Cons.IH [OF rec] by simp
  then show ?case
    by (simp add: take_disks_lookup [OF disks] binding_devices_def image_comp comp_def)
qed

lemma Rest_loop_wf:
  "Rest_loop u rest rs = Done (Some rest') \<Longrightarrow> gm_wf (ar_Disks rest) \<Longrightarrow> gm_wf (ar_Disks rest')"
  by (induction rs arbitrary: rest)
    (auto simp: Rest_loop_unfold take_disks_wf simp del: Rest_loop.simps(2) split: option.splits)

lemma binding_devices_snd: "binding_devices b = map db_Device (map snd (rb_Disks b))"
  by (simp add: binding_devices_def)

lemma Rest_loop_Some_iff:
  "Rest_loop u rest rs = Done r \<Longrightarrow>
   r \<noteq> None \<longleftrightarrow> distinct (devices_of rs) \<and> set (devices_of rs) \<subseteq> gm_keys (ar_Disks rest)"
proof (induction rs arbitrary: rest)
  case Nil
  then show ?case by auto
next
  case (Cons a rs)
  let ?bs = "map snd (rb_Disks (rr_Binding a))"
  from Cons.prems obtain mem where
    res: "(case take_disks ?bs (ar_Disks rest) of
         None \<Rightarrow> Done None
       | Some disks \<Rightarrow>
           Rest_loop u (rest\<lparr>ar_IdleCPUSet := deleteCPUSet (ar_IdleCPUSet rest) (rb_CPUSet (rr_Binding a)),
                             ar_Memory := mem, ar_Disks := disks\<rparr>) rs) = Done r"
    by (auto simp: Rest_loop_unfold simp del: Rest_loop.simps(2))
  have dev: "binding_devices (rr_Binding a) = map db_Device ?bs" by (rule binding_devices_snd)
  show ?case
  proof (cases "take_disks ?bs (ar_Disks rest)")
    case None
    then have "\<not> (distinct (map db_Device ?bs) \<and> db_Device ` set ?bs \<subseteq> gm_keys (ar_Disks rest))"
      by (metis take_disks_Some_iff option.distinct(1))
    moreover from None res have "r = None" by simp
    ultimately show ?thesis by (auto simp: dev image_comp)
  next
    case (Some d)
    then have ok: "distinct (map db_Device ?bs)" "db_Device ` set ?bs \<subseteq> gm_keys (ar_Disks rest)"
      using take_disks_Some_iff by blast+
    have "gm_keys d = gm_keys (ar_Disks rest) - db_Device ` set ?bs"
      by (rule take_disks_keys [OF Some])
    moreover from res Some have "r \<noteq> None \<longleftrightarrow>
        distinct (devices_of rs) \<and> set (devices_of rs) \<subseteq> gm_keys d"
      using Cons.IH by fastforce
    ultimately show ?thesis using ok by (auto simp: dev image_comp)
  qed
qed

section \<open>Addresses\<close>

definition DockerURL :: "Machine \<Rightarrow> string" where
  "DockerURL r = ''tcp://'' @ ms_Host (m_Spec r) @ '':'' @ Itoa (ms_DockerPort (m_Spec r))"

definition ChaosURL :: "Machine \<Rightarrow> string" where
  "ChaosURL r = ms_Host (m_Spec r) @ '':'' @ Itoa (mst_ChaosPort (m_Status r))"

section \<open>The machine webhook\<close>

definition GiB :: int where
  "GiB = 1073741824"

definition zero_Reserve :: ReserveResources where
  "zero_Reserve = \<lparr>rsv_Cores = 0, rsv_Memory = []\<rparr>"

definition Machine_Default :: "units \<Rightarrow> Machine \<Rightarrow> Machine" where
  "Machine_Default u r =
     (let s = m_Spec r;
          s = (if ms_DockerPort s = 0
               then s\<lparr>ms_DockerPort := (if ms_DockerTLS s then 2376 else 2375)\<rparr> else s);
          rsv = (case ms_Reserve s of None \<Rightarrow> zero_Reserve | Some x \<Rightarrow> x);
          rsv = (if rsv_Cores rsv = 0 then rsv\<lparr>rsv_Cores := 1\<rparr> else rsv);
          rsv = (if rsv_Memory rsv = [] then rsv\<lparr>rsv_Memory := Size u (1 * GiB)\<rparr> else rsv);
          s = s\<lparr>ms_Reserve := Some rsv\<rparr>;
          s = (if ms_DockerVersion s = [] then s\<lparr>ms_DockerVersion := ''1.25''\<rparr> else s)
      in r\<lparr>m_Spec := s\<rparr>)"

definition Machine_ValidateCreate :: "units \<Rightarrow> Machine \<Rightarrow> error option" where
  "Machine_ValidateCreate u r =
     (if ms_DockerPort (m_Spec r) < 0
      then Some (ErrMsg (''invalid port '' @ Itoa (ms_DockerPort (m_Spec r))))
      else case ms_Reserve (m_Spec r) of
        None \<Rightarrow> None
      | Some reserve \<Rightarrow>
          (if rsv_Cores reserve < 0
           then Some (ErrMsg (''invalid cpu cores '' @ Itoa (rsv_Cores reserve)))
           else (case ToSize u (rsv_Memory reserve) of
                   Inl err \<Rightarrow>
                     (if rsv_Memory reserve \<noteq> []
                      then Some (ErrMsg (''invalid memory size: '' @ error_text err)) else None)
                 | Inr _ \<Rightarrow> None)))"

end
