(* ===== verification/Resource.thy ===== *)
theory Resource
  imports Machine
begin

text \<open>
  \<open>api/v1/testresource_types.go\<close> and \<open>api/v1/testresource_webhook.go\<close>: a test resource is a
  container on some machine. Its data, the container configurations it asks Docker for, and its
  defaulting and validating webhook.
\<close>

section \<open>Data\<close>

text \<open>\<open>ResourceState\<close> and \<open>ResourcePhase\<close> are strings: the named values, the empty one, and every other.\<close>

datatype ResourceState =
    ResourceStateNone
  | ResourcePending
  | ResourceUninitialized
  | ResourceReady
  | ResourceFinish
  | ResourceDestroy
  | UnknownResourceState string

primrec ResourceState_str :: "ResourceState \<Rightarrow> string" where
  "ResourceState_str ResourceStateNone = ''''"
| "ResourceState_str ResourcePending = ''pending''"
| "ResourceState_str ResourceUninitialized = ''uninitialized''"
| "ResourceState_str ResourceReady = ''ready''"
| "ResourceState_str ResourceFinish = ''finish''"
| "ResourceState_str ResourceDestroy = ''destroy''"
| "ResourceState_str (UnknownResourceState s) = s"

datatype ResourcePhase =
    ResourcePhaseNone
  | ResourcePhasePending
  | ResourcePhaseRunning
  | ResourcePhaseFailed
  | ResourcePhaseSucceeded
  | UnknownResourcePhase string

datatype PullImagePolicy = PullPolicyNone | PullPolicyAlways | PullPolicyIfNotPresent | UnknownPullPolicy string

definition IsRequired :: "ResourceState \<Rightarrow> bool" where
  "IsRequired r \<longleftrightarrow> r \<noteq> ResourceStateNone \<and> r \<noteq> ResourcePending"

fun CouldUninstall :: "ResourceState \<Rightarrow> bool" where
  "CouldUninstall ResourceUninitialized = True"
| "CouldUninstall ResourceReady = True"
| "CouldUninstall ResourceFinish = True"
| "CouldUninstall _ = False"

record DiskSpec =
  dsp_MountPath :: string
  dsp_Kind :: DiskKind
  dsp_Size :: bytes_size

record TestResourceSpec =
  trs_Memory :: bytes_size
  trs_Cores :: int
  trs_MachineSelector :: string
  trs_Disks :: "(string, DiskSpec) gomap"
  trs_Machine :: string

record TestResourceMount =
  trm_Type :: string
  trm_Source :: string
  trm_Target :: string
  trm_ReadOnly :: bool

record ResourceContainerSpec =
  rcs_Privilege :: bool
  rcs_CapAdd :: "string list"
  rcs_Mounts :: "TestResourceMount list"
  rcs_Binds :: "string list"
  rcs_Image :: string
  rcs_ImagePullPolicy :: PullImagePolicy
  rcs_Command :: "string list"
  rcs_Envs :: "string list"
  rcs_ExposedPorts :: "string list"
  rcs_PortBindings :: string
  rcs_ClusterIP :: string

definition zero_ContainerSpec :: ResourceContainerSpec where
  "zero_ContainerSpec =
     \<lparr>rcs_Privilege = False, rcs_CapAdd = [], rcs_Mounts = [], rcs_Binds = [], rcs_Image = [],
      rcs_ImagePullPolicy = PullPolicyNone, rcs_Command = [], rcs_Envs = [], rcs_ExposedPorts = [],
      rcs_PortBindings = [], rcs_ClusterIP = []\<rparr>"

text \<open>
  The status embeds the container specification, which has a field \<open>PortBindings\<close> of its own;
  \<open>resource.Status.PortBindings\<close> in the sources is the outer one.
\<close>

record TestResourceStatus =
  trst_State :: ResourceState
  trst_Phase :: ResourcePhase
  trst_ExitCode :: int
  trst_ContainerSpec :: ResourceContainerSpec
  trst_HostIP :: string
  trst_HostName :: string
  trst_Password :: string
  trst_SSHPort :: int
  trst_PortBindings :: string
  trst_ClaimRef :: "ref option"

definition zero_ResourceStatus :: TestResourceStatus where
  "zero_ResourceStatus =
     \<lparr>trst_State = ResourceStateNone, trst_Phase = ResourcePhaseNone, trst_ExitCode = 0,
      trst_ContainerSpec = zero_ContainerSpec, trst_HostIP = [], trst_HostName = [],
      trst_Password = [], trst_SSHPort = 0, trst_PortBindings = [], trst_ClaimRef = None\<rparr>"

record TestResource =
  tr_Meta :: object_meta
  tr_Spec :: TestResourceSpec
  tr_Status :: TestResourceStatus

abbreviation tr_Name :: "TestResource \<Rightarrow> string" where
  "tr_Name r \<equiv> meta_Name (tr_Meta r)"

abbreviation tr_Namespace :: "TestResource \<Rightarrow> string" where
  "tr_Namespace r \<equiv> meta_Namespace (tr_Meta r)"

abbreviation tr_State :: "TestResource \<Rightarrow> ResourceState" where
  "tr_State r \<equiv> trst_State (tr_Status r)"

abbreviation tr_Image :: "TestResource \<Rightarrow> string" where
  "tr_Image r \<equiv> rcs_Image (trst_ContainerSpec (tr_Status r))"

definition set_status :: "(TestResourceStatus \<Rightarrow> TestResourceStatus) \<Rightarrow> TestResource \<Rightarrow> TestResource" where
  "set_status f r = r\<lparr>tr_Status := f (tr_Status r)\<rparr>"

definition set_state :: "ResourceState \<Rightarrow> TestResource \<Rightarrow> TestResource" where
  "set_state s = set_status (trst_State_update (\<lambda>_. s))"

definition set_container :: "(ResourceContainerSpec \<Rightarrow> ResourceContainerSpec) \<Rightarrow> TestResource \<Rightarrow> TestResource" where
  "set_container f = set_status (trst_ContainerSpec_update f)"

definition resource_ref :: "TestResource \<Rightarrow> ref" where
  "resource_ref r = CreateRef (tr_Meta r)"

definition resource_key :: "TestResource \<Rightarrow> string" where
  "resource_key r = Key (resource_ref r)"

lemmas set_status_simps = set_status_def set_state_def set_container_def

lemma set_status_frame [simp]:
  "tr_Meta (set_status f r) = tr_Meta r"
  "tr_Spec (set_status f r) = tr_Spec r"
  "tr_Status (set_status f r) = f (tr_Status r)"
  by (simp_all add: set_status_def)

lemma set_state_frame [simp]:
  "tr_Meta (set_state s r) = tr_Meta r"
  "tr_Spec (set_state s r) = tr_Spec r"
  "tr_Status (set_state s r) = (tr_Status r)\<lparr>trst_State := s\<rparr>"
  by (simp_all add: set_state_def)

lemma resource_ref_set_status [simp]: "resource_ref (set_status f r) = resource_ref r"
  by (simp add: resource_ref_def)

section \<open>Container configurations\<close>

text \<open>The fields of Docker's \<open>container.Config\<close> and \<open>container.HostConfig\<close> that the sources set.\<close>

record Mount =
  mnt_Type :: string
  mnt_Source :: string
  mnt_Target :: string
  mnt_ReadOnly :: bool

record ContainerConf =
  cc_Hostname :: string
  cc_Image :: string
  cc_Entrypoint :: "string list"
  cc_Cmd :: "string list"
  cc_Env :: "string list"
  cc_ExposedPorts :: "string list"
  cc_Labels :: "(string, string) gomap"

record HostConf =
  hc_Binds :: "string list"
  hc_Mounts :: "Mount list"
  hc_PublishAllPorts :: bool
  hc_Memory :: int
  hc_CpusetCpus :: string
  hc_CapAdd :: "string list"
  hc_Privileged :: bool
  hc_PidMode :: string
  hc_PortBindings :: "(string, (string \<times> string) list) gomap"
  hc_RestartPolicy :: string

definition zero_Conf :: ContainerConf where
  "zero_Conf = \<lparr>cc_Hostname = [], cc_Image = [], cc_Entrypoint = [], cc_Cmd = [], cc_Env = [],
     cc_ExposedPorts = [], cc_Labels = []\<rparr>"

definition zero_HostConf :: HostConf where
  "zero_HostConf = \<lparr>hc_Binds = [], hc_Mounts = [], hc_PublishAllPorts = False, hc_Memory = 0,
     hc_CpusetCpus = [], hc_CapAdd = [], hc_Privileged = False, hc_PidMode = [],
     hc_PortBindings = [], hc_RestartPolicy = []\<rparr>"

definition TypeBind :: string where
  "TypeBind = ''bind''"

definition ContainerName :: "TestResource \<Rightarrow> string" where
  "ContainerName r = tr_Namespace r @ ''.'' @ tr_Name r"

definition ContainerCleanerName :: "TestResource \<Rightarrow> string" where
  "ContainerCleanerName r = tr_Namespace r @ ''.'' @ tr_Name r @ ''-cleaner''"

definition disk_mount :: "DiskBinding \<Rightarrow> Mount" where
  "disk_mount disk =
     \<lparr>mnt_Type = TypeBind, mnt_Source = db_OriginPath disk, mnt_Target = db_MountPath disk,
      mnt_ReadOnly = False\<rparr>"

definition bind_mount :: "TestResourceMount \<Rightarrow> Mount" where
  "bind_mount m =
     \<lparr>mnt_Type = trm_Type m, mnt_Source = trm_Source m, mnt_Target = trm_Target m,
      mnt_ReadOnly = trm_ReadOnly m\<rparr>"

definition port_set :: "string list \<Rightarrow> string list" where
  "port_set items = foldl (\<lambda>ports item. if item \<in> set ports then ports else ports @ [item]) [] items"

definition ContainerConfig :: "units \<Rightarrow> TestResource \<Rightarrow> ResourceBinding \<Rightarrow> (ContainerConf \<times> HostConf) go" where
  "ContainerConfig u r binding =
     (let c = trst_ContainerSpec (tr_Status r);
          mounts = map (disk_mount \<circ> snd) (rb_Disks binding) @ map bind_mount (rcs_Mounts c);
          cmdline = rcs_Command c;
          config = zero_Conf\<lparr>cc_Hostname := trst_HostName (tr_Status r), cc_Image := rcs_Image c,
                     cc_Entrypoint := take 1 cmdline, cc_Cmd := drop 1 cmdline,
                     cc_Env := rcs_Envs c, cc_ExposedPorts := port_set (rcs_ExposedPorts c)\<rparr>
      in go_bind (Unwrap u (rb_Memory binding)) (\<lambda>mem.
           Done (config,
                 zero_HostConf\<lparr>hc_Binds := rcs_Binds c, hc_Mounts := mounts,
                   hc_PublishAllPorts := True, hc_Memory := mem,
                   hc_CpusetCpus := cpuSetStr (rb_CPUSet binding), hc_CapAdd := rcs_CapAdd c,
                   hc_Privileged := rcs_Privilege c\<rparr>)))"

definition cleanerImage :: string where
  "cleanerImage = ''hub.pingcap.net/mahjonp/alpine:latest''"

definition SSHPort :: string where
  "SSHPort = ''22/tcp''"

definition ContainerCleanerConfig :: "ResourceBinding \<Rightarrow> ContainerConf \<times> HostConf" where
  "ContainerCleanerConfig binding =
     (let mounts = map (disk_mount \<circ> snd) (rb_Disks binding);
          config = zero_Conf\<lparr>cc_Image := cleanerImage\<rparr>;
          hostConfig = zero_HostConf\<lparr>hc_Mounts := mounts\<rparr>;
          subCommand = map (\<lambda>mnt. ''rm -rf '' @ path_Join [mnt_Target mnt, ''*'']) mounts
      in (if mounts \<noteq> [] then config\<lparr>cc_Cmd := [''sh'', ''-c'', Join subCommand '';'']\<rparr> else config,
          hostConfig))"

lemma set_port_set: "set (port_set xs) = set xs"
proof -
  have "set (foldl (\<lambda>ports item. if item \<in> set ports then ports else ports @ [item]) acc xs)
      = set acc \<union> set xs" for acc
    by (induction xs arbitrary: acc) auto
  then show ?thesis by (simp add: port_set_def)
qed

section \<open>The resource webhook\<close>

definition mountPrefix :: string where
  "mountPrefix = ''/mnt''"

definition default_disk :: "units \<Rightarrow> string \<Rightarrow> DiskSpec \<Rightarrow> DiskSpec" where
  "default_disk u name disk =
     (let disk = (if dsp_MountPath disk = [] then disk\<lparr>dsp_MountPath := path_Join [mountPrefix, name]\<rparr>
                  else disk)
      in (if dsp_Size disk = [] then disk\<lparr>dsp_Size := Zero u\<rparr> else disk))"

definition TestResource_Default :: "units \<Rightarrow> TestResource \<Rightarrow> TestResource" where
  "TestResource_Default u r =
     (let s = tr_Spec r
      in r\<lparr>tr_Spec := s\<lparr>trs_Disks := map (\<lambda>(name, disk). (name, default_disk u name disk)) (trs_Disks s)\<rparr>\<rparr>)"

fun validate_disks :: "units \<Rightarrow> DiskSpec list \<Rightarrow> error option" where
  "validate_disks u [] = None"
| "validate_disks u (disk # disks) =
     (case ToSize u (dsp_Size disk) of
        Inl err \<Rightarrow>
          (if dsp_Size disk \<noteq> [] then Some (ErrMsg (''invalid disk size: '' @ error_text err))
           else validate_disks u disks)
      | Inr _ \<Rightarrow> validate_disks u disks)"

definition TestResourceSpec_ValidateCreate :: "units \<Rightarrow> TestResourceSpec \<Rightarrow> error option" where
  "TestResourceSpec_ValidateCreate u r =
     (case ToSize u (trs_Memory r) of
        Inl err \<Rightarrow> Some (ErrMsg (''invalid memory size: '' @ error_text err))
      | Inr _ \<Rightarrow> validate_disks u (map snd (trs_Disks r)))"

definition TestResource_ValidateCreate :: "units \<Rightarrow> TestResource \<Rightarrow> error option" where
  "TestResource_ValidateCreate u r = TestResourceSpec_ValidateCreate u (tr_Spec r)"

lemma validate_disks_None_iff:
  "validate_disks u disks = None \<longleftrightarrow>
   (\<forall>d\<in>set disks. dsp_Size d = [] \<or> (\<exists>n. ToSize u (dsp_Size d) = Inr n))"
  by (induction disks) (auto split: sum.splits)

lemma Unwrap_Done_iff: "(\<exists>n. Unwrap u b = Done n) \<longleftrightarrow> (\<exists>n. ToSize u b = Inr n)"
  by (auto simp: Unwrap_def split: sum.splits)

text \<open>
  After defaulting and validation every size of a resource can be unwrapped without a panic,
  provided \<open>units\<close> reads back what it prints for zero.
\<close>

lemma defaulted_sizes_unwrap:
  assumes valid: "TestResourceSpec_ValidateCreate u (tr_Spec (TestResource_Default u r)) = None"
    and zero: "ToSize u (Zero u) = Inr 0"
  shows "\<exists>n. Unwrap u (trs_Memory (tr_Spec r)) = Done n"
    and "(name, disk) \<in> set (trs_Disks (tr_Spec (TestResource_Default u r))) \<Longrightarrow>
         \<exists>n. Unwrap u (dsp_Size disk) = Done n"
proof -
  show "\<exists>n. Unwrap u (trs_Memory (tr_Spec r)) = Done n"
    using valid
    by (auto simp: TestResourceSpec_ValidateCreate_def TestResource_Default_def Unwrap_def Let_def
        split: sum.splits)
  assume in_disks: "(name, disk) \<in> set (trs_Disks (tr_Spec (TestResource_Default u r)))"
  then obtain d where d: "disk = default_disk u name d"
    by (auto simp: TestResource_Default_def Let_def)
  have "dsp_Size disk = [] \<or> (\<exists>n. ToSize u (dsp_Size disk) = Inr n)"
    using valid in_disks
    by (auto simp: TestResourceSpec_ValidateCreate_def validate_disks_None_iff split: sum.splits)
  moreover have "dsp_Size disk = Zero u \<or> dsp_Size disk \<noteq> []"
    by (auto simp: d default_disk_def Let_def)
  ultimately show "\<exists>n. Unwrap u (dsp_Size disk) = Done n"
    using zero by (auto simp: Unwrap_Done_iff)
qed

end
