(* ===== verification/Request.thy ===== *)
theory Request
  imports Resource
begin

text \<open>
  \<open>api/v1/testresourcerequest_types.go\<close> and \<open>api/v1/testresourcerequest_webhook.go\<close>: a request
  for a set of test resources, some of them tied to named machines, and its webhook.
\<close>

datatype TestResourceRequestState =
    RequestStateNone
  | TestResourceRequestPending
  | TestResourceRequestReady
  | UnknownRequestState string

record ResourceRequestItem =
  rri_Name :: string
  rri_Spec :: TestResourceSpec

record MachineRequest =
  mrq_Name :: string
  mrq_TestMachineResource :: string
  mrq_Exclusive :: bool

record TestResourceRequestSpec =
  trrs_Machines :: "MachineRequest list"
  trrs_Items :: "ResourceRequestItem list"

record TestResourceRequestStatus =
  trrst_State :: TestResourceRequestState

record TestResourceRequest =
  trr_Meta :: object_meta
  trr_Spec :: TestResourceRequestSpec
  trr_Status :: TestResourceRequestStatus

definition request_ref :: "TestResourceRequest \<Rightarrow> ref" where
  "request_ref r = CreateRef (trr_Meta r)"

text \<open>\<open>ConstructTestResource\<close>: the object created for the item; the index is in range at its only call.\<close>

definition ConstructTestResource :: "TestResourceRequest \<Rightarrow> ResourceRequestItem \<Rightarrow> TestResource" where
  "ConstructTestResource r item =
     \<lparr>tr_Meta = \<lparr>meta_Name = rri_Name item, meta_Namespace = meta_Namespace (trr_Meta r),
                 meta_UID = [], meta_DeletionTimestamp = None, meta_Finalizers = [],
                 meta_Controller = None\<rparr>,
      tr_Spec = rri_Spec item,
      tr_Status = zero_ResourceStatus\<rparr>"

section \<open>The request webhook\<close>

fun checkItems_loop :: "string set \<Rightarrow> ResourceRequestItem list \<Rightarrow> error option" where
  "checkItems_loop names [] = None"
| "checkItems_loop names (item # items) =
     (if trs_Machine (rri_Spec item) \<noteq> [] \<and> trs_Machine (rri_Spec item) \<notin> names
      then Some (ErrMsg (''no exist machine item: '' @ trs_Machine (rri_Spec item)))
      else checkItems_loop names items)"

definition checkItems :: "TestResourceRequest \<Rightarrow> error option" where
  "checkItems r = checkItems_loop (mrq_Name ` set (trrs_Machines (trr_Spec r))) (trrs_Items (trr_Spec r))"

fun validate_items :: "units \<Rightarrow> ResourceRequestItem list \<Rightarrow> error option" where
  "validate_items u [] = None"
| "validate_items u (item # items) =
     (case TestResourceSpec_ValidateCreate u (rri_Spec item) of
        Some err \<Rightarrow> Some err
      | None \<Rightarrow> validate_items u items)"

definition TestResourceRequest_ValidateCreate :: "units \<Rightarrow> TestResourceRequest \<Rightarrow> error option" where
  "TestResourceRequest_ValidateCreate u r =
     (case validate_items u (trrs_Items (trr_Spec r)) of
        Some err \<Rightarrow> Some err
      | None \<Rightarrow> checkItems r)"

lemma checkItems_loop_None_iff:
  "checkItems_loop names items = None \<longleftrightarrow>
   (\<forall>item\<in>set items. trs_Machine (rri_Spec item) = [] \<or> trs_Machine (rri_Spec item) \<in> names)"
  by (induction items) auto

lemma validate_items_None_iff:
  "validate_items u items = None \<longleftrightarrow>
   (\<forall>item\<in>set items. TestResourceSpec_ValidateCreate u (rri_Spec item) = None)"
  by (induction items) (auto split: option.splits)

text \<open>What the webhook guarantees of an accepted request.\<close>

definition machines_declared :: "TestResourceRequest \<Rightarrow> bool" where
  "machines_declared r \<longleftrightarrow>
     (\<forall>item\<in>set (trrs_Items (trr_Spec r)). trs_Machine (rri_Spec item) \<noteq> [] \<longrightarrow>
        (\<exists>m\<in>set (trrs_Machines (trr_Spec r)). mrq_Name m = trs_Machine (rri_Spec item)))"

lemma checkItems_None_iff: "checkItems r = None \<longleftrightarrow> machines_declared r"
  by (auto simp: checkItems_def checkItems_loop_None_iff machines_declared_def image_iff) metis+

lemma ValidateCreate_accepts:
  "TestResourceRequest_ValidateCreate u r = None \<longleftrightarrow>
   (\<forall>item\<in>set (trrs_Items (trr_Spec r)). TestResourceSpec_ValidateCreate u (rri_Spec item) = None)
   \<and> machines_declared r"
  unfolding validate_items_None_iff [symmetric]
  by (auto simp: TestResourceRequest_ValidateCreate_def checkItems_None_iff split: option.splits)

end
