(* ===== verification/Scheduler.thy ===== *)
theory Scheduler
  imports Request
begin

text \<open>
  The placement of a request on machines: the pure part of
  \<open>controllers/testresourcerequest_controller.go\<close> (\<open>tryRequest\<close> and everything below it), over
  the status of the relationship object, and \<open>pickCpuSet\<close> of
  \<open>controllers/testresource_controller.go\<close>.

  Three things are not determined by the sources: the order of \<open>range\<close> over the free disks of a
  machine, the order of \<open>range\<close> over the named item groups, and the random shuffle of the
  machines. They are a parameter \<open>choices\<close>; \<open>fair\<close> says that each is a permutation.
\<close>

record choices =
  disk_order :: "string \<Rightarrow> string \<Rightarrow> string \<Rightarrow> (string \<times> DiskResource) list \<Rightarrow> (string \<times> DiskResource) list"
  group_order :: "(string \<times> TestResource option list) list \<Rightarrow> (string \<times> TestResource option list) list"
  machine_order :: "Machine list \<Rightarrow> Machine list"

definition fair :: "choices \<Rightarrow> bool" where
  "fair c \<longleftrightarrow>
     (\<forall>m i d xs. mset (disk_order c m i d xs) = mset xs) \<and>
     (\<forall>xs. mset (group_order c xs) = mset xs) \<and>
     (\<forall>xs. mset (machine_order c xs) = mset xs)"

lemma fair_set:
  assumes "fair c"
  shows "set (disk_order c m i d xs) = set xs"
    and "set (group_order c gs) = set gs"
    and "set (machine_order c ms) = set ms"
  using assms unfolding fair_def by (metis set_mset_mset)+

section \<open>Fitting a resource into what is left of a machine\<close>

definition pickCpuSet :: "int list \<Rightarrow> int \<Rightarrow> int list" where
  "pickCpuSet cpuSet i = (if int (length cpuSet) < i then [] else take (nat i) cpuSet)"

fun find_disk ::
  "units \<Rightarrow> DiskSpec \<Rightarrow> (string \<times> DiskResource) list \<Rightarrow> (string \<times> DiskResource) option go" where
  "find_disk u disk [] = Done None"
| "find_disk u disk ((device, diskResource) # ds) =
     (if dsp_Kind disk = dr_Kind diskResource
      then go_bind (Unwrap u (dsp_Size disk)) (\<lambda>x.
           go_bind (Unwrap u (dr_Size diskResource)) (\<lambda>y.
             if x \<le> y then Done (Some (device, diskResource)) else find_disk u disk ds))
      else find_disk u disk ds)"

definition disk_binding :: "DiskSpec \<Rightarrow> string \<Rightarrow> DiskResource \<Rightarrow> DiskBinding" where
  "disk_binding disk device diskResource =
     \<lparr>db_Kind = dsp_Kind disk, db_Size = dr_Size diskResource, db_Device = device,
      db_OriginPath = dr_MountPath diskResource, db_MountPath = dsp_MountPath disk\<rparr>"

fun bind_disks ::
  "units \<Rightarrow> (string \<Rightarrow> (string \<times> DiskResource) list \<Rightarrow> (string \<times> DiskResource) list)
     \<Rightarrow> (string \<times> DiskSpec) list \<Rightarrow> (string, DiskResource) gomap \<Rightarrow> (string, DiskBinding) gomap
     \<Rightarrow> (string, DiskBinding) gomap go" where
  "bind_disks u ord [] disks acc = Done acc"
| "bind_disks u ord ((name, disk) # specs) disks acc =
     go_bind (find_disk u disk (ord name disks)) (\<lambda>found.
       case found of
         None \<Rightarrow> bind_disks u ord specs disks acc
       | Some (device, diskResource) \<Rightarrow>
           bind_disks u ord specs (AList.delete name disks)
             (AList.update name (disk_binding disk device diskResource) acc))"

definition resourceOverflow ::
  "units \<Rightarrow> (string \<Rightarrow> (string \<times> DiskResource) list \<Rightarrow> (string \<times> DiskResource) list)
     \<Rightarrow> AvailableResource option \<Rightarrow> TestResourceSpec \<Rightarrow> ResourceBinding option go" where
  "resourceOverflow u ord rest newResource =
     (case rest of
        None \<Rightarrow> Done None
      | Some rest \<Rightarrow>
          (let cpus = pickCpuSet (ar_IdleCPUSet rest) (trs_Cores newResource)
           in go_bind (bind_disks u ord (trs_Disks newResource) (ar_Disks rest) []) (\<lambda>disks.
                let binding = \<lparr>rb_Memory = trs_Memory newResource, rb_CPUSet = cpus, rb_Disks = disks\<rparr>
                in if length disks < length (trs_Disks newResource) then Done None
                   else go_bind (Unwrap u (ar_Memory rest)) (\<lambda>have_mem.
                        go_bind (Unwrap u (trs_Memory newResource)) (\<lambda>want_mem.
                          if have_mem < want_mem \<or> int (length cpus) < trs_Cores newResource
                          then Done None else Done (Some binding))))))"

text \<open>A disk binding that honours its specification on one of the given disks.\<close>

definition disk_fits :: "units \<Rightarrow> (string, DiskResource) gomap \<Rightarrow> DiskSpec \<Rightarrow> DiskBinding \<Rightarrow> bool" where
  "disk_fits u disks disk b \<longleftrightarrow>
     (\<exists>dr x y. (db_Device b, dr) \<in> set disks \<and> dr_Kind dr = dsp_Kind disk \<and>
        Unwrap u (dsp_Size disk) = Done x \<and> Unwrap u (dr_Size dr) = Done y \<and> x \<le> y \<and>
        b = disk_binding disk (db_Device b) dr)"

lemma find_disk_Some:
  "find_disk u disk ds = Done (Some (device, dr)) \<Longrightarrow>
   (device, dr) \<in> set ds \<and> dr_Kind dr = dsp_Kind disk \<and>
   (\<exists>x y. Unwrap u (dsp_Size disk) = Done x \<and> Unwrap u (dr_Size dr) = Done y \<and> x \<le> y)"
  by (induction ds) (auto split: if_splits)

lemma find_disk_None:
  "find_disk u disk ds = Done None \<Longrightarrow> (device, dr) \<in> set ds \<Longrightarrow> dr_Kind dr = dsp_Kind disk \<Longrightarrow>
   Unwrap u (dsp_Size disk) = Done x \<Longrightarrow> Unwrap u (dr_Size dr) = Done y \<Longrightarrow> y < x"
  by (induction ds) (auto split: if_splits)

lemma set_alist_delete_subset: "set (AList.delete k m) \<subseteq> set m"
  by (induction m) auto

lemma set_alist_update_subset: "set (AList.update k v m) \<subseteq> insert (k, v) (set m)"
  by (induction m) auto

lemma bind_disks_fits:
  assumes "bind_disks u ord specs disks acc = Done bd"
    and "\<And>n xs. set (ord n xs) = set xs"
    and "set disks \<subseteq> set orig"
    and "\<And>n b. (n, b) \<in> set acc \<Longrightarrow> \<exists>d. (n, d) \<in> A \<and> disk_fits u orig d b"
    and "set specs \<subseteq> A"
  shows "(n, b) \<in> set bd \<Longrightarrow> \<exists>d. (n, d) \<in> A \<and> disk_fits u orig d b"
  using assms
proof (induction specs arbitrary: disks acc)
  case Nil
  then show ?case by auto
next
  case (Cons sp specs)
  obtain name disk where sp: "sp = (name, disk)" by (cases sp)
  from Cons.prems(2) obtain found where
    found: "find_disk u disk (ord name disks) = Done found" by (auto simp: sp)
  show ?case
  proof (cases found)
    case None
    have "bind_disks u ord specs disks acc = Done bd"
      using Cons.prems(2) found None by (simp add: sp)
    with Cons.prems show ?thesis by (intro Cons.IH) auto
  next
    case (Some p)
    obtain device dr where p: "p = (device, dr)" by (cases p)
    have "(device, dr) \<in> set disks \<and> dr_Kind dr = dsp_Kind disk \<and>
       (\<exists>x y. Unwrap u (dsp_Size disk) = Done x \<and> Unwrap u (dr_Size dr) = Done y \<and> x \<le> y)"
      using find_disk_Some found Some p Cons.prems(3) by fastforce
    then have fits: "disk_fits u orig disk (disk_binding disk device dr)"
      using Cons.prems(4) by (auto simp: disk_fits_def disk_binding_def)
    show ?thesis
    proof (rule Cons.IH [OF Cons.prems(1)])
      show "bind_disks u ord specs (AList.delete name disks)
          (AList.update name (disk_binding disk device dr) acc) = Done bd"
        using Cons.prems(2) found Some p by (simp add: sp)
      show "\<And>n xs. set (ord n xs) = set xs" by (rule Cons.prems(3))
      show "set (AList.delete name disks) \<subseteq> set orig"
        using Cons.prems(4) set_alist_delete_subset by fast
      show "set specs \<subseteq> A" using Cons.prems(6) by auto
      show "\<exists>d. (n, d) \<in> A \<and> disk_fits u orig d b"
        if "(n, b) \<in> set (AList.update name (disk_binding disk device dr) acc)" for n b
        using that set_alist_update_subset [of name _ acc] fits Cons.prems(5,6) sp by fastforce
    qed
  qed
qed

lemma bind_disks_wf:
  "bind_disks u ord specs disks acc = Done bd \<Longrightarrow> gm_wf acc \<Longrightarrow> gm_wf bd"
  by (induction u ord specs disks acc rule: bind_disks.induct) (auto split: option.splits)

text \<open>What a successful fit gives: exact cores out of the idle ones, enough memory, a disk each.\<close>

lemma resourceOverflow_SomeD:
  assumes "resourceOverflow u ord rest spec = Done (Some b)"
  obtains r mem want where
    "rest = Some r"
    "rb_CPUSet b = take (nat (trs_Cores spec)) (ar_IdleCPUSet r)"
    "length (rb_CPUSet b) = nat (trs_Cores spec)"
    "rb_Memory b = trs_Memory spec"
    "Unwrap u (ar_Memory r) = Done mem" "Unwrap u (trs_Memory spec) = Done want" "want \<le> mem"
    "bind_disks u ord (trs_Disks spec) (ar_Disks r) [] = Done (rb_Disks b)"
    "length (trs_Disks spec) \<le> length (rb_Disks b)"
proof (cases rest)
  case None
  with assms show ?thesis by (simp add: resourceOverflow_def)
next
  case (Some r)
  from assms Some obtain mem want where
    eq: "bind_disks u ord (trs_Disks spec) (ar_Disks r) [] = Done (rb_Disks b)"
    "length (trs_Disks spec) \<le> length (rb_Disks b)"
    "Unwrap u (ar_Memory r) = Done mem" "Unwrap u (trs_Memory spec) = Done want" "want \<le> mem"
    "rb_Memory b = trs_Memory spec"
    "rb_CPUSet b = pickCpuSet (ar_IdleCPUSet r) (trs_Cores spec)"
    "trs_Cores spec \<le> int (length (pickCpuSet (ar_IdleCPUSet r) (trs_Cores spec)))"
    by (auto simp: resourceOverflow_def Let_def not_less split: if_splits)
  show ?thesis
  proof (rule that [OF Some _ _ eq(6) eq(3,4,5,1,2)])
    show "rb_CPUSet b = take (nat (trs_Cores spec)) (ar_IdleCPUSet r)"
      using eq(7,8) by (auto simp: pickCpuSet_def split: if_splits)
    then show "length (rb_CPUSet b) = nat (trs_Cores spec)"
      using eq(7,8) by (auto simp: pickCpuSet_def split: if_splits)
  qed
qed

lemma resourceOverflow_disk_keys:
  assumes ov: "resourceOverflow u ord rest spec = Done (Some b)"
    and ord: "\<And>n xs. set (ord n xs) = set xs"
    and wf: "gm_wf (trs_Disks spec)"
  shows "gm_keys (rb_Disks b) = gm_keys (trs_Disks spec)"
proof -
  obtain r :: AvailableResource where bd: "bind_disks u ord (trs_Disks spec) (ar_Disks r) [] = Done (rb_Disks b)"
    and len: "length (trs_Disks spec) \<le> length (rb_Disks b)"
    using ov by (elim resourceOverflow_SomeD) blast
  have sub: "gm_keys (rb_Disks b) \<subseteq> gm_keys (trs_Disks spec)"
  proof
    fix n assume "n \<in> gm_keys (rb_Disks b)"
    then obtain x where "(n, x) \<in> set (rb_Disks b)" by auto
    then obtain d where "(n, d) \<in> set (trs_Disks spec)"
      using bind_disks_fits [OF bd ord subset_refl _ subset_refl] by auto
    then show "n \<in> gm_keys (trs_Disks spec)" by force
  qed
  have "gm_wf (rb_Disks b)" using bind_disks_wf [OF bd] by simp
  then have "card (gm_keys (rb_Disks b)) = length (rb_Disks b)"
    by (metis distinct_card length_map set_map)
  moreover have "card (gm_keys (trs_Disks spec)) = length (trs_Disks spec)"
    using wf by (metis distinct_card length_map set_map)
  ultimately show ?thesis using sub len by (intro card_seteq) auto
qed

section \<open>Placing a group of items on one machine\<close>

text \<open>
  A group holds pointers out of \<open>resourceMap\<close>; \<open>None\<close> is the nil pointer of a missing name,
  whose use panics.
\<close>

record ItemGroup =
  ig_ExplicitMachine :: string
  ig_Items :: "TestResource option list"

definition new_ref :: "TestResource \<Rightarrow> ResourceBinding \<Rightarrow> ResourceRef" where
  "new_ref item binding = \<lparr>rr_Ref = resource_ref item, rr_Binding = binding\<rparr>"

text \<open>The inner loop of \<open>tryBindResource\<close>; \<open>None\<close> is \<open>continue FindMachines\<close>.\<close>

fun bind_items ::
  "units \<Rightarrow> choices \<Rightarrow> Machine \<Rightarrow> ResourceRefList \<Rightarrow> (string, ResourceBinding) gomap
     \<Rightarrow> TestResource option list \<Rightarrow> (ResourceRefList \<times> (string, ResourceBinding) gomap) option go" where
  "bind_items u c m allocated bindings [] = Done (Some (allocated, bindings))"
| "bind_items u c m allocated bindings (None # items) =
     go_bind (Rest u m allocated) (\<lambda>_. Panicked nil_deref)"
| "bind_items u c m allocated bindings (Some item # items) =
     go_bind (Rest u m allocated) (\<lambda>rest.
     go_bind (resourceOverflow u (disk_order c (meta_Name (m_Meta m)) (tr_Name item)) rest (tr_Spec item))
       (\<lambda>binding.
          case binding of
            None \<Rightarrow> Done None
          | Some binding \<Rightarrow>
              bind_items u c m (allocated @ [new_ref item binding])
                (AList.update (tr_Name item) binding bindings) items))"

text \<open>The second loop: every item of the group points back to the machine.\<close>

fun record_items ::
  "Machine \<Rightarrow> (string, ResourceBinding) gomap \<Rightarrow> RelationshipStatus \<Rightarrow> TestResource option list
     \<Rightarrow> RelationshipStatus go" where
  "record_items m bindings s [] = Done s"
| "record_items m bindings s (None # items) = Panicked nil_deref"
| "record_items m bindings s (Some item # items) =
     (case map_of bindings (tr_Name item) of
        None \<Rightarrow> Panicked nil_deref
      | Some b \<Rightarrow>
          go_bind (nil_put (ResourceToMachine s) (resource_key item)
                     \<lparr>mr_Ref = CreateRef (m_Meta m), mr_Binding = b\<rparr>) (\<lambda>r2m.
            record_items m bindings (s\<lparr>ResourceToMachine := r2m\<rparr>) items))"

fun tryBindResource ::
  "units \<Rightarrow> choices \<Rightarrow> RelationshipStatus \<Rightarrow> Machine list \<Rightarrow> ItemGroup
     \<Rightarrow> (RelationshipStatus \<times> Machine option) go" where
  "tryBindResource u c s [] g = Done (s, None)"
| "tryBindResource u c s (m # candidates) g =
     go_bind (bind_items u c m (Clone (resources_on s (machine_key m))) [] (ig_Items g)) (\<lambda>res.
       case res of
         None \<Rightarrow> tryBindResource u c s candidates g
       | Some (allocated, bindings) \<Rightarrow>
           go_bind (nil_put (MachineToResources s) (machine_key m) allocated) (\<lambda>m2r.
           go_bind (record_items m bindings (s\<lparr>MachineToResources := m2r\<rparr>) (ig_Items g)) (\<lambda>s'.
             Done (s', Some m))))"

section \<open>Grouping, selecting and sorting\<close>

definition named_items ::
  "ResourceRequestItem list \<Rightarrow> (string, TestResource) gomap \<Rightarrow> (string, TestResource option list) gomap" where
  "named_items items resourceMap =
     foldl (\<lambda>named item.
        if trs_Machine (rri_Spec item) \<noteq> []
        then AList.update (trs_Machine (rri_Spec item))
               ((case map_of named (trs_Machine (rri_Spec item)) of None \<Rightarrow> [] | Some l \<Rightarrow> l)
                @ [map_of resourceMap (rri_Name item)]) named
        else named) [] items"

definition groupCoLocatedItems ::
  "choices \<Rightarrow> ResourceRequestItem list \<Rightarrow> (string, TestResource) gomap \<Rightarrow> ItemGroup list" where
  "groupCoLocatedItems c items resourceMap =
     map (\<lambda>(machine, its). \<lparr>ig_ExplicitMachine = machine, ig_Items = its\<rparr>)
       (group_order c (named_items items resourceMap))
     @ map (\<lambda>item. \<lparr>ig_ExplicitMachine = [], ig_Items = [map_of resourceMap (rri_Name item)]\<rparr>)
         (filter (\<lambda>item. trs_Machine (rri_Spec item) = []) items)"

definition machine_less ::
  "(string, Machine) gomap \<Rightarrow> RelationshipStatus \<Rightarrow> Machine \<Rightarrow> Machine \<Rightarrow> bool" where
  "machine_less explicit s m1 m2 =
     (let m1ok = (map_of explicit (meta_Name (m_Meta m1)) \<noteq> None);
          m2ok = (map_of explicit (meta_Name (m_Meta m2)) \<noteq> None)
      in if m1ok \<and> \<not> m2ok then True
         else if \<not> m1ok \<and> m2ok then False
         else length (resources_on s (machine_key m1)) > length (resources_on s (machine_key m2)))"

definition sortMachines ::
  "choices \<Rightarrow> (string, Machine) gomap \<Rightarrow> (string, Machine) gomap \<Rightarrow> RelationshipStatus \<Rightarrow> Machine list" where
  "sortMachines c allMachines explicit s =
     sort_Slice (machine_less explicit s) (machine_order c (map snd allMachines))"

definition selectNonLockMachines ::
  "(string, Machine) gomap \<Rightarrow> RelationshipStatus \<Rightarrow> (string, Machine) gomap" where
  "selectNonLockMachines machines s =
     filter (\<lambda>(key, m). nil_get (MachineLocks s) key = None) machines"

definition filterMachines :: "Machine list \<Rightarrow> (Machine \<Rightarrow> bool) \<Rightarrow> Machine list" where
  "filterMachines machines pred = filter pred machines"

definition getMachines_book :: "Machine list \<Rightarrow> (string, Machine) gomap" where
  "getMachines_book items =
     foldl (\<lambda>book machine.
        if mst_State (m_Status machine) = MachineReady
        then AList.update (meta_Name (m_Meta machine)) machine book else book) [] items"

interpretation machine_order: weak_order "machine_less explicit s" for explicit s
  by unfold_locales (auto simp: machine_less_def Let_def split: if_splits)

section \<open>tryRequest\<close>

datatype try_result =
    TryFailed error
  | TryLater string                \<comment> \<open>this event is recorded and the request is tried again after 10 s\<close>
  | TryAccepted RelationshipStatus  \<comment> \<open>the status to be written back\<close>

fun collect_requests ::
  "(string, Machine) gomap \<Rightarrow> MachineRequest list \<Rightarrow> (string, MachineRequest) gomap
     \<Rightarrow> (string, Machine) gomap \<Rightarrow> error + ((string, MachineRequest) gomap \<times> (string, Machine) gomap)" where
  "collect_requests machines [] reqs expl = Inr (reqs, expl)"
| "collect_requests machines (q # qs) reqs expl =
     (let reqs = AList.update (mrq_Name q) q reqs
      in if mrq_TestMachineResource q \<noteq> []
         then (case map_of machines (mrq_TestMachineResource q) of
                 None \<Rightarrow> Inl (ErrMsg (''no ready ExplicitMachine '' @ mrq_TestMachineResource q))
               | Some m \<Rightarrow>
                   collect_requests machines qs reqs (AList.update (mrq_TestMachineResource q) m expl))
         else collect_requests machines qs reqs expl)"

text \<open>
  The candidates of a group, or the event to record when its machine is locked or not ready. A group whose
  machine name has no \<open>MachineRequest\<close> dereferences a nil pointer.
\<close>

definition group_candidates ::
  "RelationshipStatus \<Rightarrow> (string, MachineRequest) gomap \<Rightarrow> (string, Machine) gomap \<Rightarrow> Machine list
     \<Rightarrow> ItemGroup \<Rightarrow> (string + Machine list) go" where
  "group_candidates s reqs candidateMachines sortedMs g =
     (if ig_ExplicitMachine g = [] then Done (Inr sortedMs)
      else case map_of reqs (ig_ExplicitMachine g) of
        None \<Rightarrow> Panicked nil_deref
      | Some q \<Rightarrow>
          (let cands = (if mrq_TestMachineResource q \<noteq> []
                        then map_option (\<lambda>m. [m]) (map_of candidateMachines (mrq_TestMachineResource q))
                        else Some sortedMs)
           in case cands of
                None \<Rightarrow> Done (Inl (''no ready machine '' @ mrq_TestMachineResource q))
              | Some ms \<Rightarrow>
                  Done (Inr (if mrq_Exclusive q
                             then filterMachines ms (\<lambda>m. length (resources_on s (machine_key m)) = 0)
                             else ms))))"

definition locks_machine :: "(string, MachineRequest) gomap \<Rightarrow> ItemGroup \<Rightarrow> bool" where
  "locks_machine reqs g \<longleftrightarrow>
     ig_ExplicitMachine g \<noteq> [] \<and>
     (case map_of reqs (ig_ExplicitMachine g) of None \<Rightarrow> False | Some q \<Rightarrow> mrq_Exclusive q)"

fun place_groups ::
  "units \<Rightarrow> choices \<Rightarrow> (string, MachineRequest) gomap \<Rightarrow> (string, Machine) gomap \<Rightarrow> Machine list
     \<Rightarrow> RelationshipStatus \<Rightarrow> string list \<Rightarrow> ItemGroup list
     \<Rightarrow> (string + (RelationshipStatus \<times> string list)) go" where
  "place_groups u c reqs cands sortedMs s toLock [] = Done (Inr (s, toLock))"
| "place_groups u c reqs cands sortedMs s toLock (g # gs) =
     go_bind (group_candidates s reqs cands sortedMs g) (\<lambda>cl.
       case cl of
         Inl message \<Rightarrow> Done (Inl message)
       | Inr ms \<Rightarrow>
           go_bind (tryBindResource u c s ms g) (\<lambda>(s', bound).
             case bound of
               None \<Rightarrow> Done (Inl ''fail to find suitable machines'')
             | Some m \<Rightarrow>
                 place_groups u c reqs cands sortedMs s'
                   (if locks_machine reqs g then toLock @ [meta_Name (m_Meta m)] else toLock) gs))"

fun lock_machines :: "ref \<Rightarrow> RelationshipStatus \<Rightarrow> string list \<Rightarrow> RelationshipStatus go" where
  "lock_machines self s [] = Done s"
| "lock_machines self s (m # ms) =
     go_bind (nil_put (MachineLocks s) m self) (\<lambda>locks.
       lock_machines self (s\<lparr>MachineLocks := locks\<rparr>) ms)"

definition accept :: "ref \<Rightarrow> RelationshipStatus \<Rightarrow> RelationshipStatus" where
  "accept self s =
     s\<lparr>AcceptedRequests := Some ((case AcceptedRequests s of None \<Rightarrow> [] | Some a \<Rightarrow> a) @ [self])\<rparr>"

definition tryRequest_core ::
  "units \<Rightarrow> choices \<Rightarrow> RelationshipStatus \<Rightarrow> TestResourceRequest \<Rightarrow> (string, TestResource) gomap
     \<Rightarrow> (string, Machine) gomap \<Rightarrow> try_result go" where
  "tryRequest_core u c s request resourceMap machines =
     (case collect_requests machines (trrs_Machines (trr_Spec request)) [] [] of
        Inl err \<Rightarrow> Done (TryFailed err)
      | Inr (reqs, explicit) \<Rightarrow>
          (let candidateMachines = selectNonLockMachines machines s;
               itemGroups = groupCoLocatedItems c (trrs_Items (trr_Spec request)) resourceMap;
               sortedMs = sortMachines c candidateMachines explicit s
           in go_bind (place_groups u c reqs candidateMachines sortedMs s [] itemGroups) (\<lambda>res.
                case res of
                  Inl message \<Rightarrow> Done (TryLater message)
                | Inr (s', toLock) \<Rightarrow>
                    go_bind (lock_machines (request_ref request) s' toLock) (\<lambda>s''.
                      Done (TryAccepted (accept (request_ref request) s''))))))"

end
