(* ===== verification/Placement.thy ===== *)
theory Placement
  imports Scheduler
begin

text \<open>
  What the placement of \<open>Scheduler\<close> guarantees: resources on one machine never share a CPU core
  or a disk, the two indices of the relationship agree with each other, and a placement that
  fails leaves the relationship as it was.
\<close>

section \<open>The contract of an allocator\<close>

text \<open>
  Resources of one machine are exclusive: no core is held twice, and no device is held by two
  of them.
\<close>

definition devices_disjoint :: "ResourceRef \<Rightarrow> ResourceRef \<Rightarrow> bool" where
  "devices_disjoint a b \<longleftrightarrow>
     set (binding_devices (rr_Binding a)) \<inter> set (binding_devices (rr_Binding b)) = {}"

definition exclusive :: "ResourceRefList \<Rightarrow> bool" where
  "exclusive rs \<longleftrightarrow> distinct (cpus_of rs) \<and> sorted_wrt devices_disjoint rs"

lemma exclusive_Nil [simp]: "exclusive []"
  by (simp add: exclusive_def)

lemma set_devices_of: "set (devices_of rs) = (\<Union>r\<in>set rs. set (binding_devices (rr_Binding r)))"
  by (induction rs) auto

lemma exclusive_snoc:
  "exclusive (rs @ [r]) \<longleftrightarrow>
   exclusive rs \<and> distinct (rb_CPUSet (rr_Binding r)) \<and>
   set (rb_CPUSet (rr_Binding r)) \<inter> set (cpus_of rs) = {} \<and>
   set (binding_devices (rr_Binding r)) \<inter> set (devices_of rs) = {}"
  by (auto simp: exclusive_def sorted_wrt_append devices_disjoint_def set_devices_of)

text \<open>
  An allocator fits one more item beside the resources already placed. Its laws: the cores of the
  binding are distinct and free, its devices are free. The choices it is allowed to make are the
  \<open>valid\<close> ones.
\<close>

locale allocator =
  fixes valid :: "'c \<Rightarrow> bool"
    and fit :: "'c \<Rightarrow> ResourceRefList \<Rightarrow> 'i \<Rightarrow> ResourceBinding option go"
  assumes fit_cpus_distinct: "valid c \<Longrightarrow> fit c rs i = Done (Some b) \<Longrightarrow> distinct (rb_CPUSet b)"
    and fit_cpus_free: "valid c \<Longrightarrow> fit c rs i = Done (Some b) \<Longrightarrow> set (rb_CPUSet b) \<inter> set (cpus_of rs) = {}"
    and fit_disks_free: "valid c \<Longrightarrow> fit c rs i = Done (Some b) \<Longrightarrow> set (binding_devices b) \<inter> set (devices_of rs) = {}"
begin

lemma fit_exclusive:
  "valid c \<Longrightarrow> fit c rs i = Done (Some (rr_Binding r)) \<Longrightarrow> exclusive rs \<Longrightarrow> exclusive (rs @ [r])"
  by (simp add: exclusive_snoc fit_cpus_distinct fit_cpus_free fit_disks_free)

text \<open>A run of successful fits, each beside the results of the earlier ones, stays exclusive.\<close>

lemma fits_exclusive:
  assumes "valid c"
    and "\<And>k. k < length news \<Longrightarrow>
      \<exists>i. fit c (rs @ take k news) i = Done (Some (rr_Binding (news ! k)))"
    and "exclusive rs"
  shows "exclusive (rs @ news)"
  using assms(2)
proof (induction news rule: rev_induct)
  case Nil
  then show ?case using assms(3) by simp
next
  case (snoc r news)
  have "exclusive (rs @ news)"
  proof (rule snoc.IH)
    fix k assume "k < length news"
    with snoc.prems [of k] show "\<exists>i. fit c (rs @ take k news) i = Done (Some (rr_Binding (news ! k)))"
      by (simp add: nth_append)
  qed
  moreover obtain i where "fit c (rs @ news) i = Done (Some (rr_Binding r))"
    using snoc.prems [of "length news"] by auto
  ultimately show ?case using fit_exclusive [OF assms(1)] by (metis append_assoc)
qed

end

text \<open>The allocator of the code: \<open>r.resourceOverflow(machine.Rest(allocatedResources), &item.Spec)\<close>.\<close>

definition fit_on ::
  "units \<Rightarrow> Machine \<Rightarrow> choices \<Rightarrow> ResourceRefList \<Rightarrow> TestResource \<Rightarrow> ResourceBinding option go" where
  "fit_on u m c allocated item =
     go_bind (Rest u m allocated) (\<lambda>rest.
       resourceOverflow u (disk_order c (meta_Name (m_Meta m)) (tr_Name item)) rest (tr_Spec item))"

lemma Available_cpus:
  "Available u m = Done (Some r) \<Longrightarrow> sorted (ar_IdleCPUSet r) \<and> distinct (ar_IdleCPUSet r)"
  by (auto simp: Available_def split: option.splits)

lemma fit_on_SomeD:
  assumes "fit_on u m c rs item = Done (Some b)"
  obtains avail r :: AvailableResource where
    "Available u m = Done (Some avail)" "Rest_loop u avail rs = Done (Some r)"
    "resourceOverflow u (disk_order c (meta_Name (m_Meta m)) (tr_Name item)) (Some r) (tr_Spec item)
       = Done (Some b)"
  using assms
  by (auto simp: fit_on_def Rest_def resourceOverflow_def split: option.splits)

lemma fit_on_cpus:
  assumes fit: "fit_on u m c rs item = Done (Some b)"
  shows "distinct (rb_CPUSet b)" "set (rb_CPUSet b) \<inter> set (cpus_of rs) = {}"
    "length (rb_CPUSet b) = nat (trs_Cores (tr_Spec item))"
proof -
  from fit obtain avail r :: AvailableResource where r: "Available u m = Done (Some avail)"
      "Rest_loop u avail rs = Done (Some r)"
    and ov: "resourceOverflow u (disk_order c (meta_Name (m_Meta m)) (tr_Name item)) (Some r)
       (tr_Spec item) = Done (Some b)"
    by (rule fit_on_SomeD)
  have cpus: "rb_CPUSet b = take (nat (trs_Cores (tr_Spec item))) (ar_IdleCPUSet r)"
    and "length (rb_CPUSet b) = nat (trs_Cores (tr_Spec item))"
    using ov by (elim resourceOverflow_SomeD, simp)+
  then show "length (rb_CPUSet b) = nat (trs_Cores (tr_Spec item))" by simp
  have "distinct (ar_IdleCPUSet r)"
    using Rest_loop_sorted [OF r(2)] Available_cpus [OF r(1)] by simp
  then show "distinct (rb_CPUSet b)" by (simp add: cpus)
  have "set (rb_CPUSet b) \<subseteq> set (ar_IdleCPUSet r)" by (auto simp: cpus dest: in_set_takeD)
  with Rest_loop_cpus [OF r(2)] show "set (rb_CPUSet b) \<inter> set (cpus_of rs) = {}" by auto
qed

lemma fit_on_devices:
  assumes fair: "fair c" and fit: "fit_on u m c rs item = Done (Some b)"
  shows "set (binding_devices b) \<inter> set (devices_of rs) = {}"
proof -
  let ?ord = "disk_order c (meta_Name (m_Meta m)) (tr_Name item)"
  from fit obtain avail r :: AvailableResource where r: "Rest_loop u avail rs = Done (Some r)"
    and ov: "resourceOverflow u ?ord (Some r) (tr_Spec item) = Done (Some b)"
    by (rule fit_on_SomeD)
  then have bd: "bind_disks u ?ord (trs_Disks (tr_Spec item)) (ar_Disks r) [] = Done (rb_Disks b)"
    by (elim resourceOverflow_SomeD) simp
  have "map_of (ar_Disks r) d \<noteq> None" if "d \<in> set (binding_devices b)" for d
  proof -
    from that obtain n x where nx: "(n, x) \<in> set (rb_Disks b)" "d = db_Device x"
      by (auto simp: binding_devices_def)
    obtain spec where "disk_fits u (ar_Disks r) spec x"
      using bind_disks_fits [OF bd fair_set(1) [OF fair] subset_refl _ subset_refl nx(1)] by auto
    then obtain dr where "(db_Device x, dr) \<in> set (ar_Disks r)" by (auto simp: disk_fits_def)
    then show ?thesis unfolding nx(2) by (metis weak_map_of_SomeI option.distinct(1))
  qed
  with Rest_loop_disks [OF r] show ?thesis by (metis disjoint_iff)
qed

interpretation code_alloc: allocator fair "fit_on u m" for u m
  by unfold_locales (auto dest: fit_on_cpus fit_on_devices)

section \<open>What the loops of tryBindResource compute\<close>

lemma bind_items_Some_Cons:
  "bind_items u c m rs bs (Some item # items) =
     go_bind (fit_on u m c rs item) (\<lambda>binding.
       case binding of
         None \<Rightarrow> Done None
       | Some b \<Rightarrow> bind_items u c m (rs @ [new_ref item b]) (AList.update (tr_Name item) b bs) items)"
  by (cases "Rest u m rs") (simp_all add: fit_on_def)

lemma bind_items_exclusive:
  assumes "fair c" "exclusive rs" "bind_items u c m rs bs items = Done (Some (rs', bs'))"
  shows "exclusive rs'"
  using assms(2,3)
proof (induction items arbitrary: rs bs)
  case Nil
  then show ?case by simp
next
  case (Cons i items)
  then obtain item where i: "i = Some item" by (cases i) auto
  with Cons.prems(2) obtain b where fit: "fit_on u m c rs item = Done (Some b)"
    and rest: "bind_items u c m (rs @ [new_ref item b]) (AList.update (tr_Name item) b bs) items
      = Done (Some (rs', bs'))"
    by (auto simp: bind_items_Some_Cons simp del: bind_items.simps(3) split: option.splits)
  have "exclusive (rs @ [new_ref item b])"
    using code_alloc.fit_exclusive [OF assms(1)] fit Cons.prems(1) by (simp add: new_ref_def)
  then show ?case using rest by (rule Cons.IH)
qed

text \<open>Its result in closed form: one new reference per item, in order.\<close>

lemma bind_items_result:
  assumes "bind_items u c m rs bs items = Done (Some (rs', bs'))"
  shows "\<exists>its bnds. items = map Some its \<and> length bnds = length its \<and>
           rs' = rs @ map2 new_ref its bnds \<and> bs' = AList.updates (map tr_Name its) bnds bs \<and>
           list_all2 (\<lambda>item b. \<exists>rs. fit_on u m c rs item = Done (Some b)) its bnds"
  using assms
proof (induction items arbitrary: rs bs)
  case Nil
  then show ?case by simp
next
  case (Cons i items)
  then obtain item where i: "i = Some item" by (cases i) auto
  with Cons.prems obtain b where fit: "fit_on u m c rs item = Done (Some b)" and
    rest: "bind_items u c m (rs @ [new_ref item b]) (AList.update (tr_Name item) b bs) items
      = Done (Some (rs', bs'))"
    by (auto simp: bind_items_Some_Cons simp del: bind_items.simps(3) split: option.splits)
  from Cons.IH [OF rest] obtain its bnds where
    "items = map Some its" "length bnds = length its"
    "rs' = (rs @ [new_ref item b]) @ map2 new_ref its bnds"
    "bs' = AList.updates (map tr_Name its) bnds (AList.update (tr_Name item) b bs)"
    "list_all2 (\<lambda>item b. \<exists>rs. fit_on u m c rs item = Done (Some b)) its bnds" by blast
  with fit show ?case by (intro exI [of _ "item # its"] exI [of _ "b # bnds"]) (auto simp: i)
qed

lemma map_of_updates_nth:
  assumes "distinct ks" "length vs = length ks" "i < length ks"
  shows "map_of (AList.updates ks vs m) (ks ! i) = Some (vs ! i)"
proof -
  have "map_of (AList.updates ks vs m) = (map_of m)(ks [\<mapsto>] vs)" by (rule updates_conv')
  moreover have "map_of (rev (zip ks vs)) (ks ! i) = Some (vs ! i)"
    using assms by (subst map_of_eq_Some_iff) (auto simp: rev_map [symmetric] in_set_zip)
  ultimately show ?thesis by (simp add: map_upds_def)
qed

lemma record_items_frame:
  "record_items m bs s items = Done s' \<Longrightarrow>
   MachineToResources s' = MachineToResources s \<and> AcceptedRequests s' = AcceptedRequests s \<and>
   MachineLocks s' = MachineLocks s \<and> (Initialized s \<longrightarrow> Initialized s')"
proof (induction items arbitrary: s)
  case Nil
  then show ?case by simp
next
  case (Cons i items)
  then obtain item where i: "i = Some item" by (cases i) auto
  with Cons.prems obtain b r2m where
    put: "nil_put (ResourceToMachine s) (resource_key item)
            \<lparr>mr_Ref = CreateRef (m_Meta m), mr_Binding = b\<rparr> = Done r2m"
    and rest: "record_items m bs (s\<lparr>ResourceToMachine := r2m\<rparr>) items = Done s'"
    by (auto split: option.splits)
  have "r2m \<noteq> None" using put by (auto simp: nil_put_def split: option.splits)
  with Cons.IH [OF rest] show ?case by (auto simp: Initialized_def)
qed

lemma record_items_Cons:
  assumes "record_items m bs s (map Some (i # its)) = Done s'"
  obtains b r2m where "map_of bs (tr_Name i) = Some b"
    "nil_put (ResourceToMachine s) (resource_key i)
       \<lparr>mr_Ref = CreateRef (m_Meta m), mr_Binding = b\<rparr> = Done r2m"
    "record_items m bs (s\<lparr>ResourceToMachine := r2m\<rparr>) (map Some its) = Done s'"
  using assms by (auto split: option.splits)

lemma record_items_other:
  "record_items m bs s (map Some its) = Done s' \<Longrightarrow> k \<notin> resource_key ` set its \<Longrightarrow>
   nil_get (ResourceToMachine s') k = nil_get (ResourceToMachine s) k"
proof (induction its arbitrary: s)
  case Nil
  then show ?case by simp
next
  case (Cons i its)
  from Cons.prems(1) show ?case
    by (rule record_items_Cons) (use Cons.IH Cons.prems(2) in \<open>auto simp: nil_get_put\<close>)
qed

lemma record_items_index:
  "record_items m bs s (map Some its) = Done s' \<Longrightarrow> distinct (map resource_key its) \<Longrightarrow>
   item \<in> set its \<Longrightarrow>
   \<exists>b. map_of bs (tr_Name item) = Some b \<and> nil_get (ResourceToMachine s') (resource_key item)
        = Some \<lparr>mr_Ref = CreateRef (m_Meta m), mr_Binding = b\<rparr>"
proof (induction its arbitrary: s)
  case Nil
  then show ?case by simp
next
  case (Cons i its)
  from Cons.prems(1) obtain b r2m where b: "map_of bs (tr_Name i) = Some b"
    "nil_put (ResourceToMachine s) (resource_key i)
       \<lparr>mr_Ref = CreateRef (m_Meta m), mr_Binding = b\<rparr> = Done r2m"
    "record_items m bs (s\<lparr>ResourceToMachine := r2m\<rparr>) (map Some its) = Done s'"
    by (rule record_items_Cons)
  show ?case
  proof (cases "item \<in> set its")
    case True
    with Cons.IH [OF b(3)] Cons.prems show ?thesis by simp
  next
    case False
    with Cons.prems have "item = i" "resource_key i \<notin> resource_key ` set its" by simp_all
    with record_items_other [OF b(3)] b show ?thesis by (simp add: nil_get_put)
  qed
qed

section \<open>One group\<close>

text \<open>\<open>placed s m its bnds s'\<close>: the items are added, in order, to the machine, and nothing else changes.\<close>

definition placed ::
  "RelationshipStatus \<Rightarrow> Machine \<Rightarrow> TestResource list \<Rightarrow> ResourceBinding list \<Rightarrow> RelationshipStatus \<Rightarrow> bool" where
  "placed s m its bnds s' \<longleftrightarrow>
     length bnds = length its \<and>
     (\<forall>mk. resources_on s' mk =
        resources_on s mk @ (if mk = machine_key m then map2 new_ref its bnds else [])) \<and>
     AcceptedRequests s' = AcceptedRequests s \<and> MachineLocks s' = MachineLocks s \<and>
     (Initialized s \<longrightarrow> Initialized s')"

lemma tryBindResource_None: "tryBindResource u c s ms g = Done (s', None) \<Longrightarrow> s' = s"
  by (induction ms) (auto split: option.splits)

lemma tryBindResource_Some:
  assumes "tryBindResource u c s ms g = Done (s', Some m)"
  obtains rs bs m2r where "m \<in> set ms"
    "bind_items u c m (resources_on s (machine_key m)) [] (ig_Items g) = Done (Some (rs, bs))"
    "nil_put (MachineToResources s) (machine_key m) rs = Done m2r"
    "record_items m bs (s\<lparr>MachineToResources := m2r\<rparr>) (ig_Items g) = Done s'"
  using assms
  by (induction ms) (auto split: option.splits)

lemma tryBindResource_steps:
  assumes bind: "tryBindResource u c s ms g = Done (s', Some m)"
  obtains its bnds m2r where "m \<in> set ms" "ig_Items g = map Some its" "placed s m its bnds s'"
    "record_items m (AList.updates (map tr_Name its) bnds []) (s\<lparr>MachineToResources := m2r\<rparr>)
       (map Some its) = Done s'"
    "list_all2 (\<lambda>item b. \<exists>rs. fit_on u m c rs item = Done (Some b)) its bnds"
proof -
  from bind obtain rs bs m2r where "m \<in> set ms" and
    items: "bind_items u c m (resources_on s (machine_key m)) [] (ig_Items g) = Done (Some (rs, bs))"
    and put: "nil_put (MachineToResources s) (machine_key m) rs = Done m2r"
    and rec: "record_items m bs (s\<lparr>MachineToResources := m2r\<rparr>) (ig_Items g) = Done s'"
    by (rule tryBindResource_Some)
  from bind_items_result [OF items] obtain its bnds where
    its: "ig_Items g = map Some its" "length bnds = length its"
    and rs: "rs = resources_on s (machine_key m) @ map2 new_ref its bnds"
    and bs: "bs = AList.updates (map tr_Name its) bnds []"
    and fits: "list_all2 (\<lambda>item b. \<exists>rs. fit_on u m c rs item = Done (Some b)) its bnds" by blast
  have "m2r \<noteq> None" using put by (auto simp: nil_put_def split: option.splits)
  then have "placed s m its bnds s'"
    using record_items_frame [OF rec] nil_get_put [OF put] its rs
    by (auto simp: placed_def resources_on_def Initialized_def)
  show ?thesis
  proof (rule that [OF \<open>m \<in> set ms\<close> its(1) \<open>placed s m its bnds s'\<close> _ fits])
    show "record_items m (AList.updates (map tr_Name its) bnds []) (s\<lparr>MachineToResources := m2r\<rparr>)
       (map Some its) = Done s'" using rec by (simp add: its(1) bs)
  qed
qed

definition machines_exclusive :: "RelationshipStatus \<Rightarrow> bool" where
  "machines_exclusive s \<longleftrightarrow> (\<forall>mk. exclusive (resources_on s mk))"

lemma tryBindResource_exclusive:
  assumes fair: "fair c" and inv: "machines_exclusive s"
    and bind: "tryBindResource u c s ms g = Done (s', bound)"
  shows "machines_exclusive s'"
proof (cases bound)
  case None
  with bind inv show ?thesis using tryBindResource_None by blast
next
  case (Some m)
  with bind obtain rs bs m2r where
    items: "bind_items u c m (resources_on s (machine_key m)) [] (ig_Items g) = Done (Some (rs, bs))"
    and put: "nil_put (MachineToResources s) (machine_key m) rs = Done m2r"
    and rec: "record_items m bs (s\<lparr>MachineToResources := m2r\<rparr>) (ig_Items g) = Done s'"
    by (auto elim: tryBindResource_Some)
  have "exclusive rs"
    using bind_items_exclusive [OF fair _ items] inv by (simp add: machines_exclusive_def)
  moreover have "resources_on s' mk = (if mk = machine_key m then rs else resources_on s mk)" for mk
    using record_items_frame [OF rec] nil_get_put [OF put] by (simp add: resources_on_def)
  ultimately show ?thesis using inv by (simp add: machines_exclusive_def)
qed

section \<open>The two indices\<close>

text \<open>
  \<open>ResourceToMachine\<close> is the inverse of \<open>MachineToResources\<close>, with the same bindings.
\<close>

definition indexed :: "RelationshipStatus \<Rightarrow> bool" where
  "indexed s \<longleftrightarrow>
     (\<forall>k mr. nil_get (ResourceToMachine s) k = Some mr \<longrightarrow>
        (\<exists>rr\<in>set (resources_on s (Key (mr_Ref mr))). Key (rr_Ref rr) = k \<and> rr_Binding rr = mr_Binding mr)) \<and>
     (\<forall>mk. \<forall>rr\<in>set (resources_on s mk). \<exists>mr. nil_get (ResourceToMachine s) (Key (rr_Ref rr)) = Some mr \<and>
        Key (mr_Ref mr) = mk \<and> mr_Binding mr = rr_Binding rr)"

definition fresh_items :: "RelationshipStatus \<Rightarrow> TestResource option list \<Rightarrow> bool" where
  "fresh_items s items \<longleftrightarrow>
     (\<exists>its. items = map Some its \<and> distinct (map resource_key its) \<and> distinct (map tr_Name its) \<and>
        (\<forall>item\<in>set its. nil_get (ResourceToMachine s) (resource_key item) = None))"

lemma set_map2_new_ref:
  "length bnds = length its \<Longrightarrow>
   rr \<in> set (map2 new_ref its bnds) \<longleftrightarrow> (\<exists>i<length its. rr = new_ref (its ! i) (bnds ! i))"
  by (auto simp: set_zip image_iff)

lemma tryBindResource_index:
  assumes bind: "tryBindResource u c s ms g = Done (s', Some m)" and fresh: "fresh_items s (ig_Items g)"
  obtains its bnds where "ig_Items g = map Some its" "placed s m its bnds s'"
    "\<forall>k. k \<notin> resource_key ` set its \<longrightarrow>
       nil_get (ResourceToMachine s') k = nil_get (ResourceToMachine s) k"
    "\<forall>i < length its. nil_get (ResourceToMachine s') (resource_key (its ! i))
       = Some \<lparr>mr_Ref = CreateRef (m_Meta m), mr_Binding = bnds ! i\<rparr>"
    "list_all2 (\<lambda>item b. \<exists>rs. fit_on u m c rs item = Done (Some b)) its bnds"
proof -
  from bind obtain its bnds m2r where its: "ig_Items g = map Some its"
    and placed: "placed s m its bnds s'"
    and rec: "record_items m (AList.updates (map tr_Name its) bnds []) (s\<lparr>MachineToResources := m2r\<rparr>)
       (map Some its) = Done s'"
    and fits: "list_all2 (\<lambda>item b. \<exists>rs. fit_on u m c rs item = Done (Some b)) its bnds"
    by (rule tryBindResource_steps)
  have dist: "distinct (map resource_key its)" "distinct (map tr_Name its)"
    using fresh its by (auto simp: fresh_items_def inj_map_eq_map)
  have other: "nil_get (ResourceToMachine s') k = nil_get (ResourceToMachine s) k"
    if "k \<notin> resource_key ` set its" for k
    using record_items_other [OF rec that] by simp
  have new: "nil_get (ResourceToMachine s') (resource_key (its ! i))
       = Some \<lparr>mr_Ref = CreateRef (m_Meta m), mr_Binding = bnds ! i\<rparr>" if "i < length its" for i
  proof -
    have "map_of (AList.updates (map tr_Name its) bnds []) (tr_Name (its ! i)) = Some (bnds ! i)"
      using map_of_updates_nth [OF dist(2), of bnds i "[]"] placed that by (simp add: placed_def)
    with record_items_index [OF rec dist(1), of "its ! i"] that show ?thesis by auto
  qed
  show ?thesis by (rule that [OF its placed]) (use other new fits in blast)+
qed

text \<open>The entry of a resource that was already placed is not touched by fresh items.\<close>

lemma tryBindResource_indexed:
  assumes bind: "tryBindResource u c s ms g = Done (s', Some m)"
    and fresh: "fresh_items s (ig_Items g)" and inv: "indexed s"
  shows "indexed s'"
proof -
  from bind fresh obtain its bnds where its: "ig_Items g = map Some its"
    and placed: "placed s m its bnds s'"
    and other: "\<forall>k. k \<notin> resource_key ` set its \<longrightarrow>
       nil_get (ResourceToMachine s') k = nil_get (ResourceToMachine s) k"
    and new: "\<forall>i < length its. nil_get (ResourceToMachine s') (resource_key (its ! i))
       = Some \<lparr>mr_Ref = CreateRef (m_Meta m), mr_Binding = bnds ! i\<rparr>"
    by (rule tryBindResource_index)
  have len: "length bnds = length its" and on: "\<And>mk. resources_on s' mk =
      resources_on s mk @ (if mk = machine_key m then map2 new_ref its bnds else [])"
    using placed by (auto simp: placed_def)
  have old_fresh: "nil_get (ResourceToMachine s) k = None" if "k \<in> resource_key ` set its" for k
    using fresh its that by (auto simp: fresh_items_def inj_map_eq_map)
  have "\<exists>rr\<in>set (resources_on s' (Key (mr_Ref mr))). Key (rr_Ref rr) = k \<and> rr_Binding rr = mr_Binding mr"
    if k: "nil_get (ResourceToMachine s') k = Some mr" for k mr
  proof (cases "k \<in> resource_key ` set its")
    case True
    then obtain i where i: "i < length its" "k = resource_key (its ! i)" by (auto simp: in_set_conv_nth)
    then have mr: "mr = \<lparr>mr_Ref = CreateRef (m_Meta m), mr_Binding = bnds ! i\<rparr>" using new k by simp
    have "new_ref (its ! i) (bnds ! i) \<in> set (map2 new_ref its bnds)"
      using i len by (subst set_map2_new_ref) auto
    then have "new_ref (its ! i) (bnds ! i) \<in> set (resources_on s' (Key (mr_Ref mr)))"
      by (simp add: on mr machine_key_def del: set_map)
    moreover have "Key (rr_Ref (new_ref (its ! i) (bnds ! i))) = k"
        "rr_Binding (new_ref (its ! i) (bnds ! i)) = mr_Binding mr"
      by (simp_all add: i mr new_ref_def resource_key_def)
    ultimately show ?thesis by blast
  next
    case False
    with k other have "nil_get (ResourceToMachine s) k = Some mr" by simp
    with inv show ?thesis unfolding indexed_def on by fastforce
  qed
  moreover have "\<exists>mr. nil_get (ResourceToMachine s') (Key (rr_Ref rr)) = Some mr \<and>
        Key (mr_Ref mr) = mk \<and> mr_Binding mr = rr_Binding rr" if "rr \<in> set (resources_on s' mk)" for rr mk
  proof (cases "rr \<in> set (resources_on s mk)")
    case True
    then obtain mr where mr: "nil_get (ResourceToMachine s) (Key (rr_Ref rr)) = Some mr"
        "Key (mr_Ref mr) = mk" "mr_Binding mr = rr_Binding rr"
      using inv unfolding indexed_def by blast
    then show ?thesis using other old_fresh by (metis option.distinct(1))
  next
    case False
    with that have "mk = machine_key m" "rr \<in> set (map2 new_ref its bnds)"
      by (auto simp: on split: if_splits)
    with len obtain i where "i < length its" "rr = new_ref (its ! i) (bnds ! i)"
      by (auto simp only: set_map2_new_ref)
    with new \<open>mk = machine_key m\<close> show ?thesis by (simp add: new_ref_def resource_key_def machine_key_def)
  qed
  ultimately show ?thesis unfolding indexed_def by blast
qed

end
