(* ===== verification/Demo.thy ===== *)
theory Demo
  imports Scheduler
begin

text \<open>
  A small cluster on which the theorems of the library are applied: sizes in plain decimal, one
  machine with an NVMe disk, and a request for two co-located resources on it.
\<close>

definition demo_units :: units where
  "demo_units =
     \<lparr>RAMInBytes = (\<lambda>s. case Atoi s of
         (n, None) \<Rightarrow> if n < 0 then Inl (ErrMsg (''invalid size: '' @ s)) else Inr n
       | (_, Some e) \<Rightarrow> Inl e), BytesSize = Itoa\<rparr>"

definition demo_choices :: choices where
  "demo_choices = \<lparr>disk_order = (\<lambda>_ _ _ xs. xs), group_order = (\<lambda>xs. xs), machine_order = (\<lambda>xs. xs)\<rparr>"

definition demo_meta :: "string \<Rightarrow> string \<Rightarrow> object_meta" where
  "demo_meta n uid =
     \<lparr>meta_Name = n, meta_Namespace = ''default'', meta_UID = uid, meta_DeletionTimestamp = None,
      meta_Finalizers = [], meta_Controller = None\<rparr>"

definition demo_machine :: Machine where
  "demo_machine =
     \<lparr>m_Meta = demo_meta ''m1'' ''u1'',
      m_Spec = \<lparr>ms_Host = ''10.0.0.1'', ms_DockerPort = 2375, ms_DockerVersion = ''1.25'',
        ms_DockerTLS = False, ms_Reserve = Some \<lparr>rsv_Cores = 1, rsv_Memory = ''1''\<rparr>,
        ms_ExclusiveDisks = [''/dev/nvme0'']\<rparr>,
      m_Status = \<lparr>mst_State = MachineReady, mst_ChaosPort = 0,
        mst_Info = Some \<lparr>mi_Architecture = ''x86_64'', mi_Threads = 4, mi_Memory = ''9'',
          mi_StorageDevices = [(''/dev/nvme0'', \<lparr>sd_Filesystem = ''ext4'', sd_Total = ''50'',
            sd_Used = ''10'', sd_MountPoint = ''/data''\<rparr>)]\<rparr>,
        mst_UploadPort = 0\<rparr>\<rparr>"

definition demo_spec :: "int \<Rightarrow> (string, DiskSpec) gomap \<Rightarrow> TestResourceSpec" where
  "demo_spec cores disks =
     \<lparr>trs_Memory = ''3'', trs_Cores = cores, trs_MachineSelector = [], trs_Disks = disks,
      trs_Machine = ''big''\<rparr>"

definition demo_disk :: DiskSpec where
  "demo_disk = \<lparr>dsp_MountPath = ''/mnt/d'', dsp_Kind = NVMEKind, dsp_Size = ''20''\<rparr>"

definition demo_items :: "ResourceRequestItem list" where
  "demo_items =
     [\<lparr>rri_Name = ''n1'', rri_Spec = demo_spec 2 [(''d'', demo_disk)]\<rparr>,
      \<lparr>rri_Name = ''n2'', rri_Spec = demo_spec 1 []\<rparr>]"

definition demo_request :: TestResourceRequest where
  "demo_request =
     \<lparr>trr_Meta = demo_meta ''req'' ''u2'',
      trr_Spec = \<lparr>trrs_Machines = [\<lparr>mrq_Name = ''big'', mrq_TestMachineResource = [], mrq_Exclusive = True\<rparr>],
        trrs_Items = demo_items\<rparr>,
      trr_Status = \<lparr>trrst_State = TestResourceRequestPending\<rparr>\<rparr>"

definition demo_resource :: "string \<Rightarrow> string \<Rightarrow> TestResourceSpec \<Rightarrow> TestResource" where
  "demo_resource n uid spec =
     \<lparr>tr_Meta = demo_meta n uid, tr_Spec = spec, tr_Status = zero_ResourceStatus\<lparr>trst_State := ResourcePending\<rparr>\<rparr>"

definition demo_resources :: "(string, TestResource) gomap" where
  "demo_resources =
     [(''n1'', demo_resource ''n1'' ''u3'' (demo_spec 2 [(''d'', demo_disk)])),
      (''n2'', demo_resource ''n2'' ''u4'' (demo_spec 1 []))]"

definition demo_machines :: "(string, Machine) gomap" where
  "demo_machines = [(''m1'', demo_machine)]"

definition demo_status :: RelationshipStatus where
  "demo_status = \<lparr>MachineToResources = Some [], ResourceToMachine = Some [], AcceptedRequests = Some [],
     MachineLocks = Some []\<rparr>"

definition demo_placed :: RelationshipStatus where
  "demo_placed =
     (case tryRequest_core demo_units demo_choices demo_status demo_request demo_resources demo_machines of
        Done (TryAccepted s) \<Rightarrow> s | _ \<Rightarrow> demo_status)"

lemma fair_demo [simp]: "fair demo_choices"
  by (simp add: fair_def demo_choices_def)

lemma demo_accepted:
  "tryRequest_core demo_units demo_choices demo_status demo_request demo_resources demo_machines
     = Done (TryAccepted demo_placed)"
  by code_simp

lemma demo_cpus:
  "cpus_of (resources_on demo_placed (machine_key demo_machine)) = [1, 2, 3]"
  by code_simp

lemma resources_on_demo [simp]: "resources_on demo_status mk = []"
  by (simp add: demo_status_def resources_on_def nil_get_def)

lemma r2m_demo [simp]: "nil_get (ResourceToMachine demo_status) k = None"
  by (simp add: demo_status_def nil_get_def)

end
