(* ===== verification/Admission.thy ===== *)
theory Admission
  imports Placement Demo
begin

text \<open>
  The admission of a whole request (\<open>tryRequest\<close>): the grouping of its items is a partition, the
  loop over the groups keeps the invariants of the relationship, uses only unlocked ready machines
  and locks only machines that were empty.
\<close>

section \<open>Grouping\<close>

definition lookup_items :: "(string, TestResource) gomap \<Rightarrow> ResourceRequestItem list \<Rightarrow> TestResource option list" where
  "lookup_items resourceMap items = map (\<lambda>item. map_of resourceMap (rri_Name item)) items"

lemma mset_concat_update:
  "mset (concat (map snd (AList.update k v m))) + mset (case map_of m k of None \<Rightarrow> [] | Some l \<Rightarrow> l)
   = mset (concat (map snd m)) + mset v"
  by (induction m) (auto simp: ac_simps)

lemma mset_named_items:
  "mset (concat (map snd (named_items items rm)))
   = mset (lookup_items rm (filter (\<lambda>i. trs_Machine (rri_Spec i) \<noteq> []) items))"
proof (induction items rule: rev_induct)
  case Nil
  then show ?case by (simp add: named_items_def lookup_items_def)
next
  case (snoc i items)
  let ?m = "named_items items rm" and ?k = "trs_Machine (rri_Spec i)"
  let ?old = "case map_of ?m ?k of None \<Rightarrow> [] | Some l \<Rightarrow> l" and ?x = "map_of rm (rri_Name i)"
  have step: "named_items (items @ [i]) rm = (if ?k \<noteq> [] then AList.update ?k (?old @ [?x]) ?m else ?m)"
    by (simp add: named_items_def)
  show ?case
  proof (cases "?k = []")
    case True
    with snoc step show ?thesis by (simp add: lookup_items_def)
  next
    case False
    have "mset (concat (map snd (AList.update ?k (?old @ [?x]) ?m))) = add_mset ?x (mset (concat (map snd ?m)))"
      using mset_concat_update [of ?k "?old @ [?x]" ?m] by simp
    with snoc False step show ?thesis by (simp add: lookup_items_def)
  qed
qed

lemma mset_concat_perm: "mset xs = mset ys \<Longrightarrow> mset (concat (map f xs)) = mset (concat (map f ys))"
  by (metis mset_concat mset_map multiset.map_comp sum_mset_sum_list)

text \<open>Each item of the request is in exactly one group.\<close>

lemma groupCoLocatedItems_partition:
  assumes "fair c"
  shows "mset (concat (map ig_Items (groupCoLocatedItems c items rm))) = mset (lookup_items rm items)"
proof -
  let ?named = "named_items items rm"
  have "mset (concat (map ig_Items (groupCoLocatedItems c items rm))) =
      mset (concat (map snd (group_order c ?named))) +
      mset (lookup_items rm (filter (\<lambda>i. trs_Machine (rri_Spec i) = []) items))"
    by (simp add: groupCoLocatedItems_def lookup_items_def comp_def case_prod_beta concat_map_singleton)
  also have "mset (concat (map snd (group_order c ?named))) = mset (concat (map snd ?named))"
    using assms by (intro mset_concat_perm) (simp add: fair_def)
  finally show ?thesis
    unfolding mset_named_items
    by (simp add: lookup_items_def image_mset_union [symmetric] multiset_partition [symmetric]
        del: image_mset_union)
qed

lemma map_of_named_items:
  "map_of (named_items items rm) n =
     (let l = filter (\<lambda>i. trs_Machine (rri_Spec i) = n) items
      in if n = [] \<or> l = [] then None else Some (lookup_items rm l))"
proof (induction items rule: rev_induct)
  case Nil
  then show ?case by (simp add: named_items_def)
next
  case (snoc i items)
  let ?m = "named_items items rm" and ?k = "trs_Machine (rri_Spec i)"
  have step: "named_items (items @ [i]) rm = (if ?k \<noteq> [] then AList.update ?k
      ((case map_of ?m ?k of None \<Rightarrow> [] | Some l \<Rightarrow> l) @ [map_of rm (rri_Name i)]) ?m else ?m)"
    by (simp add: named_items_def)
  show ?case
    using snoc unfolding step by (auto simp: Let_def map_of_update lookup_items_def split: option.splits if_splits)
qed

text \<open>Two items that name the same machine are in the same group.\<close>

lemma groupCoLocatedItems_together:
  assumes fair: "fair c" and n: "n \<noteq> []"
    and i: "i \<in> set items" "trs_Machine (rri_Spec i) = n"
  shows "\<exists>g\<in>set (groupCoLocatedItems c items rm). ig_ExplicitMachine g = n \<and>
           ig_Items g = lookup_items rm (filter (\<lambda>i. trs_Machine (rri_Spec i) = n) items)"
proof -
  let ?l = "filter (\<lambda>i. trs_Machine (rri_Spec i) = n) items"
  have "?l \<noteq> []" using i by (auto simp: filter_empty_conv)
  with n have "map_of (named_items items rm) n = Some (lookup_items rm ?l)"
    by (simp add: map_of_named_items Let_def)
  then have "(n, lookup_items rm ?l) \<in> set (group_order c (named_items items rm))"
    using fair_set(2) [OF fair] by (auto dest: map_of_SomeD)
  then show ?thesis by (force simp: groupCoLocatedItems_def)
qed

lemma groupCoLocatedItems_named:
  assumes fair: "fair c" and g: "g \<in> set (groupCoLocatedItems c items rm)" "ig_ExplicitMachine g \<noteq> []"
  shows "\<exists>i\<in>set items. trs_Machine (rri_Spec i) = ig_ExplicitMachine g"
proof -
  from g have "ig_ExplicitMachine g \<in> gm_keys (named_items items rm)"
    by (auto simp: groupCoLocatedItems_def fair_set(2) [OF fair] split: prod.splits intro: rev_image_eqI)
  then obtain l where "map_of (named_items items rm) (ig_ExplicitMachine g) = Some l"
    by (metis map_of_not_None_iff)
  then show ?thesis by (auto simp: map_of_named_items Let_def filter_empty_conv split: if_splits)
qed

section \<open>The loop over the groups\<close>

lemma place_groups_ConsE:
  assumes "place_groups u c reqs cands sortedMs s toLock (g # gs) = Done (Inr res)"
  obtains ms s1 m where "group_candidates s reqs cands sortedMs g = Done (Inr ms)"
    "tryBindResource u c s ms g = Done (s1, Some m)"
    "place_groups u c reqs cands sortedMs s1
       (if locks_machine reqs g then toLock @ [meta_Name (m_Meta m)] else toLock) gs = Done (Inr res)"
  using assms by (auto split: option.splits)

lemma group_candidates_subset:
  "group_candidates s reqs cands sortedMs g = Done (Inr ms) \<Longrightarrow> m \<in> set ms \<Longrightarrow>
   m \<in> set sortedMs \<or> m \<in> snd ` set cands"
  by (force simp: group_candidates_def filterMachines_def Let_def dest: map_of_SomeD
      split: if_splits option.splits)

lemma group_candidates_empty:
  "group_candidates s reqs cands sortedMs g = Done (Inr ms) \<Longrightarrow> locks_machine reqs g \<Longrightarrow>
   m \<in> set ms \<Longrightarrow> resources_on s (machine_key m) = []"
  by (auto simp: group_candidates_def locks_machine_def filterMachines_def Let_def
      split: if_splits option.splits)

lemma place_groups_exclusive:
  assumes "fair c" "machines_exclusive s"
    and "place_groups u c reqs cands sortedMs s toLock gs = Done (Inr (s', toLock'))"
  shows "machines_exclusive s'"
  using assms(2,3)
proof (induction gs arbitrary: s toLock)
  case Nil
  then show ?case by simp
next
  case (Cons g gs)
  from Cons.prems(2) show ?case
    by (rule place_groups_ConsE) (blast intro: Cons.IH tryBindResource_exclusive [OF assms(1) Cons.prems(1)])
qed

text \<open>
  What a run of the loop may do: it only appends resources, to candidate machines, and the
  machines it locks held nothing before the run.
\<close>

definition extends :: "Machine set \<Rightarrow> RelationshipStatus \<Rightarrow> RelationshipStatus \<Rightarrow> bool" where
  "extends M s s' \<longleftrightarrow>
     (\<forall>mk. prefix (resources_on s mk) (resources_on s' mk)) \<and>
     (\<forall>mk. resources_on s' mk \<noteq> resources_on s mk \<longrightarrow> (\<exists>m\<in>M. machine_key m = mk)) \<and>
     AcceptedRequests s' = AcceptedRequests s \<and> MachineLocks s' = MachineLocks s \<and>
     (Initialized s \<longrightarrow> Initialized s')"

lemma extends_refl [simp]: "extends M s s"
  by (simp add: extends_def)

lemma extends_trans: "extends M s s1 \<Longrightarrow> extends M s1 s2 \<Longrightarrow> extends M s s2"
  unfolding extends_def by (metis prefix_order.order_trans)

lemma placed_extends: "placed s m its bnds s' \<Longrightarrow> m \<in> M \<Longrightarrow> extends M s s'"
  by (auto simp: placed_def extends_def)

lemma extends_empty: "extends M s s1 \<Longrightarrow> resources_on s1 mk = [] \<Longrightarrow> resources_on s mk = []"
  by (metis extends_def prefix_Nil)

lemma place_groups_extends:
  assumes "place_groups u c reqs cands sortedMs s toLock gs = Done (Inr (s', toLock'))"
    and "set sortedMs \<subseteq> M" "snd ` set cands \<subseteq> M"
  shows "extends M s s'"
    and "\<exists>new. toLock' = toLock @ new \<and>
      (\<forall>n\<in>set new. \<exists>m\<in>M. meta_Name (m_Meta m) = n \<and> resources_on s (machine_key m) = [])"
  using assms(1)
proof (induction gs arbitrary: s toLock)
  case Nil
  { case 1 then show ?case by simp next case 2 then show ?case by simp }
next
  case (Cons g gs)
  have step: "\<exists>s1 m. extends M s s1 \<and> m \<in> M \<and>
      (locks_machine reqs g \<longrightarrow> resources_on s (machine_key m) = []) \<and>
      place_groups u c reqs cands sortedMs s1
       (if locks_machine reqs g then toLock @ [meta_Name (m_Meta m)] else toLock) gs
       = Done (Inr (s', toLock'))"
    if "place_groups u c reqs cands sortedMs s toLock (g # gs) = Done (Inr (s', toLock'))" for s toLock
  proof -
    from that obtain ms s1 m where
      ms: "group_candidates s reqs cands sortedMs g = Done (Inr ms)"
      and bind: "tryBindResource u c s ms g = Done (s1, Some m)"
      and rest: "place_groups u c reqs cands sortedMs s1
       (if locks_machine reqs g then toLock @ [meta_Name (m_Meta m)] else toLock) gs
       = Done (Inr (s', toLock'))" by (rule place_groups_ConsE)
    from bind obtain its bnds where "m \<in> set ms" "placed s m its bnds s1"
      by (rule tryBindResource_steps)
    then have "m \<in> M" using group_candidates_subset [OF ms] assms(2,3) by blast
    with \<open>placed s m its bnds s1\<close> have "extends M s s1" by (rule placed_extends)
    moreover have "locks_machine reqs g \<longrightarrow> resources_on s (machine_key m) = []"
      using group_candidates_empty [OF ms] \<open>m \<in> set ms\<close> by blast
    ultimately show ?thesis using \<open>m \<in> M\<close> rest by (intro exI [of _ s1] exI [of _ m] conjI)
  qed
  { case 1
    from step [OF 1] Cons.IH(1) show ?case by (blast intro: extends_trans)
  next
    case 2
    from step [OF 2] obtain s1 m where s1: "extends M s s1" "m \<in> M"
      "locks_machine reqs g \<longrightarrow> resources_on s (machine_key m) = []" and
      rest: "place_groups u c reqs cands sortedMs s1
       (if locks_machine reqs g then toLock @ [meta_Name (m_Meta m)] else toLock) gs
       = Done (Inr (s', toLock'))" by blast
    from Cons.IH(2) [OF rest] obtain new where
      new: "toLock' = (if locks_machine reqs g then toLock @ [meta_Name (m_Meta m)] else toLock) @ new"
        "\<forall>n\<in>set new. \<exists>m\<in>M. meta_Name (m_Meta m) = n \<and> resources_on s1 (machine_key m) = []" by blast
    have old: "\<forall>n\<in>set new. \<exists>m\<in>M. meta_Name (m_Meta m) = n \<and> resources_on s (machine_key m) = []"
      using new(2) extends_empty [OF s1(1)] by blast
    show ?case
      by (rule exI [of _ "(if locks_machine reqs g then [meta_Name (m_Meta m)] else []) @ new"])
         (use new(1) old s1 in auto)
  }
qed

section \<open>Every item gets a place\<close>

definition item_keys :: "TestResource option list \<Rightarrow> string set" where
  "item_keys items = {resource_key item |item. Some item \<in> set items}"

lemma item_keys_Some [simp]: "item_keys (map Some its) = resource_key ` set its"
  by (auto simp: item_keys_def)

lemma fresh_items_append:
  assumes "fresh_items s (xs @ ys)"
  shows "fresh_items s xs" "fresh_items s ys" "item_keys xs \<inter> item_keys ys = {}"
proof -
  from assms obtain as bs where ab: "xs = map Some as" "ys = map Some bs"
    "distinct (map resource_key (as @ bs))" "distinct (map tr_Name (as @ bs))"
    "\<forall>item\<in>set (as @ bs). nil_get (ResourceToMachine s) (resource_key item) = None"
    by (auto simp: fresh_items_def append_eq_map_conv)
  then show "fresh_items s xs" "fresh_items s ys" by (auto simp: fresh_items_def)
  show "item_keys xs \<inter> item_keys ys = {}" using ab by auto
qed

lemma fresh_items_other:
  assumes "fresh_items s ys" "\<forall>k\<in>item_keys ys. nil_get (ResourceToMachine s') k = nil_get (ResourceToMachine s) k"
  shows "fresh_items s' ys"
  using assms by (auto simp: fresh_items_def)

text \<open>What one group gets: a single machine of \<open>M\<close>, and for each item a binding that was fitted for it.\<close>

definition group_on ::
  "Machine set \<Rightarrow> units \<Rightarrow> choices \<Rightarrow> RelationshipStatus \<Rightarrow> ItemGroup \<Rightarrow> bool" where
  "group_on M u c s g \<longleftrightarrow>
     (\<exists>m\<in>M. \<forall>item. Some item \<in> set (ig_Items g) \<longrightarrow>
        (\<exists>b rs. nil_get (ResourceToMachine s) (resource_key item)
             = Some \<lparr>mr_Ref = CreateRef (m_Meta m), mr_Binding = b\<rparr> \<and>
           fit_on u m c rs item = Done (Some b)))"

lemma tryBindResource_group_on:
  assumes bind: "tryBindResource u c s ms g = Done (s', Some m)" and fresh: "fresh_items s (ig_Items g)"
  shows "set ms \<subseteq> M \<Longrightarrow> group_on M u c s' g"
    and "k \<notin> item_keys (ig_Items g) \<Longrightarrow> nil_get (ResourceToMachine s') k = nil_get (ResourceToMachine s) k"
proof -
  from bind fresh obtain its bnds where its: "ig_Items g = map Some its"
    and placed: "placed s m its bnds s'"
    and other: "\<forall>k. k \<notin> resource_key ` set its \<longrightarrow>
       nil_get (ResourceToMachine s') k = nil_get (ResourceToMachine s) k"
    and new: "\<forall>i < length its. nil_get (ResourceToMachine s') (resource_key (its ! i))
       = Some \<lparr>mr_Ref = CreateRef (m_Meta m), mr_Binding = bnds ! i\<rparr>"
    and fits: "list_all2 (\<lambda>item b. \<exists>rs. fit_on u m c rs item = Done (Some b)) its bnds"
    by (rule tryBindResource_index)
  show "nil_get (ResourceToMachine s') k = nil_get (ResourceToMachine s) k"
    if "k \<notin> item_keys (ig_Items g)" using that other by (simp add: its)
  have "\<exists>b rs. nil_get (ResourceToMachine s') (resource_key item)
             = Some \<lparr>mr_Ref = CreateRef (m_Meta m), mr_Binding = b\<rparr> \<and>
           fit_on u m c rs item = Done (Some b)" if "Some item \<in> set (ig_Items g)" for item
  proof -
    from that its obtain i where "i < length its" "item = its ! i" by (auto simp: in_set_conv_nth)
    with new fits show ?thesis by (auto dest: list_all2_nthD)
  qed
  moreover have "m \<in> set ms" using bind by (rule tryBindResource_steps)
  ultimately show "set ms \<subseteq> M \<Longrightarrow> group_on M u c s' g" by (auto simp: group_on_def)
qed

lemma place_groups_index:
  assumes "place_groups u c reqs cands sortedMs s toLock gs = Done (Inr (s', toLock'))"
    and "fresh_items s (concat (map ig_Items gs))"
    and "set sortedMs \<subseteq> M" "snd ` set cands \<subseteq> M"
  shows "(indexed s \<longrightarrow> indexed s') \<and>
     (\<forall>k. k \<notin> item_keys (concat (map ig_Items gs)) \<longrightarrow>
        nil_get (ResourceToMachine s') k = nil_get (ResourceToMachine s) k) \<and>
     (\<forall>g\<in>set gs. group_on M u c s' g)"
  using assms(1,2)
proof (induction gs arbitrary: s toLock)
  case Nil
  then show ?case by simp
next
  case (Cons g gs)
  let ?xs = "ig_Items g" and ?ys = "concat (map ig_Items gs)"
  from Cons.prems(1) obtain ms s1 m where
    ms: "group_candidates s reqs cands sortedMs g = Done (Inr ms)" and
    bind: "tryBindResource u c s ms g = Done (s1, Some m)"
    and rest: "place_groups u c reqs cands sortedMs s1
       (if locks_machine reqs g then toLock @ [meta_Name (m_Meta m)] else toLock) gs
       = Done (Inr (s', toLock'))" by (rule place_groups_ConsE)
  have fresh: "fresh_items s ?xs" "fresh_items s ?ys" "item_keys ?xs \<inter> item_keys ?ys = {}"
    using fresh_items_append [of s ?xs ?ys] Cons.prems(2) by simp_all
  have "set ms \<subseteq> M" using group_candidates_subset [OF ms] assms(3,4) by blast
  note one = tryBindResource_group_on(1) [OF bind fresh(1) this] tryBindResource_group_on(2) [OF bind fresh(1)]
  have "fresh_items s1 ?ys" using fresh(2,3) one(2) by (intro fresh_items_other [OF fresh(2)]) blast
  note IH = Cons.IH [OF rest this]
  have keep: "nil_get (ResourceToMachine s') k = nil_get (ResourceToMachine s1) k" if "k \<in> item_keys ?xs" for k
    using IH fresh(3) that by blast
  have "group_on M u c s' g"
    using one(1) keep unfolding group_on_def item_keys_def by (metis (mono_tags, lifting) mem_Collect_eq)
  moreover have "indexed s \<longrightarrow> indexed s'" using IH tryBindResource_indexed [OF bind fresh(1)] by blast
  moreover have "item_keys (?xs @ ?ys) = item_keys ?xs \<union> item_keys ?ys" by (auto simp: item_keys_def)
  ultimately show ?case using IH one(2) by simp
qed

section \<open>An accepted request\<close>

lemma lock_machines_result:
  "lock_machines self s ms = Done s' \<Longrightarrow>
   MachineToResources s' = MachineToResources s \<and> ResourceToMachine s' = ResourceToMachine s \<and>
   AcceptedRequests s' = AcceptedRequests s \<and> (Initialized s \<longrightarrow> Initialized s') \<and>
   (\<forall>n. nil_get (MachineLocks s') n = (if n \<in> set ms then Some self else nil_get (MachineLocks s) n))"
proof (induction ms arbitrary: s)
  case Nil
  then show ?case by simp
next
  case (Cons m ms)
  then obtain locks where put: "nil_put (MachineLocks s) m self = Done locks"
    and rest: "lock_machines self (s\<lparr>MachineLocks := locks\<rparr>) ms = Done s'" by auto
  have "locks \<noteq> None" using put by (auto simp: nil_put_def split: option.splits)
  then show ?case using Cons.IH [OF rest] nil_get_put [OF put] by (auto simp: Initialized_def)
qed

lemma accept_frame [simp]:
  "MachineToResources (accept self s) = MachineToResources s"
  "ResourceToMachine (accept self s) = ResourceToMachine s"
  "MachineLocks (accept self s) = MachineLocks s"
  "IfExist (AcceptedRequests (accept self s)) r \<longleftrightarrow> r = self \<or> IfExist (AcceptedRequests s) r"
  by (auto simp: accept_def IfExist_iff split: option.splits)

lemma case_TryLater_accepted:
  "(case x of Inl m \<Rightarrow> Done (TryLater m) | Inr y \<Rightarrow> g y) = Done (TryAccepted z) \<longleftrightarrow>
   (\<exists>y. x = Inr y \<and> g y = Done (TryAccepted z))"
  by (cases x) auto

lemma tryRequest_acceptedE:
  assumes "tryRequest_core u c s request rm machines = Done (TryAccepted s')"
  obtains reqs expl s1 toLock s2 where
    "collect_requests machines (trrs_Machines (trr_Spec request)) [] [] = Inr (reqs, expl)"
    "place_groups u c reqs (selectNonLockMachines machines s)
       (sortMachines c (selectNonLockMachines machines s) expl s) s []
       (groupCoLocatedItems c (trrs_Items (trr_Spec request)) rm) = Done (Inr (s1, toLock))"
    "lock_machines (request_ref request) s1 toLock = Done s2"
    "s' = accept (request_ref request) s2"
  using assms by (auto simp: tryRequest_core_def Let_def case_TryLater_accepted split: sum.split_asm)

lemma resources_on_cong: "MachineToResources s' = MachineToResources s \<Longrightarrow> resources_on s' = resources_on s"
  by (simp add: resources_on_def fun_eq_iff)

lemma fresh_items_perm:
  assumes "mset xs = mset ys" "fresh_items s ys"
  shows "fresh_items s xs"
proof -
  from assms(2) obtain its where its: "ys = map Some its" "distinct (map resource_key its)"
      "distinct (map tr_Name its)" "\<forall>item\<in>set its. nil_get (ResourceToMachine s) (resource_key item) = None"
    by (auto simp: fresh_items_def)
  have "mset (map the xs) = mset its"
    using assms(1) its(1) by (metis (no_types, lifting) mset_map comp_apply map_map map_idI option.sel)
  moreover have "map Some (map the xs) = xs"
  proof -
    have "set xs = Some ` set its" using assms(1) its(1) by (metis set_map set_mset_mset)
    then show ?thesis by (auto intro!: map_idI)
  qed
  moreover have "distinct (map f (map the xs)) = distinct (map f its)" for f :: "TestResource \<Rightarrow> string"
    using \<open>mset (map the xs) = mset its\<close> by (metis mset_map mset_eq_imp_distinct_iff)
  moreover have "set (map the xs) = set its" using \<open>mset (map the xs) = mset its\<close> by (rule mset_eq_setD)
  ultimately show ?thesis using its unfolding fresh_items_def by metis
qed

text \<open>The machines a request may use: of those it is given, the ones without a lock.\<close>

definition open_machines :: "(string, Machine) gomap \<Rightarrow> RelationshipStatus \<Rightarrow> Machine set" where
  "open_machines machines s = {m. \<exists>n. (n, m) \<in> set machines \<and> nil_get (MachineLocks s) n = None}"

text \<open>
  \<open>getMachines\<close> books the ready machines of a listing by name. Of machines of the same name, which an
  API server never lists, the last one is kept.
\<close>

lemma update_entries: "(k', v') \<in> set (AList.update k v m) \<Longrightarrow> k' = k \<and> v' = v \<or> (k', v') \<in> set m"
  by (induction m) (auto split: if_splits)

lemma update_keeps: "(k', v') \<in> set m \<Longrightarrow> k' \<noteq> k \<Longrightarrow> (k', v') \<in> set (AList.update k v m)"
  by (induction m) auto

lemma update_puts: "(k, v) \<in> set (AList.update k v m)"
  by (induction m) auto

lemma getMachines_book_snoc:
  "getMachines_book (ms @ [m]) =
     (if mst_State (m_Status m) = MachineReady then AList.update (meta_Name (m_Meta m)) m (getMachines_book ms)
      else getMachines_book ms)"
  by (simp add: getMachines_book_def)

lemma getMachines_book_ready:
  "(n, m) \<in> set (getMachines_book ms) \<Longrightarrow> m \<in> set ms \<and> mst_State (m_Status m) = MachineReady \<and> meta_Name (m_Meta m) = n"
proof (induction ms rule: rev_induct)
  case (snoc x ms)
  then show ?case by (auto simp: getMachines_book_snoc dest!: update_entries split: if_splits)
qed (simp add: getMachines_book_def)

lemma getMachines_book_names: "(n, m) \<in> set (getMachines_book ms) \<Longrightarrow> meta_Name (m_Meta m) = n"
  using getMachines_book_ready by blast

lemma getMachines_book_complete:
  "distinct (map (\<lambda>m. meta_Name (m_Meta m)) ms) \<Longrightarrow> m \<in> set ms \<Longrightarrow> mst_State (m_Status m) = MachineReady \<Longrightarrow>
   (meta_Name (m_Meta m), m) \<in> set (getMachines_book ms)"
proof (induction ms rule: rev_induct)
  case (snoc x ms)
  have "meta_Name (m_Meta m) \<noteq> meta_Name (m_Meta x)" if "m \<noteq> x"
    using snoc.prems(1,2) that by (simp add: image_iff) metis
  with snoc show ?case
    by (cases "m = x") (auto simp: getMachines_book_snoc update_puts intro: update_keeps)
qed simp

definition ready_unlocked :: "Machine list \<Rightarrow> RelationshipStatus \<Rightarrow> Machine set" where
  "ready_unlocked ms s =
     {m \<in> set ms. mst_State (m_Status m) = MachineReady \<and> nil_get (MachineLocks s) (meta_Name (m_Meta m)) = None}"

lemma open_ready: "open_machines (getMachines_book ms) s \<subseteq> ready_unlocked ms s"
  by (auto simp: open_machines_def ready_unlocked_def dest: getMachines_book_ready)

lemma open_ready_eq:
  "distinct (map (\<lambda>m. meta_Name (m_Meta m)) ms) \<Longrightarrow> open_machines (getMachines_book ms) s = ready_unlocked ms s"
  using open_ready getMachines_book_complete by (fastforce simp: open_machines_def ready_unlocked_def)

lemma demo_book: "getMachines_book [demo_machine] = demo_machines"
  by code_simp

lemma selectNonLockMachines_open: "snd ` set (selectNonLockMachines machines s) = open_machines machines s"
  by (force simp: selectNonLockMachines_def open_machines_def)

lemma sortMachines_set:
  "fair c \<Longrightarrow> set (sortMachines c cands expl s) = snd ` set cands"
  by (simp add: sortMachines_def fair_set)

section \<open>Properties of admission\<close>

lemma admission_exclusive:
  assumes "fair c" "machines_exclusive s"
    and "tryRequest_core u c s request rm machines = Done (TryAccepted s')"
  shows "machines_exclusive s'"
proof -
  from assms(3) obtain reqs expl s1 toLock s2 where
    groups: "place_groups u c reqs (selectNonLockMachines machines s)
       (sortMachines c (selectNonLockMachines machines s) expl s) s []
       (groupCoLocatedItems c (trrs_Items (trr_Spec request)) rm) = Done (Inr (s1, toLock))"
    and lock: "lock_machines (request_ref request) s1 toLock = Done s2"
    and s': "s' = accept (request_ref request) s2" by (rule tryRequest_acceptedE)
  have "machines_exclusive s1" by (rule place_groups_exclusive [OF assms(1,2) groups])
  moreover have "resources_on s' = resources_on s1"
    using lock_machines_result [OF lock] by (intro resources_on_cong) (simp add: s')
  ultimately show ?thesis by (simp add: machines_exclusive_def)
qed

lemma admission_locks:
  assumes "fair c"
    and "tryRequest_core u c s request rm machines = Done (TryAccepted s')"
  shows "(\<forall>mk. prefix (resources_on s mk) (resources_on s' mk)) \<and>
    (\<forall>mk. resources_on s' mk \<noteq> resources_on s mk \<longrightarrow> (\<exists>m\<in>open_machines machines s. machine_key m = mk)) \<and>
    (\<forall>n. nil_get (MachineLocks s') n = nil_get (MachineLocks s) n \<or>
      nil_get (MachineLocks s') n = Some (request_ref request) \<and>
      (\<exists>m\<in>open_machines machines s. meta_Name (m_Meta m) = n \<and> resources_on s (machine_key m) = [])) \<and>
    (\<forall>r. IfExist (AcceptedRequests s') r \<longleftrightarrow> r = request_ref request \<or> IfExist (AcceptedRequests s) r)"
proof -
  from assms(2) obtain reqs expl s1 toLock s2 where
    groups: "place_groups u c reqs (selectNonLockMachines machines s)
       (sortMachines c (selectNonLockMachines machines s) expl s) s []
       (groupCoLocatedItems c (trrs_Items (trr_Spec request)) rm) = Done (Inr (s1, toLock))"
    and lock: "lock_machines (request_ref request) s1 toLock = Done s2"
    and s': "s' = accept (request_ref request) s2" by (rule tryRequest_acceptedE)
  note ext = place_groups_extends [OF groups, of "open_machines machines s",
      unfolded selectNonLockMachines_open sortMachines_set [OF assms(1)], OF subset_refl subset_refl]
  note res = lock_machines_result [OF lock]
  have "resources_on s' = resources_on s1" using res by (intro resources_on_cong) (simp add: s')
  moreover have "IfExist (AcceptedRequests s') r \<longleftrightarrow> r = request_ref request \<or> IfExist (AcceptedRequests s) r" for r
    using res ext(1) by (simp add: s' extends_def)
  moreover have "nil_get (MachineLocks s') n =
      (if n \<in> set toLock then Some (request_ref request) else nil_get (MachineLocks s) n)" for n
    using res ext(1) by (simp add: s' extends_def)
  ultimately show ?thesis using ext by (auto simp: extends_def)
qed

text \<open>C12: admission respects locks. Given the listed machines, an accepted request only appends resources,
  and only on listed machines that are ready and whose name is not locked; every lock that is held
  stays with its holder; every new lock belongs to the request and is on the name of a ready machine
  without a lock that held no resource; and exactly this request becomes accepted.\<close>

theorem tryRequest_locks:
  assumes "fair c"
    and "tryRequest_core u c s request rm (getMachines_book ms) = Done (TryAccepted s')"
  shows "(\<forall>mk. prefix (resources_on s mk) (resources_on s' mk)) \<and>
    (\<forall>mk. resources_on s' mk \<noteq> resources_on s mk \<longrightarrow> (\<exists>m\<in>ready_unlocked ms s. machine_key m = mk)) \<and>
    (\<forall>n self. nil_get (MachineLocks s) n = Some self \<longrightarrow> nil_get (MachineLocks s') n = Some self) \<and>
    (\<forall>n. nil_get (MachineLocks s) n = None \<and> nil_get (MachineLocks s') n \<noteq> None \<longrightarrow>
      nil_get (MachineLocks s') n = Some (request_ref request) \<and>
      (\<exists>m\<in>ready_unlocked ms s. meta_Name (m_Meta m) = n \<and> resources_on s (machine_key m) = [])) \<and>
    (\<forall>r. IfExist (AcceptedRequests s') r \<longleftrightarrow> r = request_ref request \<or> IfExist (AcceptedRequests s) r)"
proof -
  note locks = admission_locks [OF assms]
  have lock: "nil_get (MachineLocks s') n = nil_get (MachineLocks s) n \<or>
      nil_get (MachineLocks s') n = Some (request_ref request) \<and> nil_get (MachineLocks s) n = None \<and>
      (\<exists>m\<in>ready_unlocked ms s. meta_Name (m_Meta m) = n \<and> resources_on s (machine_key m) = [])" for n
    using locks open_ready [of ms s] by (fastforce simp: ready_unlocked_def)
  have "\<exists>m\<in>ready_unlocked ms s. machine_key m = mk" if "resources_on s' mk \<noteq> resources_on s mk" for mk
    using locks that open_ready [of ms s] by blast
  moreover have "nil_get (MachineLocks s') n = Some self" if "nil_get (MachineLocks s) n = Some self" for n self
    using lock [of n] that by auto
  moreover have "nil_get (MachineLocks s') n = Some (request_ref request) \<and>
      (\<exists>m\<in>ready_unlocked ms s. meta_Name (m_Meta m) = n \<and> resources_on s (machine_key m) = [])"
    if "nil_get (MachineLocks s) n = None \<and> nil_get (MachineLocks s') n \<noteq> None" for n
    using lock [of n] that by auto
  ultimately show ?thesis using locks by simp
qed

theorem tryRequest_locks_witness:
  "nil_get (MachineLocks demo_placed) ''m1'' = Some (request_ref demo_request) \<and>
   (\<exists>m\<in>ready_unlocked [demo_machine] demo_status. meta_Name (m_Meta m) = ''m1'' \<and>
      resources_on demo_status (machine_key m) = [])"
proof -
  have "nil_get (MachineLocks demo_placed) ''m1'' = Some (request_ref demo_request)" by code_simp
  moreover have "nil_get (MachineLocks demo_status) ''m1'' = None" by code_simp
  ultimately show ?thesis
    using tryRequest_locks [OF fair_demo demo_accepted [folded demo_book]] by (metis option.distinct(1))
qed

text \<open>
  A binding that honours the specification it was fitted for, on the machine \<open>m\<close>: the memory and as
  many different cores as asked for, of those the machine offers beside its reserve; and for every
  disk of the specification a disk that the machine offers, of the same kind and at least of the size,
  whose device, path and size the binding records with the mount path of the specification.
\<close>

definition honours :: "units \<Rightarrow> Machine \<Rightarrow> TestResourceSpec \<Rightarrow> ResourceBinding \<Rightarrow> bool" where
  "honours u m spec b \<longleftrightarrow>
     rb_Memory b = trs_Memory spec \<and>
     distinct (rb_CPUSet b) \<and> length (rb_CPUSet b) = nat (trs_Cores spec) \<and>
     gm_keys (rb_Disks b) = gm_keys (trs_Disks spec) \<and>
     (\<exists>avail. Available u m = Done (Some avail) \<and> set (rb_CPUSet b) \<subseteq> set (ar_IdleCPUSet avail) \<and>
        (\<forall>(n, bound)\<in>set (rb_Disks b). \<exists>disk. (n, disk) \<in> set (trs_Disks spec) \<and>
           (\<exists>dr want have. (db_Device bound, dr) \<in> set (ar_Disks avail) \<and> dr_Kind dr = dsp_Kind disk \<and>
              ToSize u (dsp_Size disk) = Inr want \<and> ToSize u (dr_Size dr) = Inr have \<and> want \<le> have \<and>
              bound = \<lparr>db_Kind = dsp_Kind disk, db_Size = dr_Size dr, db_Device = db_Device bound,
                db_OriginPath = dr_MountPath dr, db_MountPath = dsp_MountPath disk\<rparr>)))"

lemma Unwrap_eq_Done: "Unwrap u b = Done n \<longleftrightarrow> ToSize u b = Inr n"
  by (auto simp: Unwrap_def split: sum.splits)

lemma take_disks_subset: "take_disks bs disks = Some rest \<Longrightarrow> set rest \<subseteq> set disks"
  using set_alist_delete_subset by (induction bs arbitrary: disks) (fastforce split: option.splits)+

lemma Rest_loop_subset: "Rest_loop u rest rs = Done (Some rest') \<Longrightarrow> set (ar_Disks rest') \<subseteq> set (ar_Disks rest)"
proof (induction rs arbitrary: rest)
  case (Cons r rs)
  then obtain disks mem where disks: "take_disks (map snd (rb_Disks (rr_Binding r))) (ar_Disks rest) = Some disks" and
    rec: "Rest_loop u (rest\<lparr>ar_IdleCPUSet := deleteCPUSet (ar_IdleCPUSet rest) (rb_CPUSet (rr_Binding r)),
             ar_Memory := mem, ar_Disks := disks\<rparr>) rs = Done (Some rest')"
    by (auto simp: Rest_loop_unfold simp del: Rest_loop.simps(2) split: option.splits)
  from Cons.IH [OF rec] take_disks_subset [OF disks] show ?case by simp
qed simp

lemma fit_on_honours:
  assumes "fair c" "fit_on u m c rs item = Done (Some b)" "gm_wf (trs_Disks (tr_Spec item))"
  shows "honours u m (tr_Spec item) b"
proof -
  let ?ord = "disk_order c (meta_Name (m_Meta m)) (tr_Name item)"
  from assms(2) obtain avail r :: AvailableResource where av: "Available u m = Done (Some avail)"
    and loop: "Rest_loop u avail rs = Done (Some r)"
    and ov: "resourceOverflow u ?ord (Some r) (tr_Spec item) = Done (Some b)" by (rule fit_on_SomeD)
  from ov have mem: "rb_Memory b = trs_Memory (tr_Spec item)"
    and cpus: "rb_CPUSet b = take (nat (trs_Cores (tr_Spec item))) (ar_IdleCPUSet r)"
    and bd: "bind_disks u ?ord (trs_Disks (tr_Spec item)) (ar_Disks r) [] = Done (rb_Disks b)"
    by (elim resourceOverflow_SomeD, simp)+
  have "\<exists>disk. (n, disk) \<in> set (trs_Disks (tr_Spec item)) \<and> disk_fits u (ar_Disks avail) disk x"
    if "(n, x) \<in> set (rb_Disks b)" for n x
    using bind_disks_fits [OF bd fair_set(1) [OF assms(1)] Rest_loop_subset [OF loop] _ subset_refl that] by simp
  moreover have "set (rb_CPUSet b) \<subseteq> set (ar_IdleCPUSet avail)"
    using Rest_loop_cpus [OF loop] by (auto simp: cpus dest: in_set_takeD)
  ultimately show ?thesis
    using mem fit_on_cpus [OF assms(2)] resourceOverflow_disk_keys [OF ov fair_set(1) [OF assms(1)] assms(3)] av
    unfolding honours_def disk_fits_def disk_binding_def Unwrap_eq_Done by (intro conjI exI [of _ avail]) fastforce+
qed

lemma tryRequest_groups:
  assumes fair: "fair c"
    and acc: "tryRequest_core u c s request rm machines = Done (TryAccepted s')"
    and fresh: "fresh_items s (lookup_items rm (trrs_Items (trr_Spec request)))"
  shows "indexed s \<longrightarrow> indexed s'"
    and "g \<in> set (groupCoLocatedItems c (trrs_Items (trr_Spec request)) rm) \<Longrightarrow> group_on (open_machines machines s) u c s' g"
proof -
  let ?items = "trrs_Items (trr_Spec request)"
  from acc obtain reqs expl s1 toLock s2 where
    groups: "place_groups u c reqs (selectNonLockMachines machines s)
       (sortMachines c (selectNonLockMachines machines s) expl s) s []
       (groupCoLocatedItems c ?items rm) = Done (Inr (s1, toLock))"
    and lock: "lock_machines (request_ref request) s1 toLock = Done s2"
    and s': "s' = accept (request_ref request) s2" by (rule tryRequest_acceptedE)
  note idx = place_groups_index [OF groups
      fresh_items_perm [OF groupCoLocatedItems_partition [OF fair] fresh], of "open_machines machines s",
      unfolded selectNonLockMachines_open sortMachines_set [OF fair], OF subset_refl subset_refl]
  have same: "resources_on s' = resources_on s1" "ResourceToMachine s' = ResourceToMachine s1"
    using lock_machines_result [OF lock] by (auto intro!: resources_on_cong simp: s')
  show "indexed s \<longrightarrow> indexed s'" using idx by (simp add: indexed_def same)
  show "group_on (open_machines machines s) u c s' g" if "g \<in> set (groupCoLocatedItems c ?items rm)"
    using idx that by (simp add: group_on_def same)
qed

lemma demo_fresh:
  "fresh_items demo_status (lookup_items demo_resources (trrs_Items (trr_Spec demo_request)))"
  by (auto simp: fresh_items_def lookup_items_def demo_request_def demo_items_def demo_resources_def
      demo_resource_def demo_meta_def resource_key_def resource_ref_def CreateRef_def Key_def Cons_eq_map_conv)

lemma demo_disks: "\<forall>(n, r)\<in>set demo_resources. gm_wf (trs_Disks (tr_Spec r))"
  by (simp add: demo_resources_def demo_resource_def demo_spec_def)



text \<open>
  The loop over the disks of a resource takes a chosen device out of the free ones by the name of
  the disk in the specification, not by the name of the device. Two disks of one resource are so
  bound to the same device, although the machine has only one; and \<open>Rest\<close> then finds the device gone
  when it takes the second away, so that nothing more is placed on this machine.
\<close>

definition demo_two_disks :: TestResource where
  "demo_two_disks = demo_resource ''n3'' ''u5'' (demo_spec 1 [(''a'', demo_disk), (''b'', demo_disk)])"

lemma same_device_twice:
  "(case fit_on demo_units demo_machine demo_choices [] demo_two_disks of
      Done (Some b) \<Rightarrow> binding_devices b = [''/dev/nvme0'', ''/dev/nvme0''] \<and>
        Rest demo_units demo_machine [new_ref demo_two_disks b] = Done None
    | _ \<Rightarrow> False)"
  by code_simp



end
