(* ===== verification/NoPanic.thy ===== *)
theory NoPanic
  imports Admission
begin

text \<open>
  The nil pointers of \<open>tryRequest\<close>. The code dereferences without a test the machine request an
  item names, the reserve of a machine, the resource of an item, and writes to the maps of the
  relationship. The webhooks, the relationship controller and \<open>reconcilePending\<close> exclude each of
  these; what remains is a size that cannot be read.
\<close>

definition size_panic :: "string \<Rightarrow> bool" where
  "size_panic p \<longleftrightarrow> (\<exists>b. p = ''BytesSize('' @ b @ '') is invalid'')"

named_theorems panic_rules \<open>panics below tryRequest are size panics\<close>

lemma Unwrap_panic [panic_rules]: "Unwrap u b = Panicked p \<Longrightarrow> size_panic p"
  by (auto simp: Unwrap_def size_panic_def split: sum.splits)

lemma Sub_panic [panic_rules]: "Sub u a b = Panicked p \<Longrightarrow> size_panic p"
  by (auto simp: Sub_def go_bind_Panicked_iff intro: panic_rules)

lemma exclusive_disks_panic [panic_rules]: "exclusive_disks u ex devs ds = Panicked p \<Longrightarrow> size_panic p"
  by (induction devs arbitrary: ds)
    (auto simp: go_bind_Panicked_iff split: if_splits intro: panic_rules)

lemma Available_panic [panic_rules]:
  "Available u m = Panicked p \<Longrightarrow> ms_Reserve (m_Spec m) \<noteq> None \<Longrightarrow> size_panic p"
  by (auto simp: Available_def go_bind_Panicked_iff split: option.splits intro: panic_rules)

lemma Rest_loop_panic [panic_rules]: "Rest_loop u r rs = Panicked p \<Longrightarrow> size_panic p"
  by (induction rs arbitrary: r)
    (auto simp: Rest_loop_unfold go_bind_Panicked_iff simp del: Rest_loop.simps(2)
      split: option.splits intro: panic_rules)

lemma Rest_panic [panic_rules]:
  "Rest u m rs = Panicked p \<Longrightarrow> ms_Reserve (m_Spec m) \<noteq> None \<Longrightarrow> size_panic p"
  by (auto simp: Rest_def go_bind_Panicked_iff split: option.splits intro: panic_rules)

lemma find_disk_panic [panic_rules]: "find_disk u d ds = Panicked p \<Longrightarrow> size_panic p"
  by (induction ds) (auto simp: go_bind_Panicked_iff split: if_splits intro: panic_rules)

lemma bind_disks_panic [panic_rules]: "bind_disks u ord specs ds acc = Panicked p \<Longrightarrow> size_panic p"
proof (induction specs arbitrary: ds acc)
  case Nil
  then show ?case by simp
next
  case (Cons sp specs)
  obtain name disk where "sp = (name, disk)" by (cases sp)
  with Cons.prems consider "find_disk u disk (ord name ds) = Panicked p"
    | ds' acc' where "bind_disks u ord specs ds' acc' = Panicked p"
    by (auto simp: go_bind_Panicked_iff split: option.splits)
  then show ?case by cases (auto intro: Cons.IH find_disk_panic)
qed

lemma resourceOverflow_panic [panic_rules]: "resourceOverflow u ord r spec = Panicked p \<Longrightarrow> size_panic p"
  by (auto simp: resourceOverflow_def Let_def go_bind_Panicked_iff split: option.splits if_splits
      intro: panic_rules)

lemma fit_on_panic [panic_rules]:
  "fit_on u m c rs item = Panicked p \<Longrightarrow> ms_Reserve (m_Spec m) \<noteq> None \<Longrightarrow> size_panic p"
  by (auto simp: fit_on_def go_bind_Panicked_iff intro: panic_rules)

lemma bind_items_panic [panic_rules]:
  "bind_items u c m rs bs (map Some its) = Panicked p \<Longrightarrow> ms_Reserve (m_Spec m) \<noteq> None \<Longrightarrow> size_panic p"
  by (induction its arbitrary: rs bs)
    (auto simp: bind_items_Some_Cons go_bind_Panicked_iff simp del: bind_items.simps(3)
      split: option.splits intro: panic_rules)

lemma record_items_Done:
  "ResourceToMachine s \<noteq> None \<Longrightarrow> \<forall>item\<in>set its. map_of bs (tr_Name item) \<noteq> None \<Longrightarrow>
   \<exists>s'. record_items m bs s (map Some its) = Done s'"
proof (induction its arbitrary: s)
  case Nil
  then show ?case by simp
next
  case (Cons i its)
  from Cons.prems obtain b where b: "map_of bs (tr_Name i) = Some b" by auto
  obtain r2m where put: "nil_put (ResourceToMachine s) (resource_key i)
      \<lparr>mr_Ref = CreateRef (m_Meta m), mr_Binding = b\<rparr> = Done r2m" "r2m \<noteq> None"
    using Cons.prems(1) by (auto simp: nil_put_def)
  have "ResourceToMachine (s\<lparr>ResourceToMachine := r2m\<rparr>) \<noteq> None" using put by simp
  with Cons.prems(2) have "\<exists>s'. record_items m bs (s\<lparr>ResourceToMachine := r2m\<rparr>) (map Some its) = Done s'"
    by (intro Cons.IH) auto
  with b put show ?case by simp
qed

lemma map_of_updates_in:
  "length vs = length ks \<Longrightarrow> k \<in> set ks \<Longrightarrow> map_of (AList.updates ks vs m) k \<noteq> None"
proof (induction ks arbitrary: vs m)
  case Nil
  then show ?case by simp
next
  case (Cons a ks)
  then obtain v vs' where vs: "vs = v # vs'" "length vs' = length ks" by (cases vs) auto
  have keep: "map_of m k \<noteq> None \<Longrightarrow> map_of (AList.updates ks vs' m) k \<noteq> None" for m
    by (simp add: updates_conv' map_upds_def map_add_None del: not_None_eq)
  show ?case using Cons vs keep [of "AList.update a v m"] by (auto simp: map_of_update)
qed

lemma tryBindResource_panic:
  assumes "Initialized s" "\<forall>m\<in>set ms. ms_Reserve (m_Spec m) \<noteq> None" "ig_Items g = map Some its"
    and "tryBindResource u c s ms g = Panicked p"
  shows "size_panic p"
  using assms(2,4)
proof (induction ms)
  case Nil
  then show ?case by simp
next
  case (Cons m ms)
  have "\<exists>s'. record_items m bs (s\<lparr>MachineToResources := m2r\<rparr>) (ig_Items g) = Done s'"
    if "bind_items u c m rs [] (ig_Items g) = Done (Some (rs', bs))" for rs rs' bs m2r
  proof -
    from bind_items_result [OF that] assms(3) obtain bnds where
      "length bnds = length its" "bs = AList.updates (map tr_Name its) bnds []"
      by (auto simp: inj_map_eq_map)
    then have "\<forall>item\<in>set its. map_of bs (tr_Name item) \<noteq> None"
      using map_of_updates_in [of bnds "map tr_Name its" _ "[]"] by fastforce
    with assms(1,3) show ?thesis by (simp add: record_items_Done Initialized_def del: not_None_eq)
  qed
  moreover have "\<exists>m2r. nil_put (MachineToResources s) k rs = Done m2r" for k rs
    using assms(1) by (simp add: nil_put_Done_iff Initialized_def)
  ultimately show ?case
    using Cons assms(3) by (auto simp: go_bind_Panicked_iff split: option.splits dest: bind_items_panic)
      (metis go.distinct(1))+
qed

lemma collect_requests_keys:
  "collect_requests machines qs reqs expl = Inr (reqs', expl') \<Longrightarrow>
   map_of reqs' n \<noteq> None \<longleftrightarrow> n \<in> mrq_Name ` set qs \<or> map_of reqs n \<noteq> None"
  by (induction qs arbitrary: reqs expl)
    (auto simp: Let_def map_of_update simp del: not_None_eq split: if_splits option.splits)

lemma group_candidates_Done:
  "ig_ExplicitMachine g \<noteq> [] \<longrightarrow> map_of reqs (ig_ExplicitMachine g) \<noteq> None \<Longrightarrow>
   \<exists>ms. group_candidates s reqs cands sortedMs g = Done ms"
  by (auto simp: group_candidates_def Let_def split: option.splits)

lemma place_groups_panic:
  assumes "Initialized s" "\<forall>m\<in>set sortedMs \<union> snd ` set cands. ms_Reserve (m_Spec m) \<noteq> None"
    and "\<forall>g\<in>set gs. (\<exists>its. ig_Items g = map Some its) \<and>
      (ig_ExplicitMachine g \<noteq> [] \<longrightarrow> map_of reqs (ig_ExplicitMachine g) \<noteq> None)"
    and "place_groups u c reqs cands sortedMs s toLock gs = Panicked p"
  shows "size_panic p"
  using assms(1,3,4)
proof (induction gs arbitrary: s toLock)
  case Nil
  then show ?case by simp
next
  case (Cons g gs)
  obtain ms where ms: "group_candidates s reqs cands sortedMs g = Done ms"
    using group_candidates_Done Cons.prems(2) by (metis list.set_intros(1))
  obtain its where its: "ig_Items g = map Some its" using Cons.prems(2) by auto
  from Cons.prems(3) ms consider
      l where "ms = Inr l" "tryBindResource u c s l g = Panicked p"
    | l s1 m toLock' where "ms = Inr l" "tryBindResource u c s l g = Done (s1, Some m)"
        "place_groups u c reqs cands sortedMs s1 toLock' gs = Panicked p"
    by (auto simp: go_bind_Panicked_iff split: option.splits)
  then show ?case
  proof cases
    case 1
    have "\<forall>m\<in>set l. ms_Reserve (m_Spec m) \<noteq> None"
      using group_candidates_subset [of s reqs cands sortedMs g l] ms 1(1) assms(2) by blast
    with 1(2) Cons.prems(1) its show ?thesis by (blast intro: tryBindResource_panic)
  next
    case 2
    from 2(2) have "Initialized s1"
      by (rule tryBindResource_steps) (use Cons.prems(1) in \<open>auto simp: placed_def\<close>)
    then show ?thesis using Cons.IH [OF _ _ 2(3)] Cons.prems(2) by simp
  qed
qed

lemma lock_machines_Done: "Initialized s \<Longrightarrow> \<exists>s'. lock_machines self s ms = Done s'"
proof (induction ms arbitrary: s)
  case Nil
  then show ?case by simp
next
  case (Cons m ms)
  then obtain locks where "nil_put (MachineLocks s) m self = Done locks" "locks \<noteq> None"
    by (auto simp: Initialized_def nil_put_def)
  moreover from this Cons.prems have "Initialized (s\<lparr>MachineLocks := locks\<rparr>)"
    by (simp add: Initialized_def)
  ultimately show ?case using Cons.IH by simp
qed

lemma groups_all_Some:
  assumes "fair c" "\<forall>i\<in>set items. map_of rm (rri_Name i) \<noteq> None"
    and "g \<in> set (groupCoLocatedItems c items rm)"
  shows "\<exists>its. ig_Items g = map Some its"
proof -
  have "set (ig_Items g) \<subseteq> set (lookup_items rm items)"
    using assms(3) mset_eq_setD [OF groupCoLocatedItems_partition [OF assms(1), of items rm]] by auto
  with assms(2) have "None \<notin> set (ig_Items g)"
    unfolding lookup_items_def set_map by (metis (no_types, lifting) imageE subsetD)
  then have "map Some (map the (ig_Items g)) = ig_Items g"
    by (auto intro!: map_idI) (metis option.collapse)
  then show ?thesis by metis
qed

text \<open>\<open>tryRequest\<close> neither dereferences a nil pointer nor writes to a nil map. On an initialised
  relationship, for a request the webhook accepts (every named machine is declared) all of whose
  resources exist, over machines with a reserve, the only panic left is a size that does not parse.\<close>

theorem tryRequest_panics:
  assumes fair: "fair c" and init: "Initialized s"
    and valid: "TestResourceRequest_ValidateCreate u request = None"
    and items: "\<forall>i\<in>set (trrs_Items (trr_Spec request)). map_of rm (rri_Name i) \<noteq> None"
    and reserve: "\<forall>(n, m)\<in>set machines. ms_Reserve (m_Spec m) \<noteq> None"
    and panic: "tryRequest_core u c s request rm machines = Panicked p"
  shows "size_panic p"
proof -
  let ?items = "trrs_Items (trr_Spec request)" and ?cands = "selectNonLockMachines machines s"
  from panic obtain reqs expl where
    reqs: "collect_requests machines (trrs_Machines (trr_Spec request)) [] [] = Inr (reqs, expl)"
    by (auto simp: tryRequest_core_def split: sum.splits)
  let ?sorted = "sortMachines c ?cands expl s" and ?gs = "groupCoLocatedItems c ?items rm"
  have ms: "\<forall>m\<in>set ?sorted \<union> snd ` set ?cands. ms_Reserve (m_Spec m) \<noteq> None"
    using reserve by (auto simp: sortMachines_set [OF fair] selectNonLockMachines_def)
  have declared: "map_of reqs (ig_ExplicitMachine g) \<noteq> None"
    if "g \<in> set ?gs" "ig_ExplicitMachine g \<noteq> []" for g
  proof -
    from groupCoLocatedItems_named [OF fair that] obtain i where
      "i \<in> set ?items" "trs_Machine (rri_Spec i) = ig_ExplicitMachine g" by blast
    moreover have "machines_declared request" using valid by (simp add: ValidateCreate_accepts)
    ultimately have "ig_ExplicitMachine g \<in> mrq_Name ` set (trrs_Machines (trr_Spec request))"
      using that(2) unfolding machines_declared_def by (metis imageI)
    then show ?thesis using collect_requests_keys [OF reqs] by blast
  qed
  from panic reqs consider
      "place_groups u c reqs ?cands ?sorted s [] ?gs = Panicked p"
    | s1 toLock where "place_groups u c reqs ?cands ?sorted s [] ?gs = Done (Inr (s1, toLock))"
        "lock_machines (request_ref request) s1 toLock = Panicked p"
    by (auto simp: tryRequest_core_def Let_def go_bind_Panicked_iff)
  then show ?thesis
  proof cases
    case 1
    show ?thesis
      by (rule place_groups_panic [OF init ms _ 1]) (use groups_all_Some [OF fair items] declared in blast)
  next
    case 2
    have "Initialized s1" using place_groups_extends(1) [OF 2(1) _ _, of UNIV] init by (simp add: extends_def)
    with 2(2) show ?thesis using lock_machines_Done by (metis go.distinct(1))
  qed
qed

text \<open>A machine whose agent reported an unreadable amount of memory.\<close>

definition demo_broken :: "(string, Machine) gomap" where
  "demo_broken =
     [(''m1'', demo_machine\<lparr>m_Status := (m_Status demo_machine)\<lparr>mst_Info :=
        map_option (mi_Memory_update (\<lambda>_. ''8 sticks'')) (mst_Info (m_Status demo_machine))\<rparr>\<rparr>)]"

theorem tryRequest_panics_witness:
  "\<exists>p. tryRequest_core demo_units demo_choices demo_status demo_request demo_resources demo_broken
     = Panicked p \<and> size_panic p"
proof -
  let ?t = "tryRequest_core demo_units demo_choices demo_status demo_request demo_resources demo_broken"
  have p: "?t = Panicked (''BytesSize(8 sticks) is invalid'')" by code_simp
  have "TestResourceRequest_ValidateCreate demo_units demo_request = None" by code_simp
  moreover have "Initialized demo_status" by code_simp
  moreover have "\<forall>i\<in>set (trrs_Items (trr_Spec demo_request)). map_of demo_resources (rri_Name i) \<noteq> None"
    by (simp add: demo_request_def demo_items_def demo_resources_def)
  moreover have "\<forall>(n, m)\<in>set demo_broken. ms_Reserve (m_Spec m) \<noteq> None"
    by (simp add: demo_broken_def demo_machine_def)
  ultimately show ?thesis using tryRequest_panics [OF fair_demo _ _ _ _ p] p by blast
qed

end
