(* ===== verification/Topology.thy ===== *)
theory Topology
  imports Resource
begin

text \<open>
  \<open>api/v1/testclustertopology_types.go\<close>: the topology of a TiDB, Flink or DM cluster under
  test, as the user writes it, and the hosts it mentions.

  A Go slice that the code compares with \<open>reflect.DeepEqual\<close> or tests with \<open>IsZero\<close> may be nil,
  which differs from empty: such slices are \<open>option\<close>s of lists.
\<close>

type_synonym 'a slice = "'a list option"

definition elems :: "'a slice \<Rightarrow> 'a list" where
  "elems s = (case s of None \<Rightarrow> [] | Some l \<Rightarrow> l)"

definition len :: "'a slice \<Rightarrow> nat" where
  "len s = length (elems s)"

lemma elems_simps [simp]: "elems None = []" "elems (Some l) = l"
  by (simp_all add: elems_def)

section \<open>TiDB clusters\<close>

datatype PatchPolicy = PatchPolicyNone | PatchPolicyReplace | PatchPolicyPatch | UnknownPatchPolicy string

datatype ClusterTopologyState =
    ClusterTopologyStateNone
  | ClusterTopologyStatePending
  | ClusterTopologyStateReady
  | ClusterTopologyStateUpdating
  | UnknownTopologyState string

record TiDBClusterVersion =
  tv_Version :: string
  tv_TiDBDownloadURL :: string
  tv_TiKVDownloadURL :: string
  tv_PDDownloadURL :: string
  tv_PatchPolicy :: PatchPolicy

record ServerConfigs =
  sc_TiDB :: string
  sc_TiKV :: string
  sc_PD :: string

record TiDBSpec =
  tidb_Host :: string
  tidb_Port :: int
  tidb_Config :: string
  tidb_StatusPort :: int
  tidb_DeployDir :: string
  tidb_LogDir :: string

record PDSpec =
  pd_Host :: string
  pd_ClientPort :: int
  pd_PeerPort :: int
  pd_Config :: string
  pd_DeployDir :: string
  pd_DataDir :: string
  pd_LogDir :: string

record TiKVSpec =
  tikv_Host :: string
  tikv_Port :: int
  tikv_StatusPort :: int
  tikv_Config :: string
  tikv_DeployDir :: string
  tikv_DataDir :: string
  tikv_LogDir :: string

record PumpSpec =
  pump_Host :: string
  pump_SSHPort :: int
  pump_Port :: int
  pump_DeployDir :: string
  pump_DataDir :: string
  pump_Config :: string

record DrainerSpec =
  drainer_Host :: string
  drainer_Config :: string
  drainer_SSHPort :: int
  drainer_Port :: int
  drainer_CommitTS :: int
  drainer_DeployDir :: string
  drainer_DataDir :: string

record PrometheusSpec =
  prom_Host :: string
  prom_Port :: int
  prom_DeployDir :: string
  prom_DataDir :: string
  prom_LogDir :: string

record TiFlashSpec =
  tiflash_Host :: string
  tiflash_TCPPort :: int
  tiflash_HTTPPort :: int
  tiflash_ServicePort :: int
  tiflash_ProxyPort :: int
  tiflash_ProxyStatusPort :: int
  tiflash_MetricsPort :: int
  tiflash_DeployDir :: string
  tiflash_DataDir :: string
  tiflash_Config :: string
  tiflash_LearnerConfig :: string
  tiflash_LogDir :: string

record GrafanaSpec =
  grafana_Host :: string
  grafana_Port :: int
  grafana_DeployDir :: string

record Global =
  global_DeployDir :: string
  global_DataDir :: string

record CDCSpec =
  cdc_Host :: string
  cdc_Port :: int
  cdc_DeployDir :: string
  cdc_LogDir :: string

record AlertManagerSpec =
  am_Host :: string
  am_WebPort :: int
  am_ClusterPort :: int
  am_DeployDir :: string
  am_DataDir :: string
  am_LogDir :: string

record HAProxy =
  hap_Host :: string
  hap_Port :: int
  hap_Version :: string
  hap_Config :: string

record TiDBCluster =
  tc_TiUPMirror :: string
  tc_UpgradePolicy :: string
  tc_Version :: TiDBClusterVersion
  tc_Global :: "Global option"
  tc_ServerConfigs :: ServerConfigs
  tc_Control :: string
  tc_HAProxy :: "HAProxy option"
  tc_TiDB :: "TiDBSpec slice"
  tc_TiKV :: "TiKVSpec slice"
  tc_PD :: "PDSpec slice"
  tc_Pump :: "PumpSpec slice"
  tc_Drainer :: "DrainerSpec slice"
  tc_Monitor :: "PrometheusSpec slice"
  tc_Grafana :: "GrafanaSpec slice"
  tc_AlertManager :: "AlertManagerSpec slice"
  tc_CDC :: "CDCSpec slice"
  tc_TiFlash :: "TiFlashSpec slice"

definition TiDBSpec_EntryID :: "TiDBSpec \<Rightarrow> string" where
  "TiDBSpec_EntryID t = tidb_Host t @ '':'' @ Itoa (tidb_Port t)"

definition PDSpec_EntryID :: "PDSpec \<Rightarrow> string" where
  "PDSpec_EntryID t = pd_Host t @ ''-'' @ Itoa (pd_ClientPort t)"

definition TiKVSpec_EntryID :: "TiKVSpec \<Rightarrow> string" where
  "TiKVSpec_EntryID t = tikv_Host t @ ''-'' @ Itoa (tikv_Port t)"

text \<open>
  \<open>AllHosts\<close> ranges over the fields of the struct by reflection and takes those named in its list.
\<close>

definition TiDBCluster_AllHosts :: "TiDBCluster \<Rightarrow> string set" where
  "TiDBCluster_AllHosts c =
     {tc_Control c} \<union>
     (case tc_HAProxy c of None \<Rightarrow> {} | Some h \<Rightarrow> {hap_Host h}) \<union>
     tidb_Host ` set (elems (tc_TiDB c)) \<union>
     tikv_Host ` set (elems (tc_TiKV c)) \<union>
     pd_Host ` set (elems (tc_PD c)) \<union>
     prom_Host ` set (elems (tc_Monitor c)) \<union>
     grafana_Host ` set (elems (tc_Grafana c)) \<union>
     cdc_Host ` set (elems (tc_CDC c)) \<union>
     tiflash_Host ` set (elems (tc_TiFlash c))"

section \<open>Flink clusters\<close>

record JobManagerSpec =
  jm_Host :: string
  jm_WebPort :: int
  jm_Config :: string

record TaskManagerSpec =
  tm_Host :: string
  tm_Config :: string

record FlinkCluster =
  fc_Version :: string
  fc_JobManager :: JobManagerSpec
  fc_TaskManager :: "TaskManagerSpec list"

definition FlinkCluster_AllHosts :: "FlinkCluster \<Rightarrow> string set" where
  "FlinkCluster_AllHosts c = {jm_Host (fc_JobManager c)} \<union> tm_Host ` set (fc_TaskManager c)"

section \<open>DM clusters\<close>

record DMServerConfigs =
  dsc_Master :: string
  dsc_Worker :: string

record MasterSpec =
  master_Host :: string
  master_Port :: int
  master_PeerPort :: int
  master_DeployDir :: string
  master_DataDir :: string
  master_Config :: string
  master_LogDir :: string

record WorkerSpec =
  worker_Host :: string
  worker_Port :: int
  worker_DeployDir :: string
  worker_DataDir :: string
  worker_LogDir :: string
  worker_Config :: string

record DMCluster =
  dm_Version :: string
  dm_Global :: "Global option"
  dm_ServerConfigs :: DMServerConfigs
  dm_Control :: string
  dm_Master :: "MasterSpec list"
  dm_Worker :: "WorkerSpec list"
  dm_AlertManager :: "AlertManagerSpec list"
  dm_Monitor :: "PrometheusSpec list"
  dm_Grafana :: "GrafanaSpec list"

definition DMCluster_AllHosts :: "DMCluster \<Rightarrow> string set" where
  "DMCluster_AllHosts c =
     {dm_Control c} \<union> master_Host ` set (dm_Master c) \<union> worker_Host ` set (dm_Worker c) \<union>
     prom_Host ` set (dm_Monitor c) \<union> grafana_Host ` set (dm_Grafana c) \<union>
     am_Host ` set (dm_AlertManager c)"

definition HAProxy_AllHosts :: "HAProxy \<Rightarrow> string set" where
  "HAProxy_AllHosts c = {hap_Host c}"

section \<open>The topology object\<close>

record TestClusterTopologySpec =
  cts_ResourceRequest :: string
  cts_TiDBCluster :: "TiDBCluster option"
  cts_FlinkCluster :: "FlinkCluster option"
  cts_DMCluster :: "DMCluster option"

record TiDBClusterInfo =
  tci_IsScaling :: bool
  tci_PendingOfflineList :: "string list"
  tci_OfflineList :: "string list"

record TestClusterTopologyStatus =
  ctst_PreTiDBCluster :: "TiDBCluster option"
  ctst_TiDBClusterInfo :: TiDBClusterInfo
  ctst_State :: ClusterTopologyState

record TestClusterTopology =
  ct_Meta :: object_meta
  ct_Spec :: TestClusterTopologySpec
  ct_Status :: TestClusterTopologyStatus

end
