(* ===== verification/Workload.thy ===== *)
theory Workload
  imports Resource
begin

text \<open>
  \<open>api/v1/testworkload_types.go\<close>, \<open>api/v1/testworkload_webhook.go\<close> and
  \<open>api/v1/procchaos_types.go\<close>: the workloads run against the clusters under test and the process
  chaos inflicted on them.
\<close>

section \<open>Workloads\<close>

datatype TestWorkloadState =
    TestWorkloadStateNone
  | TestWorkloadStatePending
  | TestWorkloadStateRunning
  | TestWorkloadStateSucceeded
  | TestWorkloadStateFailed
  | UnknownWorkloadState string

record ClusterTopologyRef =
  ctr_Name :: string
  ctr_AliasName :: string

record ResourceRequestRef =
  rrf_Name :: string
  rrf_Node :: string

record ContainerSpec =
  cs_ResourceRequest :: ResourceRequestRef
  cs_Image :: string
  cs_ImagePullPolicy :: PullImagePolicy
  cs_Command :: "string list"

record TestWorkloadItemSpec =
  wi_Name :: string
  wi_DockerContainer :: "ContainerSpec option"

record TestWorkloadSpec =
  ws_ClusterTopologiesRefs :: "ClusterTopologyRef list"
  ws_Workloads :: "TestWorkloadItemSpec list"
  ws_TeardownTestClusterTopology :: "string list"

record TestWorkloadResult =
  wr_PlainText :: string

record WorkloadStatus =
  wst_Phase :: ResourcePhase

record TestWorkloadStatus =
  twst_State :: TestWorkloadState
  twst_WorkloadStatus :: "(string, WorkloadStatus) gomap option"
  twst_Results :: "(string, TestWorkloadResult) gomap option"

record TestWorkload =
  tw_Meta :: object_meta
  tw_Spec :: TestWorkloadSpec
  tw_Status :: TestWorkloadStatus

definition workload_ref :: "TestWorkload \<Rightarrow> ref" where
  "workload_ref w = CreateRef (tw_Meta w)"

text \<open>
  The webhook parses each image reference; \<open>reference.Parse\<close> of the Docker distribution library is
  the parameter \<open>parse\<close>, the error it returns or \<open>None\<close>. A workload without a container
  dereferences a nil pointer.
\<close>

fun validateWorkload :: "(string \<Rightarrow> error option) \<Rightarrow> TestWorkloadItemSpec list \<Rightarrow> error option go" where
  "validateWorkload parse [] = Done None"
| "validateWorkload parse (workload # ws) =
     (case wi_DockerContainer workload of
        None \<Rightarrow> Panicked nil_deref
      | Some c \<Rightarrow>
          (case parse (cs_Image c) of
             Some err \<Rightarrow> Done (Some (ErrMsg (''validate image '' @ cs_Image c @ '' error: '' @ error_text err)))
           | None \<Rightarrow> validateWorkload parse ws))"

definition TestWorkload_ValidateCreate :: "(string \<Rightarrow> error option) \<Rightarrow> TestWorkload \<Rightarrow> error option go" where
  "TestWorkload_ValidateCreate parse r =
     go_bind (validateWorkload parse (ws_Workloads (tw_Spec r))) (\<lambda>err.
       Done (map_option (\<lambda>e. ErrMsg (''validate workload error: '' @ error_text e)) err))"

lemma validateWorkload_accepts:
  "validateWorkload parse ws = Done None \<longleftrightarrow>
   (\<forall>w\<in>set ws. \<exists>c. wi_DockerContainer w = Some c \<and> parse (cs_Image c) = None)"
  by (induction ws) (auto split: option.splits)

section \<open>Process chaos\<close>

record ProcChaosTask =
  pct_Pattern :: string
  pct_Nodes :: "string list"
  pct_KillAll :: bool
  pct_Period :: string

record ProcChaosState =
  pcs_KilledTime :: string
  pcs_KilledNode :: string

record ProcChaosSpec =
  pcsp_Request :: string
  pcsp_Tasks :: "ProcChaosTask list"

record ProcChaosStatus =
  pcst_States :: "ProcChaosState list"

record ProcChaos =
  pc_Meta :: object_meta
  pc_Spec :: ProcChaosSpec
  pc_Status :: ProcChaosStatus

end
