(* ===== verification/Env.thy ===== *)
theory Env
  imports Request Topology Workload
begin

text \<open>
  The world the controllers act on: the Kubernetes API server, the Docker daemons of the machines,
  SSH and SCP to the containers, the clock and the random generator.

  An action is a state transformer over the history of what the process did and saw. What the
  world answers is a parameter, the record \<open>env\<close>: each answer is a function of the history, so it
  may change between any two actions (another controller may have run in between) and may fail at
  any time. A theorem about every \<open>env\<close> and every history is one about every interleaving and
  every failure.
\<close>

section \<open>Docker's view of a container\<close>

text \<open>
  The fields of \<open>types.ContainerJSON\<close> the code reads. \<open>cj_Config\<close> is nil or holds the labels,
  which may be nil; \<open>cj_HasHostConfig\<close> is \<open>HostConfig != nil\<close>.
\<close>

record ContainerJSON =
  cj_ID :: string
  cj_Name :: string
  cj_StartedAt :: string
  cj_FinishedAt :: string
  cj_Running :: bool
  cj_Restarting :: bool
  cj_ExitCode :: int
  cj_Config :: "(string, string) gomap option option"
  cj_HasHostConfig :: bool
  cj_Networks :: "(string, string) gomap"
  cj_Ports :: "(string, string list) gomap"

section \<open>Events\<close>

datatype k8s_obj =
    KMachine Machine
  | KResource TestResource
  | KRequest TestResourceRequest
  | KRelationship Relationship
  | KTopology TestClusterTopology
  | KWorkload TestWorkload
  | KChaos ProcChaos

datatype docker_op =
    ContainerInspect string
  | ContainerCreate string ContainerConf HostConf
  | ContainerStart string
  | ContainerWait string
  | ContainerRemove string bool        \<comment> \<open>force\<close>
  | ContainerLogs string
  | NetworkConnect string string
  | ImageInspect string
  | ImagePull string
  | ContainerExec string "string list" "string list"  \<comment> \<open>environment and command\<close>

datatype event =
    Get string nsname
  | List string string                 \<comment> \<open>kind and namespace\<close>
  | Update k8s_obj "error option"
  | StatusUpdate k8s_obj "error option"
  | Create k8s_obj "error option"
  | Delete k8s_obj "error option"
  | Recorded string string string string  \<comment> \<open>object, type, reason, message\<close>
  | Docker string docker_op bool       \<comment> \<open>daemon, operation, success\<close>
  | SSH string int string bool         \<comment> \<open>host, port, command, success\<close>
  | SCP string int string string bool  \<comment> \<open>host, port, path, content, success\<close>
  | HTTP string string string bool     \<comment> \<open>URL, header fileName, body, success\<close>
  | Clock
  | Random nat

type_synonym history = "event list"

type_synonym 'a io = "(history, 'a) state"

section \<open>The answers of the world\<close>

text \<open>An unreadable key and a failed connection are errors the code only prints: they are texts.\<close>

record env =
  ask_machine :: "history \<Rightarrow> nsname \<Rightarrow> error + Machine"
  ask_resource :: "history \<Rightarrow> nsname \<Rightarrow> error + TestResource"
  ask_request :: "history \<Rightarrow> nsname \<Rightarrow> error + TestResourceRequest"
  ask_relationship :: "history \<Rightarrow> nsname \<Rightarrow> error + Relationship"
  ask_topology :: "history \<Rightarrow> nsname \<Rightarrow> error + TestClusterTopology"
  ask_workload :: "history \<Rightarrow> nsname \<Rightarrow> error + TestWorkload"
  ask_chaos :: "history \<Rightarrow> nsname \<Rightarrow> error + ProcChaos"
  ask_machines :: "history \<Rightarrow> error + Machine list"
  ask_resources :: "history \<Rightarrow> string \<Rightarrow> error + TestResource list"
  ask_write :: "history \<Rightarrow> k8s_obj \<Rightarrow> error option"
  ask_docker_client :: "history \<Rightarrow> string \<Rightarrow> string \<Rightarrow> error option"
  ask_inspect :: "history \<Rightarrow> string \<Rightarrow> string \<Rightarrow> error + ContainerJSON"
  ask_docker :: "history \<Rightarrow> string \<Rightarrow> docker_op \<Rightarrow> error option"
  ask_warnings :: "history \<Rightarrow> string \<Rightarrow> string \<Rightarrow> string list"
  ask_wait :: "history \<Rightarrow> string \<Rightarrow> string \<Rightarrow> error + int"
  ask_output :: "history \<Rightarrow> string \<Rightarrow> docker_op \<Rightarrow> error + string"
  ask_key :: "history \<Rightarrow> string option"
  ask_dial :: "history \<Rightarrow> string \<Rightarrow> int \<Rightarrow> string option"
  ask_ssh :: "history \<Rightarrow> string \<Rightarrow> int \<Rightarrow> string \<Rightarrow> string \<times> string \<times> error option"
  ask_scp :: "history \<Rightarrow> string \<Rightarrow> int \<Rightarrow> string \<Rightarrow> string \<Rightarrow> error option"
  ask_http :: "history \<Rightarrow> string \<Rightarrow> string \<Rightarrow> string \<Rightarrow> error option"
  ask_clock :: "history \<Rightarrow> int"
  ask_random :: "history \<Rightarrow> nat \<Rightarrow> nat"

section \<open>Actions\<close>

definition ask :: "(history \<Rightarrow> 'a) \<Rightarrow> ('a \<Rightarrow> event) \<Rightarrow> 'a io" where
  "ask f ev = State (\<lambda>h. (f h, h @ [ev (f h)]))"

definition is_ok :: "error + 'a \<Rightarrow> bool" where
  "is_ok r = (case r of Inl _ \<Rightarrow> False | Inr _ \<Rightarrow> True)"

definition Get_machine :: "env \<Rightarrow> nsname \<Rightarrow> (error + Machine) io" where
  "Get_machine e n = ask (\<lambda>h. ask_machine e h n) (\<lambda>_. Get ''Machine'' n)"

definition Get_resource :: "env \<Rightarrow> nsname \<Rightarrow> (error + TestResource) io" where
  "Get_resource e n = ask (\<lambda>h. ask_resource e h n) (\<lambda>_. Get ''TestResource'' n)"

definition Get_request :: "env \<Rightarrow> nsname \<Rightarrow> (error + TestResourceRequest) io" where
  "Get_request e n = ask (\<lambda>h. ask_request e h n) (\<lambda>_. Get ''TestResourceRequest'' n)"

definition Get_relationship :: "env \<Rightarrow> nsname \<Rightarrow> (error + Relationship) io" where
  "Get_relationship e n = ask (\<lambda>h. ask_relationship e h n) (\<lambda>_. Get ''Relationship'' n)"

definition Get_topology :: "env \<Rightarrow> nsname \<Rightarrow> (error + TestClusterTopology) io" where
  "Get_topology e n = ask (\<lambda>h. ask_topology e h n) (\<lambda>_. Get ''TestClusterTopology'' n)"

definition Get_workload :: "env \<Rightarrow> nsname \<Rightarrow> (error + TestWorkload) io" where
  "Get_workload e n = ask (\<lambda>h. ask_workload e h n) (\<lambda>_. Get ''TestWorkload'' n)"

definition Get_chaos :: "env \<Rightarrow> nsname \<Rightarrow> (error + ProcChaos) io" where
  "Get_chaos e n = ask (\<lambda>h. ask_chaos e h n) (\<lambda>_. Get ''ProcChaos'' n)"

definition List_machines :: "env \<Rightarrow> (error + Machine list) io" where
  "List_machines e = ask (\<lambda>h. ask_machines e h) (\<lambda>_. List ''Machine'' [])"

definition List_resources :: "env \<Rightarrow> string \<Rightarrow> (error + TestResource list) io" where
  "List_resources e ns = ask (\<lambda>h. ask_resources e h ns) (\<lambda>_. List ''TestResource'' ns)"

definition k8s_Update :: "env \<Rightarrow> k8s_obj \<Rightarrow> error option io" where
  "k8s_Update e x = ask (\<lambda>h. ask_write e h x) (Update x)"

definition k8s_StatusUpdate :: "env \<Rightarrow> k8s_obj \<Rightarrow> error option io" where
  "k8s_StatusUpdate e x = ask (\<lambda>h. ask_write e h x) (StatusUpdate x)"

definition k8s_Create :: "env \<Rightarrow> k8s_obj \<Rightarrow> error option io" where
  "k8s_Create e x = ask (\<lambda>h. ask_write e h x) (Create x)"

definition k8s_Delete :: "env \<Rightarrow> k8s_obj \<Rightarrow> error option io" where
  "k8s_Delete e x = ask (\<lambda>h. ask_write e h x) (Delete x)"

definition Event :: "string \<Rightarrow> string \<Rightarrow> string \<Rightarrow> string \<Rightarrow> unit io" where
  "Event obj type reason message = ask (\<lambda>_. ()) (\<lambda>_. Recorded obj type reason message)"

text \<open>\<open>docker.NewClient\<close> on a URL and an API version; a client is known by its URL.\<close>

definition docker_NewClient :: "env \<Rightarrow> string \<Rightarrow> string \<Rightarrow> (error + string) io" where
  "docker_NewClient e url version =
     State (\<lambda>h. (case ask_docker_client e h url version of Some err \<Rightarrow> Inl err | None \<Rightarrow> Inr url, h))"

text \<open>The Docker client of a machine, \<open>Machine.DockerClient\<close>, and its wrapper in \<open>pkg/docker-util\<close>.\<close>

definition DockerClient :: "env \<Rightarrow> Machine \<Rightarrow> (error + string) io" where
  "DockerClient e m =
     (if ms_DockerTLS (m_Spec m) then State_Monad.return (Inl (ErrMsg ''docker tls is unimplemented''))
      else docker_NewClient e (DockerURL m) (ms_DockerVersion (m_Spec m)))"

definition MakeClient :: "env \<Rightarrow> Machine \<Rightarrow> (error + string) io" where
  "MakeClient e m =
     do { r \<leftarrow> DockerClient e m;
          case r of
            Inl err \<Rightarrow> State_Monad.return (Inl err)
          | Inr rawClient \<Rightarrow> State_Monad.return (Inr rawClient) }"

definition docker_Inspect :: "env \<Rightarrow> string \<Rightarrow> string \<Rightarrow> (error + ContainerJSON) io" where
  "docker_Inspect e d name =
     ask (\<lambda>h. ask_inspect e h d name) (\<lambda>r. Docker d (ContainerInspect name) (is_ok r))"

definition docker_do :: "env \<Rightarrow> string \<Rightarrow> docker_op \<Rightarrow> error option io" where
  "docker_do e d op = ask (\<lambda>h. ask_docker e h d op) (\<lambda>r. Docker d op (r = None))"

definition docker_Create :: "env \<Rightarrow> string \<Rightarrow> string \<Rightarrow> ContainerConf \<Rightarrow> HostConf \<Rightarrow> (error + string list) io" where
  "docker_Create e d name config hostConfig =
     ask (\<lambda>h. case ask_docker e h d (ContainerCreate name config hostConfig) of
                Some err \<Rightarrow> Inl err
              | None \<Rightarrow> Inr (ask_warnings e h d name))
       (\<lambda>r. Docker d (ContainerCreate name config hostConfig) (is_ok r))"

definition docker_Wait :: "env \<Rightarrow> string \<Rightarrow> string \<Rightarrow> (error + int) io" where
  "docker_Wait e d name = ask (\<lambda>h. ask_wait e h d name) (\<lambda>r. Docker d (ContainerWait name) (is_ok r))"

definition docker_Output :: "env \<Rightarrow> string \<Rightarrow> docker_op \<Rightarrow> (error + string) io" where
  "docker_Output e d op = ask (\<lambda>h. ask_output e h d op) (\<lambda>r. Docker d op (is_ok r))"

section \<open>Runs\<close>

named_theorems io_simps \<open>runs of the actions\<close>

lemma run_ask [io_simps]: "run_state (ask f ev) h = (f h, h @ [ev (f h)])"
  by (simp add: ask_def)

lemmas action_defs [io_simps] =
  Get_machine_def Get_resource_def Get_request_def Get_relationship_def Get_topology_def
  Get_workload_def Get_chaos_def List_machines_def List_resources_def k8s_Update_def
  k8s_StatusUpdate_def k8s_Create_def k8s_Delete_def Event_def docker_NewClient_def docker_Inspect_def
  docker_do_def docker_Create_def docker_Wait_def docker_Output_def

text \<open>A client that is made has the URL of its machine, which does not ask for TLS; nothing is recorded.\<close>

lemma run_DockerClient [io_simps]:
  "run_state (DockerClient e m) h =
     (if ms_DockerTLS (m_Spec m) then Inl (ErrMsg ''docker tls is unimplemented'')
      else case ask_docker_client e h (DockerURL m) (ms_DockerVersion (m_Spec m)) of Some err \<Rightarrow> Inl err | None \<Rightarrow> Inr (DockerURL m), h)"
  by (simp add: DockerClient_def docker_NewClient_def)

lemma run_MakeClient [io_simps]: "run_state (MakeClient e m) h = run_state (DockerClient e m) h"
  by (simp add: MakeClient_def split: prod.splits sum.splits)

lemma MakeClient_made:
  "run_state (MakeClient e m) h = (Inr d, h') \<Longrightarrow> d = DockerURL m \<and> \<not> ms_DockerTLS (m_Spec m) \<and> h' = h"
  by (auto simp: io_simps split: if_splits option.splits)

section \<open>Reconcilers\<close>

record ctrl_result =
  Requeue :: bool
  RequeueAfter :: int   \<comment> \<open>nanoseconds\<close>

definition second :: int where
  "second = 1000000000"

definition no_requeue :: ctrl_result where
  "no_requeue = \<lparr>Requeue = False, RequeueAfter = 0\<rparr>"

definition requeue_now :: ctrl_result where
  "requeue_now = \<lparr>Requeue = True, RequeueAfter = 0\<rparr>"

definition requeue_after :: "int \<Rightarrow> ctrl_result" where
  "requeue_after d = \<lparr>Requeue = False, RequeueAfter = d\<rparr>"

definition requeue_both :: "int \<Rightarrow> ctrl_result" where
  "requeue_both d = \<lparr>Requeue = True, RequeueAfter = d\<rparr>"

type_synonym reconcile_result = "(ctrl_result \<times> error option) go"

definition finish :: "ctrl_result \<Rightarrow> error option \<Rightarrow> reconcile_result io" where
  "finish r err = State_Monad.return (Done (r, err))"

definition crash :: "string \<Rightarrow> 'a go io" where
  "crash p = State_Monad.return (Panicked p)"

lemma run_finish [io_simps]: "run_state (finish r err) h = (Done (r, err), h)"
  by (simp add: finish_def)

lemma run_crash [io_simps]: "run_state (crash p) h = (Panicked p, h)"
  by (simp add: crash_def)

section \<open>Finalizers\<close>

text \<open>The two guards every controller starts with, on the metadata of its object.\<close>

definition lacks_finalizer :: "string \<Rightarrow> object_meta \<Rightarrow> bool" where
  "lacks_finalizer f m \<longleftrightarrow> meta_DeletionTimestamp m = None \<and> \<not> StringsContains (meta_Finalizers m) f"

definition being_deleted :: "string \<Rightarrow> object_meta \<Rightarrow> bool" where
  "being_deleted f m \<longleftrightarrow> meta_DeletionTimestamp m \<noteq> None \<and> StringsContains (meta_Finalizers m) f"

definition add_finalizer :: "string \<Rightarrow> object_meta \<Rightarrow> object_meta" where
  "add_finalizer f m = m\<lparr>meta_Finalizers := meta_Finalizers m @ [f]\<rparr>"

definition drop_finalizer :: "string \<Rightarrow> object_meta \<Rightarrow> object_meta go" where
  "drop_finalizer f m =
     go_bind (StringsRemove (meta_Finalizers m) f) (\<lambda>fs. Done (m\<lparr>meta_Finalizers := fs\<rparr>))"

lemma drop_finalizer_present:
  "f \<in> set (meta_Finalizers m) \<Longrightarrow>
   drop_finalizer f m = Done (m\<lparr>meta_Finalizers := filter (\<lambda>x. f \<noteq> x) (meta_Finalizers m)\<rparr>)"
  by (simp add: drop_finalizer_def StringsRemove_present)

section \<open>The shared relationship object\<close>

definition relationshipName :: nsname where
  "relationshipName = \<lparr>nn_Namespace = ''default'', nn_Name = ''machine-testresource''\<rparr>"

definition zero_meta :: object_meta where
  "zero_meta = \<lparr>meta_Name = [], meta_Namespace = [], meta_UID = [], meta_DeletionTimestamp = None,
     meta_Finalizers = [], meta_Controller = None\<rparr>"

definition zero_Relationship :: Relationship where
  "zero_Relationship =
     \<lparr>rel_Meta = zero_meta,
      rel_Status = \<lparr>MachineToResources = None, ResourceToMachine = None, AcceptedRequests = None,
        MachineLocks = None\<rparr>\<rparr>"

text \<open>\<open>getRelationship\<close>, the same in three controllers: a missing object is the zero value.\<close>

definition getRelationship :: "env \<Rightarrow> (error + Relationship) io" where
  "getRelationship e =
     do { r \<leftarrow> Get_relationship e relationshipName;
          State_Monad.return (case r of
            Inl err \<Rightarrow> if IsNotFound (Some err) then Inr zero_Relationship else Inl err
          | Inr rel \<Rightarrow> Inr rel) }"

lemma run_getRelationship [io_simps]:
  "run_state (getRelationship e) h =
     ((case ask_relationship e h relationshipName of
         Inl err \<Rightarrow> if IsNotFound (Some err) then Inr zero_Relationship else Inl err
       | Inr rel \<Rightarrow> Inr rel),
      h @ [Get ''Relationship'' relationshipName])"
  by (simp add: getRelationship_def io_simps)

end
