(* ===== verification/Traces.thy ===== *)
theory Traces
  imports Env
begin

text \<open>
  Reasoning about runs: \<open>emits P m\<close> says that every run of \<open>m\<close>, from every history and whatever
  the world answers, only appends events that satisfy \<open>P\<close>. Its rules follow the structure of the
  code; the controllers' safety properties are \<open>emits\<close> facts.
\<close>

definition emits :: "(event \<Rightarrow> bool) \<Rightarrow> 'a io \<Rightarrow> bool" where
  "emits P m \<longleftrightarrow> (\<forall>h r h'. run_state m h = (r, h') \<longrightarrow> (\<exists>evs. h' = h @ evs \<and> list_all P evs))"

named_theorems emits_intros \<open>rules that follow the structure of the code\<close>

lemma emits_return [emits_intros]: "emits P (State_Monad.return x)"
  by (simp add: emits_def)

lemma emits_bind [emits_intros]:
  assumes "emits P m" "\<And>x h1 h2. run_state m h1 = (x, h2) \<Longrightarrow> emits P (f x)"
  shows "emits P (State_Monad.bind m f)"
  unfolding emits_def
proof (intro allI impI)
  fix h r h'
  assume "run_state (State_Monad.bind m f) h = (r, h')"
  then obtain x h1 where m: "run_state m h = (x, h1)" and f: "run_state (f x) h1 = (r, h')"
    by (cases "run_state m h") auto
  from assms(1) m obtain e1 where "h1 = h @ e1" "list_all P e1" unfolding emits_def by blast
  moreover from assms(2) [OF m] f obtain e2 where "h' = h1 @ e2" "list_all P e2" unfolding emits_def by blast
  ultimately show "\<exists>evs. h' = h @ evs \<and> list_all P evs" by (intro exI [of _ "e1 @ e2"]) simp
qed

lemma emits_ask: "(\<And>h. P (ev (f h))) \<Longrightarrow> emits P (ask f ev)"
  by (simp add: emits_def run_ask)

lemma emits_if [emits_intros]: "(b \<Longrightarrow> emits P m) \<Longrightarrow> (\<not> b \<Longrightarrow> emits P n) \<Longrightarrow> emits P (if b then m else n)"
  by simp

lemma emits_case_sum [emits_intros]:
  "(\<And>x. s = Inl x \<Longrightarrow> emits P (f x)) \<Longrightarrow> (\<And>y. s = Inr y \<Longrightarrow> emits P (g y)) \<Longrightarrow>
   emits P (case s of Inl x \<Rightarrow> f x | Inr y \<Rightarrow> g y)"
  by (cases s) auto

lemma emits_case_option [emits_intros]:
  "(s = None \<Longrightarrow> emits P m) \<Longrightarrow> (\<And>x. s = Some x \<Longrightarrow> emits P (f x)) \<Longrightarrow>
   emits P (case s of None \<Rightarrow> m | Some x \<Rightarrow> f x)"
  by (cases s) auto

lemma emits_case_go [emits_intros]:
  "(\<And>x. s = Done x \<Longrightarrow> emits P (f x)) \<Longrightarrow> (\<And>p. s = Panicked p \<Longrightarrow> emits P (g p)) \<Longrightarrow>
   (s = Running \<Longrightarrow> emits P m) \<Longrightarrow>
   emits P (case s of Done x \<Rightarrow> f x | Panicked p \<Rightarrow> g p | Running \<Rightarrow> m)"
  by (cases s) auto

lemma emits_case_prod [emits_intros]:
  "(\<And>x y. s = (x, y) \<Longrightarrow> emits P (f x y)) \<Longrightarrow> emits P (case s of (x, y) \<Rightarrow> f x y)"
  by (cases s) auto

lemma emits_finish [emits_intros]: "emits P (finish r err)"
  by (simp add: finish_def emits_return)

lemma emits_crash [emits_intros]: "emits P (crash p)"
  by (simp add: crash_def emits_return)

lemma emits_MakeClient [emits_intros]: "emits P (MakeClient e m)" "emits P (DockerClient e m)"
    "emits P (docker_NewClient e url version)"
  by (simp_all add: emits_def io_simps)

lemma emits_weaken: "emits P m \<Longrightarrow> (\<And>ev. P ev \<Longrightarrow> Q ev) \<Longrightarrow> emits Q m"
  unfolding emits_def by (metis list_all_iff)

text \<open>Each action emits its one event.\<close>

lemma emits_actions [emits_intros]:
  "(\<And>k n. P (Get k n)) \<Longrightarrow> emits P (Get_machine e n1)"
  "(\<And>k n. P (Get k n)) \<Longrightarrow> emits P (Get_resource e n2)"
  "(\<And>k n. P (Get k n)) \<Longrightarrow> emits P (Get_request e n3)"
  "(\<And>k n. P (Get k n)) \<Longrightarrow> emits P (Get_relationship e n4)"
  "(\<And>k n. P (Get k n)) \<Longrightarrow> emits P (Get_topology e n5)"
  "(\<And>k n. P (Get k n)) \<Longrightarrow> emits P (Get_workload e n6)"
  "(\<And>k n. P (Get k n)) \<Longrightarrow> emits P (Get_chaos e n7)"
  "(\<And>k ns. P (List k ns)) \<Longrightarrow> emits P (List_machines e)"
  "(\<And>k ns. P (List k ns)) \<Longrightarrow> emits P (List_resources e ns1)"
  "(\<And>err. P (Update x err)) \<Longrightarrow> emits P (k8s_Update e x)"
  "(\<And>err. P (StatusUpdate x err)) \<Longrightarrow> emits P (k8s_StatusUpdate e x)"
  "(\<And>err. P (Create x err)) \<Longrightarrow> emits P (k8s_Create e x)"
  "(\<And>err. P (Delete x err)) \<Longrightarrow> emits P (k8s_Delete e x)"
  "P (Recorded obj type reason message) \<Longrightarrow> emits P (Event obj type reason message)"
  "(\<And>ok. P (Docker d (ContainerInspect name) ok)) \<Longrightarrow> emits P (docker_Inspect e d name)"
  "(\<And>ok. P (Docker d op ok)) \<Longrightarrow> emits P (docker_do e d op)"
  "(\<And>ok. P (Docker d (ContainerCreate name c hc) ok)) \<Longrightarrow> emits P (docker_Create e d name c hc)"
  "(\<And>ok. P (Docker d (ContainerWait name) ok)) \<Longrightarrow> emits P (docker_Wait e d name)"
  "(\<And>ok. P (Docker d op ok)) \<Longrightarrow> emits P (docker_Output e d op)"
  by (simp_all add: action_defs emits_ask)

lemma emits_getRelationship [emits_intros]: "(\<And>k n. P (Get k n)) \<Longrightarrow> emits P (getRelationship e)"
  unfolding getRelationship_def by (intro emits_intros)

lemma emitsD: "emits P m \<Longrightarrow> run_state m h = (r, h @ evs) \<Longrightarrow> ev \<in> set evs \<Longrightarrow> P ev"
  unfolding emits_def by (metis list_all_iff same_append_eq)

lemma emits_run: "emits P m \<Longrightarrow> run_state m h = (r, h1) \<Longrightarrow> \<exists>evs. h1 = h @ evs"
  unfolding emits_def by blast

text \<open>The first action of a run, and what is left of it.\<close>

lemma run_bindE:
  assumes "run_state (State_Monad.bind m f) h = (r, h')"
  obtains x h1 where "run_state m h = (x, h1)" "run_state (f x) h1 = (r, h')"
  using assms by (cases "run_state m h") auto

section \<open>Ordering\<close>

text \<open>
  \<open>always P m h\<close>: in the run of \<open>m\<close> from \<open>h\<close>, every event satisfies \<open>P\<close> together with the
  history it was appended to. This is what a property of the order of events is stated with.
\<close>

definition always :: "(history \<Rightarrow> event \<Rightarrow> bool) \<Rightarrow> 'a io \<Rightarrow> history \<Rightarrow> bool" where
  "always P m h \<longleftrightarrow>
     (\<forall>r h'. run_state m h = (r, h') \<longrightarrow>
        (\<exists>evs. h' = h @ evs \<and> (\<forall>pre ev post. evs = pre @ ev # post \<longrightarrow> P (h @ pre) ev)))"

named_theorems always_intros \<open>rules that follow the structure of the code\<close>

lemma always_return [always_intros]: "always P (State_Monad.return x) h"
  by (simp add: always_def)

lemma always_bind [always_intros]:
  assumes "always P m h" "\<And>x h1. run_state m h = (x, h1) \<Longrightarrow> always P (f x) h1"
  shows "always P (State_Monad.bind m f) h"
  unfolding always_def
proof (intro allI impI)
  fix r h'
  assume "run_state (State_Monad.bind m f) h = (r, h')"
  then obtain x h1 where m: "run_state m h = (x, h1)" and f: "run_state (f x) h1 = (r, h')"
    by (cases "run_state m h") auto
  from assms(1) m obtain e1 where e1: "h1 = h @ e1"
    "\<forall>pre ev post. e1 = pre @ ev # post \<longrightarrow> P (h @ pre) ev" unfolding always_def by blast
  from assms(2) [OF m] f obtain e2 where e2: "h' = h1 @ e2"
    "\<forall>pre ev post. e2 = pre @ ev # post \<longrightarrow> P (h1 @ pre) ev" unfolding always_def by blast
  have "P (h @ pre) ev" if "e1 @ e2 = pre @ ev # post" for pre ev post
  proof (cases "length pre < length e1")
    case True
    with that have "e1 = pre @ ev # drop (Suc (length pre)) e1"
      by (metis append_eq_append_conv_if append_take_drop_id Cons_nth_drop_Suc nth_append nth_append_length not_less_iff_gr_or_eq order_less_imp_le)
    with e1(2) show ?thesis by blast
  next
    case False
    with that obtain q where "pre = e1 @ q" "e2 = q @ ev # post"
      by (auto simp: append_eq_append_conv2 append_eq_Cons_conv)
    with e1(1) e2(2) show ?thesis by simp
  qed
  then show "\<exists>evs. h' = h @ evs \<and> (\<forall>pre ev post. evs = pre @ ev # post \<longrightarrow> P (h @ pre) ev)"
    using e1(1) e2(1) by (intro exI [of _ "e1 @ e2"]) auto
qed

lemma always_ask: "P h (ev (f h)) \<Longrightarrow> always P (ask f ev) h"
  by (auto simp: always_def run_ask append_eq_Cons_conv Cons_eq_append_conv)

lemma always_if [always_intros]:
  "(b \<Longrightarrow> always P m h) \<Longrightarrow> (\<not> b \<Longrightarrow> always P n h) \<Longrightarrow> always P (if b then m else n) h"
  by simp

lemma always_case_sum [always_intros]:
  "(\<And>x. s = Inl x \<Longrightarrow> always P (f x) h) \<Longrightarrow> (\<And>y. s = Inr y \<Longrightarrow> always P (g y) h) \<Longrightarrow>
   always P (case s of Inl x \<Rightarrow> f x | Inr y \<Rightarrow> g y) h"
  by (cases s) auto

lemma always_case_option [always_intros]:
  "(s = None \<Longrightarrow> always P m h) \<Longrightarrow> (\<And>x. s = Some x \<Longrightarrow> always P (f x) h) \<Longrightarrow>
   always P (case s of None \<Rightarrow> m | Some x \<Rightarrow> f x) h"
  by (cases s) auto

lemma always_case_go [always_intros]:
  "(\<And>x. s = Done x \<Longrightarrow> always P (f x) h) \<Longrightarrow> (\<And>p. s = Panicked p \<Longrightarrow> always P (g p) h) \<Longrightarrow>
   (s = Running \<Longrightarrow> always P m h) \<Longrightarrow>
   always P (case s of Done x \<Rightarrow> f x | Panicked p \<Rightarrow> g p | Running \<Rightarrow> m) h"
  by (cases s) auto

lemma always_case_prod [always_intros]:
  "(\<And>x y. s = (x, y) \<Longrightarrow> always P (f x y) h) \<Longrightarrow> always P (case s of (x, y) \<Rightarrow> f x y) h"
  by (cases s) auto

lemma always_finish [always_intros]: "always P (finish r err) h"
  by (simp add: finish_def always_return)

lemma always_crash [always_intros]: "always P (crash p) h"
  by (simp add: crash_def always_return)

lemma always_emits: "emits Q m \<Longrightarrow> (\<And>ev h. Q ev \<Longrightarrow> P h ev) \<Longrightarrow> always P m h"
  unfolding emits_def always_def by (metis in_set_conv_decomp list_all_iff)

lemma emits_always: "emits P m \<longleftrightarrow> (\<forall>h. always (\<lambda>_. P) m h)"
  unfolding emits_def always_def by (metis in_set_conv_decomp list_all_iff)

lemma always_MakeClient [always_intros]: "always P (MakeClient e m) h" "always P (DockerClient e m) h"
  by (simp_all add: always_def io_simps)

lemma always_actions [always_intros]:
  "P h (Get ''Machine'' n1) \<Longrightarrow> always P (Get_machine e n1) h"
  "P h (Get ''TestResource'' n2) \<Longrightarrow> always P (Get_resource e n2) h"
  "P h (Get ''TestResourceRequest'' n3) \<Longrightarrow> always P (Get_request e n3) h"
  "P h (Get ''Relationship'' n4) \<Longrightarrow> always P (Get_relationship e n4) h"
  "P h (Get ''TestClusterTopology'' n5) \<Longrightarrow> always P (Get_topology e n5) h"
  "P h (Get ''TestWorkload'' n6) \<Longrightarrow> always P (Get_workload e n6) h"
  "P h (Get ''ProcChaos'' n7) \<Longrightarrow> always P (Get_chaos e n7) h"
  "P h (List ''Machine'' []) \<Longrightarrow> always P (List_machines e) h"
  "P h (List ''TestResource'' ns1) \<Longrightarrow> always P (List_resources e ns1) h"
  "P h (Update x (ask_write e h x)) \<Longrightarrow> always P (k8s_Update e x) h"
  "P h (StatusUpdate x (ask_write e h x)) \<Longrightarrow> always P (k8s_StatusUpdate e x) h"
  "P h (Create x (ask_write e h x)) \<Longrightarrow> always P (k8s_Create e x) h"
  "P h (Delete x (ask_write e h x)) \<Longrightarrow> always P (k8s_Delete e x) h"
  "P h (Recorded obj type reason message) \<Longrightarrow> always P (Event obj type reason message) h"
  "(\<And>ok. P h (Docker d (ContainerInspect name) ok)) \<Longrightarrow> always P (docker_Inspect e d name) h"
  "(\<And>ok. P h (Docker d op ok)) \<Longrightarrow> always P (docker_do e d op) h"
  "(\<And>ok. P h (Docker d (ContainerCreate name c hc) ok)) \<Longrightarrow> always P (docker_Create e d name c hc) h"
  "(\<And>ok. P h (Docker d (ContainerWait name) ok)) \<Longrightarrow> always P (docker_Wait e d name) h"
  "(\<And>ok. P h (Docker d op ok)) \<Longrightarrow> always P (docker_Output e d op) h"
  by (simp_all add: action_defs always_ask)

text \<open>The last event of a run that did something.\<close>

lemma always_last:
  assumes "always P m h" "snd (run_state m h) \<noteq> h"
  shows "P (butlast (snd (run_state m h))) (last (snd (run_state m h)))"
proof -
  obtain r h' where run: "run_state m h = (r, h')" by fastforce
  with assms(1) obtain evs where evs: "h' = h @ evs" "\<forall>pre ev post. evs = pre @ ev # post \<longrightarrow> P (h @ pre) ev"
    unfolding always_def by blast
  with assms(2) run have "evs = butlast evs @ last evs # []" by auto
  with evs have "P (h @ butlast evs) (last evs)" by blast
  with assms(2) run evs(1) show ?thesis by (auto simp: butlast_append)
qed

lemma always_getRelationship [always_intros]:
  "P h (Get ''Relationship'' relationshipName) \<Longrightarrow> always P (getRelationship e) h"
  unfolding getRelationship_def by (intro always_intros)

section \<open>Containers that are taken away\<close>

text \<open>
  Since the history had length \<open>n\<close>, the container \<open>name\<close> on the daemon \<open>d\<close> has been removed by
  force, or the daemon was asked and answered that there is none or showed one that is not to be
  touched, because \<open>mine\<close> does not hold of it.
\<close>

definition taken_away :: "env \<Rightarrow> nat \<Rightarrow> string \<Rightarrow> string \<Rightarrow> (ContainerJSON \<Rightarrow> bool) \<Rightarrow> history \<Rightarrow> bool" where
  "taken_away e n d name mine h \<longleftrightarrow>
     (\<exists>h1 h2. h = h1 @ Docker d (ContainerRemove name True) True # h2 \<and> n \<le> length h1) \<or>
     (\<exists>h1 h2 ok. h = h1 @ Docker d (ContainerInspect name) ok # h2 \<and> n \<le> length h1 \<and>
        (case ask_inspect e h1 d name of Inl x \<Rightarrow> IsErrDockerNotFound x | Inr info \<Rightarrow> \<not> mine info))"

lemma taken_away_removed:
  "n \<le> length h1 \<Longrightarrow> taken_away e n d name mine (h1 @ Docker d (ContainerRemove name True) True # h2)"
  unfolding taken_away_def by blast

lemma taken_away_absent:
  "n \<le> length h1 \<Longrightarrow> (case ask_inspect e h1 d name of Inl x \<Rightarrow> IsErrDockerNotFound x | Inr info \<Rightarrow> \<not> mine info) \<Longrightarrow>
   taken_away e n d name mine (h1 @ Docker d (ContainerInspect name) ok # h2)"
  unfolding taken_away_def by blast

lemma taken_away_later: "taken_away e n d name mine h \<Longrightarrow> taken_away e n d name mine (h @ evs)"
  unfolding taken_away_def by (metis append.assoc append_Cons)

text \<open>The three controllers that take a container away look first and then remove it.\<close>

lemma inspect_then_remove:
  assumes "run_state (do { c \<leftarrow> docker_Inspect e d name;
      case c of Inl x \<Rightarrow> State_Monad.return (if \<not> IsErrDockerNotFound x then Some x else None)
      | Inr info \<Rightarrow> if \<not> mine info then State_Monad.return None else docker_do e d (ContainerRemove name True) }) h1 = (None, h2)"
    and "n \<le> length h1"
  shows "taken_away e n d name mine h2"
proof (cases "case ask_inspect e h1 d name of Inl x \<Rightarrow> IsErrDockerNotFound x | Inr info \<Rightarrow> \<not> mine info")
  case True
  with assms(1) have "h2 = h1 @ Docker d (ContainerInspect name) (is_ok (ask_inspect e h1 d name)) # []"
    by (auto simp: io_simps split: sum.splits if_splits)
  then show ?thesis using taken_away_absent [OF assms(2) True] by metis
next
  case False
  with assms(1) have "h2 = (h1 @ [Docker d (ContainerInspect name) True]) @ Docker d (ContainerRemove name True) True # []"
    by (auto simp: io_simps is_ok_def split: sum.splits if_splits)
  then show ?thesis using assms(2) by (simp only: taken_away_removed length_append le_add1 trans_le_add1)
qed

end
