(* ===== verification/Docker.thy ===== *)
theory Docker
  imports Traces
begin

text \<open>
  \<open>pkg/docker-util\<close> and \<open>pkg/container\<close>: pulling images, running a container until it has
  started, executing it to the end, and the configurations of Naglfar's own containers.

  \<open>Run\<close> loops until the container is up. The model has fuel and gives \<open>Running\<close> when it is used
  up; \<open>Run_returns\<close> shows that three rounds are enough with a daemon that shows what it did.
\<close>

section \<open>pkg/docker-util\<close>

definition TimeIsZero :: "string \<Rightarrow> bool" where
  "TimeIsZero timeStr = (time_Parse timeStr = Some 0)"

definition PullImageByPolicy :: "env \<Rightarrow> string \<Rightarrow> string \<Rightarrow> PullImagePolicy \<Rightarrow> error option io" where
  "PullImageByPolicy e d img policy =
     do { err \<leftarrow> docker_do e d (ImageInspect img);
          if err = None \<and> policy \<noteq> PullPolicyAlways then State_Monad.return None
          else if (case err of None \<Rightarrow> False | Some x \<Rightarrow> \<not> IsErrDockerNotFound x) then State_Monad.return err
          else do { out \<leftarrow> docker_Output e d (ImagePull img);
                    State_Monad.return (case out of Inl x \<Rightarrow> Some x | Inr _ \<Rightarrow> None) } }"

definition Exec :: "env \<Rightarrow> string \<Rightarrow> string \<Rightarrow> string list \<Rightarrow> string list \<Rightarrow> (error + string) io" where
  "Exec e d name envs cmd = docker_Output e d (ContainerExec name envs cmd)"

definition Logs :: "env \<Rightarrow> string \<Rightarrow> string \<Rightarrow> (error + string) io" where
  "Logs e d container = docker_Output e d (ContainerLogs container)"

record RunOptions =
  ro_Policy :: PullImagePolicy
  ro_Config :: ContainerConf
  ro_HostConfig :: HostConf

fun Run_loop :: "env \<Rightarrow> string \<Rightarrow> string \<Rightarrow> RunOptions \<Rightarrow> nat \<Rightarrow> (error + ContainerJSON) go io" where
  "Run_loop e d name options 0 = State_Monad.return Running"
| "Run_loop e d name options (Suc fuel) =
     do { stat \<leftarrow> docker_Inspect e d name;
          case stat of
            Inl err \<Rightarrow>
              if \<not> IsErrDockerNotFound err then State_Monad.return (Done (Inl err))
              else do { resp \<leftarrow> docker_Create e d name (ro_Config options) (ro_HostConfig options);
                        case resp of
                          Inl err \<Rightarrow> State_Monad.return (Done (Inl err))
                        | Inr _ \<Rightarrow> Run_loop e d name options fuel }
          | Inr stat \<Rightarrow>
              if TimeIsZero (cj_StartedAt stat)
              then do { err \<leftarrow> docker_do e d (ContainerStart name);
                        case err of
                          Some err \<Rightarrow> State_Monad.return (Done (Inl err))
                        | None \<Rightarrow> Run_loop e d name options fuel }
              else State_Monad.return (Done (Inr stat)) }"

definition Run :: "env \<Rightarrow> nat \<Rightarrow> string \<Rightarrow> string \<Rightarrow> string \<Rightarrow> RunOptions \<Rightarrow> (error + ContainerJSON) go io" where
  "Run e fuel d name img options =
     (let options = (if ro_Policy options = PullPolicyNone
                     then options\<lparr>ro_Policy := PullPolicyIfNotPresent\<rparr> else options)
      in do { err \<leftarrow> PullImageByPolicy e d img (ro_Policy options);
              case err of
                Some err \<Rightarrow> State_Monad.return (Done (Inl err))
              | None \<Rightarrow> Run_loop e d name options fuel })"

definition JustExec :: "env \<Rightarrow> nat \<Rightarrow> string \<Rightarrow> string \<Rightarrow> string \<Rightarrow> RunOptions \<Rightarrow> (error + string) go io" where
  "JustExec e fuel d name img options =
     do { res \<leftarrow> Run e fuel d name img options;
          case res of
            Panicked p \<Rightarrow> State_Monad.return (Panicked p)
          | Running \<Rightarrow> State_Monad.return Running
          | Done (Inl err) \<Rightarrow> State_Monad.return (Done (Inl err))
          | Done (Inr stat) \<Rightarrow>
              do { code \<leftarrow> docker_Wait e d (cj_ID stat);
                   case code of
                     Inl err \<Rightarrow> State_Monad.return (Done (Inl err))
                   | Inr exitCode \<Rightarrow>
                       if exitCode \<noteq> 0
                       then State_Monad.return (Done (Inl (ErrMsg (''container '' @ cj_ID stat @ '' exit with '' @ Itoa exitCode))))
                       else do { out \<leftarrow> Logs e d (cj_Name stat);
                                 case out of
                                   Inl err \<Rightarrow> State_Monad.return (Done (Inl err))
                                 | Inr stdout \<Rightarrow>
                                     do { err \<leftarrow> docker_do e d (ContainerRemove (cj_ID stat) True);
                                          State_Monad.return (Done (case err of Some x \<Rightarrow> Inl x | None \<Rightarrow> Inr stdout)) } } } }"

section \<open>pkg/container\<close>

definition ChaosDaemon :: string where "ChaosDaemon = ''chaos-daemon''"
definition ChaosDaemonPort :: string where "ChaosDaemonPort = ''31767/tcp''"
definition ChaosDaemonImage :: string where "ChaosDaemonImage = ''docker.io/pingcap/chaos-daemon:v1.0.2''"
definition LockerLabel :: string where "LockerLabel = ''locker''"

definition ChaosDaemonCfg :: "string \<Rightarrow> ContainerConf \<times> HostConf" where
  "ChaosDaemonCfg locker =
     (zero_Conf\<lparr>cc_Image := ChaosDaemonImage,
        cc_Cmd := [''/usr/local/bin/chaos-daemon'', ''--runtime'', ''docker''],
        cc_Labels := [(LockerLabel, locker)], cc_ExposedPorts := [ChaosDaemonPort]\<rparr>,
      zero_HostConf\<lparr>hc_Mounts := map (\<lambda>m. \<lparr>mnt_Type = TypeBind, mnt_Source = m, mnt_Target = m, mnt_ReadOnly = False\<rparr>)
          [''/var/run/docker.sock'', ''/sys''],
        hc_PublishAllPorts := True,
        hc_CapAdd := [''SYS_PTRACE'', ''NET_ADMIN'', ''MKNOD'', ''SYS_CHROOT'', ''SYS_ADMIN'', ''KILL'', ''IPC_LOCK'']\<rparr>)"

definition MachineStatImage :: string where "MachineStatImage = ''docker.io/alexeiled/nsenter''"
definition MachineStat :: string where "MachineStat = ''naglfar-machine-stat''"

text \<open>The script is looked up in the box packed into the binary; \<open>script\<close> is its content, if found.\<close>

definition MachineStatCfg :: "(error + string) \<Rightarrow> (ContainerConf \<times> HostConf) go" where
  "MachineStatCfg script =
     (case script of
        Inl err \<Rightarrow> Panicked (''fail to find os-stat.sh: '' @ error_text err)
      | Inr osStatScript \<Rightarrow>
          Done (zero_Conf\<lparr>cc_Image := MachineStatImage,
                  cc_Cmd := [''-m'', ''--target'', ''1'', ''--'', ''sh'', ''-c'', osStatScript]\<rparr>,
                zero_HostConf\<lparr>hc_Privileged := True, hc_PidMode := ''host''\<rparr>))"

definition UploadDaemon :: string where "UploadDaemon = ''upload-daemon''"
definition UploadDaemonImage :: string where "UploadDaemonImage = ''docker.io/pingcapqe/upload-daemon:latest''"
definition UploadPath :: string where "UploadPath = ''/var/naglfar/lib''"
definition UploadDaemonInternalPort :: int where "UploadDaemonInternalPort = 6666"
definition UploadDaemonExternalPort :: int where "UploadDaemonExternalPort = 31234"

definition UploadDaemonCfg :: "string \<Rightarrow> ContainerConf \<times> HostConf" where
  "UploadDaemonCfg upload =
     (zero_Conf\<lparr>cc_Image := UploadDaemonImage\<rparr>,
      zero_HostConf\<lparr>hc_PortBindings := [(Itoa UploadDaemonInternalPort @ ''/tcp'', [(''0.0.0.0'', Itoa UploadDaemonExternalPort)])],
        hc_Binds := [UploadPath @ '':'' @ UploadPath], hc_Mounts := [], hc_PublishAllPorts := True,
        hc_RestartPolicy := ''always''\<rparr>)"

section \<open>The loop of Run ends\<close>

text \<open>
  What is relied on of the daemon: a container it has just created exists, and one it has just
  started has a start time.
\<close>

definition daemon_shows :: "env \<Rightarrow> string \<Rightarrow> string \<Rightarrow> bool" where
  "daemon_shows e d name \<longleftrightarrow>
     (\<forall>h c hc. case ask_inspect e (h @ [Docker d (ContainerCreate name c hc) True]) d name of
        Inl err \<Rightarrow> \<not> IsErrDockerNotFound err | Inr _ \<Rightarrow> True) \<and>
     (\<forall>h. case ask_inspect e (h @ [Docker d (ContainerStart name) True]) d name of
        Inl err \<Rightarrow> \<not> IsErrDockerNotFound err | Inr stat \<Rightarrow> \<not> TimeIsZero (cj_StartedAt stat))"

lemma Run_loop_started:
  assumes "daemon_shows e d name"
  shows "\<exists>r h'. run_state (Run_loop e d name options (Suc fuel)) (h @ [Docker d (ContainerStart name) True]) = (Done r, h')"
proof -
  have "case ask_inspect e (h @ [Docker d (ContainerStart name) True]) d name of
        Inl err \<Rightarrow> \<not> IsErrDockerNotFound err | Inr stat \<Rightarrow> \<not> TimeIsZero (cj_StartedAt stat)"
    using assms by (simp add: daemon_shows_def)
  then show ?thesis by (auto simp: io_simps split: sum.splits)
qed

lemma Run_loop_created:
  assumes "daemon_shows e d name"
  shows "\<exists>r h'. run_state (Run_loop e d name options (Suc (Suc fuel)))
           (h @ [Docker d (ContainerCreate name c hc) True]) = (Done r, h')"
proof -
  let ?h = "h @ [Docker d (ContainerCreate name c hc) True]"
  have ins: "case ask_inspect e ?h d name of Inl err \<Rightarrow> \<not> IsErrDockerNotFound err | Inr _ \<Rightarrow> True"
    using assms by (simp add: daemon_shows_def)
  show ?thesis
  proof (cases "ask_inspect e ?h d name")
    case (Inl err)
    with ins show ?thesis by (simp add: io_simps)
  next
    case (Inr stat)
    let ?h1 = "?h @ [Docker d (ContainerInspect name) True]"
    show ?thesis
    proof (cases "TimeIsZero (cj_StartedAt stat) \<and> ask_docker e ?h1 d (ContainerStart name) = None")
      case True
      then show ?thesis
        using Inr Run_loop_started [OF assms, of options fuel ?h1] by (simp add: io_simps is_ok_def)
    next
      case False
      with Inr show ?thesis by (auto simp: io_simps is_ok_def split: option.splits)
    qed
  qed
qed

lemma Run_loop_returns:
  assumes "daemon_shows e d name"
  shows "\<exists>r h'. run_state (Run_loop e d name options (Suc (Suc (Suc fuel)))) h = (Done r, h')"
proof (cases "ask_inspect e h d name")
  case (Inl err)
  let ?h1 = "h @ [Docker d (ContainerInspect name) False]"
  show ?thesis
  proof (cases "IsErrDockerNotFound err \<and> ask_docker e ?h1 d (ContainerCreate name (ro_Config options) (ro_HostConfig options)) = None")
    case True
    then show ?thesis
      using Inl Run_loop_created [OF assms, of options fuel ?h1 "ro_Config options" "ro_HostConfig options"]
      by (simp add: io_simps is_ok_def del: Run_loop.simps(2)) (simp add: io_simps is_ok_def)
  next
    case False
    with Inl show ?thesis by (auto simp: io_simps is_ok_def split: option.splits)
  qed
next
  case (Inr stat)
  let ?h1 = "h @ [Docker d (ContainerInspect name) True]"
  show ?thesis
  proof (cases "TimeIsZero (cj_StartedAt stat) \<and> ask_docker e ?h1 d (ContainerStart name) = None")
    case True
    then show ?thesis
      using Inr Run_loop_started [OF assms, of options "Suc fuel" ?h1] by (simp add: io_simps is_ok_def)
  next
    case False
    with Inr show ?thesis by (auto simp: io_simps is_ok_def split: option.splits)
  qed
qed

lemma Run_loop_started_result:
  "run_state (Run_loop e d name options fuel) h = (Done (Inr stat), h') \<Longrightarrow> \<not> TimeIsZero (cj_StartedAt stat)"
  by (induction fuel arbitrary: h) (auto simp: io_simps split: sum.splits option.splits if_splits)

text \<open>The container \<open>Run\<close> returns is one the daemon showed as started.\<close>

lemma Run_loop_inspected:
  "run_state (Run_loop e d name options fuel) h = (Done (Inr stat), h') \<Longrightarrow>
   \<exists>h1. ask_inspect e h1 d name = Inr stat \<and> \<not> TimeIsZero (cj_StartedAt stat)"
proof (induction fuel arbitrary: h)
  case 0
  then show ?case by simp
next
  case (Suc fuel)
  then show ?case
    by (auto simp: io_simps split: sum.splits option.splits if_splits)
qed

lemma Run_inspected:
  "run_state (Run e fuel d name img options) h = (Done (Inr stat), h') \<Longrightarrow>
   \<exists>h1. ask_inspect e h1 d name = Inr stat \<and> \<not> TimeIsZero (cj_StartedAt stat)"
  by (auto simp: Run_def Let_def split: prod.splits option.splits dest: Run_loop_inspected)

text \<open>C20: \<open>Run\<close> returns within three rounds, and a container it returns without an error has been
  started, provided the daemon shows a container it created and the start time of one it started.\<close>

theorem Run_returns:
  assumes "daemon_shows e d name" "3 \<le> fuel"
  shows "\<exists>r h'. run_state (Run e fuel d name img options) h = (Done r, h') \<and>
    (\<forall>stat. r = Inr stat \<longrightarrow> \<not> TimeIsZero (cj_StartedAt stat))"
proof -
  obtain n where n: "fuel = Suc (Suc (Suc n))"
    using assms(2) by (metis Suc_le_D numeral_3_eq_3 Suc_le_mono)
  define opts where "opts = (if ro_Policy options = PullPolicyNone
     then options\<lparr>ro_Policy := PullPolicyIfNotPresent\<rparr> else options)"
  obtain err h1 where pull: "run_state (PullImageByPolicy e d img (ro_Policy opts)) h = (err, h1)"
    by (metis surj_pair)
  obtain r h' where loop: "run_state (Run_loop e d name opts fuel) h1 = (Done r, h')"
    using Run_loop_returns [OF assms(1)] n by metis
  have run: "run_state (Run e fuel d name img options) h =
      (case err of Some x \<Rightarrow> (Done (Inl x), h1) | None \<Rightarrow> (Done r, h'))"
    using pull loop by (simp add: Run_def opts_def [symmetric] split: option.splits)
  show ?thesis
    using run Run_loop_started_result [of e d name opts fuel h1 _ h'] loop by (cases err) auto
qed

section \<open>Only Docker is touched\<close>

lemma emits_PullImageByPolicy [emits_intros]:
  "(\<And>d op ok. P (Docker d op ok)) \<Longrightarrow> emits P (PullImageByPolicy e d img policy)"
  unfolding PullImageByPolicy_def by (intro emits_intros)

lemma emits_Run_loop [emits_intros]:
  assumes "\<And>d op ok. P (Docker d op ok)"
  shows "emits P (Run_loop e d name options fuel)"
proof (induction fuel)
  case 0
  then show ?case by (simp add: emits_intros)
next
  case (Suc fuel)
  show ?case unfolding Run_loop.simps by (intro emits_intros assms Suc)
qed

lemma emits_Run [emits_intros]:
  "(\<And>d op ok. P (Docker d op ok)) \<Longrightarrow> emits P (Run e fuel d name img options)"
  unfolding Run_def Let_def by (intro emits_intros)

lemma emits_Logs [emits_intros]: "(\<And>d op ok. P (Docker d op ok)) \<Longrightarrow> emits P (Logs e d c)"
  unfolding Logs_def by (intro emits_intros)

lemma emits_Exec [emits_intros]: "(\<And>d op ok. P (Docker d op ok)) \<Longrightarrow> emits P (Exec e d name envs cmd)"
  unfolding Exec_def by (intro emits_intros)

lemma emits_JustExec [emits_intros]:
  "(\<And>d op ok. P (Docker d op ok)) \<Longrightarrow> emits P (JustExec e fuel d name img options)"
  unfolding JustExec_def by (intro emits_intros)

end
