(* ===== verification/Demo_World.thy ===== *)
theory Demo_World
  imports Docker Demo
begin

text \<open>
  A world for the examples: an API server that stores nothing but accepts every write, and a
  Docker daemon that shows what it did.
\<close>

definition started :: "history \<Rightarrow> string \<Rightarrow> bool" where
  "started h name \<longleftrightarrow>
     list_ex (\<lambda>ev. case ev of Docker _ (ContainerStart n) ok \<Rightarrow> ok \<and> n = name | _ \<Rightarrow> False) h"

definition created :: "history \<Rightarrow> string \<Rightarrow> bool" where
  "created h name \<longleftrightarrow>
     list_ex (\<lambda>ev. case ev of Docker _ (ContainerCreate n _ _) ok \<Rightarrow> ok \<and> n = name | _ \<Rightarrow> False) h"

definition demo_container :: "string \<Rightarrow> bool \<Rightarrow> ContainerJSON" where
  "demo_container name up =
     \<lparr>cj_ID = name, cj_Name = name,
      cj_StartedAt = (if up then ''2020-10-30T08:15:02Z'' else ''0001-01-01T00:00:00Z''),
      cj_FinishedAt = ''0001-01-01T00:00:00Z'', cj_Running = up, cj_Restarting = False,
      cj_ExitCode = 0, cj_Config = Some (Some [(LockerLabel, ''u1'')]), cj_HasHostConfig = True,
      cj_Networks = [(''naglfar-overlay'', ''10.1.0.7'')],
      cj_Ports = [(''31767/tcp'', [''88'']), (''6666/tcp'', [''89'']), (''22/tcp'', [''90''])]\<rparr>"

definition demo_env :: env where
  "demo_env =
     \<lparr>ask_machine = (\<lambda>h n. Inr demo_machine),
      ask_resource = (\<lambda>h n. Inl (ErrNotFound (nn_Name n))),
      ask_request = (\<lambda>h n. Inr demo_request),
      ask_relationship = (\<lambda>h n. Inr \<lparr>rel_Meta = demo_meta (nn_Name n) ''u0'', rel_Status = demo_status\<rparr>),
      ask_topology = (\<lambda>h n. Inl (ErrNotFound (nn_Name n))),
      ask_workload = (\<lambda>h n. Inl (ErrNotFound (nn_Name n))),
      ask_chaos = (\<lambda>h n. Inl (ErrNotFound (nn_Name n))),
      ask_machines = (\<lambda>h. Inr [demo_machine]),
      ask_resources = (\<lambda>h ns. Inr []),
      ask_write = (\<lambda>h x. None),
      ask_docker_client = (\<lambda>h u v. None),
      ask_inspect = (\<lambda>h d name. if created h name \<or> started h name
         then Inr (demo_container name (started h name))
         else Inl (ErrDockerNotFound name)),
      ask_docker = (\<lambda>h d op. None),
      ask_warnings = (\<lambda>h d name. []),
      ask_wait = (\<lambda>h d name. Inr 0),
      ask_output = (\<lambda>h d op. Inr []),
      ask_key = (\<lambda>h. None),
      ask_dial = (\<lambda>h host port. None),
      ask_ssh = (\<lambda>h host port cmd. ([], [], None)),
      ask_scp = (\<lambda>h host port path content. None),
      ask_http = (\<lambda>h url name body. None),
      ask_clock = (\<lambda>h. 0),
      ask_random = (\<lambda>h n. 0)\<rparr>"

lemma demo_env_simps [simp]:
  "ask_write demo_env h x = None"
  "ask_docker demo_env h d op = None"
  "ask_docker_client demo_env h u v = None"
  "ask_relationship demo_env h n = Inr \<lparr>rel_Meta = demo_meta (nn_Name n) ''u0'', rel_Status = demo_status\<rparr>"
  "ask_request demo_env h n = Inr demo_request"
  "ask_machine demo_env h n = Inr demo_machine"
  "ask_machines demo_env h = Inr [demo_machine]"
  by (simp_all add: demo_env_def)

lemma demo_shows: "daemon_shows demo_env d name"
  by (simp add: daemon_shows_def demo_env_def created_def started_def demo_container_def) code_simp

theorem Run_returns_witness:
  "\<exists>r h'. run_state (Run demo_env 3 ''tcp://10.0.0.1:2375'' ChaosDaemon ChaosDaemonImage
       \<lparr>ro_Policy = PullPolicyNone, ro_Config = zero_Conf, ro_HostConfig = zero_HostConf\<rparr>) [] = (Done r, h') \<and>
     (\<forall>stat. r = Inr stat \<longrightarrow> \<not> TimeIsZero (cj_StartedAt stat))"
  by (rule Run_returns [OF demo_shows]) simp

end
