(* ===== verification/Request_Controller.thy ===== *)
theory Request_Controller
  imports NoPanic Demo_World
begin

text \<open>
  \<open>controllers/testresourcerequest_controller.go\<close>: the handlers around the placement of
  \<open>Scheduler\<close>. A request creates its resources, asks for a place for all of them at once, becomes
  ready when all have one, and on deletion removes its resources, its acceptance and its locks.
\<close>

definition requestFinalizer :: string where
  "requestFinalizer = ''testresourcerequest.naglfar.pingcap.com''"

definition apiGVStr :: string where
  "apiGVStr = ''naglfar.pingcap.com/v1''"

text \<open>The field index of resources by their owning request, set up in \<open>SetupWithManager\<close>.\<close>

definition owner_index :: "TestResource \<Rightarrow> string list" where
  "owner_index resource =
     (case meta_Controller (tr_Meta resource) of
        None \<Rightarrow> []
      | Some owner \<Rightarrow>
          if or_APIVersion owner \<noteq> apiGVStr \<or> or_Kind owner \<noteq> ''TestResourceRequest'' then []
          else [or_Name owner])"

definition listResources :: "env \<Rightarrow> TestResourceRequest \<Rightarrow> (error + TestResource list) io" where
  "listResources e request = List_resources e (meta_Namespace (trr_Meta request))"

definition listOwnedResources :: "env \<Rightarrow> TestResourceRequest \<Rightarrow> (error + TestResource list) io" where
  "listOwnedResources e request =
     do { r \<leftarrow> List_resources e (meta_Namespace (trr_Meta request));
          State_Monad.return (case r of
            Inl err \<Rightarrow> Inl err
          | Inr items \<Rightarrow> Inr (filter (\<lambda>tr. meta_Name (trr_Meta request) \<in> set (owner_index tr)) items)) }"

fun removeAllResources :: "env \<Rightarrow> TestResource list \<Rightarrow> error option io" where
  "removeAllResources e [] = State_Monad.return None"
| "removeAllResources e (resource # rs) =
     do { err \<leftarrow> k8s_Delete e (KResource resource);
          if IgnoreNotFound err \<noteq> None then State_Monad.return err else removeAllResources e rs }"

definition getMachines :: "env \<Rightarrow> (error + (string, Machine) gomap) io" where
  "getMachines e =
     do { r \<leftarrow> List_machines e;
          State_Monad.return (case r of Inl err \<Rightarrow> Inl err | Inr items \<Rightarrow> Inr (getMachines_book items)) }"

section \<open>tryRequest\<close>

definition tryRequest ::
  "env \<Rightarrow> units \<Rightarrow> choices \<Rightarrow> Relationship \<Rightarrow> TestResourceRequest \<Rightarrow> (string, TestResource) gomap
     \<Rightarrow> reconcile_result io" where
  "tryRequest e u c rel request resourceMap =
     do { r \<leftarrow> getMachines e;
          case r of
            Inl err \<Rightarrow> finish no_requeue (Some err)
          | Inr machines \<Rightarrow>
              (case tryRequest_core u c (rel_Status rel) request resourceMap machines of
                 Panicked p \<Rightarrow> crash p
               | Running \<Rightarrow> State_Monad.return Running
               | Done (TryFailed err) \<Rightarrow> finish no_requeue (Some err)
               | Done (TryLater message) \<Rightarrow>
                   do { Event (meta_Name (trr_Meta request)) ''Warning'' ''Request'' message;
                        finish (requeue_after (10 * second)) None }
               | Done (TryAccepted s) \<Rightarrow>
                   do { err \<leftarrow> k8s_StatusUpdate e (KRelationship (rel\<lparr>rel_Status := s\<rparr>));
                        finish no_requeue err }) }"

section \<open>Pending requests\<close>

text \<open>The loop over the resources of the namespace: the first foreign one ends it.\<close>

fun scan_resources ::
  "string \<Rightarrow> TestResource list \<Rightarrow> (string, TestResource) gomap \<Rightarrow> nat \<Rightarrow> string + ((string, TestResource) gomap \<times> nat)" where
  "scan_resources uid [] resourceMap requiredCount = Inr (resourceMap, requiredCount)"
| "scan_resources uid (item # items) resourceMap requiredCount =
     (case meta_Controller (tr_Meta item) of
        None \<Rightarrow> Inl (tr_Name item)
      | Some owner \<Rightarrow>
          if or_UID owner \<noteq> uid then Inl (tr_Name item)
          else scan_resources uid items (AList.update (tr_Name item) item resourceMap)
                 (if IsRequired (tr_State item) then requiredCount + 1 else requiredCount))"

text \<open>
  \<open>ctrl.SetControllerReference\<close> of controller-runtime is a parameter: the object with its new
  owner, or an error.
\<close>

type_synonym set_controller = "TestResourceRequest \<Rightarrow> TestResource \<Rightarrow> error + TestResource"

fun create_missing ::
  "env \<Rightarrow> set_controller \<Rightarrow> TestResourceRequest \<Rightarrow> (string, TestResource) gomap \<Rightarrow> ResourceRequestItem list
     \<Rightarrow> reconcile_result io" where
  "create_missing e setref request resourceMap [] = finish (requeue_after second) None"
| "create_missing e setref request resourceMap (item # items) =
     (if map_of resourceMap (rri_Name item) \<noteq> None then create_missing e setref request resourceMap items
      else (case setref request (ConstructTestResource request item) of
              Inl err \<Rightarrow> finish (requeue_after (10 * second)) None
            | Inr tr \<Rightarrow>
                do { err \<leftarrow> k8s_Create e (KResource tr);
                     if err \<noteq> None \<and> \<not> IsAlreadyExists err then finish no_requeue err
                     else create_missing e setref request resourceMap items }))"

definition reconcilePending ::
  "env \<Rightarrow> units \<Rightarrow> choices \<Rightarrow> set_controller \<Rightarrow> TestResourceRequest \<Rightarrow> reconcile_result io" where
  "reconcilePending e u c setref request =
     do { r \<leftarrow> listResources e request;
          case r of
            Inl err \<Rightarrow> finish no_requeue (Some err)
          | Inr resources \<Rightarrow>
              (case scan_resources (meta_UID (trr_Meta request)) resources [] 0 of
                 Inl name \<Rightarrow>
                   do { Event (meta_Name (trr_Meta request)) ''Warning'' ''Request'' (''there exists old resource named: '' @ name);
                        finish (requeue_after (10 * second)) None }
               | Inr (resourceMap, requiredCount) \<Rightarrow>
           do { r2 \<leftarrow> listOwnedResources e request;
                case r2 of
                  Inl err \<Rightarrow> finish no_requeue (Some err)
                | Inr _ \<Rightarrow>
                    if length resourceMap \<noteq> length (trrs_Items (trr_Spec request))
                    then create_missing e setref request resourceMap (trrs_Items (trr_Spec request))
                    else if requiredCount = length (trrs_Items (trr_Spec request))
                    then do { err \<leftarrow> k8s_StatusUpdate e (KRequest (request\<lparr>trr_Status := \<lparr>trrst_State = TestResourceRequestReady\<rparr>\<rparr>));
                              finish no_requeue None }
                    else do { rel \<leftarrow> getRelationship e;
                              case rel of
                                Inl err \<Rightarrow> finish no_requeue (Some err)
                              | Inr rel \<Rightarrow>
                                  if \<not> IfExist (AcceptedRequests (rel_Status rel)) (request_ref request)
                                  then tryRequest e u c rel request resourceMap
                                  else finish (requeue_after second) None } }) }"

definition reconcileReady :: "env \<Rightarrow> TestResourceRequest \<Rightarrow> reconcile_result io" where
  "reconcileReady e request = finish no_requeue None"

section \<open>Deletion\<close>

text \<open>The acceptance of the request and its locks are taken out of the relationship.\<close>

definition forget_request :: "ref \<Rightarrow> RelationshipStatus \<Rightarrow> RelationshipStatus" where
  "forget_request self s =
     (let s = s\<lparr>AcceptedRequests := Remove (AcceptedRequests s) self\<rparr>;
          toCleanMachineKeys = map fst (filter (\<lambda>(machine, r). r = self) (nil_entries (MachineLocks s)))
      in s\<lparr>MachineLocks := foldl nil_del (MachineLocks s) toCleanMachineKeys\<rparr>)"

definition reconcileDeletion :: "env \<Rightarrow> TestResourceRequest \<Rightarrow> reconcile_result io" where
  "reconcileDeletion e request =
     do { r \<leftarrow> listOwnedResources e request;
          case r of
            Inl err \<Rightarrow> finish no_requeue (Some err)
          | Inr resources \<Rightarrow>
     do { err \<leftarrow> removeAllResources e resources;
          case err of
            Some x \<Rightarrow> finish no_requeue (Some x)
          | None \<Rightarrow>
              if resources \<noteq> [] then finish (requeue_after second) None
              else do { rel \<leftarrow> getRelationship e;
                case rel of
                  Inl err \<Rightarrow> finish no_requeue (Some err)
                | Inr rel \<Rightarrow>
           do { err \<leftarrow> k8s_StatusUpdate e (KRelationship (rel\<lparr>rel_Status := forget_request (request_ref request) (rel_Status rel)\<rparr>));
                case err of
                  Some x \<Rightarrow> finish no_requeue (Some x)
                | None \<Rightarrow>
                    (case drop_finalizer requestFinalizer (trr_Meta request) of
                       Panicked p \<Rightarrow> crash p
                     | Running \<Rightarrow> State_Monad.return Running
                     | Done meta \<Rightarrow>
                         do { err \<leftarrow> k8s_Update e (KRequest (request\<lparr>trr_Meta := meta\<rparr>));
                              finish no_requeue err }) } } } }"

definition Request_Reconcile ::
  "env \<Rightarrow> units \<Rightarrow> choices \<Rightarrow> set_controller \<Rightarrow> nsname \<Rightarrow> reconcile_result io" where
  "Request_Reconcile e u c setref req =
     do { r \<leftarrow> Get_request e req;
          case r of
            Inl err \<Rightarrow> finish no_requeue (IgnoreNotFound (Some err))
          | Inr request \<Rightarrow>
              if lacks_finalizer requestFinalizer (trr_Meta request)
              then do { err \<leftarrow> k8s_Update e (KRequest (request\<lparr>trr_Meta := add_finalizer requestFinalizer (trr_Meta request)\<rparr>));
                        finish no_requeue err }
              else if being_deleted requestFinalizer (trr_Meta request) then reconcileDeletion e request
              else (case trrst_State (trr_Status request) of
                      RequestStateNone \<Rightarrow>
                        do { err \<leftarrow> k8s_StatusUpdate e (KRequest (request\<lparr>trr_Status := \<lparr>trrst_State = TestResourceRequestPending\<rparr>\<rparr>));
                             finish (if err = None then requeue_now else no_requeue) err }
                    | TestResourceRequestPending \<Rightarrow> reconcilePending e u c setref request
                    | TestResourceRequestReady \<Rightarrow> reconcileReady e request
                    | UnknownRequestState _ \<Rightarrow> finish no_requeue None) }"

end
