(* ===== verification/Request_Props.thy ===== *)
theory Request_Props
  imports Request_Controller
begin

text \<open>
  Properties of the request controller: what it may write to the relationship, when a request is
  declared ready, and the order of its deletion.
\<close>

section \<open>Writes to the relationship\<close>

text \<open>
  Either the complete result of an admission that has not happened yet, or the removal of the
  request; nothing else, in particular no part of an admission that failed.
\<close>

definition rel_write :: "env \<Rightarrow> units \<Rightarrow> choices \<Rightarrow> nsname \<Rightarrow> event \<Rightarrow> bool" where
  "rel_write e u c req ev \<longleftrightarrow>
     (\<forall>rel' err. ev = StatusUpdate (KRelationship rel') err \<longrightarrow>
       (\<exists>h0 h1 request rel. ask_request e h0 req = Inr request \<and>
          (ask_relationship e h1 relationshipName = Inr rel \<or> rel = zero_Relationship) \<and>
          ((\<exists>h2 ms rm s. ask_machines e h2 = Inr ms \<and>
              tryRequest_core u c (rel_Status rel) request rm (getMachines_book ms) = Done (TryAccepted s) \<and>
              \<not> IfExist (AcceptedRequests (rel_Status rel)) (request_ref request) \<and>
              rel' = rel\<lparr>rel_Status := s\<rparr>) \<or>
           meta_DeletionTimestamp (trr_Meta request) \<noteq> None \<and>
           rel' = rel\<lparr>rel_Status := forget_request (request_ref request) (rel_Status rel)\<rparr>)))"

lemma rel_write_other: "(\<And>rel err. ev \<noteq> StatusUpdate (KRelationship rel) err) \<Longrightarrow> rel_write e u c req ev"
  by (simp add: rel_write_def)

lemma rel_write_accept:
  assumes "ask_request e h0 req = Inr request"
    and "ask_relationship e h1 relationshipName = Inr rel \<or> rel = zero_Relationship"
    and "ask_machines e h2 = Inr ms"
    and "tryRequest_core u c (rel_Status rel) request rm (getMachines_book ms) = Done (TryAccepted s)"
    and "\<not> IfExist (AcceptedRequests (rel_Status rel)) (request_ref request)"
  shows "rel_write e u c req (StatusUpdate (KRelationship (rel\<lparr>rel_Status := s\<rparr>)) err)"
  unfolding rel_write_def event.inject k8s_obj.inject using assms by metis

lemma rel_write_forget:
  assumes "ask_request e h0 req = Inr request" "meta_DeletionTimestamp (trr_Meta request) \<noteq> None"
    and "ask_relationship e h1 relationshipName = Inr rel \<or> rel = zero_Relationship"
  shows "rel_write e u c req (StatusUpdate (KRelationship (rel\<lparr>rel_Status := forget_request (request_ref request) (rel_Status rel)\<rparr>)) err)"
  unfolding rel_write_def event.inject k8s_obj.inject using assms by metis

lemma emits_listResources [emits_intros]: "(\<And>k n. P (List k n)) \<Longrightarrow> emits P (listResources e r)"
  unfolding listResources_def by (intro emits_intros)

lemma emits_listOwnedResources [emits_intros]: "(\<And>k n. P (List k n)) \<Longrightarrow> emits P (listOwnedResources e r)"
  unfolding listOwnedResources_def by (intro emits_intros)

lemma emits_getMachines [emits_intros]: "(\<And>k n. P (List k n)) \<Longrightarrow> emits P (getMachines e)"
  unfolding getMachines_def by (intro emits_intros)

lemma emits_removeAllResources [emits_intros]:
  assumes "\<And>x err. P (Delete x err)"
  shows "emits P (removeAllResources e rs)"
proof (induction rs)
  case Nil
  then show ?case by (simp add: emits_intros)
next
  case (Cons r rs)
  show ?case unfolding removeAllResources.simps by (intro emits_intros assms Cons)
qed

lemma emits_create_missing [emits_intros]:
  assumes "\<And>x err. P (Create x err)"
  shows "emits P (create_missing e setref request rm items)"
proof (induction items)
  case Nil
  then show ?case by (simp add: emits_intros)
next
  case (Cons i items)
  show ?case unfolding create_missing.simps by (intro emits_intros assms Cons)
qed

lemma emits_case_try [emits_intros]:
  "(\<And>err. t = TryFailed err \<Longrightarrow> emits P (f err)) \<Longrightarrow> (\<And>m. t = TryLater m \<Longrightarrow> emits P (g m)) \<Longrightarrow>
   (\<And>s. t = TryAccepted s \<Longrightarrow> emits P (k s)) \<Longrightarrow>
   emits P (case t of TryFailed err \<Rightarrow> f err | TryLater m \<Rightarrow> g m | TryAccepted s \<Rightarrow> k s)"
  by (cases t) auto

lemma getMachines_answer:
  "run_state (getMachines e) h = (Inr machines, h') \<Longrightarrow> \<exists>ms. ask_machines e h = Inr ms \<and> machines = getMachines_book ms"
  by (auto simp: getMachines_def io_simps split: sum.splits)

lemma relationship_answer:
  "run_state (getRelationship e) h1 = (Inr rel, h2) \<Longrightarrow>
   ask_relationship e h1 relationshipName = Inr rel \<or> rel = zero_Relationship"
  by (auto simp: io_simps split: sum.splits if_splits)

lemma request_answer: "run_state (Get_request e req) h1 = (Inr r, h2) \<Longrightarrow> ask_request e h1 req = Inr r"
  by (simp add: io_simps)

lemma tryRequest_writes:
  assumes "ask_request e h0 req = Inr request"
    and "ask_relationship e h1 relationshipName = Inr rel \<or> rel = zero_Relationship"
    and "\<not> IfExist (AcceptedRequests (rel_Status rel)) (request_ref request)"
  shows "emits (rel_write e u c req) (tryRequest e u c rel request rm)"
  unfolding tryRequest_def
  by (intro emits_intros)
     (auto intro: rel_write_other dest!: getMachines_answer intro!: rel_write_accept [OF assms(1,2) _ _ assms(3)])

lemma pending_writes:
  assumes "ask_request e h0 req = Inr request"
  shows "emits (rel_write e u c req) (reconcilePending e u c setref request)"
  unfolding reconcilePending_def
  by (intro emits_intros tryRequest_writes [OF assms]) (auto intro: rel_write_other dest: relationship_answer)

lemma deletion_writes:
  assumes "ask_request e h0 req = Inr request" "meta_DeletionTimestamp (trr_Meta request) \<noteq> None"
  shows "emits (rel_write e u c req) (reconcileDeletion e request)"
  unfolding reconcileDeletion_def
  by (intro emits_intros) (auto intro: rel_write_other rel_write_forget [OF assms] dest!: relationship_answer)

lemma reconcile_rel_writes: "emits (rel_write e u c req) (Request_Reconcile e u c setref req)"
proof -
  have states: "emits (rel_write e u c req) (case trrst_State (trr_Status request) of
          RequestStateNone \<Rightarrow>
            do { err \<leftarrow> k8s_StatusUpdate e (KRequest (request\<lparr>trr_Status := \<lparr>trrst_State = TestResourceRequestPending\<rparr>\<rparr>));
                 finish (if err = None then requeue_now else no_requeue) err }
        | TestResourceRequestPending \<Rightarrow> reconcilePending e u c setref request
        | TestResourceRequestReady \<Rightarrow> reconcileReady e request
        | UnknownRequestState _ \<Rightarrow> finish no_requeue None)" if "ask_request e h0 req = Inr request" for h0 request
    using pending_writes [OF that]
    by (cases "trrst_State (trr_Status request)")
       (auto simp: reconcileReady_def intro!: emits_intros intro: rel_write_other)
  show ?thesis
    unfolding Request_Reconcile_def
    by (intro emits_intros)
       (auto intro: rel_write_other states deletion_writes dest!: request_answer simp: being_deleted_def)
qed

section \<open>When a request is ready\<close>

lemma scan_resources_Inr:
  assumes "scan_resources uid items rm n = Inr (rm', n')" "gm_wf rm"
  shows "\<forall>x\<in>set items. \<exists>owner. meta_Controller (tr_Meta x) = Some owner \<and> or_UID owner = uid"
    and "n' = n + length (filter (\<lambda>x. IsRequired (tr_State x)) items)"
    and "gm_wf rm'"
    and "gm_keys rm' = gm_keys rm \<union> tr_Name ` set items"
  using assms
  by (induction items arbitrary: rm n)
     (auto simp: gm_keys_update split: option.splits if_splits, (metis add_Suc gm_wf_update)+)

text \<open>
  \<open>all_placed e request\<close>: in one listing of the namespace of the request every resource belongs
  to the request, there are as many as it has items, and as many have a place. The controller does
  not compare names. When they are those of the items, which they are until an update of the
  request renames one, every item has its resource, and this has a place.
\<close>

definition item_placed :: "TestResource list \<Rightarrow> ResourceRequestItem \<Rightarrow> bool" where
  "item_placed resources item \<longleftrightarrow> (\<exists>x\<in>set resources. tr_Name x = rri_Name item \<and> IsRequired (tr_State x))"

definition all_placed :: "env \<Rightarrow> TestResourceRequest \<Rightarrow> bool" where
  "all_placed e request \<longleftrightarrow>
     (\<exists>h resources. ask_resources e h (meta_Namespace (trr_Meta request)) = Inr resources \<and>
        (\<forall>x\<in>set resources. \<exists>owner. meta_Controller (tr_Meta x) = Some owner \<and> or_UID owner = meta_UID (trr_Meta request)) \<and>
        card (tr_Name ` set resources) = length (trrs_Items (trr_Spec request)) \<and>
        length (filter (\<lambda>x. IsRequired (tr_State x)) resources) = length (trrs_Items (trr_Spec request)) \<and>
        (distinct (map tr_Name resources) \<longrightarrow> (\<forall>x\<in>set resources. IsRequired (tr_State x))) \<and>
        (distinct (map tr_Name resources) \<and> tr_Name ` set resources \<subseteq> rri_Name ` set (trrs_Items (trr_Spec request)) \<longrightarrow>
           (\<forall>item\<in>set (trrs_Items (trr_Spec request)). item_placed resources item)))"

definition ready_when_placed :: "env \<Rightarrow> nsname \<Rightarrow> event \<Rightarrow> bool" where
  "ready_when_placed e req ev \<longleftrightarrow>
     (\<forall>r err. ev = StatusUpdate (KRequest r) err \<and> trrst_State (trr_Status r) = TestResourceRequestReady \<longrightarrow>
       (\<exists>h0 request. ask_request e h0 req = Inr request \<and>
          r = request\<lparr>trr_Status := \<lparr>trrst_State = TestResourceRequestReady\<rparr>\<rparr> \<and> all_placed e request))"

lemma ready_other: "(\<And>r err. ev \<noteq> StatusUpdate (KRequest r) err) \<Longrightarrow> ready_when_placed e req ev"
  by (simp add: ready_when_placed_def)

lemma ready_pending_state:
  "ready_when_placed e req (StatusUpdate (KRequest (request\<lparr>trr_Status := \<lparr>trrst_State = TestResourceRequestPending\<rparr>\<rparr>)) err)"
  by (simp add: ready_when_placed_def)

lemma ready_placed:
  assumes "ask_request e h0 req = Inr request" "all_placed e request"
  shows "ready_when_placed e req (StatusUpdate (KRequest (request\<lparr>trr_Status := \<lparr>trrst_State = TestResourceRequestReady\<rparr>\<rparr>)) err)"
  unfolding ready_when_placed_def event.inject k8s_obj.inject using assms by metis

lemma listed_all_placed:
  assumes "card (f ` set xs) = length is" "length (filter P xs) = length is" "distinct (map f xs)" "x \<in> set xs"
  shows "P x"
proof -
  from assms(1,3) have "length xs = length is" by (metis distinct_card length_map set_map)
  with assms(2) have "filter P xs = xs" by (metis filter_id_conv length_filter_less linorder_not_le order_refl)
  with assms(4) show ?thesis by (simp add: filter_id_conv)
qed

lemma counted_onto:
  assumes "card (f ` set xs) = length is" "f ` set xs \<subseteq> g ` set is" "i \<in> set is"
  shows "g i \<in> f ` set xs"
proof -
  have "card (g ` set is) \<le> card (f ` set xs)" using assms(1) card_length [of "map g is"] by simp
  with assms(2) have "f ` set xs = g ` set is" by (intro card_seteq) simp_all
  with assms(3) show ?thesis by simp
qed

lemma scanned_all_placed:
  assumes "run_state (listResources e request) h = (Inr resources, h')"
    and "scan_resources (meta_UID (trr_Meta request)) resources [] 0 = Inr (rm, n)"
    and "length rm = length (trrs_Items (trr_Spec request))" "n = length (trrs_Items (trr_Spec request))"
  shows "all_placed e request"
proof -
  let ?items = "trrs_Items (trr_Spec request)" and ?required = "\<lambda>x. IsRequired (tr_State x)"
  from assms(1) have ask: "ask_resources e h (meta_Namespace (trr_Meta request)) = Inr resources"
    by (simp add: listResources_def io_simps)
  note scan = scan_resources_Inr [OF assms(2), simplified]
  have "card (gm_keys rm) = length rm" using scan(3) by (metis distinct_card distinct_map length_map set_map list.map_id distinct.simps(1) list.simps(8))
  with scan assms(3,4) have counts: "card (tr_Name ` set resources) = length ?items" "length (filter ?required resources) = length ?items"
    by auto
  note all = listed_all_placed [OF counts] and onto = counted_onto [OF counts(1)]
  have "item_placed resources item"
    if "distinct (map tr_Name resources)" "tr_Name ` set resources \<subseteq> rri_Name ` set ?items" "item \<in> set ?items" for item
    using onto [OF that(2,3)] all [OF that(1)] unfolding item_placed_def by force
  then show ?thesis
    unfolding all_placed_def
    by (intro exI [of _ h] exI [of _ resources] conjI impI ballI ask counts scan(1) [rule_format] all) auto
qed

lemma tryRequest_not_ready: "emits (ready_when_placed e req) (tryRequest e u c rel request rm)"
  unfolding tryRequest_def by (intro emits_intros) (auto intro: ready_other)

lemma pending_ready:
  assumes "ask_request e h0 req = Inr request"
  shows "emits (ready_when_placed e req) (reconcilePending e u c setref request)"
  unfolding reconcilePending_def
  by (intro emits_intros tryRequest_not_ready)
     (auto intro: ready_other ready_placed [OF assms] scanned_all_placed)

lemma deletion_not_ready: "emits (ready_when_placed e req) (reconcileDeletion e request)"
  unfolding reconcileDeletion_def by (intro emits_intros) (auto intro: ready_other)

text \<open>C21: a request is declared ready only when, in one listing of its namespace, every resource
  belongs to it, the names are as many as its items and the resources that have a place are as many.
  In a listing of distinct names, every resource then has a place; and when these are names of
  items, as they are until an update renames one, every item has its own resource with a place.\<close>

theorem request_ready: "emits (ready_when_placed e req) (Request_Reconcile e u c setref req)"
proof -
  have states: "emits (ready_when_placed e req) (case trrst_State (trr_Status request) of
          RequestStateNone \<Rightarrow>
            do { err \<leftarrow> k8s_StatusUpdate e (KRequest (request\<lparr>trr_Status := \<lparr>trrst_State = TestResourceRequestPending\<rparr>\<rparr>));
                 finish (if err = None then requeue_now else no_requeue) err }
        | TestResourceRequestPending \<Rightarrow> reconcilePending e u c setref request
        | TestResourceRequestReady \<Rightarrow> reconcileReady e request
        | UnknownRequestState _ \<Rightarrow> finish no_requeue None)" if "ask_request e h0 req = Inr request" for h0 request
    using pending_ready [OF that]
    by (cases "trrst_State (trr_Status request)")
       (auto simp: reconcileReady_def intro!: emits_intros intro: ready_pending_state)
  show ?thesis
    unfolding Request_Reconcile_def
    by (intro emits_intros) (auto intro: ready_other states deletion_not_ready dest!: request_answer)
qed

section \<open>Deletion\<close>

lemma nil_get_foldl_del: "nil_get (foldl nil_del m ks) j = (if j \<in> set ks then None else nil_get m j)"
  by (induction ks arbitrary: m) (auto simp: nil_get_del)

lemma forget_request_frame:
  "resources_on (forget_request self s) mk = resources_on s mk"
  "ResourceToMachine (forget_request self s) = ResourceToMachine s"
  "IfExist (AcceptedRequests (forget_request self s)) r \<longleftrightarrow> r \<noteq> self \<and> IfExist (AcceptedRequests s) r"
  by (simp_all add: forget_request_def Let_def resources_on_def IfExist_Remove)

lemma forget_request_locks:
  assumes "\<And>al. MachineLocks s = Some al \<Longrightarrow> gm_wf al"
  shows "nil_get (MachineLocks (forget_request self s)) k =
    (if nil_get (MachineLocks s) k = Some self then None else nil_get (MachineLocks s) k)"
proof -
  have "k \<in> fst ` {(machine, r) \<in> set (nil_entries (MachineLocks s)). r = self} \<longleftrightarrow> nil_get (MachineLocks s) k = Some self"
    using assms by (cases "MachineLocks s") (force simp: nil_entries_def nil_get_def)+
  then show ?thesis by (simp add: forget_request_def Let_def nil_get_foldl_del case_prod_beta')
qed

text \<open>Forgetting a request takes exactly its acceptance and its locks out of the relationship:
  the acceptances and the locks of the other requests and all placements stay.\<close>

lemma forget_request_exact:
  assumes "\<And>al. MachineLocks s = Some al \<Longrightarrow> gm_wf al"
  shows "(\<forall>r. IfExist (AcceptedRequests (forget_request self s)) r \<longleftrightarrow> r \<noteq> self \<and> IfExist (AcceptedRequests s) r) \<and>
    (\<forall>k. nil_get (MachineLocks (forget_request self s)) k =
       (if nil_get (MachineLocks s) k = Some self then None else nil_get (MachineLocks s) k)) \<and>
    MachineToResources (forget_request self s) = MachineToResources s \<and>
    ResourceToMachine (forget_request self s) = ResourceToMachine s"
  using forget_request_locks [OF assms] by (simp add: forget_request_frame) (simp add: forget_request_def Let_def)

text \<open>
  The write that lets a deleted request go: just before it the relationship without the request
  was written, and no resource of the request was left in the namespace.
\<close>

definition forgotten_first :: "env \<Rightarrow> history \<Rightarrow> event \<Rightarrow> bool" where
  "forgotten_first e h ev \<longleftrightarrow>
     (\<forall>r err. ev = Update (KRequest r) err \<and> requestFinalizer \<notin> set (meta_Finalizers (trr_Meta r)) \<longrightarrow>
       (\<exists>h0 h1 h2 rel items.
          h = h0 @ [StatusUpdate (KRelationship (rel\<lparr>rel_Status := forget_request (request_ref r) (rel_Status rel)\<rparr>)) None] \<and>
          (ask_relationship e h1 relationshipName = Inr rel \<or> rel = zero_Relationship) \<and>
          ask_resources e h2 (meta_Namespace (trr_Meta r)) = Inr items \<and>
          (\<forall>x\<in>set items. meta_Name (trr_Meta r) \<notin> set (owner_index x))))"

lemma forgotten_other: "(\<And>r err. ev \<noteq> Update (KRequest r) err) \<Longrightarrow> forgotten_first e h ev"
  by (auto simp: forgotten_first_def)

lemma forgotten_added:
  "forgotten_first e h (Update (KRequest (r\<lparr>trr_Meta := add_finalizer requestFinalizer (trr_Meta r)\<rparr>)) err)"
  by (simp add: forgotten_first_def add_finalizer_def)

lemma listOwned_empty:
  assumes "run_state (listOwnedResources e r) h = (Inr [], h')"
  shows "\<exists>items. ask_resources e h (meta_Namespace (trr_Meta r)) = Inr items \<and>
    (\<forall>x\<in>set items. meta_Name (trr_Meta r) \<notin> set (owner_index x))"
  using assms by (auto simp: listOwnedResources_def io_simps filter_empty_conv split: sum.splits)

lemma forgotten_last:
  assumes "drop_finalizer requestFinalizer (trr_Meta r) = Done meta"
    and "run_state (listOwnedResources e r) h0 = (Inr [], h1)"
    and "run_state (getRelationship e) h2 = (Inr rel, h3)"
    and "run_state (k8s_StatusUpdate e (KRelationship (rel\<lparr>rel_Status := forget_request (request_ref r) (rel_Status rel)\<rparr>))) h3 = (None, h4)"
  shows "forgotten_first e h4 (Update (KRequest (r\<lparr>trr_Meta := meta\<rparr>)) err)"
proof -
  have same: "request_ref (r\<lparr>trr_Meta := meta\<rparr>) = request_ref r"
    "meta_Namespace meta = meta_Namespace (trr_Meta r)" "meta_Name meta = meta_Name (trr_Meta r)"
    using assms(1) by (auto simp: drop_finalizer_def request_ref_def CreateRef_def)
  have "h4 = h3 @ [StatusUpdate (KRelationship (rel\<lparr>rel_Status := forget_request (request_ref r) (rel_Status rel)\<rparr>)) None]"
    using assms(4) by (auto simp: io_simps)
  with listOwned_empty [OF assms(2)] relationship_answer [OF assms(3)] show ?thesis
    unfolding forgotten_first_def event.inject k8s_obj.inject
    by (metis same TestResourceRequest.select_convs(1) TestResourceRequest.update_convs(1) TestResourceRequest.surjective)
qed

lemma deletion_forgets: "always (forgotten_first e) (reconcileDeletion e request) h"
proof -
  have silent: "always (forgotten_first e) (listOwnedResources e r) h" "always (forgotten_first e) (removeAllResources e rs) h" for r rs h
    by (rule always_emits [where Q = "\<lambda>ev. \<forall>x err. ev \<noteq> Update x err"]; (intro emits_intros)?; simp add: forgotten_other)+
  show ?thesis
    unfolding reconcileDeletion_def
    by (intro always_intros silent) (auto intro: forgotten_other forgotten_last)
qed


end
