(* ===== verification/Machine_Controller.thy ===== *)
theory Machine_Controller
  imports Demo_World
begin

text \<open>
  \<open>controllers/relationship_controller.go\<close> and \<open>controllers/machine_controller.go\<close>: the
  relationship object is initialised, and a machine is locked for this Naglfar system, measured,
  given its upload daemon, and released again when it is deleted.
\<close>

section \<open>The relationship controller\<close>

definition Relationship_Reconcile :: "env \<Rightarrow> nsname \<Rightarrow> reconcile_result io" where
  "Relationship_Reconcile e req =
     do { r \<leftarrow> Get_relationship e req;
          case r of
            Inl err \<Rightarrow> finish no_requeue (IgnoreNotFound (Some err))
          | Inr relation \<Rightarrow>
              if needs_init (rel_Status relation)
              then do { err \<leftarrow> k8s_StatusUpdate e (KRelationship (relation\<lparr>rel_Status := initialize (rel_Status relation)\<rparr>));
                        finish no_requeue None }
              else finish no_requeue None }"

section \<open>Machine information\<close>

text \<open>
  What \<open>json.Unmarshal\<close> makes of the output of the statistics script: the struct it filled as far
  as it got, or nil for the JSON null; its error is only logged. \<open>script\<close> is the packed script box.
\<close>

record machine_libs =
  ml_units :: units
  ml_script :: "string \<Rightarrow> error + string"
  ml_json :: "string \<Rightarrow> MachineInfo option"

fun normalize_devices ::
  "units \<Rightarrow> (string, StorageDevice) gomap \<Rightarrow> (string, StorageDevice) gomap \<Rightarrow> error + (string, StorageDevice) gomap" where
  "normalize_devices u [] devices = Inr devices"
| "normalize_devices u ((path, device) # rest) devices =
     (case ToSize u (sd_Total device) of
        Inl err \<Rightarrow> Inl err
      | Inr totalSize \<Rightarrow>
          (case ToSize u (sd_Used device) of
             Inl err \<Rightarrow> Inl err
           | Inr usedSize \<Rightarrow>
               normalize_devices u rest
                 (AList.update path (device\<lparr>sd_Total := Size u totalSize, sd_Used := Size u usedSize\<rparr>) devices)))"

definition makeMachineInfo :: "units \<Rightarrow> MachineInfo option \<Rightarrow> (error + MachineInfo) go" where
  "makeMachineInfo u rawInfo =
     (case rawInfo of
        None \<Rightarrow> Panicked nil_deref
      | Some info \<Rightarrow>
          Done (case ToSize u (mi_Memory info) of
                  Inl err \<Rightarrow> Inl err
                | Inr memory \<Rightarrow>
                    (case normalize_devices u (mi_StorageDevices info) (mi_StorageDevices info) of
                       Inl err \<Rightarrow> Inl err
                     | Inr devices \<Rightarrow> Inr (info\<lparr>mi_Memory := Size u memory, mi_StorageDevices := devices\<rparr>))))"

definition fetchMachineInfo :: "env \<Rightarrow> machine_libs \<Rightarrow> nat \<Rightarrow> string \<Rightarrow> (error + MachineInfo) go io" where
  "fetchMachineInfo e lib fuel d =
     (case MachineStatCfg (ml_script lib ''os-stat.sh'') of
        Panicked p \<Rightarrow> crash p
      | Running \<Rightarrow> State_Monad.return Running
      | Done (cfg, hostCfg) \<Rightarrow>
          do { out \<leftarrow> JustExec e fuel d MachineStat MachineStatImage
                        \<lparr>ro_Policy = PullPolicyNone, ro_Config = cfg, ro_HostConfig = hostCfg\<rparr>;
               State_Monad.return (go_bind out (\<lambda>res.
                 case res of
                   Inl err \<Rightarrow> Done (Inl err)
                 | Inr stdout \<Rightarrow> makeMachineInfo (ml_units lib) (ml_json lib stdout))) })"

section \<open>Locking a machine\<close>

text \<open>
  A nil \<open>Config\<close> sets an error and is dereferenced all the same; nil labels have no label.
\<close>

definition lock_port :: "Machine \<Rightarrow> ContainerJSON \<Rightarrow> (error + int) go" where
  "lock_port machine stat =
     (case cj_Config stat of
        None \<Rightarrow> Panicked nil_deref
      | Some labels \<Rightarrow>
          (case nil_get labels LockerLabel of
             None \<Rightarrow> Done (Inl (ErrMsg (''container '' @ cj_Name stat @ '' has no label `'' @ LockerLabel @ ''`'')))
           | Some uid \<Rightarrow>
               (if uid \<noteq> meta_UID (m_Meta machine)
                then Done (Inl (ErrMsg (''machine('' @ meta_Name (m_Meta machine) @
                       '') locked by other naglfar system: UID('' @ meta_UID (m_Meta machine) @ '')'')))
                else Done (Inr (case map_of (cj_Ports stat) ChaosDaemonPort of
                                  Some (p # _) \<Rightarrow> fst (Atoi p)
                                | _ \<Rightarrow> 0)))))"

definition tryLock :: "env \<Rightarrow> nat \<Rightarrow> Machine \<Rightarrow> string \<Rightarrow> (error + int) go io" where
  "tryLock e fuel machine d =
     (let (cfg, hostCfg) = ChaosDaemonCfg (meta_UID (m_Meta machine))
      in do { res \<leftarrow> Run e fuel d ChaosDaemon ChaosDaemonImage
                       \<lparr>ro_Policy = PullPolicyNone, ro_Config = cfg, ro_HostConfig = hostCfg\<rparr>;
              State_Monad.return (go_bind res (\<lambda>r.
                case r of Inl err \<Rightarrow> Done (Inl err) | Inr stat \<Rightarrow> lock_port machine stat)) })"

definition upload_port :: "ContainerJSON \<Rightarrow> (error + int) go" where
  "upload_port stat =
     (let err = (if cj_Config stat = None \<or> \<not> cj_HasHostConfig stat
                 then Some (ErrMsg (''invalid occupy container: '' @ cj_Name stat)) else None);
          (uploadPort, err) =
            (case map_of (cj_Ports stat) (Itoa UploadDaemonInternalPort @ ''/tcp'') of
               Some (p # _) \<Rightarrow> Atoi p
             | _ \<Rightarrow> (0, err))
      in case err of
           Some x \<Rightarrow> Done (Inl x)
         | None \<Rightarrow>
             (if uploadPort = 0 then Panicked ''there's a bug, uploadPort should be zero''
              else Done (Inr uploadPort)))"

definition createUploadDaemon :: "env \<Rightarrow> nat \<Rightarrow> Machine \<Rightarrow> string \<Rightarrow> (error + int) go io" where
  "createUploadDaemon e fuel machine d =
     (let (cfg, hostCfg) = UploadDaemonCfg (meta_UID (m_Meta machine))
      in do { res \<leftarrow> Run e fuel d UploadDaemon UploadDaemonImage
                       \<lparr>ro_Policy = PullPolicyNone, ro_Config = cfg, ro_HostConfig = hostCfg\<rparr>;
              State_Monad.return (go_bind res (\<lambda>r.
                case r of Inl err \<Rightarrow> Done (Inl err) | Inr stat \<Rightarrow> upload_port stat)) })"

definition Unlock :: "env \<Rightarrow> Machine \<Rightarrow> string \<Rightarrow> error option io" where
  "Unlock e machine d =
     do { info \<leftarrow> docker_Inspect e d ChaosDaemon;
          case info of
            Inl err \<Rightarrow> State_Monad.return (if \<not> IsErrDockerNotFound err then Some err else None)
          | Inr info \<Rightarrow>
              if (case cj_Config info of
                    None \<Rightarrow> True
                  | Some labels \<Rightarrow> labels = None \<or>
                      (case nil_get labels LockerLabel of None \<Rightarrow> [] | Some l \<Rightarrow> l) \<noteq> meta_UID (m_Meta machine))
              then State_Monad.return None
              else docker_do e d (ContainerRemove ChaosDaemon True) }"

definition deleteUploadDaemon :: "env \<Rightarrow> Machine \<Rightarrow> string \<Rightarrow> error option io" where
  "deleteUploadDaemon e machine d =
     do { info \<leftarrow> docker_Inspect e d UploadDaemon;
          case info of
            Inl err \<Rightarrow> State_Monad.return (if \<not> IsErrDockerNotFound err then Some err else None)
          | Inr info \<Rightarrow>
              if cj_Config info = None \<or> \<not> cj_HasHostConfig info then State_Monad.return None
              else docker_do e d (ContainerRemove UploadDaemon True) }"

section \<open>The machine controller\<close>

definition machineFinalizer :: string where
  "machineFinalizer = ''machine.naglfar.pingcap.com''"

definition set_machine_status :: "(MachineStatus \<Rightarrow> MachineStatus) \<Rightarrow> Machine \<Rightarrow> Machine" where
  "set_machine_status f m = m\<lparr>m_Status := f (m_Status m)\<rparr>"

definition reconcileStarting :: "env \<Rightarrow> machine_libs \<Rightarrow> nat \<Rightarrow> Machine \<Rightarrow> reconcile_result io" where
  "reconcileStarting e lib fuel machine =
     do { cl \<leftarrow> MakeClient e machine;
          case cl of
            Inl err \<Rightarrow> finish no_requeue (Some err)
          | Inr d \<Rightarrow>
              do { lock \<leftarrow> tryLock e fuel machine d;
                   case lock of
                     Panicked p \<Rightarrow> crash p
                   | Running \<Rightarrow> State_Monad.return Running
                   | Done (Inl err) \<Rightarrow>
                       do { Event (meta_Name (m_Meta machine)) ''Warning'' ''Lock'' (error_text err);
                            finish no_requeue (Some err) }
                   | Done (Inr port) \<Rightarrow>
                       do { info \<leftarrow> fetchMachineInfo e lib fuel d;
                            case info of
                              Panicked p \<Rightarrow> crash p
                            | Running \<Rightarrow> State_Monad.return Running
                            | Done (Inl err) \<Rightarrow>
                                do { Event (meta_Name (m_Meta machine)) ''Warning'' ''FetchInfo'' (error_text err);
                                     finish no_requeue (Some err) }
                            | Done (Inr info) \<Rightarrow>
                                do { err \<leftarrow> k8s_StatusUpdate e (KMachine (set_machine_status (\<lambda>st.
                                       st\<lparr>mst_ChaosPort := port, mst_Info := Some info, mst_State := MachineReady\<rparr>) machine));
                                     finish no_requeue err } } } }"

definition reconcileRunning :: "env \<Rightarrow> nat \<Rightarrow> Machine \<Rightarrow> reconcile_result io" where
  "reconcileRunning e fuel machine =
     (if mst_UploadPort (m_Status machine) = 0
      then do { cl \<leftarrow> MakeClient e machine;
                case cl of
                  Inl err \<Rightarrow> finish no_requeue (Some err)
                | Inr d \<Rightarrow>
                    do { res \<leftarrow> createUploadDaemon e fuel machine d;
                         case res of
                           Panicked p \<Rightarrow> crash p
                         | Running \<Rightarrow> State_Monad.return Running
                         | Done (Inl err) \<Rightarrow>
                             do { Event (meta_Name (m_Meta machine)) ''Warning'' ''upload-daemon'' (error_text err);
                                  finish no_requeue (Some err) }
                         | Done (Inr port) \<Rightarrow>
                             do { err \<leftarrow> k8s_StatusUpdate e (KMachine (set_machine_status (mst_UploadPort_update (\<lambda>_. port)) machine));
                                  case err of
                                    Some err \<Rightarrow> finish no_requeue (Some err)
                                  | None \<Rightarrow> finish requeue_now None } } }
      else do { rel \<leftarrow> getRelationship e;
                case rel of
                  Inl err \<Rightarrow> finish no_requeue (Some err)
                | Inr relation \<Rightarrow>
                    if nil_get (MachineToResources (rel_Status relation)) (machine_key machine) = None
                    then (case nil_put (MachineToResources (rel_Status relation)) (machine_key machine) [] of
                            Panicked p \<Rightarrow> crash p
                          | Running \<Rightarrow> State_Monad.return Running
                          | Done m2r \<Rightarrow>
                              do { err \<leftarrow> k8s_StatusUpdate e (KRelationship (relation\<lparr>rel_Status :=
                                     (rel_Status relation)\<lparr>MachineToResources := m2r\<rparr>\<rparr>));
                                   finish no_requeue err })
                    else finish no_requeue None })"

definition reconcileShutdown :: "env \<Rightarrow> Machine \<Rightarrow> reconcile_result io" where
  "reconcileShutdown e machine =
     do { rel \<leftarrow> getRelationship e;
          case rel of
            Inl err \<Rightarrow> finish no_requeue (Some err)
          | Inr relation \<Rightarrow>
              if resources_on (rel_Status relation) (machine_key machine) \<noteq> []
              then finish (requeue_both (10 * second)) None
              else do { cl \<leftarrow> MakeClient e machine;
                case cl of
                  Inl err \<Rightarrow> finish no_requeue (Some err)
                | Inr d \<Rightarrow>
                    do { err \<leftarrow> Unlock e machine d;
                         case err of
                           Some err \<Rightarrow> finish no_requeue (Some err)
                         | None \<Rightarrow>
                    do { err \<leftarrow> deleteUploadDaemon e machine d;
                         case err of
                           Some err \<Rightarrow> finish no_requeue (Some err)
                         | None \<Rightarrow>
                    do { err \<leftarrow> k8s_StatusUpdate e (KRelationship (relation\<lparr>rel_Status := (rel_Status relation)\<lparr>
                           MachineToResources := nil_del (MachineToResources (rel_Status relation)) (machine_key machine)\<rparr>\<rparr>));
                         case err of
                           Some err \<Rightarrow> finish no_requeue (Some err)
                         | None \<Rightarrow>
                             (case drop_finalizer machineFinalizer (m_Meta machine) of
                                Panicked p \<Rightarrow> crash p
                              | Running \<Rightarrow> State_Monad.return Running
                              | Done meta \<Rightarrow>
                                  do { err \<leftarrow> k8s_Update e (KMachine (machine\<lparr>m_Meta := meta\<rparr>));
                                       finish no_requeue err }) } } } } }"

definition Machine_Reconcile :: "env \<Rightarrow> machine_libs \<Rightarrow> nat \<Rightarrow> nsname \<Rightarrow> reconcile_result io" where
  "Machine_Reconcile e lib fuel req =
     do { rel \<leftarrow> getRelationship e;
          case rel of
            Inl err \<Rightarrow> finish no_requeue (Some err)
          | Inr relation \<Rightarrow>
              if MachineToResources (rel_Status relation) = None then finish (requeue_both second) None
              else do { r \<leftarrow> Get_machine e req;
                case r of
                  Inl err \<Rightarrow> finish no_requeue (IgnoreNotFound (Some err))
                | Inr machine \<Rightarrow>
                    if lacks_finalizer machineFinalizer (m_Meta machine)
                    then do { err \<leftarrow> k8s_Update e (KMachine (machine\<lparr>m_Meta := add_finalizer machineFinalizer (m_Meta machine)\<rparr>));
                              finish no_requeue err }
                    else if being_deleted machineFinalizer (m_Meta machine) \<and> mst_State (m_Status machine) \<noteq> MachineShutdown
                    then do { err \<leftarrow> k8s_StatusUpdate e (KMachine (set_machine_status (mst_State_update (\<lambda>_. MachineShutdown)) machine));
                              finish no_requeue err }
                    else (case mst_State (m_Status machine) of
                            MachineStarting \<Rightarrow> reconcileStarting e lib fuel machine
                          | MachineReady \<Rightarrow> reconcileRunning e fuel machine
                          | MachineShutdown \<Rightarrow> reconcileShutdown e machine
                          | UnknownMachineState _ \<Rightarrow>
                              do { err \<leftarrow> k8s_StatusUpdate e (KMachine (set_machine_status (mst_State_update (\<lambda>_. MachineStarting)) machine));
                                   finish no_requeue err }) } }"

section \<open>Which events the parts emit\<close>

lemma emits_fetchMachineInfo [emits_intros]:
  "(\<And>d op ok. P (Docker d op ok)) \<Longrightarrow> emits P (fetchMachineInfo e lib fuel d)"
  unfolding fetchMachineInfo_def by (intro emits_intros)

lemma emits_tryLock [emits_intros]:
  "(\<And>d op ok. P (Docker d op ok)) \<Longrightarrow> emits P (tryLock e fuel machine d)"
  unfolding tryLock_def Let_def by (intro emits_intros)

lemma emits_createUploadDaemon [emits_intros]:
  "(\<And>d op ok. P (Docker d op ok)) \<Longrightarrow> emits P (createUploadDaemon e fuel machine d)"
  unfolding createUploadDaemon_def Let_def by (intro emits_intros)

lemma emits_Unlock [emits_intros]:
  "(\<And>d op ok. P (Docker d op ok)) \<Longrightarrow> emits P (Unlock e machine d)"
  unfolding Unlock_def by (intro emits_intros)

lemma emits_deleteUploadDaemon [emits_intros]:
  "(\<And>d op ok. P (Docker d op ok)) \<Longrightarrow> emits P (deleteUploadDaemon e machine d)"
  unfolding deleteUploadDaemon_def by (intro emits_intros)

text \<open>The machine objects written to the status, from a given one.\<close>

inductive machine_step :: "Machine \<Rightarrow> Machine \<Rightarrow> bool" for m where
  start: "mst_State (m_Status m) = UnknownMachineState s \<Longrightarrow>
    machine_step m (set_machine_status (mst_State_update (\<lambda>_. MachineStarting)) m)"
| ready: "mst_State (m_Status m) = MachineStarting \<Longrightarrow>
    machine_step m (set_machine_status (\<lambda>st. st\<lparr>mst_ChaosPort := port, mst_Info := Some info, mst_State := MachineReady\<rparr>) m)"
| upload: "mst_State (m_Status m) = MachineReady \<Longrightarrow> mst_UploadPort (m_Status m) = 0 \<Longrightarrow> port \<noteq> 0 \<Longrightarrow>
    machine_step m (set_machine_status (mst_UploadPort_update (\<lambda>_. port)) m)"
| shutdown: "being_deleted machineFinalizer (m_Meta m) \<Longrightarrow> mst_State (m_Status m) \<noteq> MachineShutdown \<Longrightarrow>
    machine_step m (set_machine_status (mst_State_update (\<lambda>_. MachineShutdown)) m)"

text \<open>No status write but of the machine read, along a step; no metadata write.\<close>

definition machine_ok :: "Machine \<Rightarrow> event \<Rightarrow> bool" where
  "machine_ok m ev \<longleftrightarrow>
     (case ev of
        Update x err \<Rightarrow> False
      | StatusUpdate x err \<Rightarrow> (\<forall>m'. x = KMachine m' \<longrightarrow> machine_step m m')
      | _ \<Rightarrow> True)"

lemma machine_ok_simps [simp]:
  "machine_ok m (Get k n)" "machine_ok m (Docker d op ok)" "machine_ok m (Recorded a b c f)"
  "machine_ok m (StatusUpdate (KRelationship r) err)"
  "machine_ok m (StatusUpdate (KMachine m') err) \<longleftrightarrow> machine_step m m'"
  "\<not> machine_ok m (Update x err)"
  by (simp_all add: machine_ok_def)

lemma starting_ok:
  assumes "mst_State (m_Status m) = MachineStarting"
  shows "emits (machine_ok m) (reconcileStarting e lib fuel m)"
  unfolding reconcileStarting_def by (intro emits_intros) (simp_all add: machine_step.ready [OF assms])

lemma upload_port_nonzero: "upload_port stat = Done (Inr port) \<Longrightarrow> port \<noteq> 0"
  by (auto simp: upload_port_def Let_def split: option.splits prod.splits if_splits)

lemma createUploadDaemon_nonzero:
  "run_state (createUploadDaemon e fuel machine d) h = (Done (Inr port), h') \<Longrightarrow> port \<noteq> 0"
  by (auto simp: createUploadDaemon_def UploadDaemonCfg_def split: prod.splits sum.splits)
    (metis sum.exhaust upload_port_nonzero)

lemma running_ok:
  assumes "mst_State (m_Status m) = MachineReady"
  shows "emits (machine_ok m) (reconcileRunning e fuel m)"
  unfolding reconcileRunning_def
  by (intro emits_intros) (use assms in \<open>auto intro: machine_step.upload dest: createUploadDaemon_nonzero\<close>)

definition no_machine_status :: "event \<Rightarrow> bool" where
  "no_machine_status ev \<longleftrightarrow> (\<forall>m err. ev \<noteq> StatusUpdate (KMachine m) err)"

lemma shutdown_no_status: "emits no_machine_status (reconcileShutdown e m)"
  unfolding reconcileShutdown_def by (intro emits_intros) (simp_all add: no_machine_status_def)

section \<open>Properties of the machine controller\<close>

definition demo_libs :: machine_libs where
  "demo_libs = \<lparr>ml_units = demo_units, ml_script = (\<lambda>_. Inr ''stat''), ml_json = (\<lambda>_. mst_Info (m_Status demo_machine))\<rparr>"

definition demo_new :: Machine where
  "demo_new = demo_machine\<lparr>m_Meta := add_finalizer machineFinalizer (m_Meta demo_machine),
     m_Status := (m_Status demo_machine)\<lparr>mst_State := UnknownMachineState []\<rparr>\<rparr>"

definition demo_new_env :: env where
  "demo_new_env = demo_env\<lparr>ask_machine := (\<lambda>h n. Inr demo_new)\<rparr>"

lemma machine_ok_imp: "machine_ok m ev \<Longrightarrow> ev = StatusUpdate (KMachine m') err \<Longrightarrow> machine_step m m'"
  by (simp add: machine_ok_def)

lemma Get_machine_answer: "run_state (Get_machine e req) h1 = (Inr m, h2) \<Longrightarrow> ask_machine e h1 req = Inr m"
  by (simp add: io_simps)

text \<open>A status write of a machine follows a step from a machine that was read.\<close>

definition status_follows :: "env \<Rightarrow> nsname \<Rightarrow> event \<Rightarrow> bool" where
  "status_follows e req ev \<longleftrightarrow>
     (\<forall>m' err. ev = StatusUpdate (KMachine m') err \<longrightarrow> (\<exists>h m. ask_machine e h req = Inr m \<and> machine_step m m'))"

lemma status_follows_simps [simp]:
  "status_follows e req (Get k n)" "status_follows e req (Update x err)"
  "status_follows e req (StatusUpdate (KMachine m') err) \<longleftrightarrow>
     (\<exists>h m. ask_machine e h req = Inr m \<and> machine_step m m')"
  by (simp_all add: status_follows_def)

lemma machine_ok_follows: "ask_machine e h req = Inr m \<Longrightarrow> machine_ok m ev \<Longrightarrow> status_follows e req ev"
  unfolding status_follows_def by (metis machine_ok_imp)

text \<open>C18: the machine state machine. Whatever the world answers, a reconciliation writes the status
  of a machine only along a transition from the machine it read: an unknown state starts, a
  starting machine becomes ready with its chaos port and information, a ready machine gets a
  non-zero upload port once, and only a machine being deleted is shut down.\<close>

theorem machine_steps: "emits (status_follows e req) (Machine_Reconcile e lib fuel req)"
proof -
  let ?P = "status_follows e req"
  have sub: "emits ?P M" if "ask_machine e h1 req = Inr m" "emits (machine_ok m) M"
    for h1 m and M :: "reconcile_result io"
    using that(2) by (rule emits_weaken) (rule machine_ok_follows [OF that(1)])
  have down: "emits ?P (reconcileShutdown e m)" for m
    using shutdown_no_status by (rule emits_weaken) (simp add: no_machine_status_def status_follows_def)
  have states: "emits ?P (case mst_State (m_Status m) of
          MachineStarting \<Rightarrow> reconcileStarting e lib fuel m
        | MachineReady \<Rightarrow> reconcileRunning e fuel m
        | MachineShutdown \<Rightarrow> reconcileShutdown e m
        | UnknownMachineState _ \<Rightarrow>
            do { err \<leftarrow> k8s_StatusUpdate e (KMachine (set_machine_status (mst_State_update (\<lambda>_. MachineStarting)) m));
                 finish no_requeue err })" if "ask_machine e h1 req = Inr m" for h1 m
    using that by (auto split: MachineState.splits intro!: emits_intros down
        intro: sub starting_ok running_ok) (metis machine_step.start)
  show ?thesis
    unfolding Machine_Reconcile_def
    by (intro emits_intros) (auto dest!: Get_machine_answer intro: states, metis machine_step.shutdown)
qed

theorem machine_steps_witness:
  "\<exists>h m. ask_machine demo_new_env h relationshipName = Inr m \<and>
     machine_step m (set_machine_status (mst_State_update (\<lambda>_. MachineStarting)) demo_new)"
proof -
  let ?ev = "StatusUpdate (KMachine (set_machine_status (mst_State_update (\<lambda>_. MachineStarting)) demo_new)) None"
  have "run_state (Machine_Reconcile demo_new_env demo_libs 3 relationshipName) [] =
      (Done (no_requeue, None), [] @ [Get ''Relationship'' relationshipName, Get ''Machine'' relationshipName, ?ev])"
    by (simp add: Machine_Reconcile_def io_simps demo_new_env_def demo_env_def demo_status_def demo_new_def
        lacks_finalizer_def being_deleted_def add_finalizer_def demo_machine_def demo_meta_def set_machine_status_def)
  from emitsD [OF machine_steps this, of ?ev] show ?thesis by simp
qed

text \<open>
  The relationship a machine leaves behind: the one that was read, in which the machine held no
  resource, without its entry.
\<close>

text \<open>The lock container of a machine carries its UID; an upload daemon is one that has been configured.\<close>

definition locked_by :: "Machine \<Rightarrow> ContainerJSON \<Rightarrow> bool" where
  "locked_by m info \<longleftrightarrow>
     (\<exists>labels. cj_Config info = Some (Some labels) \<and>
        (case map_of labels LockerLabel of None \<Rightarrow> meta_UID (m_Meta m) = [] | Some uid \<Rightarrow> uid = meta_UID (m_Meta m)))"

definition uploads :: "ContainerJSON \<Rightarrow> bool" where
  "uploads info \<longleftrightarrow> cj_Config info \<noteq> None \<and> cj_HasHostConfig info"

definition released_in_order :: "env \<Rightarrow> nat \<Rightarrow> history \<Rightarrow> event \<Rightarrow> bool" where
  "released_in_order e n h ev \<longleftrightarrow>
     (\<forall>m err. ev = Update (KMachine m) err \<and> machineFinalizer \<notin> set (meta_Finalizers (m_Meta m)) \<longrightarrow>
       (\<exists>h0 h1 rel. h = h0 @ [StatusUpdate (KRelationship (rel\<lparr>rel_Status := (rel_Status rel)\<lparr>
              MachineToResources := nil_del (MachineToResources (rel_Status rel)) (machine_key m)\<rparr>\<rparr>)) None] \<and>
          (ask_relationship e h1 relationshipName = Inr rel \<or> rel = zero_Relationship) \<and>
          resources_on (rel_Status rel) (machine_key m) = [] \<and>
          taken_away e n (DockerURL m) ChaosDaemon (locked_by m) h0 \<and>
          taken_away e n (DockerURL m) UploadDaemon uploads h0))"

lemma released_other: "(\<And>m err. ev \<noteq> Update (KMachine m) err) \<Longrightarrow> released_in_order e n h ev"
  by (auto simp: released_in_order_def)

lemma released_added:
  "released_in_order e n h (Update (KMachine (m\<lparr>m_Meta := add_finalizer machineFinalizer (m_Meta m)\<rparr>)) err)"
  by (simp add: released_in_order_def add_finalizer_def)

lemma Unlock_taken:
  assumes "run_state (Unlock e m d) h1 = (None, h2)" "n \<le> length h1"
  shows "taken_away e n d ChaosDaemon (locked_by m) h2"
proof (rule inspect_then_remove [OF _ assms(2)])
  have mine: "locked_by m info \<longleftrightarrow> \<not> (case cj_Config info of
        None \<Rightarrow> True
      | Some labels \<Rightarrow> labels = None \<or> (case nil_get labels LockerLabel of None \<Rightarrow> [] | Some l \<Rightarrow> l) \<noteq> meta_UID (m_Meta m))" for info
    by (auto simp: locked_by_def nil_get_def split: option.splits)
  show "run_state (do { c \<leftarrow> docker_Inspect e d ChaosDaemon;
      case c of Inl x \<Rightarrow> State_Monad.return (if \<not> IsErrDockerNotFound x then Some x else None)
      | Inr info \<Rightarrow> if \<not> locked_by m info then State_Monad.return None
          else docker_do e d (ContainerRemove ChaosDaemon True) }) h1 = (None, h2)"
    using assms(1) by (auto simp: Unlock_def mine io_simps split: sum.splits)
qed

lemma deleteUploadDaemon_taken:
  assumes "run_state (deleteUploadDaemon e m d) h1 = (None, h2)" "n \<le> length h1"
  shows "taken_away e n d UploadDaemon uploads h2"
proof (rule inspect_then_remove [OF _ assms(2)])
  show "run_state (do { c \<leftarrow> docker_Inspect e d UploadDaemon;
      case c of Inl x \<Rightarrow> State_Monad.return (if \<not> IsErrDockerNotFound x then Some x else None)
      | Inr info \<Rightarrow> if \<not> uploads info then State_Monad.return None
          else docker_do e d (ContainerRemove UploadDaemon True) }) h1 = (None, h2)"
    using assms(1) by (auto simp: deleteUploadDaemon_def uploads_def io_simps split: sum.splits)
qed

text \<open>The two daemons are stopped between reading the relationship and writing it.\<close>

lemma daemons_taken:
  assumes "run_state (getRelationship e) h = (Inr rel, h1)" "run_state (MakeClient e m) h1 = (Inr d, h2)"
    and lock: "run_state (Unlock e m d) h2 = (None, h3)" and upload: "run_state (deleteUploadDaemon e m d) h3 = (None, h4)"
    and "n \<le> length h"
  shows "taken_away e n (DockerURL m) ChaosDaemon (locked_by m) h4" "taken_away e n (DockerURL m) UploadDaemon uploads h4"
proof -
  from assms(1,5) MakeClient_made [OF assms(2)] have n: "n \<le> length h2" and d: "d = DockerURL m" by (auto simp: io_simps)
  obtain e1 e2 where h: "h3 = h2 @ e1" "h4 = h3 @ e2"
    using emits_run [OF emits_Unlock [where P = "\<lambda>_. True"] lock] emits_run [OF emits_deleteUploadDaemon [where P = "\<lambda>_. True"] upload] by blast
  show "taken_away e n (DockerURL m) ChaosDaemon (locked_by m) h4"
    using taken_away_later [OF Unlock_taken [OF lock n]] h(2) d by simp
  show "taken_away e n (DockerURL m) UploadDaemon uploads h4"
    using deleteUploadDaemon_taken [OF upload] h(1) n d by simp
qed

lemma released_kept_machine:
  assumes "drop_finalizer machineFinalizer (m_Meta m) = Done meta"
  shows "machine_key (m\<lparr>m_Meta := meta\<rparr>) = machine_key m" "DockerURL (m\<lparr>m_Meta := meta\<rparr>) = DockerURL m"
    "locked_by (m\<lparr>m_Meta := meta\<rparr>) = locked_by m"
  using assms by (auto simp: drop_finalizer_def machine_key_def CreateRef_def Key_def DockerURL_def locked_by_def fun_eq_iff split: option.splits)

lemma shutdown_released:
  assumes "n \<le> length h"
  shows "always (released_in_order e n) (reconcileShutdown e m) h"
proof -
  have rel: "ask_relationship e h1 relationshipName = Inr rel \<or> rel = zero_Relationship"
    if "run_state (getRelationship e) h1 = (Inr rel, h2)" for h1 h2 rel
    using that by (auto simp: io_simps split: sum.splits if_splits)
  have last: "released_in_order e n h5 (Update (KMachine (m\<lparr>m_Meta := meta\<rparr>)) err)"
    if meta: "drop_finalizer machineFinalizer (m_Meta m) = Done meta"
      and read: "run_state (getRelationship e) h = (Inr rel, h1)" "resources_on (rel_Status rel) (machine_key m) = []"
      and run: "run_state (MakeClient e m) h1 = (Inr d, h2)" "run_state (Unlock e m d) h2 = (None, h3)"
        "run_state (deleteUploadDaemon e m d) h3 = (None, h4)"
      and w: "run_state (k8s_StatusUpdate e (KRelationship (rel\<lparr>rel_Status := (rel_Status rel)\<lparr>
          MachineToResources := nil_del (MachineToResources (rel_Status rel)) (machine_key m)\<rparr>\<rparr>))) h4 = (None, h5)"
    for meta h1 h2 h3 h4 h5 rel d err
  proof -
    from w have "h5 = h4 @ [StatusUpdate (KRelationship (rel\<lparr>rel_Status := (rel_Status rel)\<lparr>
          MachineToResources := nil_del (MachineToResources (rel_Status rel)) (machine_key m)\<rparr>\<rparr>)) None]"
      by (auto simp: io_simps)
    with read(2) rel [OF read(1)] daemons_taken [OF read(1) run assms] show ?thesis
      unfolding released_in_order_def event.inject k8s_obj.inject by (metis released_kept_machine [OF meta])
  qed
  have silent: "always (released_in_order e n) (Unlock e m d) h" "always (released_in_order e n) (deleteUploadDaemon e m d) h" for d h
    by (rule always_emits [where Q = "\<lambda>ev. \<forall>x err. ev \<noteq> Update x err"]; (intro emits_intros)?; simp add: released_other)+
  show ?thesis
    unfolding reconcileShutdown_def by (intro always_intros silent) (auto intro: released_other last)
qed

text \<open>C19: a machine is released in order. The write that takes away its finalizer follows directly on a
  successful write of a relationship that has no entry for the machine and is otherwise the one
  read, in which the machine held no resource. Before that, in the same run and on the daemon of
  this machine, the chaos daemon was removed by force, or was not there, or did not carry the UID
  of the machine; and the upload daemon was removed by force, or was not there or not configured.\<close>

theorem machine_release: "always (released_in_order e (length h)) (Machine_Reconcile e lib fuel req) h"
proof -
  have starting: "always (released_in_order e n) (reconcileStarting e lib fuel m) h"
    if "mst_State (m_Status m) = MachineStarting" for m h n
    by (rule always_emits [OF starting_ok [OF that]]) (auto intro: released_other)
  have running: "always (released_in_order e n) (reconcileRunning e fuel m) h"
    if "mst_State (m_Status m) = MachineReady" for m h n
    by (rule always_emits [OF running_ok [OF that]]) (auto intro: released_other)
  have states: "always (released_in_order e n) (case mst_State (m_Status m) of
          MachineStarting \<Rightarrow> reconcileStarting e lib fuel m
        | MachineReady \<Rightarrow> reconcileRunning e fuel m
        | MachineShutdown \<Rightarrow> reconcileShutdown e m
        | UnknownMachineState _ \<Rightarrow>
            do { err \<leftarrow> k8s_StatusUpdate e (KMachine (set_machine_status (mst_State_update (\<lambda>_. MachineStarting)) m));
                 finish no_requeue err }) h" if "n \<le> length h" for m h n
    by (auto split: MachineState.splits intro: starting running shutdown_released [OF that] intro!: always_intros released_other)
  show ?thesis
    unfolding Machine_Reconcile_def
    by (intro always_intros states) (auto intro: released_other released_added simp: io_simps)
qed

text \<open>Two Naglfar systems do not share a machine. When \<open>tryLock\<close> succeeds, the lock container
  that runs on the machine carries the UID of this machine object.\<close>

lemma tryLock_owner:
  assumes "run_state (tryLock e fuel m d) h = (Done (Inr port), h')"
  shows "\<exists>h1 stat labels. ask_inspect e h1 d ChaosDaemon = Inr stat \<and> \<not> TimeIsZero (cj_StartedAt stat) \<and>
    cj_Config stat = Some labels \<and> nil_get labels LockerLabel = Some (meta_UID (m_Meta m))"
proof -
  obtain cfg hostCfg where cfg: "ChaosDaemonCfg (meta_UID (m_Meta m)) = (cfg, hostCfg)" by (metis surj_pair)
  let ?o = "\<lparr>ro_Policy = PullPolicyNone, ro_Config = cfg, ro_HostConfig = hostCfg\<rparr>"
  from assms obtain stat where run: "run_state (Run e fuel d ChaosDaemon ChaosDaemonImage ?o) h = (Done (Inr stat), h')"
    and lock: "lock_port m stat = Done (Inr port)"
    by (auto simp: tryLock_def cfg split: prod.splits sum.splits)
  obtain h1 where "ask_inspect e h1 d ChaosDaemon = Inr stat" "\<not> TimeIsZero (cj_StartedAt stat)"
    using Run_inspected [OF run] by blast
  with lock show ?thesis
    by (auto simp: lock_port_def split: option.splits if_splits)
qed

end
