(* ===== verification/Resource_Controller.thy ===== *)
theory Resource_Controller
  imports Machine_Controller
begin

text \<open>
  \<open>controllers/testresource_controller.go\<close>: a test resource waits until the relationship assigns
  it a machine, then its container is created, connected, started and watched there; on deletion
  the container is removed, its disks are cleaned and its place in the relationship is given back.
\<close>

section \<open>Data\<close>

definition resourceFinalizer :: string where
  "resourceFinalizer = ''testresource.naglfar.pingcap.com''"

definition clusterNetwork :: string where
  "clusterNetwork = ''naglfar-overlay''"

text \<open>The copy of \<open>resourceOverflow\<close> in this file, on the specification of the resource.\<close>

definition TestResource_resourceOverflow ::
  "units \<Rightarrow> (string \<Rightarrow> (string \<times> DiskResource) list \<Rightarrow> (string \<times> DiskResource) list)
     \<Rightarrow> AvailableResource option \<Rightarrow> TestResource \<Rightarrow> ResourceBinding option go" where
  "TestResource_resourceOverflow u ord rest newResource =
     (case rest of
        None \<Rightarrow> Done None
      | Some rest \<Rightarrow>
          (let cpus = pickCpuSet (ar_IdleCPUSet rest) (trs_Cores (tr_Spec newResource))
           in go_bind (bind_disks u ord (trs_Disks (tr_Spec newResource)) (ar_Disks rest) []) (\<lambda>disks.
                let binding = \<lparr>rb_Memory = trs_Memory (tr_Spec newResource), rb_CPUSet = cpus, rb_Disks = disks\<rparr>
                in if length disks < length (trs_Disks (tr_Spec newResource)) then Done None
                   else go_bind (Unwrap u (ar_Memory rest)) (\<lambda>have_mem.
                        go_bind (Unwrap u (trs_Memory (tr_Spec newResource))) (\<lambda>want_mem.
                          if have_mem < want_mem \<or> int (length cpus) < trs_Cores (tr_Spec newResource)
                          then Done None else Done (Some binding))))))"

lemma TestResource_resourceOverflow_eq:
  "TestResource_resourceOverflow u ord rest r = resourceOverflow u ord rest (tr_Spec r)"
  by (simp add: TestResource_resourceOverflow_def resourceOverflow_def)

definition zero_Machine :: Machine where
  "zero_Machine =
     \<lparr>m_Meta = zero_meta,
      m_Spec = \<lparr>ms_Host = [], ms_DockerPort = 0, ms_DockerVersion = [], ms_DockerTLS = False,
        ms_Reserve = None, ms_ExclusiveDisks = []\<rparr>,
      m_Status = \<lparr>mst_State = UnknownMachineState [], mst_ChaosPort = 0, mst_Info = None, mst_UploadPort = 0\<rparr>\<rparr>"

section \<open>Containers\<close>

definition removeContainer :: "env \<Rightarrow> TestResource \<Rightarrow> string \<Rightarrow> error option io" where
  "removeContainer e resource d =
     do { r \<leftarrow> docker_Inspect e d (ContainerName resource);
          case r of
            Inl err \<Rightarrow> State_Monad.return (if IsErrDockerNotFound err then None else Some err)
          | Inr _ \<Rightarrow> docker_do e d (ContainerRemove (ContainerName resource) True) }"

definition getResourceBinding :: "env \<Rightarrow> ref \<Rightarrow> (error + ResourceBinding) io" where
  "getResourceBinding e resourceRef =
     do { rel \<leftarrow> getRelationship e;
          State_Monad.return (case rel of
            Inl err \<Rightarrow> Inl err
          | Inr relation \<Rightarrow> Inr (mr_Binding (machine_of (rel_Status relation) (Key resourceRef)))) }"

definition getHostMachine :: "env \<Rightarrow> ref \<Rightarrow> (error + Machine) io" where
  "getHostMachine e resourceRef =
     do { rel \<leftarrow> getRelationship e;
          case rel of
            Inl err \<Rightarrow> State_Monad.return (Inl err)
          | Inr relation \<Rightarrow> Get_machine e (Namespaced (mr_Ref (machine_of (rel_Status relation) (Key resourceRef)))) }"

fun record_warnings :: "TestResource \<Rightarrow> string \<Rightarrow> string list \<Rightarrow> unit io" where
  "record_warnings resource reason [] = State_Monad.return ()"
| "record_warnings resource reason (w # ws) =
     do { Event (tr_Name resource) ''Warning'' reason w; record_warnings resource reason ws }"

text \<open>What \<open>createContainer\<close> and \<open>createCleaner\<close> share: pull the image, create, pass on warnings.\<close>

definition pull_and_create ::
  "env \<Rightarrow> TestResource \<Rightarrow> string \<Rightarrow> string \<Rightarrow> string \<Rightarrow> ContainerConf \<Rightarrow> HostConf \<Rightarrow> error option io" where
  "pull_and_create e resource d name reason config hostConfig =
     do { err \<leftarrow> PullImageByPolicy e d (cc_Image config) (rcs_ImagePullPolicy (trst_ContainerSpec (tr_Status resource)));
          case err of
            Some x \<Rightarrow>
              do { Event (tr_Name resource) ''Warning'' ''pullImage''
                     (''pulling image '' @ cc_Image config @ '' failed: '' @ error_text x);
                   State_Monad.return (Some x) }
          | None \<Rightarrow>
              do { resp \<leftarrow> docker_Create e d name config hostConfig;
                   case resp of
                     Inl x \<Rightarrow>
                       do { Event (tr_Name resource) ''Warning'' reason (error_text x);
                            State_Monad.return (Some x) }
                   | Inr warnings \<Rightarrow>
                       do { record_warnings resource reason warnings; State_Monad.return None } } }"

definition createContainer :: "env \<Rightarrow> units \<Rightarrow> TestResource \<Rightarrow> string \<Rightarrow> error option go io" where
  "createContainer e u resource d =
     do { b \<leftarrow> getResourceBinding e (resource_ref resource);
          case b of
            Inl err \<Rightarrow> State_Monad.return (Done (Some err))
          | Inr binding \<Rightarrow>
              (case ContainerConfig u resource binding of
                 Panicked p \<Rightarrow> crash p
               | Running \<Rightarrow> State_Monad.return Running
               | Done (config, hostConfig) \<Rightarrow>
                   do { err \<leftarrow> pull_and_create e resource d (ContainerName resource) ''ContainerCreate'' config hostConfig;
                        State_Monad.return (Done err) }) }"

definition createCleaner :: "env \<Rightarrow> TestResource \<Rightarrow> string \<Rightarrow> error option io" where
  "createCleaner e resource d =
     do { b \<leftarrow> getResourceBinding e (resource_ref resource);
          case b of
            Inl err \<Rightarrow> State_Monad.return (Some err)
          | Inr binding \<Rightarrow>
              (let (config, hostConfig) = ContainerCleanerConfig binding
               in pull_and_create e resource d (ContainerCleanerName resource) ''CleanerCreate'' config hostConfig) }"

text \<open>
  \<open>finalize\<close> gives whether the caller has to come back; \<open>client.IgnoreNotFound\<close> is applied to the
  error of \<open>removeContainer\<close>, a Docker error.
\<close>

definition finalize :: "env \<Rightarrow> TestResource \<Rightarrow> Machine \<Rightarrow> (error + bool) io" where
  "finalize e resource machine =
     do { cl \<leftarrow> MakeClient e machine;
          case cl of
            Inl err \<Rightarrow> State_Monad.return (Inl err)
          | Inr d \<Rightarrow>
     do { err \<leftarrow> removeContainer e resource d;
          case err of
            Some _ \<Rightarrow> State_Monad.return (case IgnoreNotFound err of Some x \<Rightarrow> Inl x | None \<Rightarrow> Inr False)
          | None \<Rightarrow>
     do { stats \<leftarrow> docker_Inspect e d (ContainerCleanerName resource);
          case stats of
            Inl x \<Rightarrow>
              if \<not> IsErrDockerNotFound x then State_Monad.return (Inl x)
              else do { err \<leftarrow> createCleaner e resource d;
                        State_Monad.return (case err of Some x \<Rightarrow> Inl x | None \<Rightarrow> Inr True) }
          | Inr stats \<Rightarrow>
              if timeIsZero (cj_StartedAt stats)
              then do { err \<leftarrow> docker_do e d (ContainerStart (ContainerCleanerName resource));
                        State_Monad.return (case err of Some x \<Rightarrow> Inl x | None \<Rightarrow> Inr True) }
              else do { code \<leftarrow> docker_Wait e d (ContainerCleanerName resource);
                        case code of
                          Inl x \<Rightarrow> State_Monad.return (Inl x)
                        | Inr code \<Rightarrow>
                            do { (if code \<noteq> 0
                                  then Event (tr_Name resource) ''Warning'' ''Clean''
                                         (''fail to clean container: exit('' @ Itoa code @ '')'')
                                  else State_Monad.return ());
                                 err \<leftarrow> docker_do e d (ContainerRemove (ContainerCleanerName resource) False);
                                 State_Monad.return (case err of Some x \<Rightarrow> Inl x | None \<Rightarrow> Inr False) } } } } }"

definition requestResource :: "env \<Rightarrow> TestResource \<Rightarrow> (error + string) io" where
  "requestResource e resource =
     do { rel \<leftarrow> getRelationship e;
          case rel of
            Inl err \<Rightarrow> State_Monad.return (Inl err)
          | Inr relation \<Rightarrow>
              (case nil_get (ResourceToMachine (rel_Status relation)) (resource_key resource) of
                 None \<Rightarrow> State_Monad.return (Inr [])
               | Some machineRef \<Rightarrow>
                   do { m \<leftarrow> Get_machine e (Namespaced (mr_Ref machineRef));
                        State_Monad.return (case m of Inl err \<Rightarrow> Inl err | Inr machine \<Rightarrow> Inr (ms_Host (m_Spec machine))) }) }"

section \<open>The states\<close>

definition reconcileStatePending :: "env \<Rightarrow> TestResource \<Rightarrow> reconcile_result io" where
  "reconcileStatePending e resource =
     do { r \<leftarrow> requestResource e resource;
          case r of
            Inl err \<Rightarrow> finish no_requeue (Some err)
          | Inr ip \<Rightarrow>
              if ip \<noteq> []
              then do { err \<leftarrow> k8s_StatusUpdate e (KResource (set_status (\<lambda>s.
                          s\<lparr>trst_HostIP := ip, trst_State := ResourceUninitialized\<rparr>) resource));
                        finish no_requeue err }
              else finish (requeue_after second) None }"

text \<open>\<open>hostPorts[0]\<close> is out of range for a port without a binding.\<close>

fun add_ports :: "string \<Rightarrow> (string \<times> string list) list \<Rightarrow> string go" where
  "add_ports acc [] = Done acc"
| "add_ports acc ((port, hostPorts) # ports) =
     (case hostPorts of
        [] \<Rightarrow> Panicked ''index out of range [0] with length 0''
      | hp # _ \<Rightarrow>
          add_ports (if acc = [] then port @ '':'' @ hp else acc @ '','' @ port @ '':'' @ hp) ports)"

definition exit_phase :: "int \<Rightarrow> ResourcePhase" where
  "exit_phase code = (if code = 0 then ResourcePhaseSucceeded else ResourcePhaseFailed)"

text \<open>A container that has a finish time makes the resource finished.\<close>

definition finish_status :: "ContainerJSON \<Rightarrow> TestResourceStatus \<Rightarrow> TestResourceStatus" where
  "finish_status stats s =
     (if \<not> timeIsZero (cj_FinishedAt stats)
      then s\<lparr>trst_State := ResourceFinish, trst_ExitCode := cj_ExitCode stats,
             trst_Phase := exit_phase (cj_ExitCode stats)\<rparr>
      else s)"

definition ready_status :: "ContainerJSON \<Rightarrow> string \<Rightarrow> TestResourceStatus \<Rightarrow> TestResourceStatus go" where
  "ready_status stats ip s =
     (let s = s\<lparr>trst_ContainerSpec := (trst_ContainerSpec s)\<lparr>rcs_ClusterIP := ip\<rparr>, trst_State := ResourceReady\<rparr>;
          s = (case map_of (cj_Ports stats) SSHPort of
                 Some (p # _) \<Rightarrow> s\<lparr>trst_SSHPort := fst (Atoi p)\<rparr>
               | _ \<Rightarrow> s)
      in go_bind (add_ports (trst_PortBindings s) (cj_Ports stats)) (\<lambda>b. Done (s\<lparr>trst_PortBindings := b\<rparr>)))"

definition started_container ::
  "env \<Rightarrow> TestResource \<Rightarrow> ContainerJSON \<Rightarrow> reconcile_result io" where
  "started_container e resource stats =
     (if cj_Running stats \<and> trst_Phase (tr_Status resource) \<noteq> ResourcePhaseRunning
      then do { err \<leftarrow> k8s_StatusUpdate e (KResource (set_status (trst_Phase_update (\<lambda>_. ResourcePhaseRunning)) resource));
                finish no_requeue err }
      else if cj_Running stats \<and> map_of (cj_Networks stats) clusterNetwork = None
      then finish no_requeue (Some (ErrMsg (''network configuration error, miss '' @ clusterNetwork @ '' network'')))
      else (case (if cj_Running stats
                  then ready_status stats (the (map_of (cj_Networks stats) clusterNetwork)) (tr_Status resource)
                  else Done (tr_Status resource)) of
              Panicked p \<Rightarrow> crash p
            | Running \<Rightarrow> State_Monad.return Running
            | Done s \<Rightarrow>
                do { err \<leftarrow> k8s_StatusUpdate e (KResource (resource\<lparr>tr_Status := finish_status stats s\<rparr>));
                     finish no_requeue err }))"

definition reconcileStateUninitialized :: "env \<Rightarrow> units \<Rightarrow> TestResource \<Rightarrow> reconcile_result io" where
  "reconcileStateUninitialized e u resource =
     (if trst_Phase (tr_Status resource) = ResourcePhaseNone
      then do { err \<leftarrow> k8s_StatusUpdate e (KResource (set_status (trst_Phase_update (\<lambda>_. ResourcePhasePending)) resource));
                finish no_requeue err }
      else if tr_Image resource = [] then finish no_requeue None
      else do { m \<leftarrow> getHostMachine e (resource_ref resource);
                case m of
                  Inl err \<Rightarrow> finish no_requeue (Some err)
                | Inr machine \<Rightarrow>
           do { cl \<leftarrow> MakeClient e machine;
                case cl of
                  Inl err \<Rightarrow> finish no_requeue (Some err)
                | Inr d \<Rightarrow>
           do { stats \<leftarrow> docker_Inspect e d (ContainerName resource);
                case stats of
                  Inl err \<Rightarrow>
                    if \<not> IsErrDockerNotFound err
                    then do { Event (tr_Name resource) ''Warning'' ''CreateContainer''
                                (''create container '' @ ContainerName resource @ '' error: '' @ error_text err);
                              finish no_requeue (Some err) }
                    else do { res \<leftarrow> createContainer e u resource d;
                              case res of
                                Panicked p \<Rightarrow> crash p
                              | Running \<Rightarrow> State_Monad.return Running
                              | Done (Some x) \<Rightarrow> finish no_requeue (Some x)
                              | Done None \<Rightarrow> finish requeue_now None }
                | Inr stats \<Rightarrow>
                    if timeIsZero (cj_StartedAt stats)
                    then (if map_of (cj_Networks stats) clusterNetwork = None
                          then do { err \<leftarrow> docker_do e d (NetworkConnect clusterNetwork (ContainerName resource));
                                    finish (if err = None then requeue_now else no_requeue) err }
                          else do { err \<leftarrow> docker_do e d (ContainerStart (ContainerName resource));
                                    case err of
                                      Some x \<Rightarrow>
                                        do { Event (tr_Name resource) ''Warning'' ''StartContainer''
                                               (''start container '' @ ContainerName resource @ '' error: '' @ error_text x);
                                             finish no_requeue (Some x) }
                                    | None \<Rightarrow> finish requeue_now None })
                    else if cj_Restarting stats then finish (requeue_both second) None
                    else started_container e resource stats } } })"

definition reconcileStateReady :: "env \<Rightarrow> TestResource \<Rightarrow> reconcile_result io" where
  "reconcileStateReady e resource =
     do { m \<leftarrow> getHostMachine e (resource_ref resource);
          case m of
            Inl err \<Rightarrow> finish no_requeue (Some err)
          | Inr machine \<Rightarrow>
     do { cl \<leftarrow> DockerClient e machine;
          case cl of
            Inl err \<Rightarrow> finish no_requeue (Some err)
          | Inr d \<Rightarrow>
     do { stats \<leftarrow> docker_Inspect e d (ContainerName resource);
          case stats of
            Inl err \<Rightarrow>
              if \<not> IsErrDockerNotFound err then finish no_requeue (Some err)
              else do { err \<leftarrow> k8s_StatusUpdate e (KResource (set_state ResourceUninitialized resource));
                        finish no_requeue err }
          | Inr stats \<Rightarrow>
              (let s = tr_Status resource;
                   s = (if cj_Restarting stats then s\<lparr>trst_State := ResourceUninitialized\<rparr> else s);
                   s = finish_status stats s
               in if trst_State s \<noteq> ResourceReady
                  then do { err \<leftarrow> k8s_StatusUpdate e (KResource (resource\<lparr>tr_Status := s\<rparr>));
                            finish no_requeue err }
                  else finish (requeue_both second) None) } } }"

definition reconcileStateFinish :: "env \<Rightarrow> TestResource \<Rightarrow> reconcile_result io" where
  "reconcileStateFinish e resource = finish no_requeue None"

definition reconcileStateDestroy :: "env \<Rightarrow> TestResource \<Rightarrow> reconcile_result io" where
  "reconcileStateDestroy e resource =
     do { m \<leftarrow> getHostMachine e (resource_ref resource);
          case m of
            Inl err \<Rightarrow> finish no_requeue (Some err)
          | Inr machine \<Rightarrow>
     do { r \<leftarrow> finalize e resource machine;
          case r of
            Inl err \<Rightarrow> finish no_requeue (Some err)
          | Inr requeue \<Rightarrow>
              if requeue then finish (requeue_after second) None
              else do { Event (tr_Name resource) ''Normal'' ''uninstall'' ''uninstall resource successfully'';
                        err \<leftarrow> k8s_StatusUpdate e (KResource (set_status (\<lambda>s.
                          s\<lparr>trst_ContainerSpec := zero_ContainerSpec, trst_State := ResourceUninitialized\<rparr>) resource));
                        finish no_requeue err } } }"

section \<open>The resource controller\<close>

text \<open>The relationship after a resource has given its place back.\<close>

definition release_resource :: "RelationshipStatus \<Rightarrow> string \<Rightarrow> TestResource \<Rightarrow> RelationshipStatus go" where
  "release_resource s machineKey resource =
     go_bind (refsRemove (resources_on s machineKey) (resource_ref resource)) (\<lambda>l.
     go_bind (nil_put (MachineToResources s) machineKey l) (\<lambda>m2r.
       Done (s\<lparr>MachineToResources := m2r, ResourceToMachine := nil_del (ResourceToMachine s) (resource_key resource)\<rparr>)))"

definition drop_resource_finalizer :: "env \<Rightarrow> TestResource \<Rightarrow> reconcile_result io" where
  "drop_resource_finalizer e resource =
     (case drop_finalizer resourceFinalizer (tr_Meta resource) of
        Panicked p \<Rightarrow> crash p
      | Running \<Rightarrow> State_Monad.return Running
      | Done meta \<Rightarrow>
          do { err \<leftarrow> k8s_Update e (KResource (resource\<lparr>tr_Meta := meta\<rparr>));
               finish no_requeue err })"

definition delete_resource :: "env \<Rightarrow> TestResource \<Rightarrow> reconcile_result io" where
  "delete_resource e resource =
     do { rel \<leftarrow> getRelationship e;
          case rel of
            Inl err \<Rightarrow> finish no_requeue (Some err)
          | Inr relation \<Rightarrow>
              (case nil_get (ResourceToMachine (rel_Status relation)) (resource_key resource) of
                 None \<Rightarrow> drop_resource_finalizer e resource
               | Some machineRef \<Rightarrow>
                   do { m \<leftarrow> Get_machine e (Namespaced (mr_Ref machineRef));
                        case m of
                          Inl err \<Rightarrow> finish no_requeue (Some err)
                        | Inr machine \<Rightarrow>
                   do { r \<leftarrow> finalize e resource machine;
                        case r of
                          Inl err \<Rightarrow> finish no_requeue (Some err)
                        | Inr requeue \<Rightarrow>
                            if requeue then finish (requeue_after second) None
                            else (case release_resource (rel_Status relation) (machine_key machine) resource of
                                    Panicked p \<Rightarrow> crash p
                                  | Running \<Rightarrow> State_Monad.return Running
                                  | Done s \<Rightarrow>
                                      do { err \<leftarrow> k8s_StatusUpdate e (KRelationship (relation\<lparr>rel_Status := s\<rparr>));
                                           case err of
                                             Some x \<Rightarrow> finish no_requeue (Some x)
                                           | None \<Rightarrow> drop_resource_finalizer e resource }) } }) }"

definition TestResource_Reconcile :: "env \<Rightarrow> units \<Rightarrow> nsname \<Rightarrow> reconcile_result io" where
  "TestResource_Reconcile e u req =
     do { r \<leftarrow> Get_resource e req;
          case r of
            Inl err \<Rightarrow> finish no_requeue (IgnoreNotFound (Some err))
          | Inr resource \<Rightarrow>
              if lacks_finalizer resourceFinalizer (tr_Meta resource)
              then do { err \<leftarrow> k8s_Update e (KResource (resource\<lparr>tr_Meta := add_finalizer resourceFinalizer (tr_Meta resource)\<rparr>));
                        finish no_requeue err }
              else if being_deleted resourceFinalizer (tr_Meta resource) then delete_resource e resource
              else (case tr_State resource of
                      ResourceStateNone \<Rightarrow>
                        do { err \<leftarrow> k8s_StatusUpdate e (KResource (set_state ResourcePending resource));
                             finish no_requeue err }
                    | ResourcePending \<Rightarrow> reconcileStatePending e resource
                    | ResourceUninitialized \<Rightarrow> reconcileStateUninitialized e u resource
                    | ResourceReady \<Rightarrow> reconcileStateReady e resource
                    | ResourceFinish \<Rightarrow> reconcileStateFinish e resource
                    | ResourceDestroy \<Rightarrow> reconcileStateDestroy e resource
                    | UnknownResourceState _ \<Rightarrow> finish no_requeue None) }"

end
