(* ===== verification/Resource_Props.thy ===== *)
theory Resource_Props
  imports Resource_Controller Admission
begin

text \<open>
  Properties of the resource controller: the transitions of a resource, the order in which a
  deleted resource gives up its place, and that giving it up keeps the relationship consistent.
\<close>

section \<open>The state machine of a resource\<close>

inductive resource_trans :: "ResourceState \<Rightarrow> ResourceState \<Rightarrow> bool" where
  init: "resource_trans ResourceStateNone ResourcePending"
| assigned: "resource_trans ResourcePending ResourceUninitialized"
| installing: "resource_trans ResourceUninitialized ResourceUninitialized"
| running: "resource_trans ResourceUninitialized ResourceReady"
| ended: "resource_trans ResourceUninitialized ResourceFinish"
| lost: "resource_trans ResourceReady ResourceUninitialized"
| stopped: "resource_trans ResourceReady ResourceFinish"
| cleaned: "resource_trans ResourceDestroy ResourceUninitialized"

inductive_simps resource_trans_simps [simp]:
  "resource_trans ResourceStateNone s" "resource_trans ResourcePending s"
  "resource_trans ResourceUninitialized s" "resource_trans ResourceReady s"
  "resource_trans ResourceFinish s" "resource_trans ResourceDestroy s"

text \<open>A status write keeps metadata, specification and claim, and follows a transition.\<close>

definition resource_step :: "TestResource \<Rightarrow> TestResource \<Rightarrow> bool" where
  "resource_step r r' \<longleftrightarrow>
     tr_Meta r' = tr_Meta r \<and> tr_Spec r' = tr_Spec r \<and>
     trst_ClaimRef (tr_Status r') = trst_ClaimRef (tr_Status r) \<and>
     resource_trans (tr_State r) (tr_State r')"

definition resource_ok :: "TestResource \<Rightarrow> event \<Rightarrow> bool" where
  "resource_ok r ev \<longleftrightarrow>
     (case ev of
        StatusUpdate x err \<Rightarrow> (\<forall>r'. x = KResource r' \<longrightarrow> resource_step r r')
      | _ \<Rightarrow> True)"

lemma resource_ok_simps [simp]:
  "resource_ok m (Get k n)" "resource_ok m (Docker d op ok)" "resource_ok m (Recorded a b c f)"
  "resource_ok m (StatusUpdate (KRelationship r) err)" "resource_ok m (Update x err)"
  "resource_ok m (StatusUpdate (KResource r') err) \<longleftrightarrow> resource_step m r'"
  by (simp_all add: resource_ok_def)

lemma emits_record_warnings [emits_intros]:
  assumes "\<And>a b c f. P (Recorded a b c f)"
  shows "emits P (record_warnings resource reason ws)"
proof (induction ws)
  case Nil
  then show ?case by (simp add: emits_intros)
next
  case (Cons w ws)
  show ?case unfolding record_warnings.simps by (intro emits_intros assms Cons)
qed

lemma emits_pull_and_create [emits_intros]:
  assumes "\<And>a b c f. P (Recorded a b c f)" "\<And>d op ok. P (Docker d op ok)"
  shows "emits P (pull_and_create e resource d name reason config hostConfig)"
  unfolding pull_and_create_def by (intro emits_intros assms)

lemma emits_getResourceBinding [emits_intros]: "(\<And>k n. P (Get k n)) \<Longrightarrow> emits P (getResourceBinding e r)"
  unfolding getResourceBinding_def by (intro emits_intros)

lemma emits_getHostMachine [emits_intros]: "(\<And>k n. P (Get k n)) \<Longrightarrow> emits P (getHostMachine e r)"
  unfolding getHostMachine_def by (intro emits_intros)

lemma emits_createContainer [emits_intros]:
  assumes "\<And>a b c f. P (Recorded a b c f)" "\<And>d op ok. P (Docker d op ok)" "\<And>k n. P (Get k n)"
  shows "emits P (createContainer e u resource d)"
  unfolding createContainer_def by (intro emits_intros assms)

lemma emits_createCleaner [emits_intros]:
  assumes "\<And>a b c f. P (Recorded a b c f)" "\<And>d op ok. P (Docker d op ok)" "\<And>k n. P (Get k n)"
  shows "emits P (createCleaner e resource d)"
  unfolding createCleaner_def Let_def by (intro emits_intros assms)

lemma emits_removeContainer [emits_intros]:
  "(\<And>d op ok. P (Docker d op ok)) \<Longrightarrow> emits P (removeContainer e resource d)"
  unfolding removeContainer_def by (intro emits_intros)

lemma emits_finalize [emits_intros]:
  assumes "\<And>a b c f. P (Recorded a b c f)" "\<And>d op ok. P (Docker d op ok)" "\<And>k n. P (Get k n)"
  shows "emits P (finalize e resource machine)"
  unfolding finalize_def by (intro emits_intros assms)

lemma emits_requestResource [emits_intros]: "(\<And>k n. P (Get k n)) \<Longrightarrow> emits P (requestResource e resource)"
  unfolding requestResource_def by (intro emits_intros)

lemma resource_step_status:
  "resource_step r (set_status f r) \<longleftrightarrow>
   trst_ClaimRef (f (tr_Status r)) = trst_ClaimRef (tr_Status r) \<and> resource_trans (tr_State r) (trst_State (f (tr_Status r)))"
  "resource_step r (r\<lparr>tr_Status := s\<rparr>) \<longleftrightarrow>
   trst_ClaimRef s = trst_ClaimRef (tr_Status r) \<and> resource_trans (tr_State r) (trst_State s)"
  "resource_step r (set_state st r) \<longleftrightarrow> resource_trans (tr_State r) st"
  by (simp_all add: resource_step_def)

lemma finish_status_frame [simp]:
  "trst_ClaimRef (finish_status stats s) = trst_ClaimRef s"
  "trst_State (finish_status stats s) = (if timeIsZero (cj_FinishedAt stats) then trst_State s else ResourceFinish)"
  by (simp_all add: finish_status_def)

lemma ready_status_frame:
  "ready_status stats ip s = Done s' \<Longrightarrow> trst_ClaimRef s' = trst_ClaimRef s \<and> trst_State s' = ResourceReady"
  by (auto simp: ready_status_def Let_def split: option.splits list.splits)

lemma state_ok:
  "tr_State r = ResourcePending \<Longrightarrow> emits (resource_ok r) (reconcileStatePending e r)"
  "tr_State r = ResourceUninitialized \<Longrightarrow> emits (resource_ok r) (started_container e r stats)"
  "tr_State r = ResourceUninitialized \<Longrightarrow> emits (resource_ok r) (reconcileStateUninitialized e u r)"
  "tr_State r = ResourceReady \<Longrightarrow> emits (resource_ok r) (reconcileStateReady e r)"
  "tr_State r = ResourceDestroy \<Longrightarrow> emits (resource_ok r) (reconcileStateDestroy e r)"
proof -
  show "emits (resource_ok r) (reconcileStatePending e r)" if "tr_State r = ResourcePending"
    unfolding reconcileStatePending_def
    by (intro emits_intros) (use that in \<open>simp_all add: resource_step_status\<close>)
  show started: "emits (resource_ok r) (started_container e r stats)"
    if "tr_State r = ResourceUninitialized" for stats
    unfolding started_container_def
    by (intro emits_intros)
       (use that in \<open>auto simp: resource_step_status dest!: ready_status_frame split: if_splits\<close>)
  show "emits (resource_ok r) (reconcileStateUninitialized e u r)" if "tr_State r = ResourceUninitialized"
    unfolding reconcileStateUninitialized_def
    by (intro emits_intros started that) (use that in \<open>simp_all add: resource_step_status\<close>)
  show "emits (resource_ok r) (reconcileStateReady e r)" if "tr_State r = ResourceReady"
    unfolding reconcileStateReady_def Let_def
    by (intro emits_intros) (use that in \<open>auto simp: resource_step_status split: if_splits\<close>)
  show "emits (resource_ok r) (reconcileStateDestroy e r)" if "tr_State r = ResourceDestroy"
    unfolding reconcileStateDestroy_def
    by (intro emits_intros) (use that in \<open>simp_all add: resource_step_status\<close>)
qed

definition resource_follows :: "env \<Rightarrow> nsname \<Rightarrow> event \<Rightarrow> bool" where
  "resource_follows e req ev \<longleftrightarrow>
     (\<forall>r' err. ev = StatusUpdate (KResource r') err \<longrightarrow> (\<exists>h r. ask_resource e h req = Inr r \<and> resource_step r r'))"

lemma resource_follows_simps [simp]:
  "resource_follows e req (Get k n)" "resource_follows e req (Update x err)"
  "resource_follows e req (Docker d op ok)" "resource_follows e req (Recorded a b c f)"
  "resource_follows e req (StatusUpdate (KRelationship rel) err)"
  "resource_follows e req (StatusUpdate (KResource r') err) \<longleftrightarrow>
     (\<exists>h r. ask_resource e h req = Inr r \<and> resource_step r r')"
  by (simp_all add: resource_follows_def)

lemma resource_ok_follows: "ask_resource e h req = Inr r \<Longrightarrow> resource_ok r ev \<Longrightarrow> resource_follows e req ev"
  unfolding resource_follows_def by (metis resource_ok_simps(6))

lemma Get_resource_answer: "run_state (Get_resource e req) h1 = (Inr r, h2) \<Longrightarrow> ask_resource e h1 req = Inr r"
  by (simp add: io_simps)

lemma emits_drop_resource_finalizer [emits_intros]:
  "(\<And>x err. P (Update x err)) \<Longrightarrow> emits P (drop_resource_finalizer e r)"
  unfolding drop_resource_finalizer_def by (intro emits_intros)

lemma emits_delete_resource [emits_intros]:
  assumes "\<And>a b c f. P (Recorded a b c f)" "\<And>d op ok. P (Docker d op ok)" "\<And>k n. P (Get k n)"
    "\<And>x err. P (Update x err)" "\<And>rel err. P (StatusUpdate (KRelationship rel) err)"
  shows "emits P (delete_resource e r)"
  unfolding delete_resource_def by (intro emits_intros assms)

text \<open>C16: the resource state machine. Whatever the world answers, a reconciliation writes the status
  of a resource only along a transition from the resource it read, never changes its metadata,
  specification or claim in doing so, and never sets it to destroy.\<close>

theorem resource_steps: "emits (resource_follows e req) (TestResource_Reconcile e u req)"
proof -
  let ?P = "resource_follows e req"
  have sub: "emits ?P M" if "ask_resource e h1 req = Inr r" "emits (resource_ok r) M"
    for h1 r and M :: "reconcile_result io"
    using that(2) by (rule emits_weaken) (rule resource_ok_follows [OF that(1)])
  have states: "emits ?P (case tr_State r of
        ResourceStateNone \<Rightarrow>
          do { err \<leftarrow> k8s_StatusUpdate e (KResource (set_state ResourcePending r)); finish no_requeue err }
      | ResourcePending \<Rightarrow> reconcileStatePending e r
      | ResourceUninitialized \<Rightarrow> reconcileStateUninitialized e u r
      | ResourceReady \<Rightarrow> reconcileStateReady e r
      | ResourceFinish \<Rightarrow> reconcileStateFinish e r
      | ResourceDestroy \<Rightarrow> reconcileStateDestroy e r
      | UnknownResourceState _ \<Rightarrow> finish no_requeue None)" if r: "ask_resource e h1 req = Inr r" for h1 r
  proof (cases "tr_State r")
    case ResourceStateNone
    then have "resource_step r (set_state ResourcePending r)" by (simp add: resource_step_status)
    with ResourceStateNone r show ?thesis by simp (intro emits_intros; simp; metis)
  next
    case ResourceFinish
    then show ?thesis by (simp add: reconcileStateFinish_def emits_finish)
  qed (simp_all add: sub [OF r] state_ok emits_finish)
  show ?thesis
    unfolding TestResource_Reconcile_def
    by (intro emits_intros) (auto dest!: Get_resource_answer intro: states)
qed

section \<open>Giving up a place\<close>

text \<open>
  What a run has done on the daemon \<open>d\<close> since the history had length \<open>n\<close>: the container of the
  resource was not there or has been removed, and after that its cleaner was waited for and removed.
\<close>

definition cleaned_up :: "env \<Rightarrow> nat \<Rightarrow> string \<Rightarrow> TestResource \<Rightarrow> history \<Rightarrow> bool" where
  "cleaned_up e n d r h \<longleftrightarrow>
     (\<exists>h1 h2 h3. h = h1 @ Docker d (ContainerWait (ContainerCleanerName r)) True # h2
                        @ Docker d (ContainerRemove (ContainerCleanerName r) False) True # h3 \<and>
        taken_away e n d (ContainerName r) (\<lambda>_. True) h1)"

text \<open>
  The finalizer of a resource goes away only when the relationship has just been read and is
  missing or has no entry for the resource, or right after a relationship was written from which
  the resource has been taken; then the entry of the relationship that was read names a machine,
  and on the daemon of this machine the run has removed the container and its cleaner before.
\<close>

definition never_placed :: "env \<Rightarrow> TestResource \<Rightarrow> history \<Rightarrow> bool" where
  "never_placed e r h \<longleftrightarrow>
     (\<exists>h0. h = h0 @ [Get ''Relationship'' relationshipName] \<and>
        (case ask_relationship e h0 relationshipName of
           Inl err \<Rightarrow> IsNotFound (Some err)
         | Inr rel \<Rightarrow> nil_get (ResourceToMachine (rel_Status rel)) (resource_key r) = None))"

definition given_back :: "env \<Rightarrow> nat \<Rightarrow> TestResource \<Rightarrow> history \<Rightarrow> bool" where
  "given_back e n r h \<longleftrightarrow>
     (\<exists>h0 rel mr m s. h = h0 @ [StatusUpdate (KRelationship (rel\<lparr>rel_Status := s\<rparr>)) None] \<and>
        (\<exists>h1. ask_relationship e h1 relationshipName = Inr rel) \<and>
        nil_get (ResourceToMachine (rel_Status rel)) (resource_key r) = Some mr \<and>
        (\<exists>h2. ask_machine e h2 (Namespaced (mr_Ref mr)) = Inr m) \<and>
        cleaned_up e n (DockerURL m) r h0 \<and>
        release_resource (rel_Status rel) (machine_key m) r = Done s)"

definition resource_released :: "env \<Rightarrow> nat \<Rightarrow> history \<Rightarrow> event \<Rightarrow> bool" where
  "resource_released e n h ev \<longleftrightarrow>
     (\<forall>r err. ev = Update (KResource r) err \<and> resourceFinalizer \<notin> set (meta_Finalizers (tr_Meta r)) \<longrightarrow>
       never_placed e r h \<or> given_back e n r h)"

text \<open>\<open>client.IgnoreNotFound\<close> is applied to a Docker error, which is never an error of the API server.\<close>

definition docker_errors :: "env \<Rightarrow> bool" where
  "docker_errors e \<longleftrightarrow>
     (\<forall>h d op x. ask_docker e h d op = Some x \<longrightarrow> \<not> IsNotFound (Some x)) \<and>
     (\<forall>h d name x. ask_inspect e h d name = Inl x \<longrightarrow> \<not> IsNotFound (Some x))"

lemma released_silent: "(\<And>r err. ev \<noteq> Update (KResource r) err) \<Longrightarrow> resource_released e n h ev"
  by (auto simp: resource_released_def)

lemma released_kept:
  "resource_released e n h (Update (KResource (r\<lparr>tr_Meta := add_finalizer resourceFinalizer (tr_Meta r)\<rparr>)) err)"
  by (simp add: resource_released_def add_finalizer_def)

lemma drop_finalizer_ref:
  assumes "drop_finalizer f (tr_Meta r) = Done meta"
  shows "resource_ref (r\<lparr>tr_Meta := meta\<rparr>) = resource_ref r" "resource_key (r\<lparr>tr_Meta := meta\<rparr>) = resource_key r"
  using assms by (auto simp: drop_finalizer_def resource_ref_def resource_key_def CreateRef_def)

lemma release_resource_ref:
  "resource_ref r' = resource_ref r \<Longrightarrow> resource_key r' = resource_key r \<Longrightarrow>
   release_resource s mk r' = release_resource s mk r"
  by (simp add: release_resource_def)

lemma getRelationship_answer:
  "run_state (getRelationship e) h1 = (Inr rel, h2) \<Longrightarrow>
   h2 = h1 @ [Get ''Relationship'' relationshipName] \<and>
   (ask_relationship e h1 relationshipName = Inr rel \<or> rel = zero_Relationship)"
  by (auto simp: io_simps split: sum.splits if_splits)

lemma renamed_same:
  assumes "resource_ref r' = resource_ref r" "resource_key r' = resource_key r" "tr_Meta r' = (tr_Meta r)\<lparr>meta_Finalizers := fs\<rparr>"
  shows "never_placed e r' h = never_placed e r h" "given_back e n r' h = given_back e n r h"
proof -
  have "ContainerName r' = ContainerName r" "ContainerCleanerName r' = ContainerCleanerName r"
    using assms(3) by (simp_all add: ContainerName_def ContainerCleanerName_def)
  then show "never_placed e r' h = never_placed e r h" "given_back e n r' h = given_back e n r h"
    using release_resource_ref [OF assms(1,2)]
    by (simp_all only: never_placed_def given_back_def cleaned_up_def assms(2))
qed

lemma drop_released:
  assumes "never_placed e r h \<or> given_back e n r h"
  shows "always (resource_released e n) (drop_resource_finalizer e r) h"
  unfolding drop_resource_finalizer_def
proof (intro always_intros)
  fix meta assume meta: "drop_finalizer resourceFinalizer (tr_Meta r) = Done meta"
  then have "\<exists>fs. meta = (tr_Meta r)\<lparr>meta_Finalizers := fs\<rparr>"
    by (auto simp: drop_finalizer_def)
  with drop_finalizer_ref [OF meta] assms
  show "resource_released e n h (Update (KResource (r\<lparr>tr_Meta := meta\<rparr>)) (ask_write e h (KResource (r\<lparr>tr_Meta := meta\<rparr>))))"
    unfolding resource_released_def event.inject k8s_obj.inject
    by (auto simp: renamed_same)
qed

lemma getRelationship_unplaced:
  assumes "run_state (getRelationship e) h1 = (Inr rel, h2)"
    and "nil_get (ResourceToMachine (rel_Status rel)) (resource_key r) = None"
  shows "never_placed e r h2"
  using assms by (auto simp: never_placed_def io_simps split: sum.splits if_splits)

lemma getRelationship_placed:
  assumes "run_state (getRelationship e) h1 = (Inr rel, h2)"
    and "nil_get (ResourceToMachine (rel_Status rel)) k = Some mr"
  shows "ask_relationship e h1 relationshipName = Inr rel" "length h1 \<le> length h2"
  using assms by (auto simp: io_simps zero_Relationship_def nil_get_def split: sum.splits if_splits)

lemma removeContainer_gone:
  assumes "run_state (removeContainer e r d) h1 = (None, h2)" "n \<le> length h1"
  shows "taken_away e n d (ContainerName r) (\<lambda>_. True) h2"
proof (rule inspect_then_remove [OF _ assms(2)])
  show "run_state (do { c \<leftarrow> docker_Inspect e d (ContainerName r);
      case c of Inl x \<Rightarrow> State_Monad.return (if \<not> IsErrDockerNotFound x then Some x else None)
      | Inr info \<Rightarrow> if \<not> True then State_Monad.return None
          else docker_do e d (ContainerRemove (ContainerName r) True) }) h1 = (None, h2)"
    using assms(1) by (auto simp: removeContainer_def io_simps split: sum.splits if_splits)
qed

lemma removeContainer_error:
  "docker_errors e \<Longrightarrow> run_state (removeContainer e r d) h1 = (Some x, h2) \<Longrightarrow> IgnoreNotFound (Some x) = Some x"
  by (auto simp: removeContainer_def docker_errors_def IgnoreNotFound_def io_simps split: sum.splits if_splits)

lemma finalize_events:
  assumes run: "run_state (finalize e r m) h1 = (Inr False, h2)" and world: "docker_errors e"
  obtains h3 where "run_state (removeContainer e r (DockerURL m)) h1 = (None, h3)"
    "\<exists>evs. h2 = (h3 @ [Docker (DockerURL m) (ContainerInspect (ContainerCleanerName r)) True])
       @ Docker (DockerURL m) (ContainerWait (ContainerCleanerName r)) True
       # evs @ [Docker (DockerURL m) (ContainerRemove (ContainerCleanerName r) False) True]"
proof -
  let ?d = "DockerURL m"
  obtain x h3 where rm: "run_state (removeContainer e r ?d) h1 = (x, h3)" by fastforce
  show thesis
  proof (cases x)
    case (Some y)
    with run rm removeContainer_error [OF world] show thesis
      by (auto simp: finalize_def io_simps split: option.splits sum.splits if_splits)
  next
    case None
    let ?evs = "drop (length h3 + 2) (butlast h2)"
    from run rm None have "\<exists>evs. h2 = (h3 @ [Docker ?d (ContainerInspect (ContainerCleanerName r)) True])
       @ Docker ?d (ContainerWait (ContainerCleanerName r)) True
       # evs @ [Docker ?d (ContainerRemove (ContainerCleanerName r) False) True]"
      by (cases "ask_inspect e h3 ?d (ContainerCleanerName r)")
         (auto simp: finalize_def io_simps is_ok_def split: option.splits sum.splits if_splits prod.splits)
    with rm None show thesis using that by blast
  qed
qed

lemma finalize_cleaned:
  assumes run: "run_state (finalize e r m) h1 = (Inr False, h2)" and world: "docker_errors e" and n: "n \<le> length h1"
  shows "cleaned_up e n (DockerURL m) r h2"
proof -
  let ?d = "DockerURL m" and ?cl = "ContainerCleanerName r"
  from run world obtain h3 where rm: "run_state (removeContainer e r ?d) h1 = (None, h3)"
    and rest: "\<exists>evs. h2 = (h3 @ [Docker ?d (ContainerInspect ?cl) True]) @ Docker ?d (ContainerWait ?cl) True
                 # evs @ [Docker ?d (ContainerRemove ?cl False) True]"
    by (rule finalize_events)
  from taken_away_later [OF removeContainer_gone [OF rm n]] rest show ?thesis
    unfolding cleaned_up_def by metis
qed

definition no_update :: "event \<Rightarrow> bool" where
  "no_update ev \<longleftrightarrow> (\<forall>x err. ev \<noteq> Update x err)"

lemma no_update_simps [simp]:
  "no_update (Get k n)" "no_update (Docker d op ok)" "no_update (Recorded a b c f)"
  "no_update (StatusUpdate x err)"
  by (simp_all add: no_update_def)

lemma always_silent: "emits no_update m \<Longrightarrow> always (resource_released e n) m h"
  by (rule always_emits [where Q = no_update]) (auto intro: released_silent simp: no_update_def)

lemma state_no_update:
  "emits no_update (reconcileStatePending e r)" "emits no_update (started_container e r stats)"
  "emits no_update (reconcileStateUninitialized e u r)" "emits no_update (reconcileStateReady e r)"
  "emits no_update (reconcileStateDestroy e r)"
proof -
  show "emits no_update (reconcileStatePending e r)"
    unfolding reconcileStatePending_def by (intro emits_intros no_update_simps)
  show started: "emits no_update (started_container e r stats)" for stats
    unfolding started_container_def by (intro emits_intros no_update_simps)
  show "emits no_update (reconcileStateUninitialized e u r)"
    unfolding reconcileStateUninitialized_def by (intro emits_intros no_update_simps started)
  show "emits no_update (reconcileStateReady e r)"
    unfolding reconcileStateReady_def Let_def by (intro emits_intros no_update_simps)
  show "emits no_update (reconcileStateDestroy e r)"
    unfolding reconcileStateDestroy_def by (intro emits_intros no_update_simps)
qed

lemma delete_released:
  assumes "docker_errors e" "n \<le> length h"
  shows "always (resource_released e n) (delete_resource e r) h"
proof -
  have fin: "always (resource_released e n) (finalize e r m) h" for m h
    by (rule always_silent) (intro emits_intros no_update_simps)
  have handed: "given_back e n r h5"
    if rel: "run_state (getRelationship e) h = (Inr rel, h1)"
      and mr: "nil_get (ResourceToMachine (rel_Status rel)) (resource_key r) = Some mr"
      and m: "run_state (Get_machine e (Namespaced (mr_Ref mr))) h1 = (Inr m, h2)"
      and f: "run_state (finalize e r m) h2 = (Inr b, h3)" "\<not> b"
      and s: "release_resource (rel_Status rel) (machine_key m) r = Done s"
      and w: "run_state (k8s_StatusUpdate e (KRelationship (rel\<lparr>rel_Status := s\<rparr>))) h3 = (None, h5)"
    for rel h1 mr m h2 b h3 s h5
  proof -
    note read = getRelationship_placed [OF rel mr]
    from m have ask: "ask_machine e h1 (Namespaced (mr_Ref mr)) = Inr m" and "h2 = h1 @ [Get ''Machine'' (Namespaced (mr_Ref mr))]"
      by (auto simp: io_simps)
    with read(2) assms(2) have "n \<le> length h2" by simp
    with finalize_cleaned [OF _ assms(1)] f have "cleaned_up e n (DockerURL m) r h3" by simp
    moreover from w have "h5 = h3 @ [StatusUpdate (KRelationship (rel\<lparr>rel_Status := s\<rparr>)) None]" by (auto simp: io_simps)
    ultimately show ?thesis unfolding given_back_def using read(1) mr ask s by blast
  qed
  show ?thesis
    unfolding delete_resource_def
    by (intro always_intros fin drop_released)
       (auto intro: released_silent getRelationship_unplaced handed)
qed


text \<open>
  A world in which the small cluster is placed: the relationship, the machine and the first
  resource of the request can be read.
\<close>

definition placed_resource :: "ResourceState \<Rightarrow> TestResource" where
  "placed_resource st =
     (let r = snd (demo_resources ! 0)
      in r\<lparr>tr_Meta := add_finalizer resourceFinalizer (tr_Meta r),
           tr_Status := (tr_Status r)\<lparr>trst_State := st, trst_Phase := ResourcePhasePending,
             trst_ContainerSpec := zero_ContainerSpec\<lparr>rcs_Image := ''busybox''\<rparr>\<rparr>\<rparr>)"

definition deleted_resource :: TestResource where
  "deleted_resource =
     (let r = placed_resource ResourceFinish in r\<lparr>tr_Meta := (tr_Meta r)\<lparr>meta_DeletionTimestamp := Some 7\<rparr>\<rparr>)"

definition placed_env :: "TestResource \<Rightarrow> env" where
  "placed_env r = demo_env\<lparr>
     ask_machine := (\<lambda>h n. if nn_Name n = [] then Inl (ErrMsg ''resource name may not be empty'') else Inr demo_machine),
     ask_resource := (\<lambda>h n. Inr r),
     ask_relationship := (\<lambda>h n. Inr \<lparr>rel_Meta = demo_meta (nn_Name n) ''u0'', rel_Status = demo_placed\<rparr>)\<rparr>"

text \<open>The cleaner of the deleted resource has been started in an earlier run; this run lets it go.\<close>

definition cleaning :: history where
  "cleaning =
     (let d = DockerURL demo_machine; cl = ContainerCleanerName deleted_resource
      in [Docker d (ContainerCreate cl zero_Conf zero_HostConf) True, Docker d (ContainerStart cl) True])"

definition released_run :: history where
  "released_run = snd (run_state (TestResource_Reconcile (placed_env deleted_resource) demo_units
     \<lparr>nn_Namespace = ''default'', nn_Name = ''n1''\<rparr>) cleaning)"

lemma placed_docker_errors: "docker_errors (placed_env r)"
  by (simp add: docker_errors_def placed_env_def demo_env_def)


section \<open>Releasing keeps the relationship consistent\<close>

lemma set_cpus_of_filter: "set (cpus_of (filter P rs)) \<subseteq> set (cpus_of rs)"
  by (induction rs) auto

lemma exclusive_filter: "exclusive rs \<Longrightarrow> exclusive (filter P rs)"
proof -
  have "distinct (cpus_of rs) \<Longrightarrow> distinct (cpus_of (filter P rs))"
    using set_cpus_of_filter by (induction rs) fastforce+
  then show "exclusive rs \<Longrightarrow> exclusive (filter P rs)"
    by (simp add: exclusive_def sorted_wrt_filter)
qed

definition plain_refs :: "RelationshipStatus \<Rightarrow> bool" where
  "plain_refs s \<longleftrightarrow> (\<forall>mk. \<forall>rr\<in>set (resources_on s mk). plain_ref (rr_Ref rr))"

lemma plain_refs_entries:
  assumes "list_all (\<lambda>p. list_all (\<lambda>rr. plain_ref (rr_Ref rr)) (snd p)) (nil_entries (MachineToResources s))"
  shows "plain_refs s"
  unfolding plain_refs_def
proof (intro allI ballI)
  fix mk rr assume "rr \<in> set (resources_on s mk)"
  then obtain l where "(mk, l) \<in> set (nil_entries (MachineToResources s))" "rr \<in> set l"
    by (auto simp: resources_on_def nil_get_def nil_entries_def split: option.splits) (metis map_of_SomeD)
  with assms show "plain_ref (rr_Ref rr)" unfolding list_all_iff by fastforce
qed

lemma release_result:
  assumes "release_resource s mk r = Done s'"
  shows "resources_on s' k = (if k = mk then filter (\<lambda>rr. rr_Ref rr \<noteq> resource_ref r) (resources_on s mk) else resources_on s k)"
    and "nil_get (ResourceToMachine s') k = (if k = resource_key r then None else nil_get (ResourceToMachine s) k)"
    and "AcceptedRequests s' = AcceptedRequests s" "MachineLocks s' = MachineLocks s"
  using assms
  by (auto simp: release_resource_def refsRemove_def resources_on_def nil_get_del dest!: nil_get_put split: if_splits)

lemma release_keeps:
  assumes idx: "indexed s" and plain: "plain_refs s" "plain_ref (resource_ref r)"
    and placed: "nil_get (ResourceToMachine s) (resource_key r) = Some mr"
    and rel: "release_resource s (Key (mr_Ref mr)) r = Done s'"
  shows "indexed s' \<and> (machines_exclusive s \<longrightarrow> machines_exclusive s') \<and>
    nil_get (ResourceToMachine s') (resource_key r) = None \<and>
    (\<forall>mk. resources_on s' mk = filter (\<lambda>rr. rr_Ref rr \<noteq> resource_ref r) (resources_on s mk))"
proof -
  let ?mk = "Key (mr_Ref mr)" and ?k = "resource_key r"
  let ?keep = "filter (\<lambda>rr. rr_Ref rr \<noteq> resource_ref r)"
  have key: "Key (rr_Ref rr) = ?k \<longleftrightarrow> rr_Ref rr = resource_ref r" if "rr \<in> set (resources_on s mk)" for rr mk
    using that plain Key_inject by (auto simp: plain_refs_def resource_key_def)
  have elsewhere: "?keep (resources_on s mk) = resources_on s mk" if "mk \<noteq> ?mk" for mk
  proof (rule filter_True, rule ballI)
    fix rr assume rr: "rr \<in> set (resources_on s mk)"
    then obtain mr' where "nil_get (ResourceToMachine s) (Key (rr_Ref rr)) = Some mr'" "Key (mr_Ref mr') = mk"
      using idx unfolding indexed_def by blast
    then have "Key (rr_Ref rr) \<noteq> ?k" using placed that by auto
    then show "rr_Ref rr \<noteq> resource_ref r" using key [OF rr] by simp
  qed
  have on: "resources_on s' mk = ?keep (resources_on s mk)" for mk
    using release_result(1) [OF rel, of mk] elsewhere by simp
  note r2m = release_result(2) [OF rel]
  have "indexed s'"
    unfolding indexed_def
  proof (intro conjI allI impI ballI)
    fix k mr' assume "nil_get (ResourceToMachine s') k = Some mr'"
    then have old: "k \<noteq> ?k" "nil_get (ResourceToMachine s) k = Some mr'" by (auto simp: r2m split: if_splits)
    then obtain rr where "rr \<in> set (resources_on s (Key (mr_Ref mr')))" "Key (rr_Ref rr) = k" "rr_Binding rr = mr_Binding mr'"
      using idx unfolding indexed_def by blast
    with old(1) key show "\<exists>rr\<in>set (resources_on s' (Key (mr_Ref mr'))). Key (rr_Ref rr) = k \<and> rr_Binding rr = mr_Binding mr'"
      by (auto simp: on)
  next
    fix mk rr assume "rr \<in> set (resources_on s' mk)"
    then have "rr \<in> set (resources_on s mk)" "rr_Ref rr \<noteq> resource_ref r" by (auto simp: on)
    with idx key show "\<exists>mr. nil_get (ResourceToMachine s') (Key (rr_Ref rr)) = Some mr \<and> Key (mr_Ref mr) = mk \<and>
        mr_Binding mr = rr_Binding rr"
      unfolding indexed_def r2m by metis
  qed
  then show ?thesis
    using r2m on by (auto simp: machines_exclusive_def intro: exclusive_filter)
qed

text \<open>A resource that is placed can be released.\<close>

lemma release_possible:
  assumes "indexed s" "nil_get (ResourceToMachine s) (resource_key r) = Some mr"
  shows "\<exists>s'. release_resource s (Key (mr_Ref mr)) r = Done s'"
proof -
  have on: "resources_on s (Key (mr_Ref mr)) \<noteq> []" using assms unfolding indexed_def by fastforce
  then have "MachineToResources s \<noteq> None" by (auto simp: resources_on_def nil_get_def split: option.splits)
  with on nil_put_Done_iff [of "MachineToResources s"] show ?thesis
    by (auto simp: release_resource_def refsRemove_def)
qed

end
