(* ===== verification/System.thy ===== *)
theory System
  imports Request_Props Resource_Props Machine_Controller
begin

text \<open>
  The relationship object as the shared state of four controllers: the steps they make on its
  status, what holds in every state that is reached by them, and the abstract state, a partial map
  of placements with the accepted requests and the locks, which the steps refine.
\<close>

section \<open>The steps\<close>

text \<open>
  A label says who wrote and why: the relationship controller initialised the object, a machine
  came or went, a request was admitted with its items or forgotten, a resource was released. The
  machine of a release is the one that was read for it.
\<close>

datatype rel_label =
    Initialised
  | Joined string
  | Left string
  | Admitted TestResourceRequest "(string, TestResource) gomap"
  | Forgotten ref
  | Released string

inductive rel_step :: "units \<Rightarrow> RelationshipStatus \<Rightarrow> rel_label \<Rightarrow> RelationshipStatus \<Rightarrow> bool" for u where
  initialised: "needs_init s \<Longrightarrow> rel_step u s Initialised (initialize s)"
| joined: "nil_get (MachineToResources s) mk = None \<Longrightarrow> nil_put (MachineToResources s) mk [] = Done m2r \<Longrightarrow>
    rel_step u s (Joined mk) (s\<lparr>MachineToResources := m2r\<rparr>)"
| left: "resources_on s mk = [] \<Longrightarrow>
    rel_step u s (Left mk) (s\<lparr>MachineToResources := nil_del (MachineToResources s) mk\<rparr>)"
| admitted: "fair c \<Longrightarrow> \<not> IfExist (AcceptedRequests s) (request_ref request) \<Longrightarrow>
    tryRequest_core u c s request rm (getMachines_book ms) = Done (TryAccepted s') \<Longrightarrow>
    rel_step u s (Admitted request rm) s'"
| forgotten: "rel_step u s (Forgotten self) (forget_request self s)"
| released: "nil_get (ResourceToMachine s) (resource_key r) = Some mr \<Longrightarrow> release_resource s mk r = Done s' \<Longrightarrow>
    rel_step u s (Released (resource_key r)) s'"

inductive_cases rel_stepE: "rel_step u s l s'"

inductive rel_run :: "units \<Rightarrow> RelationshipStatus \<Rightarrow> rel_label list \<Rightarrow> RelationshipStatus \<Rightarrow> bool" for u s where
  start: "rel_run u s [] s"
| more: "rel_run u s ls s1 \<Longrightarrow> rel_step u s1 l s2 \<Longrightarrow> rel_run u s (ls @ [l]) s2"

section \<open>What the steps do\<close>

lemma tryBindResource_elsewhere:
  assumes "tryBindResource u c s ms g = Done (s', Some m)" "k \<notin> item_keys (ig_Items g)"
  shows "nil_get (ResourceToMachine s') k = nil_get (ResourceToMachine s) k"
proof -
  from assms(1) obtain its bnds m2r where its: "ig_Items g = map Some its"
    "record_items m (AList.updates (map tr_Name its) bnds []) (s\<lparr>MachineToResources := m2r\<rparr>) (map Some its) = Done s'"
    by (rule tryBindResource_steps)
  from record_items_other [OF its(2)] assms(2) its(1) show ?thesis by simp
qed

lemma place_groups_elsewhere:
  "place_groups u c reqs cands sortedMs s toLock gs = Done (Inr (s', toLock')) \<Longrightarrow>
   k \<notin> item_keys (concat (map ig_Items gs)) \<Longrightarrow>
   nil_get (ResourceToMachine s') k = nil_get (ResourceToMachine s) k"
proof (induction gs arbitrary: s toLock)
  case (Cons g gs)
  from Cons.prems(2) have k: "k \<notin> item_keys (ig_Items g)" "k \<notin> item_keys (concat (map ig_Items gs))"
    by (auto simp: item_keys_def)
  from Cons.prems(1) obtain ms s1 m where bind: "tryBindResource u c s ms g = Done (s1, Some m)"
    and rest: "place_groups u c reqs cands sortedMs s1
       (if locks_machine reqs g then toLock @ [meta_Name (m_Meta m)] else toLock) gs = Done (Inr (s', toLock'))"
    by (rule place_groups_ConsE)
  show ?case using Cons.IH [OF rest k(2)] tryBindResource_elsewhere [OF bind k(1)] by simp
qed simp

lemma item_keys_perm: "mset xs = mset ys \<Longrightarrow> item_keys xs = item_keys ys"
  by (drule mset_eq_setD) (simp add: item_keys_def)

lemma lock_machines_wf:
  "lock_machines self s ms = Done s' \<Longrightarrow> (\<And>al. MachineLocks s = Some al \<Longrightarrow> gm_wf al) \<Longrightarrow>
   MachineLocks s' = Some al' \<Longrightarrow> gm_wf al'"
proof (induction ms arbitrary: s)
  case (Cons m ms)
  then obtain al where al: "MachineLocks s = Some al"
    "lock_machines self (s\<lparr>MachineLocks := Some (AList.update m self al)\<rparr>) ms = Done s'"
    by (auto simp: nil_put_def split: option.splits)
  show ?case by (rule Cons.IH [OF al(2)]) (use Cons.prems al in auto)
qed simp

lemma admission_rest:
  assumes "fair c" "tryRequest_core u c s request rm machines = Done (TryAccepted s')"
  shows "k \<notin> item_keys (lookup_items rm (trrs_Items (trr_Spec request))) \<Longrightarrow>
      nil_get (ResourceToMachine s') k = nil_get (ResourceToMachine s) k"
    and "(\<And>al. MachineLocks s = Some al \<Longrightarrow> gm_wf al) \<Longrightarrow> MachineLocks s' = Some al' \<Longrightarrow> gm_wf al'"
proof -
  from assms(2) obtain reqs expl s1 toLock s2 where
    groups: "place_groups u c reqs (selectNonLockMachines machines s)
       (sortMachines c (selectNonLockMachines machines s) expl s) s []
       (groupCoLocatedItems c (trrs_Items (trr_Spec request)) rm) = Done (Inr (s1, toLock))"
    and lock: "lock_machines (request_ref request) s1 toLock = Done s2"
    and s': "s' = accept (request_ref request) s2" by (rule tryRequest_acceptedE)
  show "nil_get (ResourceToMachine s') k = nil_get (ResourceToMachine s) k"
    if "k \<notin> item_keys (lookup_items rm (trrs_Items (trr_Spec request)))"
    using place_groups_elsewhere [OF groups] that lock_machines_result [OF lock] s'
    by (simp add: item_keys_perm [OF groupCoLocatedItems_partition [OF assms(1)]])
  have "MachineLocks s1 = MachineLocks s"
    using place_groups_extends(1) [OF groups subset_UNIV subset_UNIV] by (simp add: extends_def)
  then show "gm_wf al'" if "\<And>al. MachineLocks s = Some al \<Longrightarrow> gm_wf al" "MachineLocks s' = Some al'"
    using lock_machines_wf [OF lock] that s' by simp
qed

section \<open>What holds in every state\<close>

text \<open>
  No two resources of a machine share a core or a disk, and a machine is locked only for a request
  that is accepted. The locks are a Go map, whose keys differ.
\<close>

definition rel_inv :: "RelationshipStatus \<Rightarrow> bool" where
  "rel_inv s \<longleftrightarrow> machines_exclusive s \<and>
     (\<forall>n self. nil_get (MachineLocks s) n = Some self \<longrightarrow> IfExist (AcceptedRequests s) self) \<and>
     (\<forall>al. MachineLocks s = Some al \<longrightarrow> gm_wf al)"

lemma rel_inv_empty: "rel_inv (rel_Status zero_Relationship)"
  by (simp add: rel_inv_def machines_exclusive_def zero_Relationship_def resources_on_def nil_get_def)

lemma machines_exclusive_cong: "(\<And>mk. resources_on s' mk = resources_on s mk) \<Longrightarrow> machines_exclusive s' = machines_exclusive s"
  by (simp add: machines_exclusive_def)

lemma gm_wf_foldl_del: "(\<And>al. m = Some al \<Longrightarrow> gm_wf al) \<Longrightarrow> foldl nil_del m ks = Some al' \<Longrightarrow> gm_wf al'"
proof (induction ks arbitrary: m)
  case (Cons k ks)
  have "gm_wf al" if "nil_del m k = Some al" for al using that Cons.prems(1) by (auto simp: nil_del_def)
  from Cons.IH [OF this] Cons.prems(2) show ?case by simp
qed simp

lemma rel_step_inv: "rel_step u s l s' \<Longrightarrow> rel_inv s \<Longrightarrow> rel_inv s'"
proof (induction rule: rel_step.induct)
  case (initialised s)
  have "resources_on (initialize s) mk = resources_on s mk" for mk
    by (simp add: resources_on_def initialize_keeps)
  moreover have "gm_wf al" if "MachineLocks (initialize s) = Some al" for al
    using that initialised by (auto simp: initialize_def rel_inv_def Let_def split: if_splits)
  ultimately show ?case using initialised by (auto simp: rel_inv_def initialize_keeps machines_exclusive_def)
next
  case (joined s mk m2r)
  have "resources_on (s\<lparr>MachineToResources := m2r\<rparr>) k = resources_on s k" for k
    using nil_get_put [OF joined(2)] joined(1) by (simp add: resources_on_def)
  with joined(3) show ?case by (simp add: rel_inv_def machines_exclusive_def)
next
  case (left s mk)
  have "resources_on (s\<lparr>MachineToResources := nil_del (MachineToResources s) mk\<rparr>) k = resources_on s k" for k
    using left(1) by (simp add: resources_on_def nil_get_del)
  with left(2) show ?case by (simp add: rel_inv_def machines_exclusive_def)
next
  case (admitted c s request rm ms s')
  note locks = admission_locks [OF admitted(1,3)]
  have "IfExist (AcceptedRequests s') self" if "nil_get (MachineLocks s') n = Some self" for n self
    using locks that admitted(4) unfolding rel_inv_def by (metis option.inject)
  moreover have "gm_wf al" if "MachineLocks s' = Some al" for al
    using admission_rest(2) [OF admitted(1,3) _ that] admitted(4) by (simp add: rel_inv_def)
  ultimately show ?case
    using admission_exclusive [OF admitted(1) _ admitted(3)] admitted(4) by (simp add: rel_inv_def)
next
  case (forgotten s self)
  have wf: "\<And>al. MachineLocks s = Some al \<Longrightarrow> gm_wf al" using forgotten by (simp add: rel_inv_def)
  have "gm_wf al" if "MachineLocks (forget_request self s) = Some al" for al
    using gm_wf_foldl_del [OF wf] that by (simp add: forget_request_def Let_def)
  with forgotten show ?case
    by (auto simp: rel_inv_def machines_exclusive_def forget_request_frame forget_request_locks [OF wf])
next
  case (released s r mr mk s')
  have "exclusive (resources_on s' k)" for k
    using released(3) release_result(1) [OF released(2)] by (simp add: rel_inv_def machines_exclusive_def exclusive_filter)
  with released(3) release_result(3,4) [OF released(2)] show ?case by (simp add: rel_inv_def machines_exclusive_def)
qed

lemma rel_run_inv: "rel_run u s ls s' \<Longrightarrow> rel_inv s \<Longrightarrow> rel_inv s'"
  by (induction rule: rel_run.induct) (auto intro: rel_step_inv)

section \<open>The controllers make steps\<close>

text \<open>
  A write of the relationship: the object that was read at some moment, or the zero object when
  there was none, after one step. The API server takes a write only if it is of the version
  that was read, so that the successful writes form a run.
\<close>

definition writes_step :: "env \<Rightarrow> units \<Rightarrow> event \<Rightarrow> bool" where
  "writes_step e u ev \<longleftrightarrow>
     (\<forall>rel' err. ev = StatusUpdate (KRelationship rel') err \<longrightarrow>
        (\<exists>h n rel l s. (ask_relationship e h n = Inr rel \<or> rel = zero_Relationship) \<and>
           rel' = rel\<lparr>rel_Status := s\<rparr> \<and> rel_step u (rel_Status rel) l s))"

lemma writes_step_other: "(\<And>rel err. ev \<noteq> StatusUpdate (KRelationship rel) err) \<Longrightarrow> writes_step e u ev"
  by (simp add: writes_step_def)

lemma writes_stepI:
  "ask_relationship e h n = Inr rel \<or> rel = zero_Relationship \<Longrightarrow> rel_step u (rel_Status rel) l s \<Longrightarrow>
   writes_step e u (StatusUpdate (KRelationship (rel\<lparr>rel_Status := s\<rparr>)) err)"
  unfolding writes_step_def event.inject k8s_obj.inject by metis

lemma relationship_controller_steps: "emits (writes_step e u) (Relationship_Reconcile e req)"
  unfolding Relationship_Reconcile_def
  by (intro emits_intros) (auto intro: writes_step_other writes_stepI rel_step.initialised simp: io_simps)

lemma request_controller_steps:
  assumes "fair c"
  shows "emits (writes_step e u) (Request_Reconcile e u c setref req)"
proof (rule emits_weaken [OF reconcile_rel_writes])
  fix ev assume "rel_write e u c req ev"
  then show "writes_step e u ev"
    unfolding rel_write_def writes_step_def
    by (metis rel_step.admitted [OF assms] rel_step.forgotten)
qed

lemma released_step:
  assumes "run_state (getRelationship e) h = (Inr rel, h')"
    and "nil_get (ResourceToMachine (rel_Status rel)) (resource_key r) = Some mr"
    and "release_resource (rel_Status rel) mk r = Done s"
  shows "writes_step e u (StatusUpdate (KRelationship (rel\<lparr>rel_Status := s\<rparr>)) err)"
  using writes_stepI [OF relationship_answer [OF assms(1)] rel_step.released [OF assms(2,3)]] .

lemma writes_step_simps [simp]:
  "writes_step e u (Get k n)" "writes_step e u (List k ns)" "writes_step e u (Update x err)"
  "writes_step e u (Docker d op ok)" "writes_step e u (Recorded a b c f)"
  "writes_step e u (StatusUpdate (KMachine m) err)" "writes_step e u (StatusUpdate (KResource r) err)"
  by (simp_all add: writes_step_def)

lemma delete_resource_steps: "emits (writes_step e u) (delete_resource e r)"
  unfolding delete_resource_def
  by (intro emits_intros writes_step_simps) (auto intro: released_step)

lemma resource_controller_steps: "emits (writes_step e u) (TestResource_Reconcile e u req)"
proof -
  have started: "emits (writes_step e u) (started_container e r stats)" for r stats
    unfolding started_container_def by (intro emits_intros writes_step_simps)
  have states: "emits (writes_step e u) (reconcileStatePending e r)" "emits (writes_step e u) (reconcileStateUninitialized e u r)"
    "emits (writes_step e u) (reconcileStateReady e r)" "emits (writes_step e u) (reconcileStateFinish e r)"
    "emits (writes_step e u) (reconcileStateDestroy e r)" for r
    unfolding reconcileStatePending_def reconcileStateUninitialized_def reconcileStateReady_def
      reconcileStateFinish_def reconcileStateDestroy_def Let_def
    by (intro emits_intros writes_step_simps started)+
  have "emits (writes_step e u) (case tr_State r of
        ResourceStateNone \<Rightarrow>
          do { err \<leftarrow> k8s_StatusUpdate e (KResource (set_state ResourcePending r)); finish no_requeue err }
      | ResourcePending \<Rightarrow> reconcileStatePending e r
      | ResourceUninitialized \<Rightarrow> reconcileStateUninitialized e u r
      | ResourceReady \<Rightarrow> reconcileStateReady e r
      | ResourceFinish \<Rightarrow> reconcileStateFinish e r
      | ResourceDestroy \<Rightarrow> reconcileStateDestroy e r
      | UnknownResourceState _ \<Rightarrow> finish no_requeue None)" for r
    by (cases "tr_State r") (simp_all add: states emits_finish, intro emits_intros writes_step_simps)
  then show ?thesis
    unfolding TestResource_Reconcile_def by (intro emits_intros writes_step_simps delete_resource_steps) auto
qed

lemma machine_controller_steps: "emits (writes_step e u) (Machine_Reconcile e lib fuel req)"
proof -
  have joined: "writes_step e u (StatusUpdate (KRelationship (rel\<lparr>rel_Status := (rel_Status rel)\<lparr>MachineToResources := m2r\<rparr>\<rparr>)) err)"
    if "run_state (getRelationship e) h = (Inr rel, h')" "nil_get (MachineToResources (rel_Status rel)) (machine_key m) = None"
      "nil_put (MachineToResources (rel_Status rel)) (machine_key m) [] = Done m2r" for h rel h' m m2r err
    using writes_stepI [OF relationship_answer [OF that(1)] rel_step.joined [OF that(2,3)]] .
  have left: "writes_step e u (StatusUpdate (KRelationship (rel\<lparr>rel_Status := (rel_Status rel)\<lparr>
      MachineToResources := nil_del (MachineToResources (rel_Status rel)) (machine_key m)\<rparr>\<rparr>)) err)"
    if "run_state (getRelationship e) h = (Inr rel, h')" "resources_on (rel_Status rel) (machine_key m) = []" for h rel h' m err
    using writes_stepI [OF relationship_answer [OF that(1)] rel_step.left [OF that(2)]] .
  have states: "emits (writes_step e u) (reconcileStarting e lib fuel m)" "emits (writes_step e u) (reconcileRunning e fuel m)"
    "emits (writes_step e u) (reconcileShutdown e m)" for m
    unfolding reconcileStarting_def reconcileRunning_def reconcileShutdown_def
    by (intro emits_intros writes_step_simps; auto intro: joined left)+
  show ?thesis
    unfolding Machine_Reconcile_def
    by (intro emits_intros writes_step_simps) (auto split: MachineState.split intro!: states emits_intros)
qed

section \<open>The abstract state\<close>

text \<open>
  What the relationship is for: which resource has which place, a machine with a binding, which
  requests are accepted, and for whom a machine is locked.
\<close>

record rel_spec =
  sp_place :: "string \<rightharpoonup> string \<times> ResourceBinding"
  sp_accepted :: "ref set"
  sp_locks :: "string \<rightharpoonup> ref"

definition rel_abs :: "RelationshipStatus \<Rightarrow> rel_spec" where
  "rel_abs s =
     \<lparr>sp_place = (\<lambda>k. map_option (\<lambda>mr. (Key (mr_Ref mr), mr_Binding mr)) (nil_get (ResourceToMachine s) k)),
      sp_accepted = {r. IfExist (AcceptedRequests s) r},
      sp_locks = nil_get (MachineLocks s)\<rparr>"

definition spec_init :: rel_spec where
  "spec_init = \<lparr>sp_place = Map.empty, sp_accepted = {}, sp_locks = Map.empty\<rparr>"

text \<open>
  An admission gives places to items of the request only and takes locks for the request, on
  machines that nobody has locked. A request that is forgotten loses its acceptance and its locks, a resource that
  is released its place. Nothing else changes the abstract state.
\<close>

definition spec_step :: "rel_spec \<Rightarrow> rel_label \<Rightarrow> rel_spec \<Rightarrow> bool" where
  "spec_step a l a' =
     (case l of
        Admitted request rm \<Rightarrow>
          request_ref request \<notin> sp_accepted a \<and> sp_accepted a' = insert (request_ref request) (sp_accepted a) \<and>
          (\<forall>k. k \<notin> item_keys (lookup_items rm (trrs_Items (trr_Spec request))) \<longrightarrow> sp_place a' k = sp_place a k) \<and>
          sp_locks a \<subseteq>\<^sub>m sp_locks a' \<and>
          (\<forall>n. sp_locks a n = None \<longrightarrow> sp_locks a' n \<in> {None, Some (request_ref request)})
      | Forgotten self \<Rightarrow>
          a' = a\<lparr>sp_accepted := sp_accepted a - {self},
            sp_locks := (\<lambda>n. if sp_locks a n = Some self then None else sp_locks a n)\<rparr>
      | Released k \<Rightarrow> sp_place a k \<noteq> None \<and> a' = a\<lparr>sp_place := (sp_place a)(k := None)\<rparr>
      | _ \<Rightarrow> a' = a)"

inductive spec_run :: "rel_label list \<Rightarrow> rel_spec \<Rightarrow> bool" where
  spec_start: "spec_run [] spec_init"
| spec_more: "spec_run ls a \<Longrightarrow> spec_step a l a' \<Longrightarrow> spec_run (ls @ [l]) a'"

lemma rel_abs_empty: "rel_abs (rel_Status zero_Relationship) = spec_init"
  by (simp add: rel_abs_def spec_init_def zero_Relationship_def nil_get_def IfExist_iff fun_eq_iff)

lemma rel_step_refines: "rel_step u s l s' \<Longrightarrow> rel_inv s \<Longrightarrow> spec_step (rel_abs s) l (rel_abs s')"
proof (induction rule: rel_step.induct)
  case (initialised s)
  then show ?case by (simp add: spec_step_def rel_abs_def initialize_keeps fun_eq_iff)
next
  case (admitted c s request rm ms s')
  note locks = admission_locks [OF admitted(1,3)]
  have open_free: "nil_get (MachineLocks s) (meta_Name (m_Meta m)) = None"
    if "m \<in> open_machines (getMachines_book ms) s" for m
    using that by (auto simp: open_machines_def dest: getMachines_book_names)
  have "nil_get (MachineLocks s) \<subseteq>\<^sub>m nil_get (MachineLocks s')"
    unfolding map_le_def using locks open_free by (metis domIff)
  moreover have "nil_get (MachineLocks s') n \<in> {None, Some (request_ref request)}" if "nil_get (MachineLocks s) n = None" for n
    using locks that by (metis insertI1 insertI2 singletonI)
  ultimately show ?case
    using locks admitted(2) admission_rest(1) [OF admitted(1,3)] by (auto simp: spec_step_def rel_abs_def)
next
  case (forgotten s self)
  then have wf: "\<And>al. MachineLocks s = Some al \<Longrightarrow> gm_wf al" by (simp add: rel_inv_def)
  show ?case
    by (auto simp: spec_step_def rel_abs_def forget_request_frame forget_request_locks [OF wf] fun_eq_iff)
next
  case (released s r mr mk s')
  with release_result [OF released(2)] show ?case by (auto simp: spec_step_def rel_abs_def fun_eq_iff)
qed (simp_all add: spec_step_def rel_abs_def)

lemma rel_run_refines:
  assumes "rel_run u (rel_Status zero_Relationship) ls s"
  shows "spec_run ls (rel_abs s) \<and> rel_inv s"
  using assms
proof (induction rule: rel_run.induct)
  case start
  then show ?case using spec_start by (simp add: rel_abs_empty rel_inv_empty)
next
  case (more ls s1 l s2)
  then show ?case by (blast intro: spec_more rel_step_refines rel_step_inv)
qed

section \<open>Steps with fresh items\<close>

text \<open>
  A request is admitted when its items have no place yet, and a resource is released from the
  machine its entry names: what holds as long as the resources of a request are its own and no
  machine object is replaced behind the back of its controller. The names have no slash.
\<close>

definition proper_step :: "RelationshipStatus \<Rightarrow> rel_label \<Rightarrow> RelationshipStatus \<Rightarrow> bool" where
  "proper_step s l s' \<longleftrightarrow>
     (case l of
        Admitted request rm \<Rightarrow>
          fresh_items s (lookup_items rm (trrs_Items (trr_Spec request))) \<and>
          (\<forall>r. Some r \<in> set (lookup_items rm (trrs_Items (trr_Spec request))) \<longrightarrow> plain_ref (resource_ref r))
      | Released k \<Rightarrow>
          (\<exists>r mr. k = resource_key r \<and> plain_ref (resource_ref r) \<and> nil_get (ResourceToMachine s) k = Some mr \<and>
             release_resource s (Key (mr_Ref mr)) r = Done s')
      | _ \<Rightarrow> True)"

text \<open>The resources that are added are items of the request.\<close>

lemma placed_refs:
  "placed s m its bnds s' \<Longrightarrow> rr \<in> set (resources_on s' mk) \<Longrightarrow>
   rr \<in> set (resources_on s mk) \<or> (\<exists>item\<in>set its. rr_Ref rr = resource_ref item)"
  by (auto simp: placed_def new_ref_def dest: set_zip_leftD split: if_splits)

lemma place_groups_refs:
  "place_groups u c reqs cands sortedMs s toLock gs = Done (Inr (s', toLock')) \<Longrightarrow>
   rr \<in> set (resources_on s' mk) \<Longrightarrow>
   rr \<in> set (resources_on s mk) \<or> (\<exists>item. Some item \<in> set (concat (map ig_Items gs)) \<and> rr_Ref rr = resource_ref item)"
proof (induction gs arbitrary: s toLock)
  case (Cons g gs)
  from Cons.prems(1) obtain ms s1 m where bind: "tryBindResource u c s ms g = Done (s1, Some m)"
    and rest: "place_groups u c reqs cands sortedMs s1
       (if locks_machine reqs g then toLock @ [meta_Name (m_Meta m)] else toLock) gs = Done (Inr (s', toLock'))"
    by (rule place_groups_ConsE)
  from bind obtain its bnds where its: "ig_Items g = map Some its" "placed s m its bnds s1"
    by (rule tryBindResource_steps)
  from Cons.IH [OF rest Cons.prems(2)] show ?case
  proof
    assume "rr \<in> set (resources_on s1 mk)"
    from placed_refs [OF its(2) this] its(1) show ?thesis by (auto intro: imageI)
  qed auto
qed simp

lemma admission_refs:
  assumes "fair c" "tryRequest_core u c s request rm machines = Done (TryAccepted s')" "rr \<in> set (resources_on s' mk)"
  shows "rr \<in> set (resources_on s mk) \<or>
    (\<exists>item. Some item \<in> set (lookup_items rm (trrs_Items (trr_Spec request))) \<and> rr_Ref rr = resource_ref item)"
proof -
  from assms(2) obtain reqs expl s1 toLock s2 where
    groups: "place_groups u c reqs (selectNonLockMachines machines s)
       (sortMachines c (selectNonLockMachines machines s) expl s) s []
       (groupCoLocatedItems c (trrs_Items (trr_Spec request)) rm) = Done (Inr (s1, toLock))"
    and lock: "lock_machines (request_ref request) s1 toLock = Done s2"
    and s': "s' = accept (request_ref request) s2" by (rule tryRequest_acceptedE)
  have "resources_on s' = resources_on s1"
    using lock_machines_result [OF lock] by (intro resources_on_cong) (simp add: s')
  with place_groups_refs [OF groups, of rr mk] assms(3)
  show ?thesis by (simp only: mset_eq_setD [OF groupCoLocatedItems_partition [OF assms(1)]])
qed

definition index_inv :: "RelationshipStatus \<Rightarrow> bool" where
  "index_inv s \<longleftrightarrow> indexed s \<and> plain_refs s"

lemma index_inv_same:
  "(\<And>mk. resources_on s' mk = resources_on s mk) \<Longrightarrow> (\<And>k. nil_get (ResourceToMachine s') k = nil_get (ResourceToMachine s) k) \<Longrightarrow>
   index_inv s' = index_inv s"
  by (simp add: index_inv_def indexed_def plain_refs_def)

lemma proper_step_index:
  assumes "rel_step u s l s'" "proper_step s l s'" "index_inv s"
  shows "index_inv s'"
  using assms
proof (induction rule: rel_step.induct)
  case (initialised s)
  then show ?case by (simp add: index_inv_same [of "initialize s" s] resources_on_def initialize_keeps)
next
  case (joined s mk m2r)
  have "resources_on (s\<lparr>MachineToResources := m2r\<rparr>) k = resources_on s k" for k
    using nil_get_put [OF joined(2)] joined(1) by (simp add: resources_on_def)
  from index_inv_same [OF this] joined show ?case by simp
next
  case (left s mk)
  have "resources_on (s\<lparr>MachineToResources := nil_del (MachineToResources s) mk\<rparr>) k = resources_on s k" for k
    using left(1) by (simp add: resources_on_def nil_get_del)
  from index_inv_same [OF this] left show ?case by simp
next
  case (admitted c s request rm ms s')
  from admitted(4) have fresh: "fresh_items s (lookup_items rm (trrs_Items (trr_Spec request)))"
    and plain: "\<And>r. Some r \<in> set (lookup_items rm (trrs_Items (trr_Spec request))) \<Longrightarrow> plain_ref (resource_ref r)"
    by (auto simp: proper_step_def)
  have "plain_refs s'"
    using admission_refs [OF admitted(1,3)] plain admitted(5) unfolding index_inv_def plain_refs_def by metis
  with tryRequest_groups(1) [OF admitted(1,3) fresh] admitted(5) show ?case by (simp add: index_inv_def)
next
  case (forgotten s self)
  then show ?case by (simp add: index_inv_same [of "forget_request self s" s] forget_request_frame)
next
  case (released s r0 mr0 mk0 s')
  from released(3) obtain r mr where r: "plain_ref (resource_ref r)"
    "nil_get (ResourceToMachine s) (resource_key r) = Some mr" "release_resource s (Key (mr_Ref mr)) r = Done s'"
    by (auto simp: proper_step_def)
  from released(4) have inv: "indexed s" "plain_refs s" by (simp_all add: index_inv_def)
  from release_keeps [OF inv(1,2) r] have "indexed s'"
    and on: "\<And>mk. resources_on s' mk = filter (\<lambda>rr. rr_Ref rr \<noteq> resource_ref r) (resources_on s mk)" by blast+
  then show ?case using inv(2) by (auto simp: index_inv_def plain_refs_def)
qed

lemma index_inv_empty: "index_inv (rel_Status zero_Relationship)"
  by (simp add: index_inv_def indexed_def plain_refs_def zero_Relationship_def resources_on_def nil_get_def)

section \<open>A run\<close>

lemma demo_steps:
  "rel_step demo_units (rel_Status zero_Relationship) Initialised demo_status"
  "rel_step demo_units demo_status (Admitted demo_request demo_resources) demo_placed"
proof -
  let ?z = "rel_Status zero_Relationship"
  have init: "initialize ?z = demo_status"
    by (simp add: initialize_def Let_def zero_Relationship_def demo_status_def)
  show "rel_step demo_units ?z Initialised demo_status"
    using rel_step.initialised [of ?z demo_units] by (simp add: init) (simp add: needs_init_def zero_Relationship_def)
  show "rel_step demo_units demo_status (Admitted demo_request demo_resources) demo_placed"
    using rel_step.admitted [of demo_choices demo_status demo_request demo_units demo_resources "[demo_machine]"] demo_accepted
    by (simp add: demo_book) (simp add: demo_status_def IfExist_Some)
qed

lemma demo_run:
  "rel_run demo_units (rel_Status zero_Relationship)
     [Initialised, Admitted demo_request demo_resources, Forgotten (request_ref demo_request)]
     (forget_request (request_ref demo_request) demo_placed)"
  using rel_run.more [OF rel_run.more [OF rel_run.more [OF rel_run.start demo_steps(1)] demo_steps(2)]] rel_step.forgotten
  by fastforce

text \<open>The same request with the release of its first resource.\<close>

definition demo_first :: TestResource where
  "demo_first = snd (demo_resources ! 0)"

definition demo_released :: RelationshipStatus where
  "demo_released = (case release_resource demo_placed (machine_key demo_machine) demo_first of Done s \<Rightarrow> s | _ \<Rightarrow> demo_placed)"

lemma demo_release: "release_resource demo_placed (machine_key demo_machine) demo_first = Done demo_released"
  by code_simp

lemma demo_machine_of:
  "nil_get (ResourceToMachine demo_placed) (resource_key demo_first) = Some (machine_of demo_placed (resource_key demo_first))"
  "Key (mr_Ref (machine_of demo_placed (resource_key demo_first))) = machine_key demo_machine"
  by code_simp+

lemma demo_items_looked_up:
  "lookup_items demo_resources (trrs_Items (trr_Spec demo_request)) = map Some (map snd demo_resources)"
  by (simp add: lookup_items_def demo_request_def demo_items_def demo_resources_def)

end
