(* ===== verification/Tiup_Spec.thy ===== *)
theory Tiup_Spec
  imports Topology Resource
begin

text \<open>
  \<open>pkg/tiup/cluster/deploy.go\<close>, first part: \<open>BuildSpecification\<close> turns the TiDB cluster of a
  topology and the resources of its request into the deployment description that \<open>tiup\<close> reads.

  What the source calls of other packages is a parameter: \<open>yaml.Unmarshal\<close> into a map and
  \<open>defaults.Set\<close>. Of \<open>tiupSpec.Specification\<close> the records below hold the fields the source sets.
\<close>

section \<open>Results that may be an error or a panic\<close>

type_synonym 'a res = "(error + 'a) go"

abbreviation ret :: "'a \<Rightarrow> 'a res" where
  "ret x \<equiv> Done (Inr x)"

abbreviation fail :: "string \<Rightarrow> 'a res" where
  "fail msg \<equiv> Done (Inl (ErrMsg msg))"

definition res_bind :: "'a res \<Rightarrow> ('a \<Rightarrow> 'b res) \<Rightarrow> 'b res" where
  "res_bind m f = go_bind m (\<lambda>r. case r of Inl err \<Rightarrow> Done (Inl err) | Inr x \<Rightarrow> f x)"

text \<open>A loop that appends one result per element and returns at the first error.\<close>

fun res_map :: "('a \<Rightarrow> 'b res) \<Rightarrow> 'a list \<Rightarrow> 'b list res" where
  "res_map f [] = ret []"
| "res_map f (x # xs) = res_bind (f x) (\<lambda>y. res_bind (res_map f xs) (\<lambda>ys. ret (y # ys)))"

lemma res_bind_simps [simp]:
  "res_bind (ret x) f = f x" "res_bind (Done (Inl err)) f = Done (Inl err)"
  "res_bind (Panicked p) f = Panicked p" "res_bind Running f = Running"
  by (simp_all add: res_bind_def)

lemma res_bind_ret_iff [simp]: "res_bind m f = ret y \<longleftrightarrow> (\<exists>x. m = ret x \<and> f x = ret y)"
  by (auto simp: res_bind_def split: sum.splits)

lemma case_sum_panic_ret [simp]:
  "(case x of Inl e \<Rightarrow> Panicked (f e) | Inr y \<Rightarrow> g y) = ret z \<longleftrightarrow> (\<exists>y. x = Inr y \<and> g y = ret z)"
  by (cases x) auto

lemma res_map_ret_iff: "res_map f xs = ret ys \<longleftrightarrow> list_all2 (\<lambda>x y. f x = ret y) xs ys"
  by (induction xs arbitrary: ys) (auto simp: list_all2_Cons1)

lemma res_map_ok_iff: "(\<exists>ys. res_map f xs = ret ys) \<longleftrightarrow> (\<forall>x\<in>set xs. \<exists>y. f x = ret y)"
  by (induction xs) auto

lemma res_map_total: "(\<forall>x\<in>set xs. f x = ret (g x)) \<Longrightarrow> res_map f xs = ret (map g xs)"
  by (induction xs) auto

section \<open>The description\<close>

text \<open>A YAML mapping; only whether a value is a string matters to the source.\<close>

datatype yaml = YString string | YOther string

type_synonym config = "(string, yaml) gomap"

record GlobalOptions =
  go_User :: string
  go_SSHPort :: int
  go_DeployDir :: string
  go_DataDir :: string

record SpecServerConfigs =
  ssc_TiDB :: config
  ssc_TiKV :: config
  ssc_PD :: config

record TiDBServer =
  stidb_Host :: string
  stidb_SSHPort :: int
  stidb_Port :: int
  stidb_StatusPort :: int
  stidb_DeployDir :: string
  stidb_LogDir :: string
  stidb_Config :: config

record TiKVServer =
  stikv_Host :: string
  stikv_SSHPort :: int
  stikv_Port :: int
  stikv_StatusPort :: int
  stikv_DeployDir :: string
  stikv_DataDir :: string
  stikv_LogDir :: string
  stikv_Config :: config

record PDServer =
  spd_Host :: string
  spd_SSHPort :: int
  spd_ClientPort :: int
  spd_PeerPort :: int
  spd_DeployDir :: string
  spd_DataDir :: string
  spd_LogDir :: string
  spd_Config :: config

record PumpServer =
  spump_Host :: string
  spump_Port :: int
  spump_SSHPort :: int
  spump_DeployDir :: string
  spump_DataDir :: string
  spump_Config :: config

record Drainer =
  sdrainer_Host :: string
  sdrainer_Port :: int
  sdrainer_SSHPort :: int
  sdrainer_CommitTS :: int
  sdrainer_DeployDir :: string
  sdrainer_DataDir :: string
  sdrainer_Config :: config

record MonitorServer =
  smon_Host :: string
  smon_SSHPort :: int
  smon_Port :: int
  smon_DeployDir :: string
  smon_DataDir :: string
  smon_LogDir :: string

record GrafanaServer =
  sgrafana_Host :: string
  sgrafana_SSHPort :: int
  sgrafana_Port :: int
  sgrafana_DeployDir :: string

record AlertServer =
  salert_Host :: string
  salert_SSHPort :: int
  salert_WebPort :: int
  salert_ClusterPort :: int
  salert_DeployDir :: string

record CDCServer =
  scdc_Host :: string
  scdc_SSHPort :: int
  scdc_Port :: int
  scdc_DeployDir :: string
  scdc_LogDir :: string

record TiFlashServer =
  stiflash_Host :: string
  stiflash_SSHPort :: int
  stiflash_TCPPort :: int
  stiflash_HTTPPort :: int
  stiflash_FlashServicePort :: int
  stiflash_FlashProxyPort :: int
  stiflash_FlashProxyStatusPort :: int
  stiflash_StatusPort :: int
  stiflash_DeployDir :: string
  stiflash_DataDir :: string
  stiflash_LogDir :: string
  stiflash_Config :: config
  stiflash_LearnerConfig :: config

record Specification =
  sp_GlobalOptions :: GlobalOptions
  sp_ServerConfigs :: SpecServerConfigs
  sp_TiDBServers :: "TiDBServer list"
  sp_TiKVServers :: "TiKVServer list"
  sp_PDServers :: "PDServer list"
  sp_PumpServers :: "PumpServer list"
  sp_Drainers :: "Drainer list"
  sp_Monitors :: "MonitorServer list"
  sp_Grafanas :: "GrafanaServer list"
  sp_Alertmanagers :: "AlertServer list"
  sp_CDCServers :: "CDCServer list"
  sp_TiFlashServers :: "TiFlashServer list"

text \<open>The parameters: \<open>yaml.Unmarshal\<close> into a map, and \<open>defaults.Set\<close> on a specification.\<close>

type_synonym unmarshal = "string \<Rightarrow> error + config"

type_synonym set_defaults = "Specification \<Rightarrow> error + Specification"

section \<open>Configurations\<close>

definition generateConfig :: "unmarshal \<Rightarrow> string \<Rightarrow> error + config" where
  "generateConfig um configStr = um configStr"

definition setServerConfigs :: "unmarshal \<Rightarrow> ServerConfigs \<Rightarrow> error + SpecServerConfigs" where
  "setServerConfigs um s =
     (case um (sc_TiDB s) of Inl err \<Rightarrow> Inl err | Inr tidbConfigs \<Rightarrow>
      (case um (sc_TiKV s) of Inl err \<Rightarrow> Inl err | Inr tikvConfigs \<Rightarrow>
       (case um (sc_PD s) of Inl err \<Rightarrow> Inl err | Inr pdConfigs \<Rightarrow>
          Inr \<lparr>ssc_TiDB = tidbConfigs, ssc_TiKV = tikvConfigs, ssc_PD = pdConfigs\<rparr>)))"

text \<open>
  The target of a drainer is written as a URL over a resource name; its cluster address replaces
  it when the addresses are known. A value that is no string and a string without \<open>://\<close> panic.
\<close>

definition setDrainerConfig :: "unmarshal \<Rightarrow> (string, string) gomap option \<Rightarrow> string \<Rightarrow> config res" where
  "setDrainerConfig um clusterIPMaps drainerConfig =
     (case um drainerConfig of
        Inl err \<Rightarrow> Done (Inl err)
      | Inr config \<Rightarrow>
          (case clusterIPMaps of
             None \<Rightarrow> ret config
           | Some ips \<Rightarrow>
               (case map_of config ''syncer.to.host'' of
                  Some (YString url) \<Rightarrow>
                    (case Split url ''://'' of
                       _ # name # _ \<Rightarrow>
                         (case map_of ips name of
                            Some clusterIP \<Rightarrow>
                              if clusterIP = [] then fail ''syncer.to.host is not existed''
                              else ret (AList.update ''syncer.to.host'' (YString clusterIP) config)
                          | None \<Rightarrow> fail ''syncer.to.host is not existed'')
                     | _ \<Rightarrow> Panicked ''index out of range [1] with length 1'')
                | _ \<Rightarrow> Panicked ''interface conversion: interface {} is not string'')))"

section \<open>The servers of each role\<close>

type_synonym nodes = "(string, TestResourceStatus) gomap"

definition hostName :: "bool \<Rightarrow> string \<Rightarrow> TestResourceStatus \<Rightarrow> string" where
  "hostName dryRun resourceName node =
     (if dryRun then resourceName else rcs_ClusterIP (trst_ContainerSpec node))"

definition find_node :: "nodes \<Rightarrow> string \<Rightarrow> string \<Rightarrow> TestResourceStatus res" where
  "find_node rm what host =
     (case map_of rm host of
        None \<Rightarrow> fail (what @ '' node not found: `'' @ host @ ''`'')
      | Some node \<Rightarrow> ret node)"

definition parse_config :: "unmarshal \<Rightarrow> string \<Rightarrow> string \<Rightarrow> config res" where
  "parse_config um what str =
     (case generateConfig um str of
        Inl err \<Rightarrow> fail (''set '' @ what @ '' failed: '' @ error_text err)
      | Inr config \<Rightarrow> ret config)"

definition build_tidb :: "unmarshal \<Rightarrow> bool \<Rightarrow> nodes \<Rightarrow> TiDBSpec \<Rightarrow> TiDBServer res" where
  "build_tidb um dryRun rm item =
     res_bind (find_node rm ''tidb'' (tidb_Host item)) (\<lambda>node.
     res_bind (parse_config um ''TiDbConfigs'' (tidb_Config item)) (\<lambda>config.
     ret \<lparr>stidb_Host = hostName dryRun (tidb_Host item) node, stidb_SSHPort = 22, stidb_Port = tidb_Port item,
          stidb_StatusPort = tidb_StatusPort item, stidb_DeployDir = tidb_DeployDir item,
          stidb_LogDir = tidb_LogDir item, stidb_Config = config\<rparr>))"

definition build_tikv :: "unmarshal \<Rightarrow> bool \<Rightarrow> nodes \<Rightarrow> TiKVSpec \<Rightarrow> TiKVServer res" where
  "build_tikv um dryRun rm item =
     res_bind (find_node rm ''tikv'' (tikv_Host item)) (\<lambda>node.
     res_bind (parse_config um ''TiKVConfigs'' (tikv_Config item)) (\<lambda>config.
     ret \<lparr>stikv_Host = hostName dryRun (tikv_Host item) node, stikv_SSHPort = 22, stikv_Port = tikv_Port item,
          stikv_StatusPort = tikv_StatusPort item, stikv_DeployDir = tikv_DeployDir item,
          stikv_DataDir = tikv_DataDir item, stikv_LogDir = tikv_LogDir item, stikv_Config = config\<rparr>))"

definition build_pd :: "unmarshal \<Rightarrow> bool \<Rightarrow> nodes \<Rightarrow> PDSpec \<Rightarrow> PDServer res" where
  "build_pd um dryRun rm item =
     res_bind (find_node rm ''pd'' (pd_Host item)) (\<lambda>node.
     res_bind (parse_config um ''PDConfigs'' (pd_Config item)) (\<lambda>config.
     ret \<lparr>spd_Host = hostName dryRun (pd_Host item) node, spd_SSHPort = 22, spd_ClientPort = pd_ClientPort item,
          spd_PeerPort = pd_PeerPort item, spd_DeployDir = pd_DeployDir item, spd_DataDir = pd_DataDir item,
          spd_LogDir = pd_LogDir item, spd_Config = config\<rparr>))"

definition build_pump :: "unmarshal \<Rightarrow> bool \<Rightarrow> nodes \<Rightarrow> PumpSpec \<Rightarrow> PumpServer res" where
  "build_pump um dryRun rm item =
     res_bind (find_node rm ''pump'' (pump_Host item)) (\<lambda>node.
     res_bind (parse_config um ''PumpConfigs'' (pump_Config item)) (\<lambda>config.
     ret \<lparr>spump_Host = hostName dryRun (pump_Host item) node, spump_Port = pump_Port item,
          spump_SSHPort = pump_SSHPort item, spump_DeployDir = pump_DeployDir item,
          spump_DataDir = pump_DataDir item, spump_Config = config\<rparr>))"

definition build_drainer ::
  "unmarshal \<Rightarrow> (string, string) gomap option \<Rightarrow> bool \<Rightarrow> nodes \<Rightarrow> DrainerSpec \<Rightarrow> Drainer res" where
  "build_drainer um clusterIPMaps dryRun rm item =
     res_bind (find_node rm ''drainer'' (drainer_Host item)) (\<lambda>node.
       case setDrainerConfig um clusterIPMaps (drainer_Config item) of
         Panicked p \<Rightarrow> Panicked p
       | Running \<Rightarrow> Running
       | Done (Inl err) \<Rightarrow> fail (''set DrainerConfigs failed: '' @ error_text err)
       | Done (Inr config) \<Rightarrow>
           ret \<lparr>sdrainer_Host = hostName dryRun (drainer_Host item) node, sdrainer_Port = drainer_Port item,
                sdrainer_SSHPort = drainer_SSHPort item, sdrainer_CommitTS = drainer_CommitTS item,
                sdrainer_DeployDir = drainer_DeployDir item, sdrainer_DataDir = drainer_DataDir item,
                sdrainer_Config = config\<rparr>)"

definition build_monitor :: "bool \<Rightarrow> nodes \<Rightarrow> PrometheusSpec \<Rightarrow> MonitorServer res" where
  "build_monitor dryRun rm item =
     res_bind (find_node rm ''monitor'' (prom_Host item)) (\<lambda>node.
     ret \<lparr>smon_Host = hostName dryRun (prom_Host item) node, smon_SSHPort = 22, smon_Port = prom_Port item,
          smon_DeployDir = prom_DeployDir item, smon_DataDir = prom_DataDir item, smon_LogDir = prom_LogDir item\<rparr>)"

definition build_grafana :: "bool \<Rightarrow> nodes \<Rightarrow> GrafanaSpec \<Rightarrow> GrafanaServer res" where
  "build_grafana dryRun rm item =
     res_bind (find_node rm ''grafana'' (grafana_Host item)) (\<lambda>node.
     ret \<lparr>sgrafana_Host = hostName dryRun (grafana_Host item) node, sgrafana_SSHPort = 22,
          sgrafana_Port = grafana_Port item, sgrafana_DeployDir = grafana_DeployDir item\<rparr>)"

definition build_alert :: "bool \<Rightarrow> nodes \<Rightarrow> AlertManagerSpec \<Rightarrow> AlertServer res" where
  "build_alert dryRun rm item =
     res_bind (find_node rm ''alert_manager'' (am_Host item)) (\<lambda>node.
     ret \<lparr>salert_Host = hostName dryRun (am_Host item) node, salert_SSHPort = 22, salert_WebPort = am_WebPort item,
          salert_ClusterPort = am_ClusterPort item, salert_DeployDir = am_DeployDir item\<rparr>)"

definition build_cdc :: "bool \<Rightarrow> nodes \<Rightarrow> CDCSpec \<Rightarrow> CDCServer res" where
  "build_cdc dryRun rm item =
     res_bind (find_node rm ''cdc'' (cdc_Host item)) (\<lambda>node.
     ret \<lparr>scdc_Host = hostName dryRun (cdc_Host item) node, scdc_SSHPort = 22, scdc_Port = cdc_Port item,
          scdc_DeployDir = cdc_DeployDir item, scdc_LogDir = cdc_LogDir item\<rparr>)"

definition build_tiflash :: "unmarshal \<Rightarrow> bool \<Rightarrow> nodes \<Rightarrow> TiFlashSpec \<Rightarrow> TiFlashServer res" where
  "build_tiflash um dryRun rm item =
     res_bind (find_node rm ''tiflash'' (tiflash_Host item)) (\<lambda>node.
     res_bind (parse_config um ''TiFlashConfigs'' (tiflash_Config item)) (\<lambda>config.
     res_bind (parse_config um ''TiFlashLearnerConfigs'' (tiflash_LearnerConfig item)) (\<lambda>learnerConfig.
     ret \<lparr>stiflash_Host = hostName dryRun (tiflash_Host item) node, stiflash_SSHPort = 22,
          stiflash_TCPPort = tiflash_TCPPort item, stiflash_HTTPPort = tiflash_HTTPPort item,
          stiflash_FlashServicePort = tiflash_ServicePort item, stiflash_FlashProxyPort = tiflash_ProxyPort item,
          stiflash_FlashProxyStatusPort = tiflash_ProxyStatusPort item, stiflash_StatusPort = tiflash_MetricsPort item,
          stiflash_DeployDir = tiflash_DeployDir item, stiflash_DataDir = tiflash_DataDir item,
          stiflash_LogDir = tiflash_LogDir item, stiflash_Config = config, stiflash_LearnerConfig = learnerConfig\<rparr>)))"

section \<open>BuildSpecification\<close>

definition resource_nodes :: "TestResource list \<Rightarrow> nodes" where
  "resource_nodes trs = foldl (\<lambda>m r. AList.update (tr_Name r) (tr_Status r) m) [] trs"

definition global_options :: "Global option \<Rightarrow> GlobalOptions" where
  "global_options g =
     (case g of
        None \<Rightarrow> \<lparr>go_User = ''root'', go_SSHPort = 22, go_DeployDir = [], go_DataDir = []\<rparr>
      | Some x \<Rightarrow> \<lparr>go_User = ''root'', go_SSHPort = 22, go_DeployDir = global_DeployDir x, go_DataDir = global_DataDir x\<rparr>)"

definition BuildSpecification ::
  "unmarshal \<Rightarrow> set_defaults \<Rightarrow> TestClusterTopologySpec \<Rightarrow> TestResource list \<Rightarrow> bool \<Rightarrow> (string, string) gomap option
     \<Rightarrow> (Specification \<times> TestResourceStatus) res" where
  "BuildSpecification um ds ctf trs dryRun clusterIPMaps =
     (case cts_TiDBCluster ctf of
        None \<Rightarrow> Panicked nil_deref
      | Some tc \<Rightarrow>
          (case setServerConfigs um (tc_ServerConfigs tc) of
             Inl err \<Rightarrow> fail (''set serverConfigs failed: '' @ error_text err)
           | Inr serverConfigs \<Rightarrow>
     let rm = resource_nodes trs in
     res_bind (find_node rm ''control'' (tc_Control tc)) (\<lambda>control.
     res_bind (res_map (build_tidb um dryRun rm) (elems (tc_TiDB tc))) (\<lambda>tidbs.
     res_bind (res_map (build_tikv um dryRun rm) (elems (tc_TiKV tc))) (\<lambda>tikvs.
     res_bind (res_map (build_pd um dryRun rm) (elems (tc_PD tc))) (\<lambda>pds.
     res_bind (res_map (build_pump um dryRun rm) (elems (tc_Pump tc))) (\<lambda>pumps.
     res_bind (res_map (build_drainer um clusterIPMaps dryRun rm) (elems (tc_Drainer tc))) (\<lambda>drainers.
     res_bind (res_map (build_monitor dryRun rm) (elems (tc_Monitor tc))) (\<lambda>monitors.
     res_bind (res_map (build_grafana dryRun rm) (elems (tc_Grafana tc))) (\<lambda>grafanas.
     res_bind (res_map (build_alert dryRun rm) (elems (tc_AlertManager tc))) (\<lambda>alerts.
     res_bind (res_map (build_cdc dryRun rm) (elems (tc_CDC tc))) (\<lambda>cdcs.
     res_bind (res_map (build_tiflash um dryRun rm) (elems (tc_TiFlash tc))) (\<lambda>tiflashs.
       case ds \<lparr>sp_GlobalOptions = global_options (tc_Global tc), sp_ServerConfigs = serverConfigs,
                 sp_TiDBServers = tidbs, sp_TiKVServers = tikvs, sp_PDServers = pds, sp_PumpServers = pumps,
                 sp_Drainers = drainers, sp_Monitors = monitors, sp_Grafanas = grafanas,
                 sp_Alertmanagers = alerts, sp_CDCServers = cdcs, sp_TiFlashServers = tiflashs\<rparr> of
         Inl err \<Rightarrow> Panicked (error_text err)
       | Inr spec \<Rightarrow> ret (spec, control))))))))))))))"

end
