(* ===== verification/Ssh.thy ===== *)
theory Ssh
  imports Docker Tiup_Spec
begin

text \<open>
  \<open>pkg/ssh/executor.go\<close> and the use of \<open>go-scp\<close>: a connection to the control node of a cluster,
  commands run on it and files copied to it. A result here is a value, an error or a panic, as in
  \<open>Tiup_Spec\<close>; \<open>io_then\<close> returns early on the last two, which is how the sources chain their calls.
\<close>

section \<open>Early return\<close>

definition io_ret :: "'a \<Rightarrow> 'a res io" where
  "io_ret x = State_Monad.return (ret x)"

definition io_fail :: "error \<Rightarrow> 'a res io" where
  "io_fail err = State_Monad.return (Done (Inl err))"

definition io_then :: "'a res io \<Rightarrow> ('a \<Rightarrow> 'b res io) \<Rightarrow> 'b res io" where
  "io_then m f =
     do { r \<leftarrow> m;
          case r of
            Done r' \<Rightarrow> (case r' of Inl err \<Rightarrow> io_fail err | Inr x \<Rightarrow> f x)
          | Panicked p \<Rightarrow> State_Monad.return (Panicked p)
          | Running \<Rightarrow> State_Monad.return Running }"

text \<open>A loop over calls that returns at the first error.\<close>

fun io_each :: "('a \<Rightarrow> unit res io) \<Rightarrow> 'a list \<Rightarrow> unit res io" where
  "io_each f [] = io_ret ()"
| "io_each f (x # xs) = io_then (f x) (\<lambda>_. io_each f xs)"

lemma run_io_ret [io_simps]: "run_state (io_ret x) h = (ret x, h)"
  by (simp add: io_ret_def)

lemma run_io_fail [io_simps]: "run_state (io_fail err) h = (Done (Inl err), h)"
  by (simp add: io_fail_def)

lemma run_io_then_ret:
  "run_state (io_then m f) h = (ret y, h2) \<longleftrightarrow>
   (\<exists>x h1. run_state m h = (ret x, h1) \<and> run_state (f x) h1 = (ret y, h2))"
  by (cases "run_state m h") (auto simp: io_then_def io_fail_def split: go.splits sum.splits)

lemma emits_io_ret [emits_intros]: "emits P (io_ret x)"
  by (simp add: io_ret_def emits_return)

lemma emits_io_fail [emits_intros]: "emits P (io_fail err)"
  by (simp add: io_fail_def emits_return)

lemma emits_io_then [emits_intros]:
  assumes "emits P m" "\<And>x h1 h2. run_state m h1 = (ret x, h2) \<Longrightarrow> emits P (f x)"
  shows "emits P (io_then m f)"
  unfolding io_then_def by (intro emits_intros assms) auto

lemma emits_io_each [emits_intros]:
  assumes "\<And>x. x \<in> set xs \<Longrightarrow> emits P (f x)"
  shows "emits P (io_each f xs)"
  using assms
proof (induction xs)
  case Nil
  then show ?case by (simp add: emits_intros)
next
  case (Cons x xs)
  then show ?case unfolding io_each.simps by (intro emits_intros) auto
qed

lemma always_io_ret [always_intros]: "always P (io_ret x) h"
  by (simp add: io_ret_def always_return)

lemma always_io_fail [always_intros]: "always P (io_fail err) h"
  by (simp add: io_fail_def always_return)

lemma always_io_then [always_intros]:
  assumes "always P m h" "\<And>x h1. run_state m h = (ret x, h1) \<Longrightarrow> always P (f x) h1"
  shows "always P (io_then m f) h"
  unfolding io_then_def by (intro always_intros assms) auto

text \<open>The end of a handler: an error or a panic of \<open>m\<close> ends it, a value goes on to \<open>k\<close>.\<close>

definition handle :: "'a res io \<Rightarrow> ('a \<Rightarrow> reconcile_result io) \<Rightarrow> reconcile_result io" where
  "handle m k =
     do { r \<leftarrow> m;
          case r of
            Done r' \<Rightarrow> (case r' of Inl err \<Rightarrow> finish no_requeue (Some err) | Inr x \<Rightarrow> k x)
          | Panicked p \<Rightarrow> crash p
          | Running \<Rightarrow> State_Monad.return Running }"

lemma emits_handle [emits_intros]:
  assumes "emits P m" "\<And>x h1 h2. run_state m h1 = (ret x, h2) \<Longrightarrow> emits P (k x)"
  shows "emits P (handle m k)"
  unfolding handle_def by (intro emits_intros assms) auto

lemma always_handle [always_intros]:
  assumes "always P m h" "\<And>x h1. run_state m h = (ret x, h1) \<Longrightarrow> always P (k x) h1"
  shows "always P (handle m k) h"
  unfolding handle_def by (intro always_intros assms) auto

section \<open>pkg/ssh\<close>

text \<open>A client is the host and the port it is connected to.\<close>

type_synonym ssh_client = "string \<times> int"

text \<open>An unreadable or invalid key file panics; a failed dial is an error.\<close>

definition NewSSHClient :: "env \<Rightarrow> string \<Rightarrow> int \<Rightarrow> ssh_client res io" where
  "NewSSHClient e host port =
     State (\<lambda>h. ((case ask_key e h of
                    Some err \<Rightarrow> Panicked err
                  | None \<Rightarrow> (case ask_dial e h host port of Some err \<Rightarrow> fail err | None \<Rightarrow> ret (host, port))), h))"

definition RunCommand :: "env \<Rightarrow> ssh_client \<Rightarrow> string \<Rightarrow> (string \<times> string \<times> error option) io" where
  "RunCommand e client command =
     ask (\<lambda>h. ask_ssh e h (fst client) (snd client) command)
       (\<lambda>(stdout, stderr, err). SSH (fst client) (snd client) command (err = None))"

lemma emits_NewSSHClient [emits_intros]: "emits P (NewSSHClient e host port)"
  by (simp add: emits_def NewSSHClient_def)

lemma always_NewSSHClient [always_intros]: "always P (NewSSHClient e host port) h"
  by (simp add: always_def NewSSHClient_def)

lemma emits_RunCommand [emits_intros]:
  "(\<And>ok. P (SSH (fst c) (snd c) command ok)) \<Longrightarrow> emits P (RunCommand e c command)"
  by (simp add: RunCommand_def emits_ask split: prod.split)

lemma always_RunCommand [always_intros]:
  "(\<And>ok. P h (SSH (fst c) (snd c) command ok)) \<Longrightarrow> always P (RunCommand e c command) h"
  by (simp add: RunCommand_def always_ask split: prod.split)

lemma run_NewSSHClient_ret [simp]:
  "run_state (NewSSHClient e host port) h = (ret c, h1) \<longleftrightarrow>
   ask_key e h = None \<and> ask_dial e h host port = None \<and> c = (host, port) \<and> h1 = h"
  by (auto simp: NewSSHClient_def split: option.splits)

section \<open>Copying a file\<close>

text \<open>
  \<open>scp.NewClient\<close>, \<open>Connect\<close> and \<open>Copy\<close>. Two of the three callers drop the error of reading the
  key, the third reports it.
\<close>

definition scp_Copy :: "env \<Rightarrow> string \<Rightarrow> int \<Rightarrow> string \<Rightarrow> string \<Rightarrow> unit res io" where
  "scp_Copy e host port file content =
     do { r \<leftarrow> State (\<lambda>h. (ask_dial e h host port, h));
          case r of
            Some err \<Rightarrow> io_fail (ErrMsg (''couldn't establish a connection to the remote server: '' @ err))
          | None \<Rightarrow>
              do { err \<leftarrow> ask (\<lambda>h. ask_scp e h host port file content) (\<lambda>r. SCP host port file content (r = None));
                   case err of
                     Some x \<Rightarrow> io_fail (ErrMsg (''error while copying file: '' @ error_text x))
                   | None \<Rightarrow> io_ret () } }"

lemma emits_scp_Copy [emits_intros]:
  assumes "\<And>ok. P (SCP host port file content ok)"
  shows "emits P (scp_Copy e host port file content)"
proof -
  have "emits P (State (\<lambda>h. (ask_dial e h host port, h)))" by (simp add: emits_def)
  then show ?thesis unfolding scp_Copy_def by (intro emits_intros emits_ask assms)
qed

lemma always_scp_Copy [always_intros]:
  assumes "\<And>ok. P h (SCP host port file content ok)"
  shows "always P (scp_Copy e host port file content) h"
proof -
  have "always P (State (\<lambda>h. (ask_dial e h host port, h))) h" for h by (simp add: always_def)
  then show ?thesis unfolding scp_Copy_def by (intro always_intros always_ask) (auto intro: assms)
qed

lemma run_scp_Copy_ret [simp]:
  "run_state (scp_Copy e host port file content) h = (ret u, h1) \<longleftrightarrow>
   ask_dial e h host port = None \<and> ask_scp e h host port file content = None \<and>
   h1 = h @ [SCP host port file content True]"
  by (auto simp: scp_Copy_def io_simps split: option.splits)

end
