(* ===== verification/Topology_Webhook.thy ===== *)
theory Topology_Webhook
  imports Topology
begin

text \<open>
  \<open>api/v1/testclustertopology_webhook.go\<close>: the validating webhook of cluster topologies, which
  decides what changes of a running TiDB cluster are allowed.

  The code reads the component lists by reflection (\<open>FieldByName\<close>); \<open>components\<close> is that view of
  the three server roles. \<open>diff.Diff\<close> of \<open>github.com/r3labs/diff\<close> is a parameter of the model.
\<close>

section \<open>The server roles\<close>

datatype role = TiDBField | PDField | TiKVField

datatype component = TiDBComp TiDBSpec | PDComp PDSpec | TiKVComp TiKVSpec

primrec components :: "TiDBCluster \<Rightarrow> role \<Rightarrow> component slice" where
  "components c TiDBField = map_option (map TiDBComp) (tc_TiDB c)"
| "components c PDField = map_option (map PDComp) (tc_PD c)"
| "components c TiKVField = map_option (map TiKVComp) (tc_TiKV c)"

primrec comp_Host :: "component \<Rightarrow> string" where
  "comp_Host (TiDBComp t) = tidb_Host t"
| "comp_Host (PDComp t) = pd_Host t"
| "comp_Host (TiKVComp t) = tikv_Host t"

primrec comp_Config :: "component \<Rightarrow> string" where
  "comp_Config (TiDBComp t) = tidb_Config t"
| "comp_Config (PDComp t) = pd_Config t"
| "comp_Config (TiKVComp t) = tikv_Config t"

primrec EntryID :: "component \<Rightarrow> string" where
  "EntryID (TiDBComp t) = TiDBSpec_EntryID t"
| "EntryID (PDComp t) = PDSpec_EntryID t"
| "EntryID (TiKVComp t) = TiKVSpec_EntryID t"

primrec role_name :: "role \<Rightarrow> string" where
  "role_name TiDBField = ''TiDB''"
| "role_name PDField = ''PD''"
| "role_name TiKVField = ''TiKV''"

primrec role_lower :: "role \<Rightarrow> string" where
  "role_lower TiDBField = ''tidb''"
| "role_lower PDField = ''pd''"
| "role_lower TiKVField = ''tikv''"

definition checkComponents :: "role list" where
  "checkComponents = [TiDBField, PDField, TiKVField]"

definition fmt_v :: "string list \<Rightarrow> string" where
  "fmt_v xs = ''['' @ Join xs '' '' @ '']''"

section \<open>The kinds of update\<close>

definition IsServerConfigModified :: "ServerConfigs \<Rightarrow> ServerConfigs \<Rightarrow> bool" where
  "IsServerConfigModified pre cur \<longleftrightarrow> pre \<noteq> cur"

definition IsScale :: "TiDBCluster \<Rightarrow> TiDBCluster \<Rightarrow> bool" where
  "IsScale pre cur \<longleftrightarrow>
     len (tc_TiDB pre) \<noteq> len (tc_TiDB cur) \<or> len (tc_PD pre) \<noteq> len (tc_PD cur) \<or>
     len (tc_TiKV pre) \<noteq> len (tc_TiKV cur)"

definition IsScaleIn :: "TiDBCluster \<Rightarrow> TiDBCluster \<Rightarrow> bool" where
  "IsScaleIn pre cur \<longleftrightarrow>
     len (tc_TiDB pre) > len (tc_TiDB cur) \<or> len (tc_PD pre) > len (tc_PD cur) \<or>
     len (tc_TiKV pre) > len (tc_TiKV cur)"

definition IsUpgrade :: "TiDBCluster \<Rightarrow> TiDBCluster \<Rightarrow> bool" where
  "IsUpgrade pre cur \<longleftrightarrow> tv_Version (tc_Version pre) \<noteq> tv_Version (tc_Version cur)"

text \<open>Two components of the same host in the two versions of a role; \<open>p\<close> is asked of each such pair.\<close>

definition same_host_pair :: "(component \<Rightarrow> component \<Rightarrow> bool) \<Rightarrow> TiDBCluster \<Rightarrow> TiDBCluster \<Rightarrow> role \<Rightarrow> bool" where
  "same_host_pair p pre cur r \<longleftrightarrow>
     (\<exists>a\<in>set (elems (components pre r)). \<exists>b\<in>set (elems (components cur r)). comp_Host a = comp_Host b \<and> p a b)"

definition IsComponentsConfigModified :: "TiDBCluster \<Rightarrow> TiDBCluster \<Rightarrow> bool" where
  "IsComponentsConfigModified pre cur \<longleftrightarrow>
     (\<exists>r\<in>set checkComponents. same_host_pair (\<lambda>a b. comp_Config a \<noteq> comp_Config b) pre cur r)"

section \<open>The checks\<close>

fun kept_hosts :: "TiDBCluster \<Rightarrow> TiDBCluster \<Rightarrow> role list \<Rightarrow> bool" where
  "kept_hosts pre cur [] = True"
| "kept_hosts pre cur (r # rs) =
     (if components cur r = None \<and> components pre r = None then kept_hosts pre cur rs
      else if \<not> same_host_pair (\<lambda>_ _. True) pre cur r then False
      else kept_hosts pre cur rs)"

definition checkSimultaneousScaleOutAndScaleIn :: "TiDBCluster \<Rightarrow> TiDBCluster \<Rightarrow> error option" where
  "checkSimultaneousScaleOutAndScaleIn pre cur =
     (let scaleIn = (len (tc_TiDB pre) > len (tc_TiDB cur) \<or> len (tc_PD pre) > len (tc_PD cur) \<or>
                     len (tc_TiKV pre) > len (tc_TiKV cur));
          scaleOut = (len (tc_TiDB pre) < len (tc_TiDB cur) \<or> len (tc_PD pre) < len (tc_PD cur) \<or>
                      len (tc_TiKV pre) < len (tc_TiKV cur));
          err = Some (ErrMsg ''cluster can't scale-in/out at the same time'')
      in if scaleIn \<and> scaleOut then err
         else if \<not> scaleIn \<and> \<not> scaleOut
         then (if kept_hosts pre cur checkComponents then None else err)
         else None)"

text \<open>The directories a role must have; the order of the roles is that of ranging over a Go map.\<close>

primrec required_dirs :: "component \<Rightarrow> (string \<times> string) list" where
  "required_dirs (TiDBComp t) = [(''DeployDir'', tidb_DeployDir t)]"
| "required_dirs (PDComp t) = [(''DeployDir'', pd_DeployDir t), (''DataDir'', pd_DataDir t)]"
| "required_dirs (TiKVComp t) = [(''DeployDir'', tikv_DeployDir t), (''DataDir'', tikv_DataDir t)]"

fun empty_dirs :: "role \<Rightarrow> nat \<Rightarrow> component list \<Rightarrow> string list" where
  "empty_dirs key i [] = []"
| "empty_dirs key i (c # cs) =
     map (\<lambda>(f, v). Join [''spec.tidbCluster'', role_lower key @ ''['' @ Itoa (int i) @ '']'', f] ''.'')
       (filter (\<lambda>(f, v). v = []) (required_dirs c))
     @ empty_dirs key (Suc i) cs"

definition getEmptyRequiredFields :: "role list \<Rightarrow> TiDBCluster \<Rightarrow> string list" where
  "getEmptyRequiredFields checkMaps cur =
     (if tc_Global cur \<noteq> None then []
      else concat (map (\<lambda>key. empty_dirs key 0 (elems (components cur key))) checkMaps))"

definition checkUnsupportedComponentsChanged :: "TiDBCluster \<Rightarrow> TiDBCluster \<Rightarrow> error option" where
  "checkUnsupportedComponentsChanged pre cur =
     (if tc_Global pre \<noteq> tc_Global cur \<or> tc_Drainer pre \<noteq> tc_Drainer cur \<or> tc_Pump pre \<noteq> tc_Pump cur \<or>
         tc_Monitor pre \<noteq> tc_Monitor cur \<or> tc_Control pre \<noteq> tc_Control cur \<or> tc_Grafana pre \<noteq> tc_Grafana cur
      then Some (ErrMsg ''update unsupport components'') else None)"

definition countClusterNum :: "TestClusterTopology \<Rightarrow> nat" where
  "countClusterNum tct =
     (if cts_FlinkCluster (ct_Spec tct) \<noteq> None then 1 else 0) +
     (if cts_TiDBCluster (ct_Spec tct) \<noteq> None then 1 else 0) +
     (if cts_DMCluster (ct_Spec tct) \<noteq> None then 1 else 0)"

definition checkVersionDownloadURLModified :: "TiDBCluster \<Rightarrow> TiDBCluster \<Rightarrow> error option" where
  "checkVersionDownloadURLModified pre cur =
     (if tv_PDDownloadURL (tc_Version pre) \<noteq> tv_PDDownloadURL (tc_Version cur) \<or>
         tv_TiDBDownloadURL (tc_Version pre) \<noteq> tv_TiDBDownloadURL (tc_Version cur) \<or>
         tv_TiKVDownloadURL (tc_Version pre) \<noteq> tv_TiKVDownloadURL (tc_Version cur)
      then Some (ErrMsg ''don't support update downLoadURL'') else None)"

text \<open>\<open>diff.Diff\<close>: the list of changes between two structs of the same type, printed.\<close>

type_synonym differ = "component \<Rightarrow> component \<Rightarrow> error + string list"

fun immutable_pairs :: "differ \<Rightarrow> role \<Rightarrow> (component \<times> component) list \<Rightarrow> error option" where
  "immutable_pairs Diff r [] = None"
| "immutable_pairs Diff r ((a, b) # ps) =
     (if EntryID a = EntryID b
      then (case Diff a b of
              Inl err \<Rightarrow> Some err
            | Inr changelog \<Rightarrow>
                (if changelog \<noteq> []
                 then Some (ErrMsg (''immutable field '' @ role_name r @ '' is changed '' @ fmt_v changelog))
                 else immutable_pairs Diff r ps))
      else immutable_pairs Diff r ps)"

fun immutable_roles :: "differ \<Rightarrow> TiDBCluster \<Rightarrow> TiDBCluster \<Rightarrow> role list \<Rightarrow> error option" where
  "immutable_roles Diff pre cur [] = None"
| "immutable_roles Diff pre cur (r # rs) =
     or_else (immutable_pairs Diff r
                (List.product (elems (components pre r)) (elems (components cur r))))
       (immutable_roles Diff pre cur rs)"

definition checkImmutableFieldChanged :: "differ \<Rightarrow> TiDBCluster \<Rightarrow> TiDBCluster \<Rightarrow> error option" where
  "checkImmutableFieldChanged Diff pre cur = immutable_roles Diff pre cur checkComponents"

definition checkAtMostOneKindUpdation :: "TiDBCluster \<Rightarrow> TiDBCluster \<Rightarrow> error option" where
  "checkAtMostOneKindUpdation pre cur =
     (let updatedModules = (0 :: nat);
          updatedModules = (if IsScale pre cur then updatedModules + 1 else updatedModules);
          updatedModules = (if IsServerConfigModified (tc_ServerConfigs pre) (tc_ServerConfigs cur)
                            then updatedModules + 1 else updatedModules);
          updatedModules = (if IsUpgrade pre cur then updatedModules + 1 else updatedModules)
      in if updatedModules > 1
         then Some (ErrMsg ''only one of [upgrade, modify serverConfigs, scale-in/out] can be executed at a time'')
         else None)"

definition checkUpgradePolicy :: "TiDBCluster \<Rightarrow> error option" where
  "checkUpgradePolicy cur =
     (if \<not> (tc_UpgradePolicy cur = ''force'' \<or> tc_UpgradePolicy cur = [])
      then Some (ErrMsg ''upgradePolicy must be `force` or empty'') else None)"

section \<open>The webhook\<close>

definition must_fill :: "string list \<Rightarrow> error option" where
  "must_fill result = (if result \<noteq> [] then Some (ErrMsg (''you must fill '' @ fmt_v result)) else None)"

definition Topology_ValidateCreate :: "role list \<Rightarrow> TestClusterTopology \<Rightarrow> error option" where
  "Topology_ValidateCreate checkMaps r =
     (if countClusterNum r > 1 then Some (ErrMsg ''only one cluster can be created at a time'')
      else case cts_TiDBCluster (ct_Spec r) of
        Some c \<Rightarrow> must_fill (getEmptyRequiredFields checkMaps c)
      | None \<Rightarrow> None)"

definition validateTiDBUpdate ::
  "differ \<Rightarrow> role list \<Rightarrow> TestClusterTopology \<Rightarrow> TestClusterTopology \<Rightarrow> error option" where
  "validateTiDBUpdate Diff checkMaps r tct =
     (case (cts_TiDBCluster (ct_Spec r), ctst_PreTiDBCluster (ct_Status tct)) of
        (Some cur, Some pre) \<Rightarrow>
          or_else (checkUnsupportedComponentsChanged pre cur) (
          or_else (checkAtMostOneKindUpdation pre cur) (
          or_else (checkUpgradePolicy cur) (
          or_else (checkImmutableFieldChanged Diff pre cur) (
          or_else (checkVersionDownloadURLModified pre cur) (
          or_else (checkSimultaneousScaleOutAndScaleIn pre cur) (
          or_else (must_fill (getEmptyRequiredFields checkMaps cur)) (
            let info = ctst_TiDBClusterInfo (ct_Status r)
            in if IsScaleIn pre cur \<and> (tci_PendingOfflineList info \<noteq> [] \<or> tci_OfflineList info \<noteq> [])
               then Some (ErrMsg (''you must wait scale-in tikvs '' @ fmt_v (tci_PendingOfflineList info) @
                      '','' @ fmt_v (tci_OfflineList info) @ '' complete the region migration''))
               else None)))))))
      | _ \<Rightarrow> None)"

definition Topology_ValidateUpdate ::
  "differ \<Rightarrow> role list \<Rightarrow> TestClusterTopology \<Rightarrow> TestClusterTopology \<Rightarrow> error option" where
  "Topology_ValidateUpdate Diff checkMaps r old =
     (if cts_TiDBCluster (ct_Spec r) \<noteq> None then validateTiDBUpdate Diff checkMaps r old else None)"

section \<open>What the checks mean\<close>

lemma set_checkComponents [simp]: "set checkComponents = UNIV"
  by (auto simp: checkComponents_def) (metis role.exhaust)

lemma empty_dirs_Nil_iff:
  "empty_dirs key i cs = [] \<longleftrightarrow> (\<forall>c\<in>set cs. \<forall>(f, v)\<in>set (required_dirs c). v \<noteq> [])"
  by (induction cs arbitrary: i) (auto simp: filter_empty_conv)

definition dirs_filled :: "TiDBCluster \<Rightarrow> bool" where
  "dirs_filled c \<longleftrightarrow>
     tc_Global c \<noteq> None \<or>
     (\<forall>t\<in>set (elems (tc_TiDB c)). tidb_DeployDir t \<noteq> []) \<and>
     (\<forall>t\<in>set (elems (tc_PD c)). pd_DeployDir t \<noteq> [] \<and> pd_DataDir t \<noteq> []) \<and>
     (\<forall>t\<in>set (elems (tc_TiKV c)). tikv_DeployDir t \<noteq> [] \<and> tikv_DataDir t \<noteq> [])"

lemma elems_map_option [simp]: "elems (map_option (map f) s) = map f (elems s)"
  by (cases s) auto

lemma all_roles: "(\<forall>r. P r) \<longleftrightarrow> P TiDBField \<and> P PDField \<and> P TiKVField"
  by (metis role.exhaust)

lemma getEmptyRequiredFields_Nil_iff:
  assumes "set checkMaps = UNIV"
  shows "getEmptyRequiredFields checkMaps c = [] \<longleftrightarrow> dirs_filled c"
proof -
  have "getEmptyRequiredFields checkMaps c = [] \<longleftrightarrow> tc_Global c \<noteq> None \<or>
      (\<forall>r. \<forall>x\<in>set (elems (components c r)). \<forall>(f, v)\<in>set (required_dirs x). v \<noteq> [])"
    using assms by (auto simp: getEmptyRequiredFields_def empty_dirs_Nil_iff)
  then show ?thesis by (simp add: all_roles dirs_filled_def)
qed

lemma kept_hosts_iff:
  "kept_hosts pre cur rs \<longleftrightarrow>
   (\<forall>r\<in>set rs. components cur r = None \<and> components pre r = None \<or> same_host_pair (\<lambda>_ _. True) pre cur r)"
  by (induction rs) auto

definition IsScaleOut :: "TiDBCluster \<Rightarrow> TiDBCluster \<Rightarrow> bool" where
  "IsScaleOut pre cur \<longleftrightarrow> IsScaleIn cur pre"

lemma checkSimultaneous_None_iff:
  "checkSimultaneousScaleOutAndScaleIn pre cur = None \<longleftrightarrow>
   \<not> (IsScaleIn pre cur \<and> IsScaleOut pre cur) \<and>
   (\<not> IsScale pre cur \<longrightarrow> (\<forall>r. components cur r = None \<and> components pre r = None \<or>
      same_host_pair (\<lambda>_ _. True) pre cur r))"
proof -
  have "\<not> IsScale pre cur \<longleftrightarrow> \<not> IsScaleIn pre cur \<and> \<not> IsScaleOut pre cur"
    by (auto simp: IsScale_def IsScaleIn_def IsScaleOut_def)
  then show ?thesis
    by (auto simp: checkSimultaneousScaleOutAndScaleIn_def IsScaleIn_def IsScaleOut_def Let_def kept_hosts_iff)
qed

text \<open>What the code relies on of \<open>diff.Diff\<close>: it succeeds, and finds no change exactly between equal structs.\<close>

definition exact_differ :: "differ \<Rightarrow> bool" where
  "exact_differ Diff \<longleftrightarrow> (\<forall>a b. \<exists>cl. Diff a b = Inr cl \<and> (cl = [] \<longleftrightarrow> a = b))"

lemma immutable_pairs_None_iff:
  assumes "exact_differ Diff"
  shows "immutable_pairs Diff r ps = None \<longleftrightarrow> (\<forall>(a, b)\<in>set ps. EntryID a = EntryID b \<longrightarrow> a = b)"
proof (induction ps)
  case Nil
  then show ?case by simp
next
  case (Cons p ps)
  obtain a b where p: "p = (a, b)" by (cases p)
  from assms obtain cl where "Diff a b = Inr cl" "cl = [] \<longleftrightarrow> a = b" unfolding exact_differ_def by blast
  with Cons show ?case by (simp add: p)
qed

lemma checkImmutableFieldChanged_None_iff:
  assumes "exact_differ Diff"
  shows "checkImmutableFieldChanged Diff pre cur = None \<longleftrightarrow>
    (\<forall>r. \<forall>a\<in>set (elems (components pre r)). \<forall>b\<in>set (elems (components cur r)). EntryID a = EntryID b \<longrightarrow> a = b)"
proof -
  have "immutable_roles Diff pre cur rs = None \<longleftrightarrow> (\<forall>r\<in>set rs. \<forall>a\<in>set (elems (components pre r)).
      \<forall>b\<in>set (elems (components cur r)). EntryID a = EntryID b \<longrightarrow> a = b)" for rs
    by (induction rs) (auto simp: immutable_pairs_None_iff [OF assms])
  then show ?thesis by (simp add: checkImmutableFieldChanged_def)
qed

lemma checkAtMostOneKindUpdation_None_iff:
  "checkAtMostOneKindUpdation pre cur = None \<longleftrightarrow>
   (let sc = IsScale pre cur; cf = (tc_ServerConfigs pre \<noteq> tc_ServerConfigs cur); up = IsUpgrade pre cur
    in \<not> (sc \<and> cf) \<and> \<not> (sc \<and> up) \<and> \<not> (cf \<and> up))"
  by (auto simp: checkAtMostOneKindUpdation_def IsServerConfigModified_def Let_def)

text \<open>The changes of a running TiDB cluster that the webhook lets through.\<close>

definition update_allowed :: "TiDBClusterInfo \<Rightarrow> TiDBCluster \<Rightarrow> TiDBCluster \<Rightarrow> bool" where
  "update_allowed info pre cur \<longleftrightarrow>
     tc_Global pre = tc_Global cur \<and> tc_Drainer pre = tc_Drainer cur \<and> tc_Pump pre = tc_Pump cur \<and>
     tc_Monitor pre = tc_Monitor cur \<and> tc_Control pre = tc_Control cur \<and> tc_Grafana pre = tc_Grafana cur \<and>
     \<not> (IsScale pre cur \<and> tc_ServerConfigs pre \<noteq> tc_ServerConfigs cur) \<and>
     \<not> (IsScale pre cur \<and> IsUpgrade pre cur) \<and>
     \<not> (tc_ServerConfigs pre \<noteq> tc_ServerConfigs cur \<and> IsUpgrade pre cur) \<and>
     tc_UpgradePolicy cur \<in> {[], ''force''} \<and>
     (\<forall>r. \<forall>a\<in>set (elems (components pre r)). \<forall>b\<in>set (elems (components cur r)).
        EntryID a = EntryID b \<longrightarrow> a = b) \<and>
     tv_PDDownloadURL (tc_Version pre) = tv_PDDownloadURL (tc_Version cur) \<and>
     tv_TiDBDownloadURL (tc_Version pre) = tv_TiDBDownloadURL (tc_Version cur) \<and>
     tv_TiKVDownloadURL (tc_Version pre) = tv_TiKVDownloadURL (tc_Version cur) \<and>
     \<not> (IsScaleIn pre cur \<and> IsScaleOut pre cur) \<and>
     (\<not> IsScale pre cur \<longrightarrow> (\<forall>r. components cur r = None \<and> components pre r = None \<or>
        same_host_pair (\<lambda>_ _. True) pre cur r)) \<and>
     dirs_filled cur \<and>
     (IsScaleIn pre cur \<longrightarrow> tci_PendingOfflineList info = [] \<and> tci_OfflineList info = [])"

lemma validateTiDBUpdate_allows:
  assumes "exact_differ Diff" "set checkMaps = UNIV"
    and "cts_TiDBCluster (ct_Spec r) = Some cur" "ctst_PreTiDBCluster (ct_Status tct) = Some pre"
  shows "validateTiDBUpdate Diff checkMaps r tct = None \<longleftrightarrow>
    update_allowed (ctst_TiDBClusterInfo (ct_Status r)) pre cur"
proof -
  have "checkUnsupportedComponentsChanged pre cur = None \<longleftrightarrow>
     tc_Global pre = tc_Global cur \<and> tc_Drainer pre = tc_Drainer cur \<and> tc_Pump pre = tc_Pump cur \<and>
     tc_Monitor pre = tc_Monitor cur \<and> tc_Control pre = tc_Control cur \<and> tc_Grafana pre = tc_Grafana cur"
    by (simp add: checkUnsupportedComponentsChanged_def)
  moreover have "checkVersionDownloadURLModified pre cur = None \<longleftrightarrow>
     tv_PDDownloadURL (tc_Version pre) = tv_PDDownloadURL (tc_Version cur) \<and>
     tv_TiDBDownloadURL (tc_Version pre) = tv_TiDBDownloadURL (tc_Version cur) \<and>
     tv_TiKVDownloadURL (tc_Version pre) = tv_TiKVDownloadURL (tc_Version cur)"
    by (simp add: checkVersionDownloadURLModified_def)
  moreover have "checkUpgradePolicy cur = None \<longleftrightarrow> tc_UpgradePolicy cur \<in> {[], ''force''}"
    by (auto simp: checkUpgradePolicy_def)
  moreover have "must_fill (getEmptyRequiredFields checkMaps cur) = None \<longleftrightarrow> dirs_filled cur"
    using getEmptyRequiredFields_Nil_iff [OF assms(2)] by (simp add: must_fill_def)
  ultimately show ?thesis
    unfolding validateTiDBUpdate_def assms(3,4) update_allowed_def
    by (simp add: checkAtMostOneKindUpdation_None_iff checkImmutableFieldChanged_None_iff [OF assms(1)]
        checkSimultaneous_None_iff Let_def) argo
qed

text \<open>
  What an update may be, said of the servers themselves and not of the code's counts: the servers of
  each role as a set, each with all its fields. Either no server changes, and not both the version and
  the server configuration; or version and configuration stay and servers only join, or servers only
  leave while no store is being drained.
\<close>

definition servers :: "TiDBCluster \<Rightarrow> role \<Rightarrow> component set" where
  "servers c r = set (elems (components c r))"

definition one_change :: "TiDBClusterInfo \<Rightarrow> TiDBCluster \<Rightarrow> TiDBCluster \<Rightarrow> bool" where
  "one_change info pre cur \<longleftrightarrow>
     (\<forall>r. servers cur r = servers pre r) \<and>
       (tv_Version (tc_Version cur) = tv_Version (tc_Version pre) \<or> tc_ServerConfigs cur = tc_ServerConfigs pre) \<or>
     tv_Version (tc_Version cur) = tv_Version (tc_Version pre) \<and> tc_ServerConfigs cur = tc_ServerConfigs pre \<and>
       ((\<forall>r. servers pre r \<subseteq> servers cur r) \<or>
        (\<forall>r. servers cur r \<subseteq> servers pre r) \<and> tci_PendingOfflineList info = [] \<and> tci_OfflineList info = [])"

definition kept_parts :: "TiDBCluster \<Rightarrow> TiDBCluster \<Rightarrow> bool" where
  "kept_parts pre cur \<longleftrightarrow>
     tc_Global cur = tc_Global pre \<and> tc_Drainer cur = tc_Drainer pre \<and> tc_Pump cur = tc_Pump pre \<and>
     tc_Monitor cur = tc_Monitor pre \<and> tc_Control cur = tc_Control pre \<and> tc_Grafana cur = tc_Grafana pre \<and>
     tv_PDDownloadURL (tc_Version cur) = tv_PDDownloadURL (tc_Version pre) \<and>
     tv_TiDBDownloadURL (tc_Version cur) = tv_TiDBDownloadURL (tc_Version pre) \<and>
     tv_TiKVDownloadURL (tc_Version cur) = tv_TiKVDownloadURL (tc_Version pre)"

text \<open>Every server is listed once, and a role without servers is left out of the file.\<close>

definition well_listed :: "TiDBCluster \<Rightarrow> bool" where
  "well_listed c \<longleftrightarrow> (\<forall>r. components c r \<noteq> Some [] \<and> distinct (map EntryID (elems (components c r))))"

text \<open>In no role is a server exchanged for another: what is compared is the identity of the entries.\<close>

definition nothing_replaced :: "TiDBCluster \<Rightarrow> TiDBCluster \<Rightarrow> bool" where
  "nothing_replaced pre cur \<longleftrightarrow>
     (\<forall>r. EntryID ` servers cur r \<subseteq> EntryID ` servers pre r \<or> EntryID ` servers pre r \<subseteq> EntryID ` servers cur r)"

lemma len_components:
  "len (tc_TiDB c) = length (elems (components c TiDBField))"
  "len (tc_PD c) = length (elems (components c PDField))"
  "len (tc_TiKV c) = length (elems (components c TiKVField))"
  by (simp_all add: len_def)

lemma well_listed_card:
  assumes "well_listed c"
  shows "length (elems (components c r)) = card (servers c r)" "inj_on EntryID (servers c r)"
    "servers c r = {} \<longleftrightarrow> components c r = None"
proof -
  from assms have d: "distinct (map EntryID (elems (components c r)))" and ne: "components c r \<noteq> Some []"
    by (simp_all add: well_listed_def)
  then show "length (elems (components c r)) = card (servers c r)" "inj_on EntryID (servers c r)"
    by (simp_all add: servers_def distinct_map distinct_card)
  show "servers c r = {} \<longleftrightarrow> components c r = None" using ne by (cases "components c r") (auto simp: servers_def)
qed

lemma finite_servers [simp]: "finite (servers c r)"
  by (simp add: servers_def)

lemma scale_card:
  assumes "well_listed pre" "well_listed cur"
  shows "IsScaleIn pre cur \<longleftrightarrow> (\<exists>r. card (servers cur r) < card (servers pre r))"
    "IsScaleOut pre cur \<longleftrightarrow> (\<exists>r. card (servers pre r) < card (servers cur r))"
    "IsScale pre cur \<longleftrightarrow> (\<exists>r. card (servers pre r) \<noteq> card (servers cur r))"
proof -
  have ex: "(\<exists>r. P r) \<longleftrightarrow> P TiDBField \<or> P PDField \<or> P TiKVField" for P by (metis role.exhaust)
  note card = well_listed_card(1) [OF assms(1)] well_listed_card(1) [OF assms(2)]
  show "IsScaleIn pre cur \<longleftrightarrow> (\<exists>r. card (servers cur r) < card (servers pre r))"
    "IsScaleOut pre cur \<longleftrightarrow> (\<exists>r. card (servers pre r) < card (servers cur r))"
    "IsScale pre cur \<longleftrightarrow> (\<exists>r. card (servers pre r) \<noteq> card (servers cur r))"
    unfolding ex IsScaleOut_def IsScaleIn_def IsScale_def len_components card by (rule refl)+
qed

definition same_entries :: "TiDBCluster \<Rightarrow> TiDBCluster \<Rightarrow> bool" where
  "same_entries pre cur \<longleftrightarrow>
     (\<forall>r. \<forall>a\<in>servers pre r. \<forall>b\<in>servers cur r. EntryID a = EntryID b \<longrightarrow> a = b)"

lemma nothing_replaced_subset:
  assumes "same_entries pre cur" "nothing_replaced pre cur"
  shows "servers cur r \<subseteq> servers pre r \<or> servers pre r \<subseteq> servers cur r"
proof -
  have "A \<subseteq> B" if "EntryID ` A \<subseteq> EntryID ` B" "\<And>a b. a \<in> A \<Longrightarrow> b \<in> B \<Longrightarrow> EntryID a = EntryID b \<Longrightarrow> a = b" for A B
  proof
    fix a assume "a \<in> A"
    with that(1) have "EntryID a \<in> EntryID ` B" by blast
    then obtain b where "b \<in> B" "EntryID a = EntryID b" by (rule imageE)
    with that(2) [OF \<open>a \<in> A\<close>] show "a \<in> B" by blast
  qed
  with assms show ?thesis unfolding same_entries_def nothing_replaced_def by metis
qed

lemma subset_same_entries:
  assumes "well_listed pre" "well_listed cur" "\<And>r. servers cur r \<subseteq> servers pre r \<or> servers pre r \<subseteq> servers cur r"
  shows "same_entries pre cur" "nothing_replaced pre cur"
proof -
  have "a = b" if "a \<in> servers pre r" "b \<in> servers cur r" "EntryID a = EntryID b" for a b r
    using that assms(3) [of r] well_listed_card(2) [OF assms(1), of r] well_listed_card(2) [OF assms(2), of r]
    by (metis inj_on_def subsetD)
  then show "same_entries pre cur" unfolding same_entries_def by blast
  show "nothing_replaced pre cur" unfolding nothing_replaced_def using assms(3) by (meson image_mono)
qed

lemma update_allowed_parts:
  "update_allowed info pre cur \<longleftrightarrow>
     kept_parts pre cur \<and> tc_UpgradePolicy cur \<in> {[], ''force''} \<and> dirs_filled cur \<and> same_entries pre cur \<and>
     \<not> (IsScale pre cur \<and> tc_ServerConfigs pre \<noteq> tc_ServerConfigs cur) \<and>
     \<not> (IsScale pre cur \<and> IsUpgrade pre cur) \<and>
     \<not> (tc_ServerConfigs pre \<noteq> tc_ServerConfigs cur \<and> IsUpgrade pre cur) \<and>
     \<not> (IsScaleIn pre cur \<and> IsScaleOut pre cur) \<and>
     (\<not> IsScale pre cur \<longrightarrow> (\<forall>r. components cur r = None \<and> components pre r = None \<or>
        same_host_pair (\<lambda>_ _. True) pre cur r)) \<and>
     (IsScaleIn pre cur \<longrightarrow> tci_PendingOfflineList info = [] \<and> tci_OfflineList info = [])"
  unfolding update_allowed_def kept_parts_def same_entries_def servers_def by (simp add: eq_commute) argo

lemma allowed_one_change:
  assumes "well_listed pre" "well_listed cur" "update_allowed info pre cur" "nothing_replaced pre cur"
  shows "one_change info pre cur"
proof -
  note allowed = assms(3) [unfolded update_allowed_parts]
  note scale = scale_card [OF assms(1,2)]
  from allowed have sub: "servers cur r \<subseteq> servers pre r \<or> servers pre r \<subseteq> servers cur r" for r
    using nothing_replaced_subset [OF _ assms(4)] by blast
  have shrinks: "servers cur r \<subseteq> servers pre r" if "card (servers cur r) \<le> card (servers pre r)" for r
    using sub [of r] card_seteq [OF finite_servers, of "servers pre r" cur r] that by blast
  have grows: "servers pre r \<subseteq> servers cur r" if "card (servers pre r) \<le> card (servers cur r)" for r
    using sub [of r] card_seteq [OF finite_servers, of "servers cur r" pre r] that by blast
  consider "\<not> IsScale pre cur" | "IsScale pre cur" "\<not> IsScaleOut pre cur" "IsScaleIn pre cur" | "IsScale pre cur" "\<not> IsScaleIn pre cur"
    using allowed scale by (metis linorder_neqE_nat)
  then show ?thesis
  proof cases
    case 1
    then have "servers cur r = servers pre r" for r using scale(3) shrinks [of r] grows [of r] by auto
    with allowed show ?thesis by (auto simp: one_change_def IsUpgrade_def)
  next
    case 2
    then have "servers cur r \<subseteq> servers pre r" for r using scale(2) shrinks [of r] by (meson not_less)
    with allowed 2 show ?thesis by (simp add: one_change_def IsUpgrade_def)
  next
    case 3
    then have "servers pre r \<subseteq> servers cur r" for r using scale(1) grows [of r] by (meson not_less)
    with allowed 3 show ?thesis by (simp add: one_change_def IsUpgrade_def)
  qed
qed

lemma one_change_allowed:
  assumes "well_listed pre" "well_listed cur" "one_change info pre cur"
    and "kept_parts pre cur" "tc_UpgradePolicy cur \<in> {[], ''force''}" "dirs_filled cur"
  shows "update_allowed info pre cur" "nothing_replaced pre cur"
proof -
  note scale = scale_card [OF assms(1,2)]
  from assms(3) have sub: "servers cur r \<subseteq> servers pre r \<or> servers pre r \<subseteq> servers cur r" for r
    unfolding one_change_def by blast
  note same = subset_same_entries [OF assms(1,2) sub]
  then show "nothing_replaced pre cur" by blast
  have in_dir: "\<not> IsScaleIn pre cur" if "\<forall>r. servers pre r \<subseteq> servers cur r"
    unfolding scale using that by (metis card_mono finite_servers not_less)
  have out_dir: "\<not> IsScaleOut pre cur" if "\<forall>r. servers cur r \<subseteq> servers pre r"
    unfolding scale using that by (metis card_mono finite_servers not_less)
  have equal: "servers cur r = servers pre r" if "\<not> IsScale pre cur" for r
    using sub [of r] that scale(3) card_subset_eq [OF finite_servers] by metis
  have hosts: "components cur r = None \<and> components pre r = None \<or> same_host_pair (\<lambda>_ _. True) pre cur r"
    if "\<not> IsScale pre cur" for r
  proof (cases "servers cur r = {}")
    case True
    then show ?thesis
      using equal [OF that, of r] well_listed_card(3) [OF assms(1), of r] well_listed_card(3) [OF assms(2), of r] by simp
  next
    case False
    with equal [OF that, of r] obtain x where "x \<in> servers cur r" "x \<in> servers pre r" by blast
    then show ?thesis unfolding same_host_pair_def servers_def by blast
  qed
  have "\<not> IsScale pre cur" if "\<forall>r. servers cur r = servers pre r" using that scale(3) by simp
  then have scaled: "IsScale pre cur \<Longrightarrow> \<not> (\<forall>r. servers cur r = servers pre r)" by blast
  from assms(3) have "\<not> (IsScale pre cur \<and> tc_ServerConfigs pre \<noteq> tc_ServerConfigs cur)"
    "\<not> (IsScale pre cur \<and> IsUpgrade pre cur)"
    "\<not> (tc_ServerConfigs pre \<noteq> tc_ServerConfigs cur \<and> IsUpgrade pre cur)"
    unfolding one_change_def IsUpgrade_def using scaled by argo+
  moreover have "\<not> (IsScaleIn pre cur \<and> IsScaleOut pre cur)"
    "IsScaleIn pre cur \<Longrightarrow> tci_PendingOfflineList info = [] \<and> tci_OfflineList info = []"
    using assms(3) in_dir out_dir unfolding one_change_def by auto
  ultimately show "update_allowed info pre cur"
    unfolding update_allowed_parts using assms(4-6) same(1) hosts by blast
qed


end
