(* ===== verification/Tiup_Cluster.thy ===== *)
theory Tiup_Cluster
  imports Ssh Topology_Webhook
begin

text \<open>
  \<open>pkg/tiup/cluster/deploy.go\<close>, second part, and \<open>pkg/tiup/common.go\<close>: comparing two versions of a
  cluster, and the operations of \<open>ClusterManager\<close>, each of which runs \<open>tiup\<close> on the control node.

  The packages the source calls are parameters, collected in \<open>tiup_libs\<close>: YAML in both directions,
  the defaults of a specification, and the path of a parsed URL.
\<close>

section \<open>Parameters\<close>

type_synonym scale_out = "TiDBSpec list \<times> TiKVSpec list \<times> PDSpec list"

record tiup_libs =
  tl_unmarshal :: unmarshal
  tl_defaults :: set_defaults
  tl_marshal_spec :: "Specification \<Rightarrow> error + string"
  tl_marshal_meta :: "string \<Rightarrow> string \<Rightarrow> Specification \<Rightarrow> error + string"  \<comment> \<open>user, version, topology\<close>
  tl_marshal_scale :: "scale_out \<Rightarrow> error + string"
  tl_url_path :: "string \<Rightarrow> error + string"

section \<open>pkg/tiup/common.go\<close>

definition InsecureKeyPath :: string where
  "InsecureKeyPath = ''/root/insecure_key''"

definition ContainerImage :: string where
  "ContainerImage = ''docker.io/pingcapqe/base-image:latest''"

fun IgnoreClusterDuplicated :: "error option \<Rightarrow> error option" where
  "IgnoreClusterDuplicated (Some (ErrClusterDuplicated _)) = None"
| "IgnoreClusterDuplicated err = err"

fun IgnoreClusterNotExist :: "error option \<Rightarrow> error option" where
  "IgnoreClusterNotExist (Some (ErrClusterNotExist _)) = None"
| "IgnoreClusterNotExist err = err"

section \<open>Comparing two versions of a cluster\<close>

definition IsUpgraded :: "TiDBCluster \<Rightarrow> TiDBCluster \<Rightarrow> bool" where
  "IsUpgraded pre cur \<longleftrightarrow> tv_Version (tc_Version pre) \<noteq> tv_Version (tc_Version cur)"

definition IsConfigModified :: "TiDBCluster \<Rightarrow> TiDBCluster \<Rightarrow> bool" where
  "IsConfigModified pre cur \<longleftrightarrow>
     (if tc_ServerConfigs pre \<noteq> tc_ServerConfigs cur then True
      else \<exists>r\<in>set checkComponents. same_host_pair (\<lambda>a b. comp_Config a \<noteq> comp_Config b) pre cur r)"

definition IsClusterConfigModified :: "TiDBCluster \<Rightarrow> TiDBCluster \<Rightarrow> bool" where
  "IsClusterConfigModified pre cur \<longleftrightarrow> pre \<noteq> cur"

definition cluster_IsScaleIn :: "TiDBCluster \<Rightarrow> TiDBCluster \<Rightarrow> bool" where
  "cluster_IsScaleIn pre cur \<longleftrightarrow>
     len (tc_TiDB pre) > len (tc_TiDB cur) \<or> len (tc_PD pre) > len (tc_PD cur) \<or> len (tc_TiKV pre) > len (tc_TiKV cur)"

definition cluster_IsScaleOut :: "TiDBCluster \<Rightarrow> TiDBCluster \<Rightarrow> bool" where
  "cluster_IsScaleOut pre cur \<longleftrightarrow>
     len (tc_TiDB pre) < len (tc_TiDB cur) \<or> len (tc_PD pre) < len (tc_PD cur) \<or> len (tc_TiKV pre) < len (tc_TiKV cur)"

definition diffTiDBClusterConfig :: "TiDBCluster \<Rightarrow> TiDBCluster \<Rightarrow> string list" where
  "diffTiDBClusterConfig pre cur =
     (if sc_TiDB (tc_ServerConfigs pre) \<noteq> sc_TiDB (tc_ServerConfigs cur) \<or> tc_TiDB pre \<noteq> tc_TiDB cur then [''tidb''] else []) @
     (if sc_PD (tc_ServerConfigs pre) \<noteq> sc_PD (tc_ServerConfigs cur) \<or> tc_PD pre \<noteq> tc_PD cur then [''pd''] else []) @
     (if sc_TiKV (tc_ServerConfigs pre) \<noteq> sc_TiKV (tc_ServerConfigs cur) \<or> tc_TiKV pre \<noteq> tc_TiKV cur then [''tikv''] else [])"

subsection \<open>The nodes that leave\<close>

text \<open>
  The slices of \<open>pre\<close> are shared with the object of the caller, so a port that is filled in stays
  there: the loop gives the nodes and the slice as it leaves it.
\<close>

definition default_port :: "int \<Rightarrow> int \<Rightarrow> int" where
  "default_port port std = (if port = 0 then std else port)"

text \<open>A missing key of a Go map of strings reads as the empty string.\<close>

definition ip_of :: "(string, string) gomap \<Rightarrow> string \<Rightarrow> string" where
  "ip_of ips host = (case map_of ips host of None \<Rightarrow> [] | Some ip \<Rightarrow> ip)"

definition scale_in_tidb :: "TiDBSpec list \<Rightarrow> (string, string) gomap \<Rightarrow> TiDBSpec list \<Rightarrow> (string list \<times> TiDBSpec list)" where
  "scale_in_tidb cur ips pre =
     (let gone = filter (\<lambda>x. x \<notin> set cur) pre
      in (map (\<lambda>x. ip_of ips (tidb_Host x) @ '':'' @ Itoa (default_port (tidb_Port x) 4000)) gone,
          map (\<lambda>x. if x \<notin> set cur then x\<lparr>tidb_Port := default_port (tidb_Port x) 4000\<rparr> else x) pre))"

definition scale_in_pd :: "PDSpec list \<Rightarrow> (string, string) gomap \<Rightarrow> PDSpec list \<Rightarrow> (string list \<times> PDSpec list)" where
  "scale_in_pd cur ips pre =
     (let gone = filter (\<lambda>x. x \<notin> set cur) pre
      in (map (\<lambda>x. ip_of ips (pd_Host x) @ '':'' @ Itoa (default_port (pd_ClientPort x) 2379)) gone,
          map (\<lambda>x. if x \<notin> set cur then x\<lparr>pd_ClientPort := default_port (pd_ClientPort x) 2379\<rparr> else x) pre))"

definition scale_in_tikv :: "TiKVSpec list \<Rightarrow> (string, string) gomap \<Rightarrow> TiKVSpec list \<Rightarrow> (string list \<times> TiKVSpec list)" where
  "scale_in_tikv cur ips pre =
     (let gone = filter (\<lambda>x. x \<notin> set cur) pre
      in (map (\<lambda>x. ip_of ips (tikv_Host x) @ '':'' @ Itoa (default_port (tikv_Port x) 20160)) gone,
          map (\<lambda>x. if x \<notin> set cur then x\<lparr>tikv_Port := default_port (tikv_Port x) 20160\<rparr> else x) pre))"

definition getScaleInNode :: "TiDBCluster \<Rightarrow> TiDBCluster \<Rightarrow> (string, string) gomap \<Rightarrow> string list \<times> TiDBCluster" where
  "getScaleInNode pre cur ips =
     (let (tidbs, preTiDB) = scale_in_tidb (elems (tc_TiDB cur)) ips (elems (tc_TiDB pre));
          (pds, prePD) = scale_in_pd (elems (tc_PD cur)) ips (elems (tc_PD pre));
          (tikvs, preTiKV) = scale_in_tikv (elems (tc_TiKV cur)) ips (elems (tc_TiKV pre))
      in (tidbs @ pds @ tikvs,
          pre\<lparr>tc_TiDB := map_option (\<lambda>_. preTiDB) (tc_TiDB pre), tc_PD := map_option (\<lambda>_. prePD) (tc_PD pre),
              tc_TiKV := map_option (\<lambda>_. preTiKV) (tc_TiKV pre)\<rparr>))"

subsection \<open>The nodes that join\<close>

definition getScaleOutRoles ::
  "TiDBCluster \<Rightarrow> TiDBCluster \<Rightarrow> (string, string) gomap \<Rightarrow> TiDBSpec list \<times> PDSpec list \<times> TiKVSpec list" where
  "getScaleOutRoles pre cur ips =
     (map (\<lambda>x. x\<lparr>tidb_Host := ip_of ips (tidb_Host x), tidb_Port := default_port (tidb_Port x) 4000,
                 tidb_StatusPort := default_port (tidb_StatusPort x) 10080\<rparr>)
        (filter (\<lambda>x. x \<notin> set (elems (tc_TiDB pre))) (elems (tc_TiDB cur))),
      map (\<lambda>x. x\<lparr>pd_Host := ip_of ips (pd_Host x), pd_ClientPort := default_port (pd_ClientPort x) 2379,
                 pd_PeerPort := default_port (pd_PeerPort x) 2380\<rparr>)
        (filter (\<lambda>x. x \<notin> set (elems (tc_PD pre))) (elems (tc_PD cur))),
      map (\<lambda>x. x\<lparr>tikv_Host := ip_of ips (tikv_Host x), tikv_Port := default_port (tikv_Port x) 20160,
                 tikv_StatusPort := default_port (tikv_StatusPort x) 20180\<rparr>)
        (filter (\<lambda>x. x \<notin> set (elems (tc_TiKV pre))) (elems (tc_TiKV cur))))"

section \<open>The manager and its commands\<close>

record ClusterManager =
  cm_spec :: Specification
  cm_control :: TestResourceStatus

definition MakeClusterManager ::
  "tiup_libs \<Rightarrow> TestClusterTopologySpec \<Rightarrow> TestResource list \<Rightarrow> (string, string) gomap option \<Rightarrow> ClusterManager res" where
  "MakeClusterManager lib ctf trs clusterIPMaps =
     res_bind (BuildSpecification (tl_unmarshal lib) (tl_defaults lib) ctf trs False clusterIPMaps)
       (\<lambda>(specification, control). ret \<lparr>cm_spec = specification, cm_control = control\<rparr>)"

text \<open>Connect to the control node, run one command, and turn a failure into the error of the caller.\<close>

definition control_client :: "env \<Rightarrow> ClusterManager \<Rightarrow> ssh_client res io" where
  "control_client e c = NewSSHClient e (trst_HostIP (cm_control c)) (trst_SSHPort (cm_control c))"

definition run_or :: "env \<Rightarrow> ssh_client \<Rightarrow> string \<Rightarrow> (error \<Rightarrow> string \<Rightarrow> string \<Rightarrow> error) \<Rightarrow> string res io" where
  "run_or e client cmd failed =
     do { r \<leftarrow> RunCommand e client cmd;
          case r of (stdStr, errStr, err) \<Rightarrow>
            (case err of Some x \<Rightarrow> io_fail (failed x stdStr errStr) | None \<Rightarrow> io_ret stdStr) }"

definition on_control :: "env \<Rightarrow> ClusterManager \<Rightarrow> string \<Rightarrow> (error \<Rightarrow> string \<Rightarrow> string \<Rightarrow> error) \<Rightarrow> string res io" where
  "on_control e c cmd failed = io_then (control_client e c) (\<lambda>client. run_or e client cmd failed)"

definition failed_with :: "string \<Rightarrow> error \<Rightarrow> string \<Rightarrow> string \<Rightarrow> error" where
  "failed_with what err stdStr errStr = ErrMsg (what @ '' failed('' @ error_text err @ ''): '' @ errStr)"

definition cannot_run :: "string \<Rightarrow> error \<Rightarrow> string \<Rightarrow> string \<Rightarrow> error" where
  "cannot_run cmd err stdStr errStr = ErrMsg (''cannot run remote command `'' @ cmd @ ''`: '' @ error_text err)"

definition deploy_failed :: "error \<Rightarrow> string \<Rightarrow> string \<Rightarrow> error" where
  "deploy_failed err stdStr errStr =
     ErrMsg (''deploy cluster failed('' @ error_text err @ ''): '' @ stdStr @ [CHR 0x0A, CHR 0x0A] @ errStr)"

definition unit_of :: "'a res io \<Rightarrow> unit res io" where
  "unit_of m = io_then m (\<lambda>_. io_ret ())"

subsection \<open>Files on the control node\<close>

definition writeTopologyFileOnControl :: "env \<Rightarrow> ClusterManager \<Rightarrow> string \<Rightarrow> unit res io" where
  "writeTopologyFileOnControl e c out =
     scp_Copy e (trst_HostIP (cm_control c)) (trst_SSHPort (cm_control c)) ''/root/topology.yaml'' out"

definition writeScaleOutFileOnControl :: "env \<Rightarrow> ClusterManager \<Rightarrow> string \<Rightarrow> unit res io" where
  "writeScaleOutFileOnControl e c out =
     do { key \<leftarrow> State (\<lambda>h. (ask_key e h, h));
          case key of
            Some err \<Rightarrow> io_fail (ErrMsg (''generate client privatekey failed: '' @ err))
          | None \<Rightarrow> scp_Copy e (trst_HostIP (cm_control c)) (trst_SSHPort (cm_control c)) ''/root/scale-out.yaml'' out }"

definition writeTemporaryTopologyMetaOnControl :: "env \<Rightarrow> ClusterManager \<Rightarrow> string \<Rightarrow> unit res io" where
  "writeTemporaryTopologyMetaOnControl e c out =
     scp_Copy e (trst_HostIP (cm_control c)) (trst_SSHPort (cm_control c)) ''/tmp/meta.yaml'' out"

subsection \<open>Single commands\<close>

definition tiup :: string where
  "tiup = ''/root/.tiup/bin/tiup ''"

definition setTiUPMirror :: "env \<Rightarrow> ClusterManager \<Rightarrow> string \<Rightarrow> unit res io" where
  "setTiUPMirror e c tiupMirror = unit_of (on_control e c (tiup @ ''mirror set '' @ tiupMirror) deploy_failed)"

definition deployCluster :: "env \<Rightarrow> ClusterManager \<Rightarrow> string \<Rightarrow> string \<Rightarrow> unit res io" where
  "deployCluster e c clusterName version =
     unit_of (on_control e c
       (tiup @ ''cluster deploy -y '' @ clusterName @ '' '' @ version @ '' /root/topology.yaml -i '' @ InsecureKeyPath)
       (\<lambda>err stdStr errStr.
          if Contains errStr ''specify another cluster name'' then ErrClusterDuplicated clusterName
          else deploy_failed err stdStr errStr))"

definition startCluster :: "env \<Rightarrow> ClusterManager \<Rightarrow> string \<Rightarrow> unit res io" where
  "startCluster e c clusterName =
     unit_of (on_control e c (tiup @ ''cluster start '' @ clusterName)
       (\<lambda>err stdStr errStr. ErrMsg (''start cluster failed: '' @ error_text err)))"

definition under_lock :: "string \<Rightarrow> string" where
  "under_lock cmd = ''flock -n /tmp/naglfar.tiup.lock -c '' @ [CHR 0x22] @ cmd @ [CHR 0x22]"

definition reloadCluster :: "env \<Rightarrow> ClusterManager \<Rightarrow> string \<Rightarrow> string list \<Rightarrow> unit res io" where
  "reloadCluster e c clusterName roles =
     (let roleStr = concat (map (\<lambda>role. '' -R '' @ role) roles);
          moveCmd = ''mv /tmp/meta.yaml /root/.tiup/storage/cluster/clusters/'' @ clusterName @ ''/meta.yaml'';
          reloadCmd = tiup @ ''cluster reload -y '' @ clusterName @ '' '' @ roleStr @ '' --ignore-config-check'';
          cmd = under_lock (moveCmd @ '';'' @ reloadCmd)
      in unit_of (on_control e c cmd (cannot_run cmd)))"

definition GetClusterVersion :: "env \<Rightarrow> ClusterManager \<Rightarrow> string \<Rightarrow> string res io" where
  "GetClusterVersion e c clusterName =
     io_then (on_control e c
        (tiup @ ''cluster display '' @ clusterName @ '' | grep 'Cluster version' | awk -F ':' '{print $2}'' @ [CHR 0x27])
        (failed_with ''get cluster version''))
       (\<lambda>stdStr. io_ret (TrimSpace stdStr))"

definition PruneCluster :: "env \<Rightarrow> ClusterManager \<Rightarrow> string \<Rightarrow> unit res io" where
  "PruneCluster e c clusterName =
     unit_of (on_control e c (tiup @ ''cluster prune '' @ clusterName @ '' -y'') (failed_with ''prune cluster''))"

text \<open>The first word of every line that mentions the status.\<close>

definition status_nodes :: "string \<Rightarrow> string \<Rightarrow> string list" where
  "status_nodes status stdStr =
     map (\<lambda>line. hd (Split line '' '')) (filter (\<lambda>line. Contains line status) (Split stdStr [CHR 0x0A]))"

definition GetNodeStatusList :: "env \<Rightarrow> ClusterManager \<Rightarrow> string \<Rightarrow> string \<Rightarrow> string list res io" where
  "GetNodeStatusList e c clusterName status =
     io_then (on_control e c (tiup @ ''cluster display '' @ clusterName) (failed_with ''scale-in cluster''))
       (\<lambda>stdStr. io_ret (status_nodes status stdStr))"

definition UninstallCluster :: "env \<Rightarrow> ClusterManager \<Rightarrow> string \<Rightarrow> unit res io" where
  "UninstallCluster e c clusterName =
     (let cmd = tiup @ ''cluster destroy -y '' @ clusterName
      in unit_of (on_control e c cmd (\<lambda>err stdStr errStr.
           if Contains errStr ''not exists'' then ErrClusterNotExist clusterName
           else cannot_run cmd err stdStr errStr)))"

subsection \<open>Patching binaries\<close>

definition shouldPatch :: "TiDBClusterVersion \<Rightarrow> bool" where
  "shouldPatch version \<longleftrightarrow>
     tv_TiDBDownloadURL version \<noteq> [] \<or> tv_PDDownloadURL version \<noteq> [] \<or> tv_TiKVDownloadURL version \<noteq> []"

definition GenUnzipCommand :: "string \<Rightarrow> string \<Rightarrow> string" where
  "GenUnzipCommand filePath destDir =
     (if HasSuffix filePath ''.zip'' then ''unzip -d '' @ destDir @ '' '' @ filePath
      else if HasSuffix filePath ''.tar.gz'' then ''tar -zxf '' @ filePath @ '' -C '' @ destDir
      else ''tar -xf '' @ filePath @ '' -C '' @ destDir)"

definition patchComponents :: "TiDBClusterVersion \<Rightarrow> (string \<times> string) list" where
  "patchComponents version =
     filter (\<lambda>(name, url). url \<noteq> [])
       [(''tidb-server'', tv_TiDBDownloadURL version), (''tikv-server'', tv_TiKVDownloadURL version),
        (''pd-server'', tv_PDDownloadURL version)]"

fun download_commands :: "tiup_libs \<Rightarrow> (string \<times> string) list \<Rightarrow> error + string list" where
  "download_commands lib [] = Inr []"
| "download_commands lib ((name, url) # cs) =
     (case tl_url_path lib url of
        Inl err \<Rightarrow> Inl err
      | Inr p \<Rightarrow>
          (case download_commands lib cs of
             Inl err \<Rightarrow> Inl err
           | Inr commands \<Rightarrow>
               Inr ([''curl -O '' @ url, GenUnzipCommand (path_Base p) ''components'', ''rm -rf components/'' @ name,
                     ''mv components/bin/'' @ name @ '' components/'' @ name] @ commands)))"

definition prepare_commands :: "string list" where
  "prepare_commands = [''set -ex'', ''rm -rf components && mkdir components'']"

definition role_of :: "string \<Rightarrow> string" where
  "role_of component = hd (Split component ''-server'')"

definition patch :: "env \<Rightarrow> tiup_libs \<Rightarrow> ClusterManager \<Rightarrow> string \<Rightarrow> TiDBClusterVersion \<Rightarrow> unit res io" where
  "patch e lib c clusterName version =
     io_then (control_client e c) (\<lambda>client.
       case download_commands lib (patchComponents version) of
         Inl err \<Rightarrow> io_fail err
       | Inr downloads \<Rightarrow>
           let names = map fst (patchComponents version);
               commands = prepare_commands @ downloads @ [''cd components && tar zcf patch.tar.gz '' @ Join names '' ''] @
                 map (\<lambda>name. tiup @ ''cluster patch '' @ clusterName @ '' patch.tar.gz -R '' @ role_of name) names
           in unit_of (run_or e client (under_lock (Join commands [CHR 0x0A])) (failed_with ''patch cluster'')))"

definition copy_binary :: "string \<Rightarrow> string \<Rightarrow> string \<Rightarrow> string" where
  "copy_binary component host target =
     ''scp -o StrictHostKeyChecking=no -o UserKnownHostsFile=/dev/null -i '' @ InsecureKeyPath @ '' components/'' @
     component @ ''-server root@'' @ host @ '':'' @ target"

text \<open>The copies of one component, in the order of its servers.\<close>

definition replace_commands :: "Specification \<Rightarrow> string \<Rightarrow> string list" where
  "replace_commands spec component =
     (if component = ''tidb''
      then map (\<lambda>s. copy_binary component (stidb_Host s) (stidb_DeployDir s @ ''/bin/'' @ component @ ''-server'')) (sp_TiDBServers spec)
      else if component = ''tikv''
      then map (\<lambda>s. copy_binary component (stikv_Host s) (stikv_DeployDir s @ ''/'' @ component @ ''-server '')) (sp_TiKVServers spec)
      else if component = ''pd''
      then map (\<lambda>s. copy_binary component (spd_Host s) (spd_DeployDir s @ ''/'' @ component @ ''-server'')) (sp_PDServers spec)
      else [])"

definition replace :: "env \<Rightarrow> tiup_libs \<Rightarrow> ClusterManager \<Rightarrow> TiDBClusterVersion \<Rightarrow> unit res io" where
  "replace e lib c version =
     io_then (control_client e c) (\<lambda>client.
       case download_commands lib (patchComponents version) of
         Inl err \<Rightarrow> io_fail err
       | Inr downloads \<Rightarrow>
           io_then (run_or e client (under_lock (Join (prepare_commands @ downloads) [CHR 0x0A])) (failed_with ''patch cluster'')) (\<lambda>_.
             io_each (\<lambda>cmd. unit_of (run_or e client cmd (failed_with ''patch cluster'')))
               (concat (map (\<lambda>(name, url). replace_commands (cm_spec c) (role_of name)) (patchComponents version)))))"

section \<open>The operations\<close>

text \<open>An error value of a result, as Go's \<open>error\<close>; the body sees nil as \<open>None\<close>.\<close>

definition catching :: "unit res io \<Rightarrow> (error option \<Rightarrow> unit res io) \<Rightarrow> unit res io" where
  "catching m f =
     do { r \<leftarrow> m;
          case r of
            Done r' \<Rightarrow> f (case r' of Inl err \<Rightarrow> Some err | Inr _ \<Rightarrow> None)
          | Panicked p \<Rightarrow> State_Monad.return (Panicked p)
          | Running \<Rightarrow> State_Monad.return Running }"

definition return_error :: "error option \<Rightarrow> unit res io" where
  "return_error err = (case err of Some x \<Rightarrow> io_fail x | None \<Rightarrow> io_ret ())"

definition InstallCluster ::
  "env \<Rightarrow> tiup_libs \<Rightarrow> ClusterManager \<Rightarrow> string \<Rightarrow> TiDBClusterVersion \<Rightarrow> string \<Rightarrow> unit res io" where
  "InstallCluster e lib c clusterName version tiupMirror =
     (case tl_marshal_spec lib (cm_spec c) of
        Inl err \<Rightarrow> io_fail err
      | Inr outfile \<Rightarrow>
          io_then (writeTopologyFileOnControl e c outfile) (\<lambda>_.
          io_then (if TrimSpace tiupMirror \<noteq> [] then setTiUPMirror e c tiupMirror else io_ret ()) (\<lambda>_.
          io_then (catching (deployCluster e c clusterName (tv_Version version))
                     (\<lambda>err. if IgnoreClusterDuplicated err \<noteq> None then return_error err else io_ret ())) (\<lambda>_.
          io_then (if shouldPatch version \<and> tv_PatchPolicy version = PatchPolicyReplace
                   then replace e lib c version else io_ret ()) (\<lambda>_.
          io_then (startCluster e c clusterName) (\<lambda>_.
            if shouldPatch version \<and> (tv_PatchPolicy version = PatchPolicyPatch \<or> tv_PatchPolicy version = PatchPolicyNone)
            then patch e lib c clusterName version else io_ret ()))))))"

definition UpdateCluster ::
  "env \<Rightarrow> tiup_libs \<Rightarrow> ClusterManager \<Rightarrow> string \<Rightarrow> TiDBCluster \<Rightarrow> TiDBCluster \<Rightarrow> unit res io" where
  "UpdateCluster e lib c clusterName pre cur =
     (let roles = diffTiDBClusterConfig pre cur
      in if roles = [] then io_ret ()
         else case tl_marshal_meta lib ''root'' (tv_Version (tc_Version cur)) (cm_spec c) of
           Inl err \<Rightarrow> io_fail err
         | Inr outfile \<Rightarrow>
             io_then (writeTemporaryTopologyMetaOnControl e c outfile) (\<lambda>_. reloadCluster e c clusterName roles))"

definition UpgradeCluster :: "env \<Rightarrow> ClusterManager \<Rightarrow> string \<Rightarrow> TiDBCluster \<Rightarrow> unit res io" where
  "UpgradeCluster e c clusterName cur =
     io_then (GetClusterVersion e c clusterName) (\<lambda>currentVersion.
       if currentVersion = tv_Version (tc_Version cur) then io_ret ()
       else let forceFlag = (if tc_UpgradePolicy cur = ''force'' then ''--force'' else [])
            in unit_of (on_control e c
                 (tiup @ ''cluster upgrade '' @ clusterName @ '' '' @ tv_Version (tc_Version cur) @ '' '' @ forceFlag @ '' -y'')
                 (failed_with ''upgrade cluster'')))"

text \<open>\<open>ScaleInCluster\<close> gives the previous cluster with the ports it filled in.\<close>

definition ScaleInCluster ::
  "env \<Rightarrow> ClusterManager \<Rightarrow> string \<Rightarrow> TiDBCluster \<Rightarrow> TiDBCluster \<Rightarrow> (string, string) gomap \<Rightarrow> TiDBCluster res io" where
  "ScaleInCluster e c clusterName pre cur ips =
     (let (nodes, pre') = getScaleInNode pre cur ips;
          nodesStr = concat (map (\<lambda>node. '' --node '' @ node) nodes)
      in io_then (on_control e c (tiup @ ''cluster scale-in '' @ clusterName @ '' '' @ nodesStr @ '' -y'')
           (failed_with ''scale-in cluster'')) (\<lambda>_. io_ret pre'))"

definition ScaleOutCluster ::
  "env \<Rightarrow> tiup_libs \<Rightarrow> ClusterManager \<Rightarrow> string \<Rightarrow> TiDBCluster \<Rightarrow> TiDBCluster \<Rightarrow> (string, string) gomap \<Rightarrow> unit res io" where
  "ScaleOutCluster e lib c clusterName pre cur ips =
     (let (tidbs, pds, tikvs) = getScaleOutRoles pre cur ips;
          outfile = tl_marshal_scale lib (tidbs, tikvs, pds)
      in io_then (writeScaleOutFileOnControl e c (case outfile of Inl _ \<Rightarrow> [] | Inr out \<Rightarrow> out)) (\<lambda>_.
           case outfile of
             Inl err \<Rightarrow> io_fail err
           | Inr _ \<Rightarrow>
               unit_of (on_control e c
                 (tiup @ ''cluster scale-out '' @ clusterName @ '' /root/scale-out.yaml -i '' @ InsecureKeyPath @ '' -y'')
                 (failed_with ''scale-out cluster''))))"

end
