(* ===== verification/Demo_Cluster.thy ===== *)
theory Demo_Cluster
  imports Topology_Webhook
begin

text \<open>
  A small TiDB cluster: one TiDB server and one PD server on \<open>n1\<close> and TiKV stores on given hosts.
  The witnesses of the theorems about clusters are evaluated on it.
\<close>

definition demo_tidb :: TiDBSpec where
  "demo_tidb = \<lparr>tidb_Host = ''n1'', tidb_Port = 4000, tidb_Config = [], tidb_StatusPort = 10080, tidb_DeployDir = ''/d'',
     tidb_LogDir = []\<rparr>"

definition demo_pd :: PDSpec where
  "demo_pd = \<lparr>pd_Host = ''n1'', pd_ClientPort = 2379, pd_PeerPort = 2380, pd_Config = [], pd_DeployDir = ''/d'',
     pd_DataDir = ''/p'', pd_LogDir = []\<rparr>"

definition demo_tikv :: "string \<Rightarrow> TiKVSpec" where
  "demo_tikv host = \<lparr>tikv_Host = host, tikv_Port = 20160, tikv_StatusPort = 20180, tikv_Config = [], tikv_DeployDir = ''/d'',
     tikv_DataDir = ''/k'', tikv_LogDir = []\<rparr>"

definition demo_version :: TiDBClusterVersion where
  "demo_version = \<lparr>tv_Version = ''v4.0.8'', tv_TiDBDownloadURL = [], tv_TiKVDownloadURL = [], tv_PDDownloadURL = [],
     tv_PatchPolicy = PatchPolicyNone\<rparr>"

definition demo_cluster :: "string list \<Rightarrow> TiDBCluster" where
  "demo_cluster hosts = \<lparr>tc_TiUPMirror = [], tc_UpgradePolicy = [], tc_Version = demo_version, tc_Global = None,
     tc_ServerConfigs = \<lparr>sc_TiDB = [], sc_TiKV = [], sc_PD = []\<rparr>, tc_Control = ''n1'', tc_HAProxy = None,
     tc_TiDB = Some [demo_tidb], tc_TiKV = Some (map demo_tikv hosts), tc_PD = Some [demo_pd], tc_Pump = None,
     tc_Drainer = None, tc_Monitor = None, tc_Grafana = None, tc_AlertManager = None, tc_CDC = None, tc_TiFlash = None\<rparr>"

definition demo_topology :: "string list \<Rightarrow> string list \<Rightarrow> TestClusterTopology" where
  "demo_topology old new =
     \<lparr>ct_Meta = \<lparr>meta_Name = ''t'', meta_Namespace = ''ns'', meta_UID = ''u'', meta_DeletionTimestamp = None,
        meta_Finalizers = [], meta_Controller = None\<rparr>,
      ct_Spec = \<lparr>cts_ResourceRequest = ''r'', cts_TiDBCluster = Some (demo_cluster new), cts_FlinkCluster = None,
        cts_DMCluster = None\<rparr>,
      ct_Status = \<lparr>ctst_PreTiDBCluster = Some (demo_cluster old),
        ctst_TiDBClusterInfo = \<lparr>tci_IsScaling = False, tci_PendingOfflineList = [], tci_OfflineList = []\<rparr>,
        ctst_State = ClusterTopologyStateReady\<rparr>\<rparr>"

definition demo_diff :: differ where
  "demo_diff a b = Inr (if a = b then [] else [''changed''])"

lemma demo_diff_exact: "exact_differ demo_diff"
  by (simp add: exact_differ_def demo_diff_def)

lemmas demo_cluster_simps = demo_cluster_def demo_tidb_def demo_pd_def demo_tikv_def demo_version_def demo_topology_def


text \<open>
  The example of the comment in \<open>checkSimultaneousScaleOutAndScaleIn\<close>, replacing one store by
  another, is accepted: one common host per role is enough for the check.
\<close>

lemma host_replacement_accepted:
  "checkSimultaneousScaleOutAndScaleIn (demo_cluster [''n1'', ''n2'', ''n3'']) (demo_cluster [''n1'', ''n2'', ''n4'']) = None"
  by (simp add: checkSimultaneous_None_iff all_roles same_host_pair_def demo_cluster_simps IsScaleIn_def IsScaleOut_def len_def)

end
