(* ===== verification/Tiup_Scale.thy ===== *)
theory Tiup_Scale
  imports Tiup_Cluster Demo_Cluster
begin

text \<open>
  What the webhook promises and what the cluster manager makes of it: of an accepted update, a
  scale-in takes exactly the nodes away that are no longer in the topology, and a scale-out adds
  exactly the new ones. A node is identified as \<open>tiup\<close> does it, by its address and port.
\<close>

primrec comp_port :: "component \<Rightarrow> int" where
  "comp_port (TiDBComp t) = default_port (tidb_Port t) 4000"
| "comp_port (PDComp t) = default_port (pd_ClientPort t) 2379"
| "comp_port (TiKVComp t) = default_port (tikv_Port t) 20160"

primrec explicit_port :: "component \<Rightarrow> bool" where
  "explicit_port (TiDBComp t) = (tidb_Port t \<noteq> 0)"
| "explicit_port (PDComp t) = (pd_ClientPort t \<noteq> 0)"
| "explicit_port (TiKVComp t) = (tikv_Port t \<noteq> 0)"

definition node_id :: "(string, string) gomap \<Rightarrow> component \<Rightarrow> string" where
  "node_id ips x = ip_of ips (comp_Host x) @ '':'' @ Itoa (comp_port x)"

definition comps :: "TiDBCluster \<Rightarrow> role \<Rightarrow> component list" where
  "comps c r = elems (components c r)"

definition node_ids :: "(string, string) gomap \<Rightarrow> TiDBCluster \<Rightarrow> role \<Rightarrow> string set" where
  "node_ids ips c r = node_id ips ` set (comps c r)"

text \<open>What is relied on of the addresses: hosts have different ones, none has a colon, and no port is left out.\<close>

definition addresses_ok :: "(string, string) gomap \<Rightarrow> TiDBCluster \<Rightarrow> TiDBCluster \<Rightarrow> bool" where
  "addresses_ok ips pre cur \<longleftrightarrow>
     (\<forall>r. \<forall>x\<in>set (comps pre r) \<union> set (comps cur r). explicit_port x \<and> CHR '':'' \<notin> set (ip_of ips (comp_Host x)) \<and>
        (\<forall>y\<in>set (comps pre r) \<union> set (comps cur r). ip_of ips (comp_Host x) = ip_of ips (comp_Host y) \<longrightarrow> comp_Host x = comp_Host y))"

lemma split_at_colon:
  "CHR '':'' \<notin> set a \<Longrightarrow> CHR '':'' \<notin> set b \<Longrightarrow> a @ CHR '':'' # x = b @ CHR '':'' # y \<longleftrightarrow> a = b \<and> x = y"
  by (auto simp: append_eq_append_conv2 append_eq_Cons_conv Cons_eq_append_conv)

lemma comp_role:
  "x \<in> set (comps c TiDBField) \<Longrightarrow> \<exists>t. x = TiDBComp t"
  "x \<in> set (comps c PDField) \<Longrightarrow> \<exists>t. x = PDComp t"
  "x \<in> set (comps c TiKVField) \<Longrightarrow> \<exists>t. x = TiKVComp t"
  by (auto simp: comps_def)

lemma EntryID_of_port:
  assumes "x \<in> set (comps c1 r)" "y \<in> set (comps c2 r)" "explicit_port x" "explicit_port y"
    and "comp_Host x = comp_Host y" "comp_port x = comp_port y"
  shows "EntryID x = EntryID y"
  using assms by (cases r)
    (auto dest!: comp_role simp: default_port_def TiDBSpec_EntryID_def PDSpec_EntryID_def TiKVSpec_EntryID_def)

lemma same_node:
  assumes ok: "addresses_ok ips pre cur" "update_allowed info pre cur"
    and x: "x \<in> set (comps pre r)" and y: "y \<in> set (comps cur r)" and same: "node_id ips x = node_id ips y"
  shows "x = y"
proof -
  from ok(1) x y have px: "explicit_port x" "CHR '':'' \<notin> set (ip_of ips (comp_Host x))"
    and py: "explicit_port y" "CHR '':'' \<notin> set (ip_of ips (comp_Host y))"
    and hosts: "ip_of ips (comp_Host x) = ip_of ips (comp_Host y) \<Longrightarrow> comp_Host x = comp_Host y"
    unfolding addresses_ok_def by blast+
  from same px py have "ip_of ips (comp_Host x) = ip_of ips (comp_Host y)" "comp_port x = comp_port y"
    by (simp_all add: node_id_def split_at_colon)
  then have "EntryID x = EntryID y" using EntryID_of_port [OF x y px(1) py(1)] hosts by blast
  with ok(2) x y show "x = y" unfolding update_allowed_def comps_def by blast
qed

lemma image_minus:
  assumes "\<And>x y. x \<in> P \<Longrightarrow> y \<in> C \<Longrightarrow> f x = f y \<Longrightarrow> x = y"
  shows "f ` {x \<in> P. x \<notin> C} = f ` P - f ` C"
  using assms by (auto simp: image_iff)

lemma left_exact:
  assumes "addresses_ok ips pre cur" "update_allowed info pre cur"
  shows "node_id ips ` {x \<in> set (comps pre r). x \<notin> set (comps cur r)} = node_ids ips pre r - node_ids ips cur r"
  unfolding node_ids_def by (rule image_minus) (rule same_node [OF assms])

lemma joined_exact:
  assumes "addresses_ok ips pre cur" "update_allowed info pre cur"
  shows "node_id ips ` {x \<in> set (comps cur r). x \<notin> set (comps pre r)} = node_ids ips cur r - node_ids ips pre r"
  unfolding node_ids_def by (rule image_minus) (rule same_node [OF assms, symmetric]; simp)

lemma of_role:
  "inj K \<Longrightarrow> node_id ips ` {x \<in> set (map K ps). x \<notin> set (map K cs)} = (\<lambda>x. node_id ips (K x)) ` {x \<in> set ps. x \<notin> set cs}"
  by (auto simp: inj_eq image_iff)

lemma inj_roles: "inj TiDBComp" "inj PDComp" "inj TiKVComp"
  by (simp_all add: inj_def)

lemma scale_in_nodes:
  "set (fst (scale_in_tidb cs ips ps)) = (\<lambda>x. node_id ips (TiDBComp x)) ` {x \<in> set ps. x \<notin> set cs}"
  "set (fst (scale_in_pd cs' ips ps')) = (\<lambda>x. node_id ips (PDComp x)) ` {x \<in> set ps'. x \<notin> set cs'}"
  "set (fst (scale_in_tikv cs'' ips ps'')) = (\<lambda>x. node_id ips (TiKVComp x)) ` {x \<in> set ps''. x \<notin> set cs''}"
  by (simp_all add: scale_in_tidb_def scale_in_pd_def scale_in_tikv_def Let_def node_id_def)

lemma all_role_Un: "(\<Union>r. f r) = f TiDBField \<union> f PDField \<union> f TiKVField"
proof -
  have "(\<exists>r. P r) \<longleftrightarrow> P TiDBField \<or> P PDField \<or> P TiKVField" for P :: "role \<Rightarrow> bool" by (metis role.exhaust)
  then show ?thesis by (simp add: set_eq_iff)
qed

lemma accepted_update:
  assumes "exact_differ Diff" "set checkMaps = UNIV"
    and "cts_TiDBCluster (ct_Spec r) = Some cur" "ctst_PreTiDBCluster (ct_Status tct) = Some pre"
    and "Topology_ValidateUpdate Diff checkMaps r tct = None"
  shows "update_allowed (ctst_TiDBClusterInfo (ct_Status r)) pre cur"
  using validateTiDBUpdate_allows [OF assms(1-4)] assms(3,5) by (simp add: Topology_ValidateUpdate_def)

text \<open>C31: take an update that the webhook accepted, in which every port is written out and different hosts
  have different addresses, none with a colon. A scale-in of the recorded cluster to the new one takes
  exactly the nodes away, each named by its address and port, that the new topology no longer has; a
  node that stays is never among them. The condition on the ports is needed: see \<open>default_port_removed\<close>.\<close>

theorem getScaleInNode_exact:
  assumes "exact_differ Diff" "set checkMaps = UNIV"
    and "cts_TiDBCluster (ct_Spec r) = Some cur" "ctst_PreTiDBCluster (ct_Status tct) = Some pre"
    and "Topology_ValidateUpdate Diff checkMaps r tct = None" "addresses_ok ips pre cur"
  shows "set (fst (getScaleInNode pre cur ips)) = (\<Union>r. node_ids ips pre r - node_ids ips cur r)"
proof -
  have "set (fst (getScaleInNode pre cur ips)) = (\<Union>r. node_id ips ` {x \<in> set (comps pre r). x \<notin> set (comps cur r)})"
    unfolding all_role_Un comps_def components.simps elems_map_option of_role [OF inj_roles(1)] of_role [OF inj_roles(2)]
      of_role [OF inj_roles(3)] scale_in_nodes [symmetric]
    by (simp add: getScaleInNode_def case_prod_beta Let_def Un_assoc)
  then show ?thesis using left_exact [OF assms(6) accepted_update [OF assms(1-5)]] by simp
qed

text \<open>The nodes of a scale-out as they are written for \<open>tiup\<close>.\<close>

definition scale_out_ids :: "TiDBSpec list \<times> PDSpec list \<times> TiKVSpec list \<Rightarrow> string set" where
  "scale_out_ids roles =
     (case roles of (tidbs, pds, tikvs) \<Rightarrow>
        (\<lambda>x. tidb_Host x @ '':'' @ Itoa (tidb_Port x)) ` set tidbs \<union>
        (\<lambda>x. pd_Host x @ '':'' @ Itoa (pd_ClientPort x)) ` set pds \<union>
        (\<lambda>x. tikv_Host x @ '':'' @ Itoa (tikv_Port x)) ` set tikvs)"

text \<open>Of an accepted update a scale-out adds exactly the nodes the old topology did not have.\<close>

theorem getScaleOutRoles_exact:
  assumes "update_allowed info pre cur" "addresses_ok ips pre cur"
  shows "scale_out_ids (getScaleOutRoles pre cur ips) = (\<Union>r. node_ids ips cur r - node_ids ips pre r)"
proof -
  have "scale_out_ids (getScaleOutRoles pre cur ips) = (\<Union>r. node_id ips ` {x \<in> set (comps cur r). x \<notin> set (comps pre r)})"
    unfolding all_role_Un comps_def components.simps elems_map_option of_role [OF inj_roles(1)] of_role [OF inj_roles(2)]
      of_role [OF inj_roles(3)]
    by (simp add: getScaleOutRoles_def scale_out_ids_def node_id_def image_image)
  then show ?thesis using joined_exact [OF assms(2,1)] by simp
qed

definition demo_ips :: "(string, string) gomap" where
  "demo_ips = [(''n1'', ''10.1.0.1''), (''n2'', ''10.1.0.2''), (''n3'', ''10.1.0.3'')]"

lemma demo_allowed:
  "update_allowed \<lparr>tci_IsScaling = False, tci_PendingOfflineList = [], tci_OfflineList = []\<rparr>
     (demo_cluster [''n1'', ''n2'', ''n3'']) (demo_cluster [''n1'', ''n2''])"
  "update_allowed \<lparr>tci_IsScaling = False, tci_PendingOfflineList = [], tci_OfflineList = []\<rparr>
     (demo_cluster [''n1'', ''n2'']) (demo_cluster [''n1'', ''n2'', ''n3''])"
  by (simp_all add: update_allowed_def all_roles demo_cluster_simps IsScale_def IsUpgrade_def IsScaleIn_def IsScaleOut_def
        dirs_filled_def len_def TiKVSpec_EntryID_def)

lemma demo_addresses:
  "addresses_ok demo_ips (demo_cluster [''n1'', ''n2'', ''n3'']) (demo_cluster [''n1'', ''n2''])"
  "addresses_ok demo_ips (demo_cluster [''n1'', ''n2'']) (demo_cluster [''n1'', ''n2'', ''n3''])"
  by (simp_all add: addresses_ok_def all_roles comps_def demo_cluster_simps demo_ips_def ip_of_def)

lemma demo_node_ids:
  "node_ids demo_ips (demo_cluster hosts) TiDBField = {''10.1.0.1:4000''}"
  "node_ids demo_ips (demo_cluster hosts) PDField = {''10.1.0.1:2379''}"
  "node_ids demo_ips (demo_cluster [''n1'', ''n2'']) TiKVField = {''10.1.0.1:20160'', ''10.1.0.2:20160''}"
  "node_ids demo_ips (demo_cluster [''n1'', ''n2'', ''n3'']) TiKVField = {''10.1.0.1:20160'', ''10.1.0.2:20160'', ''10.1.0.3:20160''}"
  by (simp_all add: node_ids_def comps_def node_id_def demo_cluster_simps demo_ips_def ip_of_def default_port_def Itoa_eval)

lemma demo_scale_in_accepted:
  "Topology_ValidateUpdate demo_diff checkComponents (demo_topology [''n1'', ''n2'', ''n3''] [''n1'', ''n2''])
     (demo_topology [''n1'', ''n2'', ''n3''] [''n1'', ''n2'']) = None"
  using demo_allowed(1) validateTiDBUpdate_allows [OF demo_diff_exact set_checkComponents,
      of "demo_topology [''n1'', ''n2'', ''n3''] [''n1'', ''n2'']" "demo_cluster [''n1'', ''n2'']"
        "demo_topology [''n1'', ''n2'', ''n3''] [''n1'', ''n2'']" "demo_cluster [''n1'', ''n2'', ''n3'']"]
  by (simp add: Topology_ValidateUpdate_def demo_topology_def)

theorem getScaleInNode_exact_witness:
  "set (fst (getScaleInNode (demo_cluster [''n1'', ''n2'', ''n3'']) (demo_cluster [''n1'', ''n2'']) demo_ips)) = {''10.1.0.3:20160''}"
  using getScaleInNode_exact [OF demo_diff_exact set_checkComponents _ _ demo_scale_in_accepted demo_addresses(1)]
  by (simp add: all_role_Un demo_node_ids demo_topology_def)

theorem getScaleOutRoles_exact_witness:
  "scale_out_ids (getScaleOutRoles (demo_cluster [''n1'', ''n2'']) (demo_cluster [''n1'', ''n2'', ''n3'']) demo_ips) = {''10.1.0.3:20160''}"
  using getScaleOutRoles_exact [OF demo_allowed(2) demo_addresses(2)] by (simp add: all_role_Un demo_node_ids)

text \<open>
  Without explicit ports the guarantee fails: a TiDB server whose port was left out and is now
  written down as the default counts as a different one, and a scale-in of another server takes
  the node at that port down although it stays.
\<close>

lemma default_port_removed:
  "fst (getScaleInNode ((demo_cluster [''n1'', ''n2''])\<lparr>tc_TiDB := Some [demo_tidb\<lparr>tidb_Port := 0\<rparr>]\<rparr>)
      (demo_cluster [''n1'']) demo_ips) = [''10.1.0.1:4000'', ''10.1.0.2:20160'']"
  by (simp add: getScaleInNode_def scale_in_tidb_def scale_in_pd_def scale_in_tikv_def demo_cluster_simps demo_ips_def ip_of_def
      default_port_def Itoa_eval)

end
