(* ===== verification/Tiup_DM.thy ===== *)
theory Tiup_DM
  imports Tiup_Cluster
begin

text \<open>
  \<open>pkg/tiup/dm/deploy.go\<close>: the description of a DM cluster and the commands that install and
  remove it. The manager differs from that of TiDB clusters in its description and its commands.
\<close>

section \<open>The description\<close>

record DMSpecServerConfigs =
  dssc_Master :: config
  dssc_Worker :: config

record MasterServer =
  smaster_Host :: string
  smaster_SSHPort :: int
  smaster_PeerPort :: int
  smaster_Port :: int
  smaster_DataDir :: string
  smaster_DeployDir :: string
  smaster_LogDir :: string
  smaster_Config :: config

record WorkerServer =
  sworker_Host :: string
  sworker_SSHPort :: int
  sworker_Port :: int
  sworker_DeployDir :: string
  sworker_LogDir :: string
  sworker_Config :: config

record DMAlertServer =
  dalert_Host :: string
  dalert_SSHPort :: int
  dalert_ClusterPort :: int
  dalert_WebPort :: int
  dalert_DeployDir :: string
  dalert_DataDir :: string
  dalert_LogDir :: string

record DMSpecification =
  dsp_GlobalOptions :: GlobalOptions
  dsp_ServerConfigs :: DMSpecServerConfigs
  dsp_Masters :: "MasterServer list"
  dsp_Workers :: "WorkerServer list"
  dsp_Monitors :: "MonitorServer list"
  dsp_Grafanas :: "GrafanaServer list"
  dsp_Alertmanagers :: "DMAlertServer list"

text \<open>The parameters; \<open>defaults.Set\<close> is called without looking at its error.\<close>

record dm_libs =
  dl_unmarshal :: unmarshal
  dl_defaults :: "DMSpecification \<Rightarrow> DMSpecification"
  dl_marshal_spec :: "DMSpecification \<Rightarrow> error + string"

definition DM_setServerConfigs :: "unmarshal \<Rightarrow> DMServerConfigs \<Rightarrow> error + DMSpecServerConfigs" where
  "DM_setServerConfigs um s =
     (case um (dsc_Master s) of Inl err \<Rightarrow> Inl err | Inr masterConfigs \<Rightarrow>
      (case um (dsc_Worker s) of Inl err \<Rightarrow> Inl err | Inr workerConfigs \<Rightarrow>
         Inr \<lparr>dssc_Master = masterConfigs, dssc_Worker = workerConfigs\<rparr>))"

definition setMasterConfig :: "unmarshal \<Rightarrow> string \<Rightarrow> error + config" where
  "setMasterConfig um masterConfig = um masterConfig"

definition setWorkerConfig :: "unmarshal \<Rightarrow> string \<Rightarrow> error + config" where
  "setWorkerConfig um workerConfig = um workerConfig"

definition build_master :: "unmarshal \<Rightarrow> bool \<Rightarrow> nodes \<Rightarrow> MasterSpec \<Rightarrow> MasterServer res" where
  "build_master um dryRun rm item =
     res_bind (find_node rm ''master'' (master_Host item)) (\<lambda>node.
       case setMasterConfig um (master_Config item) of
         Inl err \<Rightarrow> fail (''set MasterConfigs failed: '' @ error_text err)
       | Inr config \<Rightarrow>
           ret \<lparr>smaster_Host = hostName dryRun (master_Host item) node, smaster_SSHPort = 22,
                smaster_PeerPort = master_PeerPort item, smaster_Port = master_Port item,
                smaster_DataDir = master_DataDir item, smaster_DeployDir = master_DeployDir item,
                smaster_LogDir = master_LogDir item, smaster_Config = config\<rparr>)"

definition build_worker :: "unmarshal \<Rightarrow> bool \<Rightarrow> nodes \<Rightarrow> WorkerSpec \<Rightarrow> WorkerServer res" where
  "build_worker um dryRun rm item =
     res_bind (find_node rm ''worker'' (worker_Host item)) (\<lambda>node.
       case setWorkerConfig um (worker_Config item) of
         Inl err \<Rightarrow> fail (''set WorkerConfigs failed: '' @ error_text err)
       | Inr config \<Rightarrow>
           ret \<lparr>sworker_Host = hostName dryRun (worker_Host item) node, sworker_SSHPort = 22,
                sworker_Port = worker_Port item, sworker_DeployDir = worker_DeployDir item,
                sworker_LogDir = worker_LogDir item, sworker_Config = config\<rparr>)"

definition build_dm_alert :: "bool \<Rightarrow> nodes \<Rightarrow> AlertManagerSpec \<Rightarrow> DMAlertServer res" where
  "build_dm_alert dryRun rm item =
     res_bind (find_node rm ''alertManager'' (am_Host item)) (\<lambda>node.
     ret \<lparr>dalert_Host = hostName dryRun (am_Host item) node, dalert_SSHPort = 22, dalert_ClusterPort = am_ClusterPort item,
          dalert_WebPort = am_WebPort item, dalert_DeployDir = am_DeployDir item, dalert_DataDir = am_DataDir item,
          dalert_LogDir = am_LogDir item\<rparr>)"

definition DM_BuildSpecification ::
  "dm_libs \<Rightarrow> TestClusterTopologySpec \<Rightarrow> TestResource list \<Rightarrow> bool \<Rightarrow> (DMSpecification \<times> TestResourceStatus) res" where
  "DM_BuildSpecification lib ctf trs dryRun =
     (case cts_DMCluster ctf of
        None \<Rightarrow> Panicked nil_deref
      | Some dm \<Rightarrow>
          (case DM_setServerConfigs (dl_unmarshal lib) (dm_ServerConfigs dm) of
             Inl err \<Rightarrow> fail (''set serverConfigs failed: '' @ error_text err)
           | Inr serverConfigs \<Rightarrow>
     let rm = resource_nodes trs; um = dl_unmarshal lib in
     res_bind (find_node rm ''control'' (dm_Control dm)) (\<lambda>control.
     res_bind (res_map (build_master um dryRun rm) (dm_Master dm)) (\<lambda>masters.
     res_bind (res_map (build_worker um dryRun rm) (dm_Worker dm)) (\<lambda>workers.
     res_bind (res_map (build_monitor dryRun rm) (dm_Monitor dm)) (\<lambda>monitors.
     res_bind (res_map (build_grafana dryRun rm) (dm_Grafana dm)) (\<lambda>grafanas.
     res_bind (res_map (build_dm_alert dryRun rm) (dm_AlertManager dm)) (\<lambda>alerts.
       ret (dl_defaults lib \<lparr>dsp_GlobalOptions = global_options (dm_Global dm), dsp_ServerConfigs = serverConfigs,
              dsp_Masters = masters, dsp_Workers = workers, dsp_Monitors = monitors, dsp_Grafanas = grafanas,
              dsp_Alertmanagers = alerts\<rparr>, control))))))))) "

section \<open>The manager\<close>

record DMClusterManager =
  dcm_spec :: DMSpecification
  dcm_control :: TestResourceStatus

definition DM_MakeClusterManager :: "dm_libs \<Rightarrow> TestClusterTopologySpec \<Rightarrow> TestResource list \<Rightarrow> DMClusterManager res" where
  "DM_MakeClusterManager lib ctf trs =
     res_bind (DM_BuildSpecification lib ctf trs False)
       (\<lambda>(specification, control). ret \<lparr>dcm_spec = specification, dcm_control = control\<rparr>)"

definition dm_control_run ::
  "env \<Rightarrow> DMClusterManager \<Rightarrow> string \<Rightarrow> (error \<Rightarrow> string \<Rightarrow> string \<Rightarrow> error) \<Rightarrow> unit res io" where
  "dm_control_run e c cmd failed =
     io_then (NewSSHClient e (trst_HostIP (dcm_control c)) (trst_SSHPort (dcm_control c))) (\<lambda>client.
       unit_of (run_or e client cmd failed))"

definition DM_writeTopologyFileOnControl :: "env \<Rightarrow> DMClusterManager \<Rightarrow> string \<Rightarrow> unit res io" where
  "DM_writeTopologyFileOnControl e c out =
     scp_Copy e (trst_HostIP (dcm_control c)) (trst_SSHPort (dcm_control c)) ''/root/topology.yaml'' out"

definition DM_deployCluster :: "env \<Rightarrow> DMClusterManager \<Rightarrow> string \<Rightarrow> string \<Rightarrow> unit res io" where
  "DM_deployCluster e c clusterName version =
     dm_control_run e c
       (tiup @ ''dm deploy -y '' @ clusterName @ '' '' @ version @ '' /root/topology.yaml -i '' @ InsecureKeyPath)
       (\<lambda>err stdStr errStr.
          if Contains errStr ''specify another cluster name'' then ErrClusterDuplicated clusterName
          else failed_with ''deploy cluster'' err stdStr errStr)"

definition DM_startCluster :: "env \<Rightarrow> DMClusterManager \<Rightarrow> string \<Rightarrow> unit res io" where
  "DM_startCluster e c clusterName =
     dm_control_run e c (tiup @ ''dm start '' @ clusterName)
       (\<lambda>err stdStr errStr. ErrMsg (''start cluster failed: '' @ error_text err))"

definition DM_InstallCluster :: "env \<Rightarrow> dm_libs \<Rightarrow> DMClusterManager \<Rightarrow> string \<Rightarrow> string \<Rightarrow> unit res io" where
  "DM_InstallCluster e lib c clusterName version =
     (case dl_marshal_spec lib (dcm_spec c) of
        Inl err \<Rightarrow> io_fail err
      | Inr outfile \<Rightarrow>
          io_then (DM_writeTopologyFileOnControl e c outfile) (\<lambda>_.
          io_then (catching (DM_deployCluster e c clusterName version)
                     (\<lambda>err. if IgnoreClusterDuplicated err \<noteq> None then return_error err else io_ret ())) (\<lambda>_.
            DM_startCluster e c clusterName)))"

definition DM_UninstallCluster :: "env \<Rightarrow> DMClusterManager \<Rightarrow> string \<Rightarrow> unit res io" where
  "DM_UninstallCluster e c clusterName =
     (let cmd = tiup @ ''dm destroy -y '' @ clusterName
      in dm_control_run e c cmd (\<lambda>err stdStr errStr.
           if Contains errStr ''not exists'' then ErrClusterNotExist clusterName
           else cannot_run cmd err stdStr errStr))"

end
