(* ===== verification/Flink.thy ===== *)
theory Flink
  imports Tiup_Spec
begin

text \<open>\<open>pkg/flink/deploy.go\<close>: the description of a Flink cluster over the resources of a request.\<close>

definition flink_BaseImageName :: string where
  "flink_BaseImageName = ''docker.io/library/flink:''"

text \<open>
  A task manager as the topology writes it, found among the resources. The job manager prints the
  whole struct in its error, \<open>{Host WebPort Config}\<close>.
\<close>

definition build_taskmanager :: "bool \<Rightarrow> nodes \<Rightarrow> TaskManagerSpec \<Rightarrow> TaskManagerSpec res" where
  "build_taskmanager dryRun rm item =
     res_bind (find_node rm ''taskManager'' (tm_Host item)) (\<lambda>node.
     ret \<lparr>tm_Host = hostName dryRun (tm_Host item) node, tm_Config = tm_Config item\<rparr>)"

text \<open>\<open>defaults.Set\<close> is a parameter; its error is dropped, so it is a function of the description.\<close>

definition Flink_BuildSpecification ::
  "(FlinkCluster \<Rightarrow> FlinkCluster) \<Rightarrow> TestClusterTopologySpec \<Rightarrow> TestResource list \<Rightarrow> bool \<Rightarrow> FlinkCluster res" where
  "Flink_BuildSpecification ds ctf trs dryRun =
     (case cts_FlinkCluster ctf of
        None \<Rightarrow> Panicked nil_deref
      | Some fc \<Rightarrow>
     let rm = resource_nodes trs; jm = fc_JobManager fc in
     (case map_of rm (jm_Host jm) of
        None \<Rightarrow> fail (''jobManager node not found: `{'' @ jm_Host jm @ '' '' @ Itoa (jm_WebPort jm) @ '' '' @ jm_Config jm @ ''}`'')
      | Some jobManager \<Rightarrow>
          res_bind (res_map (build_taskmanager dryRun rm) (fc_TaskManager fc)) (\<lambda>tms.
            ret (ds \<lparr>fc_Version = [],
                     fc_JobManager = \<lparr>jm_Host = hostName dryRun (jm_Host jm) jobManager, jm_WebPort = jm_WebPort jm,
                       jm_Config = jm_Config jm\<rparr>,
                     fc_TaskManager = tms\<rparr>))))"

end
