(* ===== verification/Haproxy.thy ===== *)
theory Haproxy
  imports Docker Tiup_Cluster
begin

text \<open>
  \<open>pkg/haproxy/deploy.go\<close>: the configuration of the proxy in front of the TiDB servers, and its way
  to the machine through the upload daemon.
\<close>

definition BaseImageName :: string where
  "BaseImageName = ''hub.pingcap.net/qa/haproxy:''"

definition SourceDir :: string where
  "SourceDir = ''/var/naglfar/lib/''"

definition TargetDir :: string where
  "TargetDir = ''/usr/local/etc/haproxy/''"

definition FileName :: string where
  "FileName = ''haproxy.cfg''"

abbreviation newline :: string where
  "newline \<equiv> [CHR 0x0A]"

abbreviation tab :: string where
  "tab \<equiv> [CHR 0x09]"

definition generateFrontend :: "int \<Rightarrow> string" where
  "generateFrontend port =
     newline @ ''frontend haproxy'' @ newline @ tab @ ''bind *:'' @ Itoa port @ newline @
     tab @ ''default_backend tidbs'' @ newline"

fun backend_lines :: "nat \<Rightarrow> string list \<Rightarrow> string" where
  "backend_lines i [] = []"
| "backend_lines i (t # ts) =
     tab @ ''server tidb'' @ Itoa (int i) @ '' '' @ t @ '' maxconn 1000'' @ newline @ backend_lines (Suc i) ts"

definition generateBackend :: "string list \<Rightarrow> string" where
  "generateBackend tidbs = newline @ ''backend tidbs'' @ newline @ backend_lines 0 tidbs"

text \<open>The addresses of the TiDB servers; \<open>None\<close> when one has no address yet.\<close>

fun tidb_addresses :: "(string, string) gomap \<Rightarrow> TiDBSpec list \<Rightarrow> string list option" where
  "tidb_addresses ips [] = Some []"
| "tidb_addresses ips (t # ts) =
     (let port = (if tidb_Port t = 0 then 4000 else tidb_Port t);
          ip = ip_of ips (tidb_Host t)
      in if ip = [] then None
         else map_option (\<lambda>rest. (ip @ '':'' @ Itoa port) # rest) (tidb_addresses ips ts))"

text \<open>The first component is the request to try again.\<close>

definition GenerateHAProxyConfig :: "TiDBCluster \<Rightarrow> (string, string) gomap \<Rightarrow> (bool \<times> string) go" where
  "GenerateHAProxyConfig tct ips =
     (case tc_HAProxy tct of
        None \<Rightarrow> Panicked nil_deref
      | Some hap \<Rightarrow>
          Done (case tidb_addresses ips (elems (tc_TiDB tct)) of
                  None \<Rightarrow> (True, [])
                | Some tidbs \<Rightarrow>
                    (False, hap_Config hap @ newline @ generateFrontend (hap_Port hap) @ generateBackend tidbs)))"

definition http_Do :: "env \<Rightarrow> string \<Rightarrow> string \<Rightarrow> string \<Rightarrow> error option io" where
  "http_Do e url name body = ask (\<lambda>h. ask_http e h url name body) (\<lambda>r. HTTP url name body (r = None))"

definition WriteConfigToMachine :: "env \<Rightarrow> string \<Rightarrow> string \<Rightarrow> string \<Rightarrow> error option io" where
  "WriteConfigToMachine e machine name config =
     http_Do e (''http://'' @ machine @ '':'' @ Itoa UploadDaemonExternalPort @ ''/upload'') name config"

definition DeleteConfigFromMachine :: "env \<Rightarrow> string \<Rightarrow> string \<Rightarrow> error option io" where
  "DeleteConfigFromMachine e machine name =
     http_Do e (''http://'' @ machine @ '':'' @ Itoa UploadDaemonExternalPort @ ''/delete'') name []"

definition GenerateFilePrefix :: "TestClusterTopology \<Rightarrow> string" where
  "GenerateFilePrefix ct = meta_Namespace (ct_Meta ct) @ ''_'' @ cts_ResourceRequest (ct_Spec ct) @ ''_''"

lemma emits_http [emits_intros]:
  "(\<And>url n b ok. P (HTTP url n b ok)) \<Longrightarrow> emits P (WriteConfigToMachine e machine name config)"
  "(\<And>url n b ok. P (HTTP url n b ok)) \<Longrightarrow> emits P (DeleteConfigFromMachine e machine name)"
  by (simp_all add: WriteConfigToMachine_def DeleteConfigFromMachine_def http_Do_def emits_ask)

lemma always_http [always_intros]:
  "(\<And>url n b ok. P h (HTTP url n b ok)) \<Longrightarrow> always P (WriteConfigToMachine e machine name config) h"
  "(\<And>url n b ok. P h (HTTP url n b ok)) \<Longrightarrow> always P (DeleteConfigFromMachine e machine name) h"
  by (simp_all add: WriteConfigToMachine_def DeleteConfigFromMachine_def http_Do_def always_ask)

section \<open>What the configuration says\<close>

lemma tidb_addresses_None_iff: "tidb_addresses ips ts = None \<longleftrightarrow> (\<exists>t\<in>set ts. ip_of ips (tidb_Host t) = [])"
  by (induction ts) (auto simp: Let_def)

lemma tidb_addresses_Some:
  "tidb_addresses ips ts = Some as \<Longrightarrow>
   as = map (\<lambda>t. ip_of ips (tidb_Host t) @ '':'' @ Itoa (default_port (tidb_Port t) 4000)) ts"
  by (induction ts arbitrary: as) (auto simp: Let_def default_port_def split: if_splits)

end
