(* ===== verification/Topology_Controller.thy ===== *)
theory Topology_Controller
  imports Tiup_Cluster Tiup_DM Flink Haproxy Request_Controller Resource_Controller
begin

text \<open>
  \<open>controllers/testclustertopology_controller.go\<close>: a topology prepares the resources of its request,
  installs its cluster on them, follows changes of the specification while the cluster runs, and
  removes the cluster when it is deleted.

  An operation that returns \<open>(requeue bool, err error)\<close> and whose caller looks at the error first is
  a \<open>bool res\<close>; \<open>initResource\<close>, whose callers look at \<open>requeue\<close> first, returns both. The resources are
  pointers into the listed items; what \<open>initResource\<close> changes in them (image, capabilities, binds,
  ports, command, host name) is not read again by its callers, who use the names and addresses.
\<close>

record topo_libs =
  tol_tiup :: tiup_libs
  tol_dm :: dm_libs
  tol_flink :: "FlinkCluster \<Rightarrow> FlinkCluster"

section \<open>Exposed ports\<close>

definition strSet_add :: "string list \<Rightarrow> string \<Rightarrow> string list" where
  "strSet_add s elem = (if StringsContains s elem then s else s @ [elem])"

definition port_tcp :: "int \<Rightarrow> string" where
  "port_tcp port = Itoa port @ ''/tcp''"

definition add_port :: "string \<Rightarrow> int \<Rightarrow> (string, string list) gomap \<Rightarrow> (string, string list) gomap" where
  "add_port host port ix =
     AList.update host (strSet_add (case map_of ix host of None \<Rightarrow> [] | Some s \<Rightarrow> s) (port_tcp port)) ix"

definition empty_index :: "TestResource list \<Rightarrow> (string, string list) gomap" where
  "empty_index trs = foldl (\<lambda>ix item. AList.update (tr_Name item) [] ix) [] trs"

definition add_ssh :: "(string, string list) gomap \<Rightarrow> (string, string list) gomap" where
  "add_ssh ix = map (\<lambda>(host, s). (host, strSet_add s SSHPort)) ix"

definition index_tidb :: "Specification \<Rightarrow> (string, string list) gomap \<Rightarrow> (string, string list) gomap" where
  "index_tidb spec ix =
     (let ix = foldl (\<lambda>ix s. add_port (stidb_Host s) (stidb_Port s) ix) ix (sp_TiDBServers spec);
          ix = foldl (\<lambda>ix s. add_port (spd_Host s) (spd_ClientPort s) ix) ix (sp_PDServers spec);
          ix = foldl (\<lambda>ix s. add_port (sgrafana_Host s) (sgrafana_Port s) ix) ix (sp_Grafanas spec);
          ix = foldl (\<lambda>ix s. add_port (smon_Host s) (smon_Port s) ix) ix (sp_Monitors spec);
          ix = foldl (\<lambda>ix s. add_port (scdc_Host s) (scdc_Port s) ix) ix (sp_CDCServers spec)
      in foldl (\<lambda>ix s. foldl (\<lambda>ix port. add_port (stiflash_Host s) port ix) ix
           [stiflash_TCPPort s, stiflash_HTTPPort s, stiflash_StatusPort s, stiflash_FlashServicePort s,
            stiflash_FlashProxyPort s, stiflash_FlashProxyStatusPort s]) ix (sp_TiFlashServers spec))"

definition index_dm :: "DMSpecification \<Rightarrow> (string, string list) gomap \<Rightarrow> (string, string list) gomap" where
  "index_dm spec ix =
     (let ix = foldl (\<lambda>ix s. add_port (smaster_Host s) (smaster_Port s) ix) ix (dsp_Masters spec);
          ix = foldl (\<lambda>ix s. add_port (sworker_Host s) (sworker_Port s) ix) ix (dsp_Workers spec);
          ix = foldl (\<lambda>ix s. add_port (sgrafana_Host s) (sgrafana_Port s) ix) ix (dsp_Grafanas spec);
          ix = foldl (\<lambda>ix s. add_port (dalert_Host s) (dalert_WebPort s) ix) ix (dsp_Alertmanagers spec)
      in foldl (\<lambda>ix s. add_port (smon_Host s) (smon_Port s) ix) ix (dsp_Monitors spec))"

definition indexResourceExposedPorts ::
  "topo_libs \<Rightarrow> TestClusterTopologySpec \<Rightarrow> TestResource list \<Rightarrow> (string, string list) gomap res" where
  "indexResourceExposedPorts lib ctf trs =
     (if cts_TiDBCluster ctf \<noteq> None
      then res_bind (BuildSpecification (tl_unmarshal (tol_tiup lib)) (tl_defaults (tol_tiup lib)) ctf trs True None)
             (\<lambda>(spec, _). ret (add_ssh (index_tidb spec (empty_index trs))))
      else if cts_FlinkCluster ctf \<noteq> None
      then res_bind (Flink_BuildSpecification (tol_flink lib) ctf trs True)
             (\<lambda>spec. ret (add_port (jm_Host (fc_JobManager spec)) (jm_WebPort (fc_JobManager spec)) []))
      else if cts_DMCluster ctf \<noteq> None
      then res_bind (DM_BuildSpecification (tol_dm lib) ctf trs True)
             (\<lambda>(spec, _). ret (add_ssh (index_dm spec (empty_index trs))))
      else ret [])"

section \<open>Environment variables for workloads\<close>

fun number_from :: "nat \<Rightarrow> (nat \<Rightarrow> 'a \<Rightarrow> string) \<Rightarrow> 'a list \<Rightarrow> string list" where
  "number_from i f [] = []"
| "number_from i f (x # xs) = f i x # number_from (Suc i) f xs"

definition env_var :: "string \<Rightarrow> nat \<Rightarrow> string \<Rightarrow> int \<Rightarrow> string" where
  "env_var name idx host port = name @ Itoa (int idx) @ ''='' @ host @ '':'' @ Itoa port"

definition buildTiDBClusterInjectEnvs :: "topo_libs \<Rightarrow> TestClusterTopology \<Rightarrow> TestResource list \<Rightarrow> string list res" where
  "buildTiDBClusterInjectEnvs lib t resources =
     res_bind (BuildSpecification (tl_unmarshal (tol_tiup lib)) (tl_defaults (tol_tiup lib)) (ct_Spec t) resources False None)
       (\<lambda>(spec, _).
         ret (number_from 0 (\<lambda>i s. env_var ''tidb'' i (stidb_Host s) (stidb_Port s)) (sp_TiDBServers spec) @
              number_from 0 (\<lambda>i s. env_var ''pd'' i (spd_Host s) (spd_ClientPort s)) (sp_PDServers spec) @
              number_from 0 (\<lambda>i s. env_var ''prometheus'' i (smon_Host s) (smon_Port s)) (sp_Monitors spec) @
              (case cts_TiDBCluster (ct_Spec t) of
                 None \<Rightarrow> []
               | Some tc \<Rightarrow>
                   (case tc_HAProxy tc of
                      None \<Rightarrow> []
                    | Some hap \<Rightarrow>
                        map (\<lambda>item. ''tidb='' @ rcs_ClusterIP (trst_ContainerSpec (tr_Status item)) @ '':'' @ Itoa (hap_Port hap))
                          (filter (\<lambda>item. tr_Name item = hap_Host hap) resources)))))"

definition BuildInjectEnvs :: "topo_libs \<Rightarrow> TestClusterTopology \<Rightarrow> TestResource list \<Rightarrow> string list res" where
  "BuildInjectEnvs lib t resources =
     (if cts_TiDBCluster (ct_Spec t) \<noteq> None then buildTiDBClusterInjectEnvs lib t resources else ret [])"

section \<open>Resources of a topology\<close>

definition hostname2ClusterIP :: "TestResource list \<Rightarrow> (string, string) gomap" where
  "hostname2ClusterIP items =
     foldl (\<lambda>m item. AList.update (tr_Name item) (rcs_ClusterIP (trst_ContainerSpec (tr_Status item))) m) [] items"

definition filterClusterResources :: "TestClusterTopology \<Rightarrow> TestResource list \<Rightarrow> TestResource list" where
  "filterClusterResources ct items =
     (let allHosts = (case cts_TiDBCluster (ct_Spec ct) of
            Some c \<Rightarrow> TiDBCluster_AllHosts c
          | None \<Rightarrow> (case cts_FlinkCluster (ct_Spec ct) of
              Some c \<Rightarrow> FlinkCluster_AllHosts c
            | None \<Rightarrow> (case cts_DMCluster (ct_Spec ct) of Some c \<Rightarrow> DMCluster_AllHosts c | None \<Rightarrow> {})))
      in filter (\<lambda>item. tr_Name item \<in> allHosts) items)"

text \<open>A failed listing is logged and reads as an empty one.\<close>

definition child_resources :: "env \<Rightarrow> TestResourceRequest \<Rightarrow> TestResource list io" where
  "child_resources e rr =
     do { r \<leftarrow> listOwnedResources e rr;
          State_Monad.return (case r of Inl _ \<Rightarrow> [] | Inr items \<Rightarrow> items) }"

text \<open>Only a missing machine is an error; any other failed read leaves the zero value.\<close>

definition getResourceMachine :: "env \<Rightarrow> TestResource \<Rightarrow> (error + Machine) io" where
  "getResourceMachine e resource =
     do { r \<leftarrow> Get_relationship e relationshipName;
          let relation = (case r of Inl _ \<Rightarrow> zero_Relationship | Inr rel \<Rightarrow> rel);
          let machineRef = machine_of (rel_Status relation) (resource_key resource);
          m \<leftarrow> Get_machine e (Namespaced (mr_Ref machineRef));
          State_Monad.return (case m of
            Inl err \<Rightarrow> if IsNotFound (Some err) then Inl err else Inr zero_Machine
          | Inr machine \<Rightarrow> Inr machine) }"

subsection \<open>Preparing them\<close>

type_synonym init_result = "(bool \<times> error option) go"

definition init_done :: "bool \<Rightarrow> error option \<Rightarrow> init_result io" where
  "init_done requeue err = State_Monad.return (Done (requeue, err))"

definition wrong_image :: "TestResource \<Rightarrow> error" where
  "wrong_image resource = ErrMsg (''resource node '' @ tr_Name resource @ '' uses an incorrect image: '' @ tr_Image resource)"

definition wrong_state :: "TestResource \<Rightarrow> error" where
  "wrong_state resource =
     ErrMsg (''resource node '' @ tr_Name resource @ '' is in the `'' @ ResourceState_str ResourceFinish @ ''` state'')"

text \<open>
  The loop of the three \<open>init\<close> functions: \<open>prepare\<close> fills in the container of a fresh resource,
  \<open>image\<close> is what a running one must have, \<open>k\<close> continues after the loop.
\<close>

fun init_nodes ::
  "env \<Rightarrow> (TestResource \<Rightarrow> TestResource) \<Rightarrow> string \<Rightarrow> TestResource list \<Rightarrow> bool \<Rightarrow> (bool \<Rightarrow> init_result io) \<Rightarrow> init_result io" where
  "init_nodes e prepare img [] requeue k = k requeue"
| "init_nodes e prepare img (resource # rs) requeue k =
     (case tr_State resource of
        ResourceUninitialized \<Rightarrow>
          if tr_Image resource = []
          then do { err \<leftarrow> k8s_StatusUpdate e (KResource (prepare resource));
                    if err \<noteq> None then init_done False err else init_nodes e prepare img rs True k }
          else init_nodes e prepare img rs True k
      | ResourceReady \<Rightarrow>
          if tr_Image resource \<noteq> img then init_done False (Some (wrong_image resource))
          else init_nodes e prepare img rs requeue k
      | ResourcePending \<Rightarrow> init_done False (Some (wrong_state resource))
      | ResourceFinish \<Rightarrow> init_done False (Some (wrong_state resource))
      | ResourceDestroy \<Rightarrow> init_done False (Some (wrong_state resource))
      | _ \<Rightarrow> init_nodes e prepare img rs requeue k)"

definition exposed :: "(string, string list) gomap \<Rightarrow> TestResource \<Rightarrow> string list" where
  "exposed ix resource = (case map_of ix (tr_Name resource) of None \<Rightarrow> [] | Some ports \<Rightarrow> ports)"

definition prepare_tiup :: "string list \<Rightarrow> (string, string list) gomap \<Rightarrow> TestResource \<Rightarrow> TestResource" where
  "prepare_tiup caps ix resource =
     set_container (\<lambda>c. c\<lparr>rcs_Image := ContainerImage, rcs_CapAdd := caps,
       rcs_Binds := rcs_Binds c @ [''/sys/fs/cgroup:/sys/fs/cgroup:ro''], rcs_ExposedPorts := exposed ix resource\<rparr>) resource"

definition with_index ::
  "topo_libs \<Rightarrow> TestClusterTopology \<Rightarrow> TestResource list \<Rightarrow> ((string, string list) gomap \<Rightarrow> init_result io) \<Rightarrow> init_result io" where
  "with_index lib ct resources k =
     (case indexResourceExposedPorts lib (ct_Spec ct) resources of
        Panicked p \<Rightarrow> State_Monad.return (Panicked p)
      | Running \<Rightarrow> State_Monad.return Running
      | Done r \<Rightarrow>
          (case r of
             Inl err \<Rightarrow> init_done False (Some (ErrMsg (''index exposed ports failed: '' @ error_text err)))
           | Inr ix \<Rightarrow> k ix))"

definition initDMResources :: "env \<Rightarrow> topo_libs \<Rightarrow> TestClusterTopology \<Rightarrow> TestResource list \<Rightarrow> init_result io" where
  "initDMResources e lib ct resources =
     with_index lib ct resources (\<lambda>ix.
       init_nodes e (prepare_tiup [''SYS_ADMIN''] ix) ContainerImage resources False (\<lambda>requeue. init_done requeue None))"

definition prepare_haproxy :: "TestClusterTopology \<Rightarrow> HAProxy \<Rightarrow> TestResource \<Rightarrow> TestResource" where
  "prepare_haproxy ct hap resource =
     (let fileName = GenerateFilePrefix ct @ FileName
      in set_container (\<lambda>c. c\<lparr>rcs_Image := BaseImageName @ hap_Version hap,
           rcs_ExposedPorts := [port_tcp (hap_Port hap)],
           rcs_Binds := [SourceDir @ fileName @ '':'' @ TargetDir @ fileName], rcs_Mounts := [],
           rcs_Command := [''haproxy'', ''-W'', ''-db'', ''-f'', ''/usr/local/etc/haproxy/'' @ fileName]\<rparr>) resource)"

text \<open>
  The part for a proxy, reached with the \<open>requeue\<close> of the loop before. The flag set for the proxy's
  own node is a variable of the inner block and is lost at its end.
\<close>

definition init_haproxy ::
  "env \<Rightarrow> TestClusterTopology \<Rightarrow> TiDBCluster \<Rightarrow> HAProxy \<Rightarrow> TestResource list \<Rightarrow> TestResource list \<Rightarrow> bool \<Rightarrow> init_result io" where
  "init_haproxy e ct tc hap haProxyResources tiupResources requeue =
     (case haProxyResources of
        [] \<Rightarrow> State_Monad.return (Panicked ''index out of range [0] with length 0'')
      | first # _ \<Rightarrow>
          do { m \<leftarrow> getResourceMachine e first;
               case m of
                 Inl _ \<Rightarrow> init_done True None
               | Inr machine \<Rightarrow>
                   if list_ex (\<lambda>r. tr_State r \<noteq> ResourceReady) tiupResources then init_done True None
                   else (case GenerateHAProxyConfig tc (hostname2ClusterIP tiupResources) of
                           Panicked p \<Rightarrow> State_Monad.return (Panicked p)
                         | Running \<Rightarrow> State_Monad.return Running
                         | Done (again, config) \<Rightarrow>
                             if again then init_done True None
                             else do { err \<leftarrow> WriteConfigToMachine e (ms_Host (m_Spec machine)) (GenerateFilePrefix ct @ FileName) config;
                                       if err \<noteq> None then init_done True err
                                       else init_nodes e (prepare_haproxy ct hap) BaseImageName haProxyResources False
                                              (\<lambda>_. init_done requeue None) }) })"

definition initTiDBResources :: "env \<Rightarrow> topo_libs \<Rightarrow> TestClusterTopology \<Rightarrow> TiDBCluster \<Rightarrow> TestResource list \<Rightarrow> init_result io" where
  "initTiDBResources e lib ct tc resources =
     (let isProxy = (\<lambda>r. case tc_HAProxy tc of None \<Rightarrow> False | Some hap \<Rightarrow> tr_Name r = hap_Host hap);
          haProxyResources = filter isProxy resources;
          tiupResources = filter (\<lambda>r. \<not> isProxy r) resources
      in with_index lib ct resources (\<lambda>ix.
           init_nodes e (prepare_tiup [''SYS_ADMIN'', ''SYS_PTRACE'', ''NET_ADMIN''] ix) ContainerImage tiupResources False (\<lambda>requeue.
             case tc_HAProxy tc of
               None \<Rightarrow> init_done requeue None
             | Some hap \<Rightarrow> init_haproxy e ct tc hap haProxyResources tiupResources requeue)))"

definition prepare_flink :: "FlinkCluster \<Rightarrow> (string, string list) gomap \<Rightarrow> TestResource \<Rightarrow> TestResource" where
  "prepare_flink fc ix resource =
     (let props = (\<lambda>config. [''FLINK_PROPERTIES=jobmanager.rpc.address: jobmanager'' @ newline @ config]);
          jm = fc_JobManager fc;
          r = (if tr_Name resource = jm_Host jm
               then set_status (\<lambda>s. s\<lparr>trst_HostName := ''jobmanager''\<rparr>)
                      (set_container (\<lambda>c. c\<lparr>rcs_Command := [''jobmanager''],
                         rcs_Envs := props (jm_Config jm @ (if jm_WebPort jm \<noteq> 0
                           then newline @ ''jobmanager.web.port: '' @ Itoa (jm_WebPort jm) else []))\<rparr>) resource)
               else set_container (\<lambda>c. c\<lparr>rcs_Command := [''taskmanager''],
                      rcs_Envs := (case find (\<lambda>t. tr_Name resource = tm_Host t) (fc_TaskManager fc) of
                                     None \<Rightarrow> rcs_Envs c
                                   | Some t \<Rightarrow> props (tm_Config t))\<rparr>) resource)
      in set_container (\<lambda>c. c\<lparr>rcs_Image := flink_BaseImageName @ fc_Version fc, rcs_ExposedPorts := exposed ix resource\<rparr>) r)"

definition initFlinkResources :: "env \<Rightarrow> topo_libs \<Rightarrow> TestClusterTopology \<Rightarrow> FlinkCluster \<Rightarrow> TestResource list \<Rightarrow> init_result io" where
  "initFlinkResources e lib ct fc resources =
     with_index lib ct resources (\<lambda>ix.
       init_nodes e (prepare_flink fc ix) (flink_BaseImageName @ fc_Version fc) resources False (\<lambda>requeue. init_done requeue None))"

definition initResource :: "env \<Rightarrow> topo_libs \<Rightarrow> TestClusterTopology \<Rightarrow> TestResource list \<Rightarrow> init_result io" where
  "initResource e lib ct resources =
     (case cts_TiDBCluster (ct_Spec ct) of
        Some tc \<Rightarrow> initTiDBResources e lib ct tc resources
      | None \<Rightarrow>
          (case cts_DMCluster (ct_Spec ct) of
             Some _ \<Rightarrow> initDMResources e lib ct resources
           | None \<Rightarrow>
               (case cts_FlinkCluster (ct_Spec ct) of
                  Some fc \<Rightarrow> initFlinkResources e lib ct fc resources
                | None \<Rightarrow> init_done False None)))"

end
