(* ===== verification/Topology_Reconcile.thy ===== *)
theory Topology_Reconcile
  imports Topology_Controller
begin

text \<open>
  \<open>controllers/testclustertopology_controller.go\<close>, continued: installing, updating and deleting the
  cluster of a topology, and the reconciler that drives them.
\<close>

section \<open>Installing\<close>

text \<open>The manager for the cluster on the given resources, as an action.\<close>

definition manager ::
  "topo_libs \<Rightarrow> TestClusterTopology \<Rightarrow> TestResource list \<Rightarrow> (string, string) gomap option \<Rightarrow> ClusterManager res io" where
  "manager lib ct resources ips = State_Monad.return (MakeClusterManager (tol_tiup lib) (ct_Spec ct) resources ips)"

text \<open>
  The result of \<open>initResource\<close> as its callers treat it: with \<open>requeue\<close> they return at once, with the
  error if there is one; without it they go on, whatever the error.
\<close>

definition after_init :: "init_result io \<Rightarrow> bool res io \<Rightarrow> bool res io" where
  "after_init m k =
     do { r \<leftarrow> m;
          case r of
            Done (requeue, err) \<Rightarrow>
              if requeue then (case err of Some x \<Rightarrow> io_fail x | None \<Rightarrow> io_ret True) else k
          | Panicked p \<Rightarrow> State_Monad.return (Panicked p)
          | Running \<Rightarrow> State_Monad.return Running }"

abbreviation ct_Name :: "TestClusterTopology \<Rightarrow> string" where
  "ct_Name ct \<equiv> meta_Name (ct_Meta ct)"

definition installTiDBCluster ::
  "env \<Rightarrow> topo_libs \<Rightarrow> TestClusterTopology \<Rightarrow> TiDBCluster \<Rightarrow> TestResourceRequest \<Rightarrow> bool res io" where
  "installTiDBCluster e lib ct tc rr =
     do { items \<leftarrow> child_resources e rr;
          let resources = filterClusterResources ct items;
          after_init (initResource e lib ct resources)
            (io_then (manager lib ct resources (Some (hostname2ClusterIP items))) (\<lambda>c.
             io_then (InstallCluster e (tol_tiup lib) c (ct_Name ct) (tc_Version tc) (tc_TiUPMirror tc)) (\<lambda>_. io_ret False))) }"

definition installFlinkCluster :: "env \<Rightarrow> topo_libs \<Rightarrow> TestClusterTopology \<Rightarrow> TestResourceRequest \<Rightarrow> bool res io" where
  "installFlinkCluster e lib ct rr =
     do { items \<leftarrow> child_resources e rr;
          after_init (initResource e lib ct (filterClusterResources ct items)) (io_ret False) }"

definition installDMCluster ::
  "env \<Rightarrow> topo_libs \<Rightarrow> TestClusterTopology \<Rightarrow> DMCluster \<Rightarrow> TestResourceRequest \<Rightarrow> bool res io" where
  "installDMCluster e lib ct dm rr =
     do { items \<leftarrow> child_resources e rr;
          let resources = filterClusterResources ct items;
          after_init (initResource e lib ct resources)
            (io_then (State_Monad.return (DM_MakeClusterManager (tol_dm lib) (ct_Spec ct) resources)) (\<lambda>c.
             io_then (DM_InstallCluster e (tol_dm lib) c (ct_Name ct) (dm_Version dm)) (\<lambda>_. io_ret False))) }"

section \<open>Updating\<close>

definition upgradeTiDBCluster ::
  "env \<Rightarrow> topo_libs \<Rightarrow> TestClusterTopology \<Rightarrow> TiDBCluster \<Rightarrow> TestResourceRequest \<Rightarrow> unit res io" where
  "upgradeTiDBCluster e lib ct cur rr =
     do { r \<leftarrow> listOwnedResources e rr;
          case r of
            Inl err \<Rightarrow> io_fail err
          | Inr items \<Rightarrow>
              io_then (manager lib ct (filterClusterResources ct items) None) (\<lambda>c. UpgradeCluster e c (ct_Name ct) cur) }"

definition updateClusterConfig ::
  "env \<Rightarrow> topo_libs \<Rightarrow> TestClusterTopology \<Rightarrow> TiDBCluster \<Rightarrow> TiDBCluster \<Rightarrow> TestResourceRequest \<Rightarrow> unit res io" where
  "updateClusterConfig e lib ct pre cur rr =
     do { items \<leftarrow> child_resources e rr;
          io_then (manager lib ct (filterClusterResources ct items) None) (\<lambda>c.
            UpdateCluster e (tol_tiup lib) c (ct_Name ct) pre cur) }"

definition scaleInTiDBCluster ::
  "env \<Rightarrow> topo_libs \<Rightarrow> TestClusterTopology \<Rightarrow> TiDBCluster \<Rightarrow> TiDBCluster \<Rightarrow> TestResourceRequest \<Rightarrow> TiDBCluster res io" where
  "scaleInTiDBCluster e lib ct pre cur rr =
     do { items \<leftarrow> child_resources e rr;
          io_then (manager lib ct (filterClusterResources ct items) None) (\<lambda>c.
            ScaleInCluster e c (ct_Name ct) pre cur (hostname2ClusterIP items)) }"

definition scaleOutTiDBCluster ::
  "env \<Rightarrow> topo_libs \<Rightarrow> TestClusterTopology \<Rightarrow> TiDBCluster \<Rightarrow> TiDBCluster \<Rightarrow> TestResourceRequest \<Rightarrow> bool res io" where
  "scaleOutTiDBCluster e lib ct pre cur rr =
     do { items \<leftarrow> child_resources e rr;
          let resources = filterClusterResources ct items;
          after_init (initResource e lib ct resources)
            (io_then (manager lib ct resources (Some (hostname2ClusterIP items))) (\<lambda>c.
             io_then (ScaleOutCluster e (tol_tiup lib) c (ct_Name ct) pre cur (hostname2ClusterIP items)) (\<lambda>_. io_ret False))) }"

text \<open>An error of a step is also recorded as an event.\<close>

definition recording :: "TestClusterTopology \<Rightarrow> string \<Rightarrow> 'a res io \<Rightarrow> 'a res io" where
  "recording ct reason m =
     do { r \<leftarrow> m;
          case r of
            Done r' \<Rightarrow>
              (case r' of
                 Inl err \<Rightarrow> do { Event (ct_Name ct) ''Warning'' reason (error_text err); io_fail err }
               | Inr x \<Rightarrow> io_ret x)
          | Panicked p \<Rightarrow> State_Monad.return (Panicked p)
          | Running \<Rightarrow> State_Monad.return Running }"

text \<open>\<open>True\<close> when every step is done, \<open>False\<close> when the update must be tried again in ten seconds.\<close>

definition updateTiDBCluster ::
  "env \<Rightarrow> topo_libs \<Rightarrow> TestClusterTopology \<Rightarrow> TiDBCluster \<Rightarrow> TiDBCluster \<Rightarrow> TestResourceRequest \<Rightarrow> bool res io" where
  "updateTiDBCluster e lib ct pre cur rr =
     io_then (if IsUpgraded pre cur then recording ct ''Upgrade'' (upgradeTiDBCluster e lib ct cur rr) else io_ret ()) (\<lambda>_.
     io_then (if IsConfigModified pre cur then recording ct ''Update cluster'' (updateClusterConfig e lib ct pre cur rr) else io_ret ()) (\<lambda>_.
     io_then (if cluster_IsScaleIn pre cur then recording ct ''Update scale-in'' (scaleInTiDBCluster e lib ct pre cur rr) else io_ret pre) (\<lambda>pre.
     io_then (if cluster_IsScaleOut pre cur then recording ct ''Update scale-out'' (scaleOutTiDBCluster e lib ct pre cur rr) else io_ret False) (\<lambda>requeue.
       io_ret (\<not> requeue)))))"

definition checkTiKVFinishedScaleIn ::
  "env \<Rightarrow> topo_libs \<Rightarrow> TestClusterTopology \<Rightarrow> TestResourceRequest \<Rightarrow> (bool \<times> TestClusterTopology) res io" where
  "checkTiKVFinishedScaleIn e lib ct rr =
     do { items \<leftarrow> child_resources e rr;
          io_then (manager lib ct (filterClusterResources ct items) None) (\<lambda>c.
          io_then (GetNodeStatusList e c (ct_Name ct) ''Pending'') (\<lambda>pendingOfflineList.
          io_then (GetNodeStatusList e c (ct_Name ct) ''Offline'') (\<lambda>tmp.
            let offlineList = filter (\<lambda>x. x \<notin> set pendingOfflineList) tmp;
                st = ct_Status ct;
                ct' = ct\<lparr>ct_Status := st\<lparr>ctst_TiDBClusterInfo := (ctst_TiDBClusterInfo st)\<lparr>
                  tci_PendingOfflineList := pendingOfflineList, tci_OfflineList := offlineList\<rparr>\<rparr>\<rparr>
            in io_ret (pendingOfflineList = [] \<and> offlineList = [], ct')))) }"

definition pruneTiDBCluster :: "env \<Rightarrow> topo_libs \<Rightarrow> TestClusterTopology \<Rightarrow> TestResourceRequest \<Rightarrow> unit res io" where
  "pruneTiDBCluster e lib ct rr =
     do { items \<leftarrow> child_resources e rr;
          io_then (manager lib ct (filterClusterResources ct items) None) (\<lambda>c. PruneCluster e c (ct_Name ct)) }"

section \<open>Deleting\<close>

fun delete_proxy_configs :: "env \<Rightarrow> TestClusterTopology \<Rightarrow> HAProxy \<Rightarrow> TestResource list \<Rightarrow> unit res io" where
  "delete_proxy_configs e ct hap [] = io_ret ()"
| "delete_proxy_configs e ct hap (r # rs) =
     (if tr_Name r = hap_Host hap
      then do { m \<leftarrow> getResourceMachine e r;
                case m of
                  Inl err \<Rightarrow> io_fail err
                | Inr machine \<Rightarrow>
                    do { err \<leftarrow> DeleteConfigFromMachine e (ms_Host (m_Spec machine)) (GenerateFilePrefix ct @ FileName);
                         case err of Some x \<Rightarrow> io_fail x | None \<Rightarrow> delete_proxy_configs e ct hap rs } }
      else delete_proxy_configs e ct hap rs)"

definition ignoring_absent :: "unit res io \<Rightarrow> unit res io" where
  "ignoring_absent m = catching m (\<lambda>err. return_error (IgnoreClusterNotExist err))"

definition deleteTopology :: "env \<Rightarrow> topo_libs \<Rightarrow> TestClusterTopology \<Rightarrow> unit res io" where
  "deleteTopology e lib ct =
     (if cts_ResourceRequest (ct_Spec ct) = [] then io_ret ()
      else do { r \<leftarrow> Get_request e \<lparr>nn_Namespace = meta_Namespace (ct_Meta ct), nn_Name = cts_ResourceRequest (ct_Spec ct)\<rparr>;
                case r of
                  Inl err \<Rightarrow> return_error (IgnoreNotFound (Some err))
                | Inr rr \<Rightarrow>
                    if trrst_State (trr_Status rr) \<noteq> TestResourceRequestReady then io_ret ()
                    else do { resources \<leftarrow> child_resources e rr;
                      case cts_TiDBCluster (ct_Spec ct) of
                        Some tc \<Rightarrow>
                          io_then (case tc_HAProxy tc of None \<Rightarrow> io_ret () | Some hap \<Rightarrow> delete_proxy_configs e ct hap resources) (\<lambda>_.
                          io_then (manager lib ct resources None) (\<lambda>c. ignoring_absent (UninstallCluster e c (ct_Name ct))))
                      | None \<Rightarrow>
                          (case cts_FlinkCluster (ct_Spec ct) of
                             Some _ \<Rightarrow> io_ret ()
                           | None \<Rightarrow>
                               (case cts_DMCluster (ct_Spec ct) of
                                  Some _ \<Rightarrow>
                                    io_then (State_Monad.return (DM_MakeClusterManager (tol_dm lib) (ct_Spec ct) resources))
                                      (\<lambda>c. ignoring_absent (DM_UninstallCluster e c (ct_Name ct)))
                                | None \<Rightarrow> io_ret ())) } })"

section \<open>The reconciler\<close>

definition set_ct :: "(TestClusterTopologyStatus \<Rightarrow> TestClusterTopologyStatus) \<Rightarrow> TestClusterTopology \<Rightarrow> TestClusterTopology" where
  "set_ct f ct = ct\<lparr>ct_Status := f (ct_Status ct)\<rparr>"

definition write_status :: "env \<Rightarrow> TestClusterTopology \<Rightarrow> reconcile_result io" where
  "write_status e ct = do { err \<leftarrow> k8s_StatusUpdate e (KTopology ct); finish no_requeue err }"

definition Get_topology_request :: "env \<Rightarrow> nsname \<Rightarrow> TestClusterTopology \<Rightarrow> (error + TestResourceRequest) io" where
  "Get_topology_request e req ct =
     Get_request e \<lparr>nn_Namespace = nn_Namespace req, nn_Name = cts_ResourceRequest (ct_Spec ct)\<rparr>"

definition install :: "env \<Rightarrow> topo_libs \<Rightarrow> TestClusterTopology \<Rightarrow> TestResourceRequest \<Rightarrow> (string \<times> bool) res io" where
  "install e lib ct rr =
     (case cts_TiDBCluster (ct_Spec ct) of
        Some tc \<Rightarrow> io_then (recording ct ''Install'' (installTiDBCluster e lib ct tc rr)) (\<lambda>requeue. io_ret (''tidb'', requeue))
      | None \<Rightarrow>
          (case cts_FlinkCluster (ct_Spec ct) of
             Some _ \<Rightarrow> io_then (recording ct ''Install'' (installFlinkCluster e lib ct rr)) (\<lambda>requeue. io_ret (''flink'', requeue))
           | None \<Rightarrow>
               (case cts_DMCluster (ct_Spec ct) of
                  Some dm \<Rightarrow> io_then (recording ct ''Install'' (installDMCluster e lib ct dm rr)) (\<lambda>requeue. io_ret (''dm'', requeue))
                | None \<Rightarrow> io_ret ([], False))))"

definition Topology_reconcilePending :: "env \<Rightarrow> topo_libs \<Rightarrow> nsname \<Rightarrow> TestClusterTopology \<Rightarrow> reconcile_result io" where
  "Topology_reconcilePending e lib req ct =
     (if cts_ResourceRequest (ct_Spec ct) = [] then finish no_requeue None
      else do { r \<leftarrow> Get_topology_request e req ct;
                case r of
                  Inl err \<Rightarrow> do { Event (ct_Name ct) ''Warning'' ''Install'' (error_text err); finish no_requeue (Some err) }
                | Inr rr \<Rightarrow>
                    if trrst_State (trr_Status rr) \<noteq> TestResourceRequestReady then finish (requeue_after (5 * second)) None
                    else handle (install e lib ct rr) (\<lambda>(kind, requeue).
                      if requeue then finish (requeue_after (10 * second)) None
                      else do { (if kind \<noteq> [] then Event (ct_Name ct) ''Normal'' ''Install'' (kind @ '' cluster '' @ ct_Name ct @ '' is installed'')
                                 else State_Monad.return ());
                                write_status e (set_ct (\<lambda>s. s\<lparr>ctst_State := ClusterTopologyStateReady\<rparr>) ct) }) })"

text \<open>A ready topology whose cluster has not changed: look after stores that are being drained.\<close>

definition reconcile_scaling :: "env \<Rightarrow> topo_libs \<Rightarrow> nsname \<Rightarrow> TestClusterTopology \<Rightarrow> reconcile_result io" where
  "reconcile_scaling e lib req ct =
     do { r \<leftarrow> Get_topology_request e req ct;
          case r of
            Inl err \<Rightarrow> finish no_requeue (Some err)
          | Inr rr \<Rightarrow>
              handle (checkTiKVFinishedScaleIn e lib ct rr) (\<lambda>(isFinish, ct).
                do { err \<leftarrow> k8s_StatusUpdate e (KTopology ct);
                     if err \<noteq> None then finish no_requeue err
                     else if isFinish
                     then handle (recording ct ''Prune TiKVs'' (pruneTiDBCluster e lib ct rr)) (\<lambda>_.
                            write_status e (set_ct (\<lambda>s. s\<lparr>ctst_TiDBClusterInfo := (ctst_TiDBClusterInfo s)\<lparr>tci_IsScaling := False\<rparr>\<rparr>) ct))
                     else finish (requeue_after (10 * second)) None }) }"

definition Topology_reconcileReady :: "env \<Rightarrow> topo_libs \<Rightarrow> nsname \<Rightarrow> TestClusterTopology \<Rightarrow> reconcile_result io" where
  "Topology_reconcileReady e lib req ct =
     (case cts_TiDBCluster (ct_Spec ct) of
        None \<Rightarrow> finish no_requeue None
      | Some cur \<Rightarrow>
          (case ctst_PreTiDBCluster (ct_Status ct) of
             None \<Rightarrow> write_status e (set_ct (\<lambda>s. s\<lparr>ctst_PreTiDBCluster := Some cur\<rparr>) ct)
           | Some pre \<Rightarrow>
               if \<not> IsClusterConfigModified pre cur
               then (if tci_IsScaling (ctst_TiDBClusterInfo (ct_Status ct)) then reconcile_scaling e lib req ct
                     else finish no_requeue None)
               else write_status e (set_ct (\<lambda>s. s\<lparr>ctst_State := ClusterTopologyStateUpdating\<rparr>) ct)))"

definition reconcileUpdating :: "env \<Rightarrow> topo_libs \<Rightarrow> nsname \<Rightarrow> TestClusterTopology \<Rightarrow> reconcile_result io" where
  "reconcileUpdating e lib req ct =
     do { r \<leftarrow> Get_topology_request e req ct;
          case r of
            Inl err \<Rightarrow> finish no_requeue (Some err)
          | Inr rr \<Rightarrow>
              (case (ctst_PreTiDBCluster (ct_Status ct), cts_TiDBCluster (ct_Spec ct)) of
                 (Some pre, Some cur) \<Rightarrow>
                   let ct = (if cluster_IsScaleIn pre cur
                             then set_ct (\<lambda>s. s\<lparr>ctst_TiDBClusterInfo := (ctst_TiDBClusterInfo s)\<lparr>tci_IsScaling := True\<rparr>\<rparr>) ct else ct)
                   in handle (updateTiDBCluster e lib ct pre cur rr) (\<lambda>isOK.
                        if isOK
                        then write_status e (set_ct (\<lambda>s. s\<lparr>ctst_PreTiDBCluster := Some cur, ctst_State := ClusterTopologyStateReady\<rparr>) ct)
                        else finish (requeue_after (10 * second)) None)
               | _ \<Rightarrow> crash nil_deref) }"

definition reconcile_state :: "env \<Rightarrow> topo_libs \<Rightarrow> nsname \<Rightarrow> TestClusterTopology \<Rightarrow> reconcile_result io" where
  "reconcile_state e lib req ct =
     (case ctst_State (ct_Status ct) of
        ClusterTopologyStateNone \<Rightarrow> write_status e (set_ct (\<lambda>s. s\<lparr>ctst_State := ClusterTopologyStatePending\<rparr>) ct)
      | ClusterTopologyStatePending \<Rightarrow> Topology_reconcilePending e lib req ct
      | ClusterTopologyStateReady \<Rightarrow> Topology_reconcileReady e lib req ct
      | ClusterTopologyStateUpdating \<Rightarrow> reconcileUpdating e lib req ct
      | UnknownTopologyState _ \<Rightarrow> finish no_requeue None)"

definition finalize_topology :: "env \<Rightarrow> topo_libs \<Rightarrow> nsname \<Rightarrow> TestClusterTopology \<Rightarrow> reconcile_result io" where
  "finalize_topology e lib req ct =
     handle (if StringsContains (meta_Finalizers (ct_Meta ct)) (nn_Name req) then deleteTopology e lib ct else io_ret ()) (\<lambda>_.
       case drop_finalizer (nn_Name req) (ct_Meta ct) of
         Panicked p \<Rightarrow> crash p
       | Running \<Rightarrow> State_Monad.return Running
       | Done meta \<Rightarrow> do { err \<leftarrow> k8s_Update e (KTopology (ct\<lparr>ct_Meta := meta\<rparr>)); finish no_requeue err })"

definition Topology_Reconcile :: "env \<Rightarrow> topo_libs \<Rightarrow> nsname \<Rightarrow> reconcile_result io" where
  "Topology_Reconcile e lib req =
     do { r \<leftarrow> Get_topology e req;
          case r of
            Inl err \<Rightarrow> finish no_requeue (IgnoreNotFound (Some err))
          | Inr ct \<Rightarrow>
              if meta_DeletionTimestamp (ct_Meta ct) \<noteq> None then finalize_topology e lib req ct
              else if StringsContains (meta_Finalizers (ct_Meta ct)) (nn_Name req) then reconcile_state e lib req ct
              else (let ct = ct\<lparr>ct_Meta := add_finalizer (nn_Name req) (ct_Meta ct)\<rparr>
                    in do { err \<leftarrow> k8s_Update e (KTopology ct);
                            if err \<noteq> None then finish no_requeue err else reconcile_state e lib req ct }) }"

end
