(* ===== verification/Tiup_Spec_Props.thy ===== *)
theory Tiup_Spec_Props
  imports Tiup_Spec Demo_Cluster
begin

text \<open>
  What \<open>BuildSpecification\<close> guarantees: when it succeeds, and on which hosts it puts the servers.
  The ten roles share one contract, the locale \<open>server_role\<close>; it is interpreted on the builder of
  each role.
\<close>

section \<open>The nodes\<close>

lemma map_of_foldl_update:
  "map_of (foldl (\<lambda>m r. AList.update (f r) (g r) m) m xs) k =
   (case find (\<lambda>r. f r = k) (rev xs) of Some r \<Rightarrow> Some (g r) | None \<Rightarrow> map_of m k)"
  by (induction xs rule: rev_induct) (auto simp: map_of_update)

lemma resource_nodes_iff: "map_of (resource_nodes trs) k \<noteq> None \<longleftrightarrow> k \<in> tr_Name ` set trs"
proof -
  have "find (\<lambda>r. tr_Name r = k) (rev trs) = None \<longleftrightarrow> k \<notin> tr_Name ` set trs"
    by (auto simp: find_None_iff)
  then show ?thesis by (auto simp: resource_nodes_def map_of_foldl_update split: option.splits)
qed

definition node_host :: "bool \<Rightarrow> nodes \<Rightarrow> string \<Rightarrow> string" where
  "node_host dryRun rm name =
     (case map_of rm name of None \<Rightarrow> [] | Some node \<Rightarrow> hostName dryRun name node)"

lemma node_host_dry: "map_of rm name \<noteq> None \<Longrightarrow> node_host True rm name = name"
  by (auto simp: node_host_def hostName_def)

lemma find_node_ret_iff: "find_node rm what host = ret node \<longleftrightarrow> map_of rm host = Some node"
  by (simp add: find_node_def split: option.splits)

definition parses :: "unmarshal \<Rightarrow> string \<Rightarrow> bool" where
  "parses um str \<longleftrightarrow> (\<exists>config. um str = Inr config)"

lemma parse_config_ret_iff: "parse_config um what str = ret config \<longleftrightarrow> um str = Inr config"
  by (simp add: parse_config_def generateConfig_def split: sum.splits)

section \<open>One contract for all roles\<close>

text \<open>
  A builder of servers: it succeeds exactly on an item whose host is known and whose configurations
  are in order, and puts the server on that host.
\<close>

locale server_role =
  fixes rm :: nodes
    and dryRun :: bool
    and item_Host :: "'a \<Rightarrow> string"
    and server_Host :: "'b \<Rightarrow> string"
    and in_order :: "'a \<Rightarrow> bool"
    and build :: "'a \<Rightarrow> 'b res"
  assumes build_iff: "(\<exists>y. build x = ret y) \<longleftrightarrow> map_of rm (item_Host x) \<noteq> None \<and> in_order x"
    and build_host: "build x = ret y \<Longrightarrow> server_Host y = node_host dryRun rm (item_Host x)"
begin

lemma all_iff:
  "(\<exists>ys. res_map build xs = ret ys) \<longleftrightarrow> (\<forall>x\<in>set xs. map_of rm (item_Host x) \<noteq> None \<and> in_order x)"
  by (simp add: res_map_ok_iff build_iff)

lemma all_hosts:
  assumes "res_map build xs = ret ys"
  shows "map server_Host ys = map (node_host dryRun rm) (map item_Host xs)"
proof -
  from assms have "list_all2 (\<lambda>x y. build x = ret y) xs ys" by (simp add: res_map_ret_iff)
  then show ?thesis by (induction rule: list_all2_induct) (simp_all add: build_host)
qed

end

lemmas build_defs = find_node_ret_iff parse_config_ret_iff parses_def node_host_def

interpretation tidb_role: server_role rm dryRun tidb_Host stidb_Host "\<lambda>x. parses um (tidb_Config x)" "build_tidb um dryRun rm"
  for rm dryRun um
  by unfold_locales (auto simp: build_tidb_def build_defs)

interpretation tikv_role: server_role rm dryRun tikv_Host stikv_Host "\<lambda>x. parses um (tikv_Config x)" "build_tikv um dryRun rm"
  for rm dryRun um
  by unfold_locales (auto simp: build_tikv_def build_defs)

interpretation pd_role: server_role rm dryRun pd_Host spd_Host "\<lambda>x. parses um (pd_Config x)" "build_pd um dryRun rm"
  for rm dryRun um
  by unfold_locales (auto simp: build_pd_def build_defs)

interpretation pump_role: server_role rm dryRun pump_Host spump_Host "\<lambda>x. parses um (pump_Config x)" "build_pump um dryRun rm"
  for rm dryRun um
  by unfold_locales (auto simp: build_pump_def build_defs)

definition drainer_in_order :: "unmarshal \<Rightarrow> (string, string) gomap option \<Rightarrow> string \<Rightarrow> bool" where
  "drainer_in_order um ips str \<longleftrightarrow>
     (\<exists>config. um str = Inr config \<and>
        (ips = None \<or> (\<exists>url proto name rest ip. map_of config ''syncer.to.host'' = Some (YString url) \<and>
           Split url ''://'' = proto # name # rest \<and> map_of (the ips) name = Some ip \<and> ip \<noteq> [])))"

lemma setDrainerConfig_ok: "(\<exists>config. setDrainerConfig um ips str = ret config) \<longleftrightarrow> drainer_in_order um ips str"
proof (cases "um str")
  case config: (Inr config)
  show ?thesis
  proof (cases ips)
    case (Some m)
    show ?thesis
    proof (cases "\<exists>url proto name rest. map_of config ''syncer.to.host'' = Some (YString url) \<and> Split url ''://'' = proto # name # rest")
      case True
      then obtain url proto name rest
        where url: "map_of config ''syncer.to.host'' = Some (YString url)" "Split url ''://'' = proto # name # rest" by blast
      show ?thesis
        by (cases "map_of m name") (simp_all add: setDrainerConfig_def drainer_in_order_def config Some url)
    next
      case False
      then show ?thesis
        by (auto simp: setDrainerConfig_def drainer_in_order_def config Some split: option.split yaml.split list.split)
    qed
  qed (simp add: setDrainerConfig_def drainer_in_order_def config)
qed (simp add: setDrainerConfig_def drainer_in_order_def)

interpretation drainer_role: server_role rm dryRun drainer_Host sdrainer_Host "\<lambda>x. drainer_in_order um ips (drainer_Config x)"
    "build_drainer um ips dryRun rm" for rm dryRun um ips
proof
  have eq: "build_drainer um ips dryRun rm x = ret y \<longleftrightarrow> (\<exists>node config. map_of rm (drainer_Host x) = Some node \<and>
      setDrainerConfig um ips (drainer_Config x) = ret config \<and>
      y = \<lparr>sdrainer_Host = hostName dryRun (drainer_Host x) node, sdrainer_Port = drainer_Port x,
                sdrainer_SSHPort = drainer_SSHPort x, sdrainer_CommitTS = drainer_CommitTS x,
                sdrainer_DeployDir = drainer_DeployDir x, sdrainer_DataDir = drainer_DataDir x,
                sdrainer_Config = config\<rparr>)" for x y
    by (cases "setDrainerConfig um ips (drainer_Config x)"; cases "map_of rm (drainer_Host x)")
       (auto simp: build_drainer_def find_node_ret_iff split: sum.splits)
  show "(\<exists>y. build_drainer um ips dryRun rm x = ret y) \<longleftrightarrow>
      map_of rm (drainer_Host x) \<noteq> None \<and> drainer_in_order um ips (drainer_Config x)" for x
    unfolding eq setDrainerConfig_ok [symmetric] by auto
  show "build_drainer um ips dryRun rm x = ret y \<Longrightarrow> sdrainer_Host y = node_host dryRun rm (drainer_Host x)" for x y
    unfolding eq by (auto simp: node_host_def)
qed

interpretation monitor_role: server_role rm dryRun prom_Host smon_Host "\<lambda>_. True" "build_monitor dryRun rm" for rm dryRun
  by unfold_locales (auto simp: build_monitor_def build_defs)

interpretation grafana_role: server_role rm dryRun grafana_Host sgrafana_Host "\<lambda>_. True" "build_grafana dryRun rm" for rm dryRun
  by unfold_locales (auto simp: build_grafana_def build_defs)

interpretation alert_role: server_role rm dryRun am_Host salert_Host "\<lambda>_. True" "build_alert dryRun rm" for rm dryRun
  by unfold_locales (auto simp: build_alert_def build_defs)

interpretation cdc_role: server_role rm dryRun cdc_Host scdc_Host "\<lambda>_. True" "build_cdc dryRun rm" for rm dryRun
  by unfold_locales (auto simp: build_cdc_def build_defs)

interpretation tiflash_role: server_role rm dryRun tiflash_Host stiflash_Host
    "\<lambda>x. parses um (tiflash_Config x) \<and> parses um (tiflash_LearnerConfig x)" "build_tiflash um dryRun rm"
  for rm dryRun um
  by unfold_locales (auto simp: build_tiflash_def build_defs)

section \<open>The whole description\<close>

definition cluster_hosts :: "TiDBCluster \<Rightarrow> string list list" where
  "cluster_hosts tc =
     [map tidb_Host (elems (tc_TiDB tc)), map tikv_Host (elems (tc_TiKV tc)), map pd_Host (elems (tc_PD tc)),
      map pump_Host (elems (tc_Pump tc)), map drainer_Host (elems (tc_Drainer tc)), map prom_Host (elems (tc_Monitor tc)),
      map grafana_Host (elems (tc_Grafana tc)), map am_Host (elems (tc_AlertManager tc)), map cdc_Host (elems (tc_CDC tc)),
      map tiflash_Host (elems (tc_TiFlash tc))]"

definition spec_hosts :: "Specification \<Rightarrow> string list list" where
  "spec_hosts s =
     [map stidb_Host (sp_TiDBServers s), map stikv_Host (sp_TiKVServers s), map spd_Host (sp_PDServers s),
      map spump_Host (sp_PumpServers s), map sdrainer_Host (sp_Drainers s), map smon_Host (sp_Monitors s),
      map sgrafana_Host (sp_Grafanas s), map salert_Host (sp_Alertmanagers s), map scdc_Host (sp_CDCServers s),
      map stiflash_Host (sp_TiFlashServers s)]"

definition configs_in_order :: "unmarshal \<Rightarrow> (string, string) gomap option \<Rightarrow> TiDBCluster \<Rightarrow> bool" where
  "configs_in_order um ips tc \<longleftrightarrow>
     parses um (sc_TiDB (tc_ServerConfigs tc)) \<and> parses um (sc_TiKV (tc_ServerConfigs tc)) \<and>
     parses um (sc_PD (tc_ServerConfigs tc)) \<and>
     (\<forall>x\<in>set (elems (tc_TiDB tc)). parses um (tidb_Config x)) \<and>
     (\<forall>x\<in>set (elems (tc_TiKV tc)). parses um (tikv_Config x)) \<and>
     (\<forall>x\<in>set (elems (tc_PD tc)). parses um (pd_Config x)) \<and>
     (\<forall>x\<in>set (elems (tc_Pump tc)). parses um (pump_Config x)) \<and>
     (\<forall>x\<in>set (elems (tc_Drainer tc)). drainer_in_order um ips (drainer_Config x)) \<and>
     (\<forall>x\<in>set (elems (tc_TiFlash tc)). parses um (tiflash_Config x) \<and> parses um (tiflash_LearnerConfig x))"

text \<open>
  What is relied on of \<open>defaults.Set\<close>: it fills fields that are zero and leaves the servers and
  their hosts alone; and it succeeds.
\<close>

definition fills_defaults :: "set_defaults \<Rightarrow> bool" where
  "fills_defaults ds \<longleftrightarrow> (\<forall>s. \<exists>s'. ds s = Inr s' \<and> spec_hosts s' = spec_hosts s)"

lemma setServerConfigs_ok:
  "(\<exists>sc. setServerConfigs um s = Inr sc) \<longleftrightarrow> parses um (sc_TiDB s) \<and> parses um (sc_TiKV s) \<and> parses um (sc_PD s)"
  by (auto simp: setServerConfigs_def parses_def split: sum.splits)

lemma res_bind_ok:
  "(\<And>x. (\<exists>y. f x = ret y) \<longleftrightarrow> C) \<Longrightarrow> (\<exists>y. res_bind m f = ret y) \<longleftrightarrow> (\<exists>x. m = ret x) \<and> C"
  by (auto simp: res_bind_ret_iff)

lemma BuildSpecification_ok_iff:
  assumes "cts_TiDBCluster ctf = Some tc" "fills_defaults ds"
  shows "(\<exists>result. BuildSpecification um ds ctf trs dryRun ips = ret result) \<longleftrightarrow>
    tc_Control tc \<in> tr_Name ` set trs \<and> (\<forall>hs\<in>set (cluster_hosts tc). set hs \<subseteq> tr_Name ` set trs) \<and>
    configs_in_order um ips tc"
proof -
  have ds: "\<exists>y. (case ds s of Inl err \<Rightarrow> Panicked (error_text err) | Inr spec \<Rightarrow> ret (spec, c)) = ret y" for s c
    using assms(2) unfolding fills_defaults_def by (metis sum.case(2))
  have control: "(\<exists>c. find_node (resource_nodes trs) ''control'' (tc_Control tc) = ret c) \<longleftrightarrow> tc_Control tc \<in> tr_Name ` set trs"
    using resource_nodes_iff [of trs "tc_Control tc"] by (auto simp: find_node_ret_iff)
  note roles = tidb_role.all_iff tikv_role.all_iff pd_role.all_iff pump_role.all_iff drainer_role.all_iff
    monitor_role.all_iff grafana_role.all_iff alert_role.all_iff cdc_role.all_iff tiflash_role.all_iff
  let ?rm = "resource_nodes trs"
  let ?all = "(\<exists>y. find_node ?rm ''control'' (tc_Control tc) = ret y) \<and>
      (\<exists>y. res_map (build_tidb um dryRun ?rm) (elems (tc_TiDB tc)) = ret y) \<and>
      (\<exists>y. res_map (build_tikv um dryRun ?rm) (elems (tc_TiKV tc)) = ret y) \<and>
      (\<exists>y. res_map (build_pd um dryRun ?rm) (elems (tc_PD tc)) = ret y) \<and>
      (\<exists>y. res_map (build_pump um dryRun ?rm) (elems (tc_Pump tc)) = ret y) \<and>
      (\<exists>y. res_map (build_drainer um ips dryRun ?rm) (elems (tc_Drainer tc)) = ret y) \<and>
      (\<exists>y. res_map (build_monitor dryRun ?rm) (elems (tc_Monitor tc)) = ret y) \<and>
      (\<exists>y. res_map (build_grafana dryRun ?rm) (elems (tc_Grafana tc)) = ret y) \<and>
      (\<exists>y. res_map (build_alert dryRun ?rm) (elems (tc_AlertManager tc)) = ret y) \<and>
      (\<exists>y. res_map (build_cdc dryRun ?rm) (elems (tc_CDC tc)) = ret y) \<and>
      (\<exists>y. res_map (build_tiflash um dryRun ?rm) (elems (tc_TiFlash tc)) = ret y) \<and> True"
  have bind: "(\<exists>result. BuildSpecification um ds ctf trs dryRun ips = ret result) \<longleftrightarrow>
      (\<exists>sc. setServerConfigs um (tc_ServerConfigs tc) = Inr sc) \<and> ?all"
  proof (cases "setServerConfigs um (tc_ServerConfigs tc)")
    case (Inr sc)
    have "(\<exists>result. BuildSpecification um ds ctf trs dryRun ips = ret result) \<longleftrightarrow> ?all"
      unfolding BuildSpecification_def assms(1) option.case Inr sum.case Let_def
      by (intro res_bind_ok) (simp only: ds simp_thms)
    with Inr show ?thesis by blast
  qed (simp add: BuildSpecification_def assms(1))
  show ?thesis
    unfolding bind roles control setServerConfigs_ok cluster_hosts_def configs_in_order_def resource_nodes_iff
    by (simp only: list.set set_map ball_simps ball_conj_distrib image_subset_iff simp_thms) argo
qed

text \<open>C24: a TiDB cluster can be described exactly when its control node and the host of every server
  is among the resources and every configuration is in order; otherwise \<open>BuildSpecification\<close> gives
  no description at all.\<close>

theorem BuildSpecification_complete:
  assumes "cts_TiDBCluster ctf = Some tc" "fills_defaults ds"
  shows "(\<exists>result. BuildSpecification um ds ctf trs dryRun ips = ret result) \<longleftrightarrow>
    tc_Control tc \<in> tr_Name ` set trs \<and> (\<forall>hs\<in>set (cluster_hosts tc). set hs \<subseteq> tr_Name ` set trs) \<and>
    configs_in_order um ips tc"
  using assms by (rule BuildSpecification_ok_iff)

definition demo_node :: "string \<Rightarrow> string \<Rightarrow> TestResource" where
  "demo_node name ip =
     \<lparr>tr_Meta = \<lparr>meta_Name = name, meta_Namespace = ''ns'', meta_UID = name, meta_DeletionTimestamp = None,
        meta_Finalizers = [], meta_Controller = None\<rparr>,
      tr_Spec = \<lparr>trs_Memory = [], trs_Cores = 1, trs_MachineSelector = [], trs_Disks = [], trs_Machine = []\<rparr>,
      tr_Status = zero_ResourceStatus\<lparr>trst_State := ResourceReady,
        trst_ContainerSpec := zero_ContainerSpec\<lparr>rcs_ClusterIP := ip\<rparr>\<rparr>\<rparr>"

definition demo_nodes :: "TestResource list" where
  "demo_nodes = [demo_node ''n1'' ''10.1.0.1'', demo_node ''n2'' ''10.1.0.2'']"

definition demo_um :: unmarshal where
  "demo_um str = Inr []"

definition demo_ds :: set_defaults where
  "demo_ds s = Inr s"

lemma demo_ds_fills: "fills_defaults demo_ds"
  by (simp add: fills_defaults_def demo_ds_def)

theorem BuildSpecification_complete_witness:
  "\<exists>result. BuildSpecification demo_um demo_ds (ct_Spec (demo_topology [] [''n1'', ''n2''])) demo_nodes False None = ret result"
proof -
  have "cts_TiDBCluster (ct_Spec (demo_topology [] [''n1'', ''n2''])) = Some (demo_cluster [''n1'', ''n2''])"
    by (simp add: demo_topology_def)
  then show ?thesis
    using BuildSpecification_complete [OF _ demo_ds_fills]
    by (simp add: demo_cluster_simps demo_nodes_def demo_node_def cluster_hosts_def configs_in_order_def parses_def demo_um_def)
qed

text \<open>Every server of the description stands, in the order of the topology, on the cluster
  address of the resource its item names, or on that name in a dry run.\<close>

theorem BuildSpecification_hosts:
  assumes "BuildSpecification um ds ctf trs dryRun ips = ret (spec, control)"
    and "cts_TiDBCluster ctf = Some tc" "fills_defaults ds"
  shows "spec_hosts spec = map (map (node_host dryRun (resource_nodes trs))) (cluster_hosts tc)"
proof -
  have ds: "spec_hosts s' = spec_hosts s" if "ds s = Inr s'" for s s'
    using assms(3) that unfolding fills_defaults_def by (metis sum.inject(2))
  note roles = tidb_role.all_hosts tikv_role.all_hosts pd_role.all_hosts pump_role.all_hosts drainer_role.all_hosts
    monitor_role.all_hosts grafana_role.all_hosts alert_role.all_hosts cdc_role.all_hosts tiflash_role.all_hosts
  show ?thesis
    using assms(1) unfolding BuildSpecification_def assms(2) option.case Let_def
    by (auto dest!: ds roles simp: cluster_hosts_def spec_hosts_def)
qed

theorem BuildSpecification_hosts_witness:
  "\<exists>spec control. BuildSpecification demo_um demo_ds (ct_Spec (demo_topology [] [''n1'', ''n2''])) demo_nodes False None = ret (spec, control) \<and>
     spec_hosts spec = [[''10.1.0.1''], [''10.1.0.1'', ''10.1.0.2''], [''10.1.0.1''], [], [], [], [], [], [], []]"
proof -
  let ?ctf = "ct_Spec (demo_topology [] [''n1'', ''n2''])"
  have tc: "cts_TiDBCluster ?ctf = Some (demo_cluster [''n1'', ''n2''])"
    by (simp add: demo_topology_def)
  have nodes: "resource_nodes demo_nodes = [(''n1'', tr_Status (demo_node ''n1'' ''10.1.0.1'')), (''n2'', tr_Status (demo_node ''n2'' ''10.1.0.2''))]"
    by (simp add: resource_nodes_def demo_nodes_def demo_node_def)
  obtain spec control where built: "BuildSpecification demo_um demo_ds ?ctf demo_nodes False None = ret (spec, control)"
    by (simp add: BuildSpecification_def tc nodes demo_cluster_simps setServerConfigs_def demo_um_def find_node_def
        build_tidb_def build_tikv_def build_pd_def parse_config_def generateConfig_def demo_ds_def)
  have "spec_hosts spec = map (map (node_host False (resource_nodes demo_nodes))) (cluster_hosts (demo_cluster [''n1'', ''n2'']))"
    by (rule BuildSpecification_hosts [OF built tc demo_ds_fills])
  then have "spec_hosts spec = [[''10.1.0.1''], [''10.1.0.1'', ''10.1.0.2''], [''10.1.0.1''], [], [], [], [], [], [], []]"
    by (simp add: nodes cluster_hosts_def demo_cluster_simps node_host_def hostName_def demo_node_def)
  with built show ?thesis by blast
qed

end
