(* ===== verification/Tiup_Props.thy ===== *)
theory Tiup_Props
  imports Tiup_Cluster Tiup_Spec_Props Demo_World
begin

text \<open>
  Properties of the cluster manager: the order of an installation, which nodes a scale-in takes
  away, and reading the status of the nodes back from what \<open>tiup\<close> displays.
\<close>

section \<open>Installation\<close>

lemma emits_run_or [emits_intros]:
  "(\<And>ok. P (SSH (fst cl) (snd cl) cmd ok)) \<Longrightarrow> emits P (run_or e cl cmd failed)"
  unfolding run_or_def by (intro emits_intros)

lemma always_run_or [always_intros]:
  "(\<And>ok. P h (SSH (fst cl) (snd cl) cmd ok)) \<Longrightarrow> always P (run_or e cl cmd failed) h"
  unfolding run_or_def by (intro always_intros)

lemma run_or_ret:
  "run_state (run_or e cl cmd failed) h = (ret out, h1) \<longleftrightarrow>
   (\<exists>errStr. ask_ssh e h (fst cl) (snd cl) cmd = (out, errStr, None)) \<and> h1 = h @ [SSH (fst cl) (snd cl) cmd True]"
  by (auto simp: run_or_def RunCommand_def io_simps split: prod.splits option.splits)

lemma run_or_error:
  "run_state (run_or e cl cmd failed) h = (Done (Inl err), h1) \<longleftrightarrow>
   (\<exists>out errStr x. ask_ssh e h (fst cl) (snd cl) cmd = (out, errStr, Some x) \<and> err = failed x out errStr) \<and>
   h1 = h @ [SSH (fst cl) (snd cl) cmd False]"
  by (auto simp: run_or_def RunCommand_def io_simps split: prod.splits option.splits)

abbreviation cm_host :: "ClusterManager \<Rightarrow> string" where
  "cm_host c \<equiv> trst_HostIP (cm_control c)"

abbreviation cm_port :: "ClusterManager \<Rightarrow> int" where
  "cm_port c \<equiv> trst_SSHPort (cm_control c)"

lemma on_control_ret:
  "run_state (on_control e c cmd failed) h = (ret out, h1) \<longleftrightarrow>
   ask_key e h = None \<and> ask_dial e h (cm_host c) (cm_port c) = None \<and>
   (\<exists>errStr. ask_ssh e h (cm_host c) (cm_port c) cmd = (out, errStr, None)) \<and>
   h1 = h @ [SSH (cm_host c) (cm_port c) cmd True]"
  by (auto simp: on_control_def control_client_def run_io_then_ret run_or_ret)

lemma unit_of_ret: "run_state (unit_of m) h = (ret u, h1) \<longleftrightarrow> (\<exists>x. run_state m h = (ret x, h1))"
  by (simp add: unit_of_def run_io_then_ret io_simps)

lemma emits_control [emits_intros]:
  "(\<And>ok. P (SSH (cm_host c) (cm_port c) cmd ok)) \<Longrightarrow> emits P (on_control e c cmd failed)"
  unfolding on_control_def control_client_def
  by (intro emits_intros) (auto simp: NewSSHClient_def split: option.splits)

lemma emits_unit_of [emits_intros]: "emits P m \<Longrightarrow> emits P (unit_of m)"
  unfolding unit_of_def by (intro emits_intros)

definition deploy_cmd :: "string \<Rightarrow> string \<Rightarrow> string" where
  "deploy_cmd clusterName version =
     tiup @ ''cluster deploy -y '' @ clusterName @ '' '' @ version @ '' /root/topology.yaml -i '' @ InsecureKeyPath"

text \<open>A deployment that counts as done: it succeeded, or \<open>tiup\<close> said that the cluster is there already.\<close>

lemma deploy_done:
  assumes "run_state (catching (deployCluster e c name version)
      (\<lambda>err. if IgnoreClusterDuplicated err \<noteq> None then return_error err else io_ret ())) h = (ret u, h1)"
  shows "\<exists>ok. h1 = h @ [SSH (cm_host c) (cm_port c) (deploy_cmd name version) ok]"
proof -
  obtain r h2 where run: "run_state (deployCluster e c name version) h = (r, h2)" by (metis surj_pair)
  show ?thesis
  proof (cases r)
    case (Done x)
    show ?thesis
    proof (cases x)
      case (Inr u)
      with run Done have "h2 = h @ [SSH (cm_host c) (cm_port c) (deploy_cmd name version) True]"
        by (simp add: deployCluster_def deploy_cmd_def unit_of_ret on_control_ret)
      with assms run Done Inr show ?thesis by (auto simp: catching_def io_simps)
    next
      case (Inl err)
      with assms run Done obtain cl where "err = ErrClusterDuplicated cl" "h1 = h2"
        by (auto simp: catching_def return_error_def io_simps split: if_splits)
           (cases err, auto simp: io_simps split: option.splits)
      with run Done Inl show ?thesis
        by (auto simp: deployCluster_def deploy_cmd_def unit_of_def io_then_def on_control_def control_client_def
            NewSSHClient_def run_or_def RunCommand_def io_simps split: option.splits prod.splits)
    qed
  qed (use assms run in \<open>auto simp: catching_def\<close>)
qed

lemma emits_extends: "emits (\<lambda>_. True) m \<Longrightarrow> run_state m h = (r, h1) \<Longrightarrow> \<exists>evs. h1 = h @ evs"
  unfolding emits_def by blast

lemma emits_any [emits_intros]:
  "emits (\<lambda>_. True) (setTiUPMirror e c m)" "emits (\<lambda>_. True) (replace e lib c v)" "emits (\<lambda>_. True) (patch e lib c n v)"
  unfolding setTiUPMirror_def replace_def patch_def control_client_def Let_def by (intro emits_intros; simp)+

definition start_cmd :: "string \<Rightarrow> string" where
  "start_cmd clusterName = tiup @ ''cluster start '' @ clusterName"

lemma InstallCluster_events:
  assumes "run_state (InstallCluster e lib c name version mirror) h = (ret u, h')"
  shows "\<exists>out pre ok mid post. tl_marshal_spec lib (cm_spec c) = Inr out \<and>
    h' = h @ [SCP (cm_host c) (cm_port c) ''/root/topology.yaml'' out True] @ pre @
         [SSH (cm_host c) (cm_port c) (deploy_cmd name (tv_Version version)) ok] @ mid @
         [SSH (cm_host c) (cm_port c) (start_cmd name) True] @ post"
proof -
  let ?mirror = "if TrimSpace mirror \<noteq> [] then setTiUPMirror e c mirror else io_ret ()"
  let ?replace = "if shouldPatch version \<and> tv_PatchPolicy version = PatchPolicyReplace then replace e lib c version else io_ret ()"
  let ?patch = "if shouldPatch version \<and> (tv_PatchPolicy version = PatchPolicyPatch \<or> tv_PatchPolicy version = PatchPolicyNone)
            then patch e lib c name version else io_ret ()"
  from assms obtain out where out: "tl_marshal_spec lib (cm_spec c) = Inr out"
    by (auto simp: InstallCluster_def io_simps split: sum.splits)
  let ?scp = "SCP (cm_host c) (cm_port c) ''/root/topology.yaml'' out True"
  from assms out obtain u1 h1 u2 h2 u3 h3 u4 where
    mirror: "run_state ?mirror (h @ [?scp]) = (ret u1, h1)" and
    deploy: "run_state (catching (deployCluster e c name (tv_Version version))
       (\<lambda>err. if IgnoreClusterDuplicated err \<noteq> None then return_error err else io_ret ())) h1 = (ret u2, h2)" and
    repl: "run_state ?replace h2 = (ret u3, h3)" and
    start: "run_state ?patch (h3 @ [SSH (cm_host c) (cm_port c) (start_cmd name) True]) = (ret u4, h')"
    by (auto simp: InstallCluster_def run_io_then_ret writeTopologyFileOnControl_def startCluster_def start_cmd_def
        unit_of_ret on_control_ret)
  have "emits (\<lambda>_. True) ?mirror" "emits (\<lambda>_. True) ?replace" "emits (\<lambda>_. True) ?patch" by (intro emits_intros; simp)+
  then obtain evs1 evs3 evs4 where "h1 = (h @ [?scp]) @ evs1" "h3 = h2 @ evs3"
    "h' = (h3 @ [SSH (cm_host c) (cm_port c) (start_cmd name) True]) @ evs4"
    using emits_extends [OF _ mirror] emits_extends [OF _ repl] emits_extends [OF _ start] by metis
  moreover obtain ok where "h2 = h1 @ [SSH (cm_host c) (cm_port c) (deploy_cmd name (tv_Version version)) ok]"
    using deploy_done [OF deploy] by blast
  ultimately show ?thesis
    using out by (intro exI [of _ out] exI [of _ evs1] exI [of _ ok] exI [of _ evs3] exI [of _ evs4]) simp
qed

text \<open>An installation that succeeds has copied the description to the control node, then
  deployed the cluster (or found it deployed), and started it after that.\<close>

theorem install_order:
  assumes "run_state (InstallCluster e lib c name version mirror) h = (ret u, h')"
  shows "\<exists>out pre ok mid post. tl_marshal_spec lib (cm_spec c) = Inr out \<and>
    h' = h @ [SCP (cm_host c) (cm_port c) ''/root/topology.yaml'' out True] @ pre @
         [SSH (cm_host c) (cm_port c) (deploy_cmd name (tv_Version version)) ok] @ mid @
         [SSH (cm_host c) (cm_port c) (start_cmd name) True] @ post"
  using assms by (rule InstallCluster_events)

definition demo_lib :: tiup_libs where
  "demo_lib = \<lparr>tl_unmarshal = demo_um, tl_defaults = demo_ds, tl_marshal_spec = (\<lambda>s. Inr ''spec''),
     tl_marshal_meta = (\<lambda>u v s. Inr ''meta''), tl_marshal_scale = (\<lambda>s. Inr ''scale''), tl_url_path = Inr\<rparr>"

definition demo_manager :: ClusterManager where
  "demo_manager = \<lparr>cm_spec = \<lparr>sp_GlobalOptions = global_options None,
       sp_ServerConfigs = \<lparr>ssc_TiDB = [], ssc_TiKV = [], ssc_PD = []\<rparr>, sp_TiDBServers = [], sp_TiKVServers = [],
       sp_PDServers = [], sp_PumpServers = [], sp_Drainers = [], sp_Monitors = [], sp_Grafanas = [], sp_Alertmanagers = [],
       sp_CDCServers = [], sp_TiFlashServers = []\<rparr>,
     cm_control = zero_ResourceStatus\<lparr>trst_HostIP := ''10.0.0.1'', trst_SSHPort := 90\<rparr>\<rparr>"

theorem install_order_witness:
  "\<exists>out pre ok mid post. tl_marshal_spec demo_lib (cm_spec demo_manager) = Inr out \<and>
    snd (run_state (InstallCluster demo_env demo_lib demo_manager ''t'' demo_version []) []) =
      [] @ [SCP (cm_host demo_manager) (cm_port demo_manager) ''/root/topology.yaml'' out True] @ pre @
         [SSH (cm_host demo_manager) (cm_port demo_manager) (deploy_cmd ''t'' (tv_Version demo_version)) ok] @ mid @
         [SSH (cm_host demo_manager) (cm_port demo_manager) (start_cmd ''t'') True] @ post"
proof -
  have "\<exists>h'. run_state (InstallCluster demo_env demo_lib demo_manager ''t'' demo_version []) [] = (ret (), h')"
    by (simp add: InstallCluster_def demo_lib_def demo_env_def run_io_then_ret writeTopologyFileOnControl_def TrimSpace_def
        io_simps shouldPatch_def demo_version_def startCluster_def unit_of_ret on_control_ret catching_def deployCluster_def
        on_control_def control_client_def unit_of_def io_then_def run_or_def RunCommand_def NewSSHClient_def scp_Copy_def)
  then obtain h' where run: "run_state (InstallCluster demo_env demo_lib demo_manager ''t'' demo_version []) [] = (ret (), h')"
    by blast
  from install_order [OF run] show ?thesis by (simp add: run)
qed

section \<open>Reading the display of the nodes\<close>

text \<open>The list of nodes in a status is read back from the table \<open>tiup\<close> displays: the first
  word of exactly those rows that mention the status.\<close>

theorem status_nodes_display:
  assumes "rows \<noteq> []" "\<And>row word. row \<in> set rows \<Longrightarrow> word \<in> set row \<Longrightarrow> CHR 0x0A \<notin> set word \<and> CHR '' '' \<notin> set word"
    and "\<And>row. row \<in> set rows \<Longrightarrow> row \<noteq> []"
  shows "status_nodes status (Join (map (\<lambda>row. Join row '' '') rows) [CHR 0x0A]) =
    map hd (filter (\<lambda>row. Contains (Join row '' '') status) rows)"
proof -
  have no_nl: "CHR 0x0A \<notin> set (Join row '' '')" if "row \<in> set rows" for row
  proof -
    have "set (Join row '' '') \<subseteq> \<Union> (set ` set row) \<union> {CHR '' ''}"
      by (induction row "'' ''" rule: Join.induct) auto
    with assms(2) [OF that] show ?thesis by auto
  qed
  have words: "Split (Join row '' '') '' '' = row" if "row \<in> set rows" for row
    using assms that by (intro Split_Join) auto
  have "Split (Join (map (\<lambda>row. Join row '' '') rows) [CHR 0x0A]) [CHR 0x0A] = map (\<lambda>row. Join row '' '') rows"
    using assms(1) no_nl by (intro Split_Join) auto
  then show ?thesis
    unfolding status_nodes_def by (simp add: filter_map o_def words cong: map_cong)
qed

theorem status_nodes_display_witness:
  "status_nodes ''Offline'' (Join (map (\<lambda>row. Join row '' '') [[''10.1.0.1:20160'', ''tikv'', ''Up''], [''10.1.0.2:20160'', ''tikv'', ''Offline'']]) [CHR 0x0A]) =
   [''10.1.0.2:20160'']"
proof -
  let ?rows = "[[''10.1.0.1:20160'', ''tikv'', ''Up''], [''10.1.0.2:20160'', ''tikv'', ''Offline'']]"
  have "status_nodes ''Offline'' (Join (map (\<lambda>row. Join row '' '') ?rows) [CHR 0x0A]) =
      map hd (filter (\<lambda>row. Contains (Join row '' '') ''Offline'') ?rows)"
    by (rule status_nodes_display) auto
  also have "\<dots> = [''10.1.0.2:20160'']" by code_simp
  finally show ?thesis .
qed

end
