(* ===== verification/Topology_Props.thy ===== *)
theory Topology_Props
  imports Topology_Reconcile Tiup_Props Request_Props
begin

text \<open>
  Properties of the topology controller: its state machine, what has happened before a cluster is
  called ready, before a deleted topology is let go, and which ports the containers expose.
\<close>

section \<open>What the steps may write\<close>

text \<open>Everything but a status or a topology: the helpers below write neither to the topology.\<close>

definition not_topology :: "event \<Rightarrow> bool" where
  "not_topology ev \<longleftrightarrow> (\<forall>ct err. ev \<noteq> StatusUpdate (KTopology ct) err \<and> ev \<noteq> Update (KTopology ct) err)"

lemma not_topology_simps [simp]:
  "not_topology (Get k n)" "not_topology (List k2 ns)" "not_topology (Recorded o1 t r m)" "not_topology (SSH host p c ok)"
  "not_topology (SCP host p f c ok)" "not_topology (HTTP u fn b ok)" "not_topology (StatusUpdate (KResource x) err)"
  by (simp_all add: not_topology_def)

lemma emits_child_resources [emits_intros]: "(\<And>k n. P (List k n)) \<Longrightarrow> emits P (child_resources e rr)"
  unfolding child_resources_def by (intro emits_intros)

lemma emits_getResourceMachine [emits_intros]: "(\<And>k n. P (Get k n)) \<Longrightarrow> emits P (getResourceMachine e r)"
  unfolding getResourceMachine_def Let_def by (intro emits_intros)

lemma emits_init_done [emits_intros]: "emits P (init_done b err)"
  by (simp add: init_done_def emits_return)

lemma emits_init_nodes [emits_intros]:
  assumes "\<And>x err. P (StatusUpdate (KResource x) err)" "\<And>b. emits P (k b)"
  shows "emits P (init_nodes e prepare img rs requeue k)"
proof (induction rs arbitrary: requeue)
  case Nil
  then show ?case by (simp add: assms)
next
  case (Cons r rs)
  then show ?case
    by (cases "tr_State r") (auto intro!: emits_intros assms)
qed

lemma emits_with_index [emits_intros]: "(\<And>ix. emits P (k ix)) \<Longrightarrow> emits P (with_index lib ct rs k)"
  unfolding with_index_def by (intro emits_intros)

lemma emits_manager [emits_intros]: "emits P (manager lib ct rs ips)"
  by (simp add: manager_def emits_return)

lemma emits_after_init [emits_intros]: "emits P m \<Longrightarrow> emits P k \<Longrightarrow> emits P (after_init m k)"
  unfolding after_init_def by (intro emits_intros)

lemma emits_recording [emits_intros]:
  "emits P m \<Longrightarrow> (\<And>o1 t r m. P (Recorded o1 t r m)) \<Longrightarrow> emits P (recording ct reason m)"
  unfolding recording_def by (intro emits_intros)

lemma emits_catching [emits_intros]: "emits P m \<Longrightarrow> (\<And>err. emits P (f err)) \<Longrightarrow> emits P (catching m f)"
  unfolding catching_def by (intro emits_intros)

lemma emits_return_error [emits_intros]: "emits P (return_error err)"
  unfolding return_error_def by (intro emits_intros)

lemma emits_initResource [emits_intros]:
  assumes "\<And>x err. P (StatusUpdate (KResource x) err)" "\<And>k n. P (Get k n)" "\<And>u n b ok. P (HTTP u n b ok)"
  shows "emits P (initResource e lib ct rs)"
  unfolding initResource_def initTiDBResources_def initDMResources_def initFlinkResources_def init_haproxy_def Let_def
  by (auto intro!: emits_intros assms split: option.split list.split)

lemmas manager_op_defs = InstallCluster_def UpdateCluster_def UpgradeCluster_def ScaleInCluster_def ScaleOutCluster_def
  PruneCluster_def GetNodeStatusList_def GetClusterVersion_def UninstallCluster_def deployCluster_def startCluster_def
  reloadCluster_def setTiUPMirror_def patch_def replace_def control_client_def writeTopologyFileOnControl_def
  writeScaleOutFileOnControl_def writeTemporaryTopologyMetaOnControl_def Let_def

lemma emits_key [emits_intros]: "emits P (State (\<lambda>h. (ask_key e h, h)))"
  by (simp add: emits_def)

lemma manager_silent:
  "emits not_topology (InstallCluster e lb c n v m)" "emits not_topology (UpdateCluster e lb c n pre cur)"
  "emits not_topology (UpgradeCluster e c n cur)" "emits not_topology (ScaleInCluster e c n pre cur ips)"
  "emits not_topology (ScaleOutCluster e lb c n pre cur ips)" "emits not_topology (PruneCluster e c n)"
  "emits not_topology (GetNodeStatusList e c n st)" "emits not_topology (UninstallCluster e c n)"
  unfolding manager_op_defs by (intro emits_intros; simp)+

lemma dm_silent:
  "emits not_topology (DM_InstallCluster e dlb dc n v)" "emits not_topology (DM_UninstallCluster e dc n)"
  unfolding DM_InstallCluster_def DM_UninstallCluster_def DM_deployCluster_def DM_startCluster_def dm_control_run_def
    DM_writeTopologyFileOnControl_def Let_def
  by (intro emits_intros; simp)+

lemma install_silent: "emits not_topology (install e lib ct rr)"
  unfolding install_def installTiDBCluster_def installFlinkCluster_def installDMCluster_def Let_def
  by (intro emits_intros manager_silent dm_silent; simp)

lemma update_silent: "emits not_topology (updateTiDBCluster e lib ct pre cur rr)"
  unfolding updateTiDBCluster_def upgradeTiDBCluster_def updateClusterConfig_def scaleInTiDBCluster_def scaleOutTiDBCluster_def Let_def
  by (intro emits_intros manager_silent; simp)

lemma scaling_silent:
  "emits not_topology (checkTiKVFinishedScaleIn e lib ct rr)" "emits not_topology (pruneTiDBCluster e lib ct rr)"
  unfolding checkTiKVFinishedScaleIn_def pruneTiDBCluster_def Let_def by (intro emits_intros manager_silent; simp)+

lemma emits_delete_proxy [emits_intros]:
  assumes "\<And>k n. P (Get k n)" "\<And>u n b ok. P (HTTP u n b ok)"
  shows "emits P (delete_proxy_configs e ct hap rs)"
proof (induction rs)
  case Nil
  then show ?case by (simp add: emits_intros)
next
  case (Cons r rs)
  show ?case unfolding delete_proxy_configs.simps by (intro emits_intros assms Cons)
qed

lemma delete_silent: "emits not_topology (deleteTopology e lib ct)"
  unfolding deleteTopology_def ignoring_absent_def by (intro emits_intros manager_silent dm_silent; simp)

section \<open>The state machine\<close>

text \<open>
  The writes to the status of a topology whose specification has the TiDB cluster \<open>tc\<close>. The
  recorded cluster changes only when it is first remembered and when an update is complete.
\<close>

inductive topo_trans :: "TiDBCluster option \<Rightarrow> TestClusterTopologyStatus \<Rightarrow> TestClusterTopologyStatus \<Rightarrow> bool" where
  start: "ctst_State s = ClusterTopologyStateNone \<Longrightarrow> topo_trans tc s (s\<lparr>ctst_State := ClusterTopologyStatePending\<rparr>)"
| installed: "ctst_State s = ClusterTopologyStatePending \<Longrightarrow> topo_trans tc s (s\<lparr>ctst_State := ClusterTopologyStateReady\<rparr>)"
| remember:
    "ctst_State s = ClusterTopologyStateReady \<Longrightarrow> ctst_PreTiDBCluster s = None \<Longrightarrow>
     topo_trans (Some cur) s (s\<lparr>ctst_PreTiDBCluster := Some cur\<rparr>)"
| drain:
    "ctst_State s = ClusterTopologyStateReady \<Longrightarrow> ctst_PreTiDBCluster s = Some pre \<Longrightarrow>
     \<not> IsClusterConfigModified pre cur \<Longrightarrow> tci_IsScaling (ctst_TiDBClusterInfo s) \<Longrightarrow>
     topo_trans (Some cur) s (s\<lparr>ctst_TiDBClusterInfo := (ctst_TiDBClusterInfo s)\<lparr>
       tci_PendingOfflineList := p, tci_OfflineList := q\<rparr>\<rparr>)"
| drained:
    "ctst_State s = ClusterTopologyStateReady \<Longrightarrow> ctst_PreTiDBCluster s = Some pre \<Longrightarrow>
     \<not> IsClusterConfigModified pre cur \<Longrightarrow> tci_IsScaling (ctst_TiDBClusterInfo s) \<Longrightarrow>
     topo_trans (Some cur) s (s\<lparr>ctst_TiDBClusterInfo := \<lparr>
       tci_IsScaling = False, tci_PendingOfflineList = [], tci_OfflineList = []\<rparr>\<rparr>)"
| change:
    "ctst_State s = ClusterTopologyStateReady \<Longrightarrow> ctst_PreTiDBCluster s = Some pre \<Longrightarrow>
     IsClusterConfigModified pre cur \<Longrightarrow> topo_trans (Some cur) s (s\<lparr>ctst_State := ClusterTopologyStateUpdating\<rparr>)"
| updated:
    "ctst_State s = ClusterTopologyStateUpdating \<Longrightarrow> ctst_PreTiDBCluster s = Some pre \<Longrightarrow>
     topo_trans (Some cur) s (s\<lparr>ctst_TiDBClusterInfo := (ctst_TiDBClusterInfo s)\<lparr>
         tci_IsScaling := tci_IsScaling (ctst_TiDBClusterInfo s) \<or> cluster_IsScaleIn pre cur\<rparr>,
       ctst_PreTiDBCluster := Some cur, ctst_State := ClusterTopologyStateReady\<rparr>)"

text \<open>A write keeps name and specification and follows a transition.\<close>

definition topo_step :: "TestClusterTopology \<Rightarrow> TestClusterTopology \<Rightarrow> bool" where
  "topo_step ct ct' \<longleftrightarrow> ct_Spec ct' = ct_Spec ct \<and> meta_Name (ct_Meta ct') = meta_Name (ct_Meta ct) \<and>
     topo_trans (cts_TiDBCluster (ct_Spec ct)) (ct_Status ct) (ct_Status ct')"

definition topo_ok :: "TestClusterTopology \<Rightarrow> event \<Rightarrow> bool" where
  "topo_ok ct ev \<longleftrightarrow> (\<forall>ct' err. ev = StatusUpdate (KTopology ct') err \<longrightarrow> topo_step ct ct')"

lemma topo_ok_simps [simp]:
  "topo_ok ct (Get k n)" "topo_ok ct (List k2 ns)" "topo_ok ct (Recorded o1 t r m)" "topo_ok ct (Update x err)"
  "topo_ok ct (StatusUpdate (KTopology ct') err) \<longleftrightarrow> topo_step ct ct'"
  by (simp_all add: topo_ok_def)

lemma silent_ok: "emits not_topology m \<Longrightarrow> emits (topo_ok ct) m"
  by (erule emits_weaken) (auto simp: not_topology_def topo_ok_def)

lemma set_ct_step:
  "topo_trans (cts_TiDBCluster (ct_Spec ct)) (ct_Status ct) (f (ct_Status ct)) \<Longrightarrow> topo_step ct (set_ct f ct)"
  by (simp add: topo_step_def set_ct_def)

lemma emits_write_status: "topo_step ct ct' \<Longrightarrow> emits (topo_ok ct) (write_status e ct')"
  unfolding write_status_def by (intro emits_intros) simp

lemma emits_topology_request [emits_intros]: "(\<And>k n. P (Get k n)) \<Longrightarrow> emits P (Get_topology_request e req ct)"
  unfolding Get_topology_request_def by (intro emits_intros)

lemma pending_ok:
  assumes "ctst_State (ct_Status ct) = ClusterTopologyStatePending"
  shows "emits (topo_ok ct) (Topology_reconcilePending e lib req ct)"
  unfolding Topology_reconcilePending_def
  by (intro emits_intros emits_write_status set_ct_step silent_ok install_silent topo_trans.installed assms; simp)

lemma check_drained:
  assumes "run_state (checkTiKVFinishedScaleIn e lib ct rr) h = (ret (fin, ct'), h')"
  shows "\<exists>p q. ct' = set_ct (\<lambda>s. s\<lparr>ctst_TiDBClusterInfo := (ctst_TiDBClusterInfo s)\<lparr>
      tci_PendingOfflineList := p, tci_OfflineList := q\<rparr>\<rparr>) ct \<and> (fin \<longleftrightarrow> p = [] \<and> q = [])"
  using assms
  by (cases "run_state (child_resources e rr) h")
     (auto simp: checkTiKVFinishedScaleIn_def run_io_then_ret set_ct_def Let_def io_simps)

lemma scaling_ok:
  assumes "ctst_State (ct_Status ct) = ClusterTopologyStateReady" "ctst_PreTiDBCluster (ct_Status ct) = Some pre"
    and "cts_TiDBCluster (ct_Spec ct) = Some cur" "\<not> IsClusterConfigModified pre cur"
    and "tci_IsScaling (ctst_TiDBClusterInfo (ct_Status ct))"
  shows "emits (topo_ok ct) (reconcile_scaling e lib req ct)"
proof -
  have step: "topo_step ct ct'" if "run_state (checkTiKVFinishedScaleIn e lib ct rr) h = (ret (fin, ct'), h')" for rr h fin ct' h'
    using check_drained [OF that] assms topo_trans.drain by (auto simp: topo_step_def set_ct_def)
  have last: "topo_step ct (set_ct (\<lambda>s. s\<lparr>ctst_TiDBClusterInfo := (ctst_TiDBClusterInfo s)\<lparr>tci_IsScaling := False\<rparr>\<rparr>) ct')"
    if "run_state (checkTiKVFinishedScaleIn e lib ct rr) h = (ret (True, ct'), h')" for rr h ct' h'
  proof -
    have "ct_Status (set_ct (\<lambda>s. s\<lparr>ctst_TiDBClusterInfo := (ctst_TiDBClusterInfo s)\<lparr>tci_IsScaling := False\<rparr>\<rparr>) ct')
        = (ct_Status ct)\<lparr>ctst_TiDBClusterInfo := \<lparr>tci_IsScaling = False, tci_PendingOfflineList = [], tci_OfflineList = []\<rparr>\<rparr>"
      using check_drained [OF that] by (auto simp: set_ct_def)
    then show ?thesis
      using check_drained [OF that] topo_trans.drained [OF assms(1,2,4,5)] assms(3) by (auto simp: topo_step_def) (auto simp: set_ct_def)
  qed
  show ?thesis
    unfolding reconcile_scaling_def
    by (intro emits_intros emits_write_status silent_ok scaling_silent) (auto dest: step last)
qed

lemma ready_ok:
  assumes "ctst_State (ct_Status ct) = ClusterTopologyStateReady"
  shows "emits (topo_ok ct) (Topology_reconcileReady e lib req ct)"
  unfolding Topology_reconcileReady_def
  by (intro emits_intros emits_write_status set_ct_step scaling_ok assms)
     (auto intro: topo_trans.remember topo_trans.change assms)

lemma updated_step:
  assumes "ctst_State (ct_Status ct) = ClusterTopologyStateUpdating" "ctst_PreTiDBCluster (ct_Status ct) = Some pre"
    and "cts_TiDBCluster (ct_Spec ct) = Some cur"
  shows "topo_step ct (set_ct (\<lambda>s. s\<lparr>ctst_PreTiDBCluster := Some cur, ctst_State := ClusterTopologyStateReady\<rparr>)
    (if cluster_IsScaleIn pre cur
     then set_ct (\<lambda>s. s\<lparr>ctst_TiDBClusterInfo := (ctst_TiDBClusterInfo s)\<lparr>tci_IsScaling := True\<rparr>\<rparr>) ct else ct))"
  using topo_trans.updated [OF assms(1,2), of cur] assms(3)
  by (cases "cluster_IsScaleIn pre cur") (simp_all add: topo_step_def set_ct_def)

lemma updating_ok:
  assumes "ctst_State (ct_Status ct) = ClusterTopologyStateUpdating"
  shows "emits (topo_ok ct) (reconcileUpdating e lib req ct)"
  unfolding reconcileUpdating_def Let_def
  by (intro emits_intros silent_ok update_silent emits_write_status updated_step assms; simp)

lemma topology_state_ok: "emits (topo_ok ct) (reconcile_state e lib req ct)"
  unfolding reconcile_state_def
  by (auto split: ClusterTopologyState.split
      intro: pending_ok ready_ok updating_ok emits_write_status set_ct_step topo_trans.start emits_finish)

lemma finalize_ok: "emits (topo_ok ct) (finalize_topology e lib req ct)"
  unfolding finalize_topology_def by (intro emits_intros silent_ok delete_silent; simp)

definition topo_follows :: "env \<Rightarrow> nsname \<Rightarrow> event \<Rightarrow> bool" where
  "topo_follows e req ev \<longleftrightarrow>
     (\<forall>ct' err. ev = StatusUpdate (KTopology ct') err \<longrightarrow> (\<exists>h ct. ask_topology e h req = Inr ct \<and> topo_step ct ct'))"

lemma ok_follows:
  assumes "ask_topology e h req = Inr ct0" "ct_Spec ct = ct_Spec ct0" "ct_Status ct = ct_Status ct0"
    "meta_Name (ct_Meta ct) = meta_Name (ct_Meta ct0)" "emits (topo_ok ct) m"
  shows "emits (topo_follows e req) m"
  using assms(5)
proof (rule emits_weaken)
  fix ev
  assume "topo_ok ct ev"
  then show "topo_follows e req ev"
    unfolding topo_follows_def topo_ok_def topo_step_def assms(2-4) using assms(1) by blast
qed

lemma topology_follows: "emits (topo_follows e req) (Topology_Reconcile e lib req)"
proof -
  have other: "topo_follows e req (Get k n)" "topo_follows e req (Update x err)" for k n x err
    by (simp_all add: topo_follows_def)
  have "emits (topo_follows e req) (finalize_topology e lib req ct)"
    "emits (topo_follows e req) (reconcile_state e lib req ct)"
    "emits (topo_follows e req) (reconcile_state e lib req (ct\<lparr>ct_Meta := add_finalizer (nn_Name req) (ct_Meta ct)\<rparr>))"
    if "ask_topology e h req = Inr ct" for h ct
    using ok_follows [OF that _ _ _ finalize_ok] ok_follows [OF that _ _ _ topology_state_ok] by (simp_all add: add_finalizer_def)
  then show ?thesis
    unfolding Topology_Reconcile_def Let_def by (intro emits_intros other) (auto simp: io_simps)
qed

text \<open>C26: every status the topology controller writes follows the state machine from the topology
  it read: a cluster is remembered only when ready, replaced as the recorded one only when its
  update is complete, and a scale-in that is drained is closed with empty lists.\<close>

theorem topology_steps: "emits (topo_follows e req) (Topology_Reconcile e lib req)"
  by (rule topology_follows)

section \<open>Reachable topologies\<close>

definition new_status :: TestClusterTopologyStatus where
  "new_status = \<lparr>ctst_PreTiDBCluster = None, ctst_TiDBClusterInfo = \<lparr>tci_IsScaling = False,
      tci_PendingOfflineList = [], tci_OfflineList = []\<rparr>, ctst_State = ClusterTopologyStateNone\<rparr>"

text \<open>
  The topologies that the API server can hold: one that has just been created; one whose
  specification or metadata somebody has changed in any way, since a status is not written with
  them; and one that a run of the controller has tried to write, in a world where every topology it
  may read under the name of the run is one of them.
\<close>

inductive topo_stored :: "topo_libs \<Rightarrow> TestClusterTopology \<Rightarrow> bool" for lib where
  created: "ct_Status ct = new_status \<Longrightarrow> topo_stored lib ct"
| edited: "topo_stored lib ct \<Longrightarrow> ct_Status ct' = ct_Status ct \<Longrightarrow> topo_stored lib ct'"
| written:
    "(\<And>h ct. ask_topology e h req = Inr ct \<Longrightarrow> topo_stored lib ct) \<Longrightarrow>
     run_state (Topology_Reconcile e lib req) h0 = (r, h0 @ evs) \<Longrightarrow>
     StatusUpdate (KTopology ct') err \<in> set evs \<Longrightarrow> topo_stored lib ct'"

text \<open>C29: in every topology that runs of the controller and edits by others lead to, a running update or a
  pending scale-in has a recorded cluster to compare with, so that \<open>reconcileUpdating\<close> never follows
  a nil \<open>PreTiDBCluster\<close>; and no cluster is recorded before the installation is over.\<close>

theorem topology_recorded:
  assumes "topo_stored lib ct"
  shows "(ctst_State (ct_Status ct) = ClusterTopologyStateUpdating \<or> tci_IsScaling (ctst_TiDBClusterInfo (ct_Status ct)) \<longrightarrow>
      ctst_PreTiDBCluster (ct_Status ct) \<noteq> None) \<and>
    (ctst_PreTiDBCluster (ct_Status ct) \<noteq> None \<longrightarrow>
      ctst_State (ct_Status ct) \<in> {ClusterTopologyStateReady, ClusterTopologyStateUpdating})"
  using assms
proof induction
  case (written e req h0 r evs ct' err)
  from emitsD [OF topology_follows written.hyps(2,3)]
  obtain h ct where "ask_topology e h req = Inr ct" and step: "topo_step ct ct'"
    unfolding topo_follows_def by blast
  then have "topo_trans (cts_TiDBCluster (ct_Spec ct)) (ct_Status ct) (ct_Status ct')" by (simp add: topo_step_def)
  then show ?case using written.IH [OF \<open>ask_topology e h req = Inr ct\<close>] by cases auto
qed (simp_all add: new_status_def)

text \<open>
  A topology without a cluster is created and becomes ready at once; then the demonstration cluster
  is written into its specification, remembered by the controller, and loses the store on \<open>n2\<close>.
\<close>

definition demo_stage :: "TiDBCluster option \<Rightarrow> TiDBCluster option \<Rightarrow> ClusterTopologyState \<Rightarrow> TestClusterTopology" where
  "demo_stage tc pre st =
     (let ct = demo_topology [''n1''] [''n1'']
      in ct\<lparr>ct_Meta := demo_meta ''t'' ''u9''\<lparr>meta_Finalizers := [nn_Name relationshipName]\<rparr>,
            ct_Spec := (ct_Spec ct)\<lparr>cts_ResourceRequest := ''r'', cts_TiDBCluster := tc, cts_FlinkCluster := None, cts_DMCluster := None\<rparr>,
            ct_Status := new_status\<lparr>ctst_PreTiDBCluster := pre, ctst_State := st\<rparr>\<rparr>)"

definition demo_stage_env :: "TestClusterTopology \<Rightarrow> env" where
  "demo_stage_env ct = demo_env\<lparr>ask_topology := \<lambda>h n. Inr ct,
     ask_request := \<lambda>h n. Inr (demo_request\<lparr>trr_Status := \<lparr>trrst_State = TestResourceRequestReady\<rparr>\<rparr>)\<rparr>"

lemma demo_stage_parts [simp]:
  "ct_Status (demo_stage tc pre st) = new_status\<lparr>ctst_PreTiDBCluster := pre, ctst_State := st\<rparr>"
  "cts_TiDBCluster (ct_Spec (demo_stage tc pre st)) = tc" "cts_FlinkCluster (ct_Spec (demo_stage tc pre st)) = None"
  "cts_DMCluster (ct_Spec (demo_stage tc pre st)) = None" "cts_ResourceRequest (ct_Spec (demo_stage tc pre st)) = ''r''"
  "meta_DeletionTimestamp (ct_Meta (demo_stage tc pre st)) = None"
  "meta_Finalizers (ct_Meta (demo_stage tc pre st)) = [nn_Name relationshipName]"
  "set_ct (\<lambda>s. s\<lparr>ctst_State := st'\<rparr>) (demo_stage tc pre st) = demo_stage tc pre st'"
  "set_ct (\<lambda>s. s\<lparr>ctst_PreTiDBCluster := pre'\<rparr>) (demo_stage tc pre st) = demo_stage tc pre' st"
  by (simp_all add: demo_stage_def Let_def demo_meta_def set_ct_def)

lemma demo_stage_world [simp]:
  "ask_topology (demo_stage_env ct) h n = Inr ct" "ask_write (demo_stage_env ct) h x = None"
  "ask_request (demo_stage_env ct) h n = Inr (demo_request\<lparr>trr_Status := \<lparr>trrst_State = TestResourceRequestReady\<rparr>\<rparr>)"
  by (simp_all add: demo_stage_env_def)

lemmas demo_stage_simps = Topology_Reconcile_def reconcile_state_def write_status_def new_status_def io_simps StringsContains_iff

lemma stage_written:
  assumes "topo_stored lib (demo_stage tc pre st)"
    and "\<exists>r evs err. run_state (Topology_Reconcile (demo_stage_env (demo_stage tc pre st)) lib relationshipName) [] = (r, [] @ evs) \<and>
      StatusUpdate (KTopology (demo_stage tc pre' st')) err \<in> set evs"
  shows "topo_stored lib (demo_stage tc pre' st')"
proof -
  have "topo_stored lib ct" if "ask_topology (demo_stage_env (demo_stage tc pre st)) h relationshipName = Inr ct" for h ct
    using that assms(1) by (simp add: demo_stage_env_def)
  with assms(2) topo_stored.written show ?thesis by blast
qed

lemma demo_updating_stored:
  "topo_stored lib (demo_stage (Some (demo_cluster [''n1''])) (Some (demo_cluster [''n1'', ''n2''])) ClusterTopologyStateUpdating)"
proof -
  let ?c = "demo_cluster [''n1'', ''n2'']" and ?d = "demo_cluster [''n1'']"
  have "topo_stored lib (demo_stage None None ClusterTopologyStateNone)"
    by (rule topo_stored.created) (simp add: new_status_def)
  then have "topo_stored lib (demo_stage None None ClusterTopologyStatePending)"
    by (rule stage_written) (simp add: demo_stage_simps)
  then have "topo_stored lib (demo_stage None None ClusterTopologyStateReady)"
    by (rule stage_written)
       (simp add: demo_stage_simps Topology_reconcilePending_def Get_topology_request_def install_def handle_def)
  then have "topo_stored lib (demo_stage (Some ?c) None ClusterTopologyStateReady)"
    by (rule topo_stored.edited) simp
  then have "topo_stored lib (demo_stage (Some ?c) (Some ?c) ClusterTopologyStateReady)"
    by (rule stage_written) (simp add: demo_stage_simps Topology_reconcileReady_def)
  then have "topo_stored lib (demo_stage (Some ?d) (Some ?c) ClusterTopologyStateReady)"
    by (rule topo_stored.edited) simp
  then show ?thesis
    by (rule stage_written)
       (simp add: demo_stage_simps Topology_reconcileReady_def IsClusterConfigModified_def demo_cluster_simps)
qed

theorem topology_recorded_witness:
  "\<forall>lib. ctst_PreTiDBCluster (ct_Status (demo_stage (Some (demo_cluster [''n1''])) (Some (demo_cluster [''n1'', ''n2'']))
     ClusterTopologyStateUpdating)) \<noteq> None"
  using topology_recorded [OF demo_updating_stored] by simp

text \<open>
  The webhook accepts an update that takes the TiDB cluster out of the specification; while an
  update of the cluster is running, the reconciler then follows a nil pointer.
\<close>

lemma dropped_cluster_accepted:
  "cts_TiDBCluster (ct_Spec r) = None \<Longrightarrow> Topology_ValidateUpdate Diff checkMaps r old = None"
  by (simp add: Topology_ValidateUpdate_def)

lemma dropped_cluster_panics:
  assumes "cts_TiDBCluster (ct_Spec ct) = None" "ctst_State (ct_Status ct) = ClusterTopologyStateUpdating"
    and "ask_request e h \<lparr>nn_Namespace = nn_Namespace req, nn_Name = cts_ResourceRequest (ct_Spec ct)\<rparr> = Inr rr"
  shows "fst (run_state (reconcile_state e lib req ct) h) = Panicked nil_deref"
  using assms
  by (cases "ctst_PreTiDBCluster (ct_Status ct)")
     (simp_all add: reconcile_state_def reconcileUpdating_def Get_topology_request_def io_simps)

end
