(* ===== verification/Topology_Order.thy ===== *)
theory Topology_Order
  imports Topology_Props
begin

text \<open>
  What the topology controller has done before it calls a cluster ready, and before it lets a
  deleted topology go.
\<close>

section \<open>Rules for the order of events\<close>

lemma silent_always:
  "emits not_topology m \<Longrightarrow> (\<And>ev h. not_topology ev \<Longrightarrow> P h ev) \<Longrightarrow> always P m h"
  by (rule always_emits)

section \<open>Started before ready\<close>

text \<open>
  The first time a topology with a TiDB cluster is called ready (no cluster is recorded yet), the
  start of the cluster has succeeded since the history had length \<open>n\<close>.
\<close>

definition started_first :: "nat \<Rightarrow> history \<Rightarrow> event \<Rightarrow> bool" where
  "started_first n h ev \<longleftrightarrow>
     (\<forall>ct err. ev = StatusUpdate (KTopology ct) err \<and> ctst_State (ct_Status ct) = ClusterTopologyStateReady \<and>
        ctst_PreTiDBCluster (ct_Status ct) = None \<and> cts_TiDBCluster (ct_Spec ct) \<noteq> None \<longrightarrow>
        (\<exists>host port. SSH host port (start_cmd (ct_Name ct)) True \<in> set (drop n h)))"

lemma started_first_other: "not_topology ev \<Longrightarrow> started_first n h ev"
  by (auto simp: started_first_def not_topology_def)

lemma started_first_simps [simp]:
  "started_first n h (Get k nn)" "started_first n h (Recorded o1 t r m)" "started_first n h (Update x err)"
  by (simp_all add: started_first_def)

lemma recording_ret:
  "run_state (recording ct reason m) h = (ret x, h1) \<longleftrightarrow> run_state m h = (ret x, h1)"
  by (cases "run_state m h") (auto simp: recording_def io_simps split: go.splits sum.splits)

lemma after_init_ret_False:
  "run_state (after_init m k) h = (ret False, h1) \<Longrightarrow>
   \<exists>r h0. run_state m h = (r, h0) \<and> run_state k h0 = (ret False, h1)"
  by (cases "run_state m h") (auto simp: after_init_def io_simps split: go.splits option.splits if_splits)

lemma InstallCluster_started:
  assumes "run_state (InstallCluster e lib c name version mirror) h = (ret u, h1)"
  shows "\<exists>evs host port. h1 = h @ evs \<and> SSH host port (start_cmd name) True \<in> set evs"
  using InstallCluster_events [OF assms] by (intro exI [of _ "drop (length h) h1"] exI [of _ "cm_host c"] exI [of _ "cm_port c"]) auto

lemma installTiDB_started:
  assumes "run_state (installTiDBCluster e lib ct tc rr) h = (ret False, h1)"
  shows "\<exists>evs host port. h1 = h @ evs \<and> SSH host port (start_cmd (ct_Name ct)) True \<in> set evs"
proof -
  from assms obtain items h2 r h3 where
    "run_state (child_resources e rr) h = (items, h2)"
    and init: "run_state (initResource e lib ct (filterClusterResources ct items)) h2 = (r, h3)"
    and rest: "run_state (io_then (manager lib ct (filterClusterResources ct items) (Some (hostname2ClusterIP items))) (\<lambda>c.
             io_then (InstallCluster e (tol_tiup lib) c (ct_Name ct) (tc_Version tc) (tc_TiUPMirror tc)) (\<lambda>_. io_ret False))) h3
         = (ret False, h1)"
    unfolding installTiDBCluster_def Let_def by (elim run_bindE) (blast dest: after_init_ret_False)
  then obtain e1 e2 where "h2 = h @ e1" "h3 = h2 @ e2"
    using emits_run [OF emits_child_resources [where P = "\<lambda>_. True"]] emits_run [OF emits_initResource [where P = "\<lambda>_. True"] init]
    by metis
  moreover from rest obtain c where "run_state (InstallCluster e (tol_tiup lib) c (ct_Name ct) (tc_Version tc) (tc_TiUPMirror tc)) h3 = (ret (), h1)"
    by (auto simp: run_io_then_ret io_simps manager_def)
  note InstallCluster_started [OF this]
  ultimately show ?thesis by (metis Un_iff append_assoc set_append)
qed

lemma install_started:
  assumes "run_state (install e lib ct rr) h = (ret (kind, False), h1)" "cts_TiDBCluster (ct_Spec ct) \<noteq> None"
  shows "\<exists>evs host port. h1 = h @ evs \<and> SSH host port (start_cmd (ct_Name ct)) True \<in> set evs"
  using assms by (auto simp: install_def run_io_then_ret recording_ret io_simps) (metis installTiDB_started)

lemma pending_started:
  assumes "n \<le> length h"
  shows "always (started_first n) (Topology_reconcilePending e lib req ct) h"
proof -
  have ready: "always (started_first n) (write_status e (set_ct (\<lambda>s. s\<lparr>ctst_State := ClusterTopologyStateReady\<rparr>) ct)) h2"
    if "cts_TiDBCluster (ct_Spec ct) \<noteq> None \<longrightarrow> (\<exists>host port. SSH host port (start_cmd (ct_Name ct)) True \<in> set (drop n h2))" for h2
    unfolding write_status_def using that
    by (intro always_intros) (auto simp: started_first_def set_ct_def)
  have inst: "cts_TiDBCluster (ct_Spec ct) \<noteq> None \<longrightarrow> (\<exists>host port. SSH host port (start_cmd (ct_Name ct)) True \<in> set (drop n h2))"
    if "run_state (install e lib ct rr) h1 = (ret (kind, requeue), h2)" "\<not> requeue" "n \<le> length h1" for rr h1 h2 kind requeue
  proof
    assume "cts_TiDBCluster (ct_Spec ct) \<noteq> None"
    with install_started [of e lib ct rr h1 kind h2] that obtain evs host port
      where "h2 = h1 @ evs" "SSH host port (start_cmd (ct_Name ct)) True \<in> set evs" by auto
    with that(3) show "\<exists>host port. SSH host port (start_cmd (ct_Name ct)) True \<in> set (drop n h2)" by auto
  qed
  have noted: "set (drop n h1) \<subseteq> set (drop n h2)"
    if "run_state (if b then Event a1 a2 a3 a4 else State_Monad.return ()) h1 = (u, h2)" for b a1 a2 a3 a4 h1 u h2
    using that by (auto simp: io_simps split: if_splits)
  have later: "cts_TiDBCluster (ct_Spec ct) \<noteq> None \<longrightarrow> (\<exists>host port. SSH host port (start_cmd (ct_Name ct)) True \<in> set (drop n h3))"
    if "run_state (Get_request e nn) h = (r, h1)" "run_state (install e lib ct rr) h1 = (ret x, h2)" "x = (kind, requeue)"
      "\<not> requeue" "run_state (if b then Event a1 a2 a3 a4 else State_Monad.return ()) h2 = (u, h3)"
    for nn r h1 rr x h2 kind requeue b a1 a2 a3 a4 u h3
  proof -
    from that(1) assms have "n \<le> length h1" by (auto simp: io_simps)
    with inst that(2-4) noted [OF that(5)] show ?thesis by blast
  qed
  show ?thesis
    unfolding Topology_reconcilePending_def Get_topology_request_def
    by (intro always_intros silent_always [OF install_silent started_first_other] ready)
       ((simp; fail) | (rule later, assumption+))+
qed

lemma step_started:
  assumes "ctst_State (ct_Status ct) \<noteq> ClusterTopologyStatePending" "topo_ok ct ev"
  shows "started_first n h ev"
proof -
  have "ctst_State s' \<noteq> ClusterTopologyStateReady \<or> ctst_PreTiDBCluster s' \<noteq> None"
    if "topo_trans tc s s'" "ctst_State s \<noteq> ClusterTopologyStatePending" for tc s s'
    using that by cases auto
  with assms show ?thesis unfolding started_first_def topo_ok_def topo_step_def by blast
qed

lemma state_started:
  assumes "n \<le> length h"
  shows "always (started_first n) (reconcile_state e lib req ct) h"
proof (cases "ctst_State (ct_Status ct) = ClusterTopologyStatePending")
  case True
  then show ?thesis by (simp add: reconcile_state_def pending_started [OF assms])
next
  case False
  show ?thesis by (rule always_emits [OF topology_state_ok step_started [OF False]])
qed

lemma finalize_started: "always (started_first n) (finalize_topology e lib req ct) h"
  unfolding finalize_topology_def
  by (intro always_intros silent_always [OF delete_silent started_first_other]) auto

text \<open>C27: a topology with a TiDB cluster is called ready for the first time only after, in the
  same run of the controller, the start of its cluster has succeeded on a control node.\<close>

theorem started_before_ready: "always (started_first (length h)) (Topology_Reconcile e lib req) h"
  unfolding Topology_Reconcile_def Let_def
  by (intro always_intros state_started finalize_started) (auto simp: io_simps)

section \<open>Destroyed before let go\<close>

definition destroy_cmd :: "TestClusterTopologySpec \<Rightarrow> string \<Rightarrow> string" where
  "destroy_cmd sp clusterName =
     tiup @ (if cts_TiDBCluster sp \<noteq> None then ''cluster destroy -y '' else ''dm destroy -y '') @ clusterName"

text \<open>
  A command that was run since the history had length \<open>n\<close>, and succeeded unless \<open>tiup\<close> answered
  that there is no such cluster.
\<close>

definition destroyed :: "env \<Rightarrow> string \<Rightarrow> history \<Rightarrow> bool" where
  "destroyed e cmd evs \<longleftrightarrow>
     (\<exists>host port ok. SSH host port cmd ok \<in> set evs \<and>
        (ok \<or> (\<exists>h out errStr x. ask_ssh e h host port cmd = (out, errStr, Some x) \<and> Contains errStr ''not exists'')))"

lemma catch_absent:
  assumes "run_state (ignoring_absent m) h = (ret u, h1)"
  obtains "run_state m h = (ret (), h1)" | cl where "run_state m h = (Done (Inl (ErrClusterNotExist cl)), h1)"
proof -
  obtain r h2 where m: "run_state m h = (r, h2)" by (cases "run_state m h")
  with assms obtain r' where r': "r = Done r'" "h2 = h1"
    "IgnoreClusterNotExist (case r' of Inl err \<Rightarrow> Some err | Inr _ \<Rightarrow> None) = None"
    by (cases r) (auto simp: ignoring_absent_def catching_def return_error_def io_simps split: option.splits)
  then show thesis
  proof (cases r')
    case (Inl err)
    with r' m that(2) show ?thesis by (cases err) auto
  qed (use r' m that(1) in auto)
qed

lemma run_destroyed:
  assumes "run_state (ignoring_absent (unit_of (io_then (NewSSHClient e host port) (\<lambda>cl. run_or e cl cmd (\<lambda>err out errStr.
      if Contains errStr ''not exists'' then ErrClusterNotExist name else cannot_run cmd err out errStr))))) h = (ret u, h1)"
  shows "\<exists>evs. h1 = h @ evs \<and> destroyed e cmd evs"
  using assms
  by (cases rule: catch_absent)
     (auto simp: unit_of_def io_then_def NewSSHClient_def run_or_def RunCommand_def cannot_run_def destroyed_def io_simps ex_bool_eq
       split: option.splits prod.splits if_splits, blast)

lemma Uninstall_destroyed:
  "run_state (ignoring_absent (UninstallCluster e c name)) h = (ret u, h1) \<Longrightarrow>
   \<exists>evs. h1 = h @ evs \<and> destroyed e (tiup @ ''cluster destroy -y '' @ name) evs"
  "run_state (ignoring_absent (DM_UninstallCluster e d name)) h = (ret u, h1) \<Longrightarrow>
   \<exists>evs. h1 = h @ evs \<and> destroyed e (tiup @ ''dm destroy -y '' @ name) evs"
proof -
  have swap: "io_then m (\<lambda>x. unit_of (f x)) = unit_of (io_then m f)" for m :: "ssh_client res io" and f :: "ssh_client \<Rightarrow> string res io"
    by (rule state.expand, rule ext) (auto simp: unit_of_def io_then_def io_simps split: go.splits sum.splits prod.splits)
  show "run_state (ignoring_absent (UninstallCluster e c name)) h = (ret u, h1) \<Longrightarrow>
    \<exists>evs. h1 = h @ evs \<and> destroyed e (tiup @ ''cluster destroy -y '' @ name) evs"
    unfolding UninstallCluster_def Let_def on_control_def control_client_def by (rule run_destroyed)
  show "run_state (ignoring_absent (DM_UninstallCluster e d name)) h = (ret u, h1) \<Longrightarrow>
    \<exists>evs. h1 = h @ evs \<and> destroyed e (tiup @ ''dm destroy -y '' @ name) evs"
    unfolding DM_UninstallCluster_def dm_control_run_def Let_def swap by (rule run_destroyed)
qed

text \<open>The reasons for which nothing has to be destroyed.\<close>

definition nothing_to_destroy :: "env \<Rightarrow> TestClusterTopology \<Rightarrow> bool" where
  "nothing_to_destroy e ct \<longleftrightarrow>
     (let sp = ct_Spec ct; name = \<lparr>nn_Namespace = meta_Namespace (ct_Meta ct), nn_Name = cts_ResourceRequest sp\<rparr>
      in cts_ResourceRequest sp = [] \<or>
         (cts_TiDBCluster sp = None \<and> (cts_FlinkCluster sp \<noteq> None \<or> cts_DMCluster sp = None)) \<or>
         (\<exists>h err. ask_request e h name = Inl err \<and> IsNotFound (Some err)) \<or>
         (\<exists>h rr. ask_request e h name = Inr rr \<and> trrst_State (trr_Status rr) \<noteq> TestResourceRequestReady))"

lemma delete_proxy_extends:
  "run_state (delete_proxy_configs e ct hap rs) h = (r, h1) \<Longrightarrow> \<exists>evs. h1 = h @ evs"
  by (rule emits_run [OF emits_delete_proxy [where P = "\<lambda>_. True"]]) auto

lemma child_resources_extends: "run_state (child_resources e rr) h = (r, h1) \<Longrightarrow> \<exists>evs. h1 = h @ evs"
  by (rule emits_run [OF emits_child_resources [where P = "\<lambda>_. True"]]) auto

lemma destroyed_later: "destroyed e cmd evs \<Longrightarrow> destroyed e cmd (pre @ evs)"
  unfolding destroyed_def set_append by blast

lemma deleteTopology_destroyed:
  assumes run: "run_state (deleteTopology e lib ct) h = (ret u, h1)" and needed: "\<not> nothing_to_destroy e ct"
  shows "\<exists>evs. h1 = h @ evs \<and> destroyed e (destroy_cmd (ct_Spec ct) (ct_Name ct)) evs"
proof -
  let ?nn = "\<lparr>nn_Namespace = meta_Namespace (ct_Meta ct), nn_Name = cts_ResourceRequest (ct_Spec ct)\<rparr>"
  from needed have req: "cts_ResourceRequest (ct_Spec ct) \<noteq> []"
    and ans: "\<And>err. ask_request e h ?nn = Inl err \<Longrightarrow> \<not> IsNotFound (Some err)"
      "\<And>rr. ask_request e h ?nn = Inr rr \<Longrightarrow> trrst_State (trr_Status rr) = TestResourceRequestReady"
    and kind: "cts_TiDBCluster (ct_Spec ct) \<noteq> None \<or> cts_FlinkCluster (ct_Spec ct) = None \<and> cts_DMCluster (ct_Spec ct) \<noteq> None"
    by (auto simp: nothing_to_destroy_def Let_def)
  let ?h = "h @ [Get ''TestResourceRequest'' ?nn]"
  from run req ans obtain rr items h2 where
    items: "run_state (child_resources e rr) ?h = (items, h2)" and
    rest: "run_state (case cts_TiDBCluster (ct_Spec ct) of
        Some tc \<Rightarrow>
          io_then (case tc_HAProxy tc of None \<Rightarrow> io_ret () | Some hap \<Rightarrow> delete_proxy_configs e ct hap items) (\<lambda>_.
          io_then (manager lib ct items None) (\<lambda>c. ignoring_absent (UninstallCluster e c (ct_Name ct))))
      | None \<Rightarrow>
          (case cts_FlinkCluster (ct_Spec ct) of
             Some _ \<Rightarrow> io_ret ()
           | None \<Rightarrow>
               (case cts_DMCluster (ct_Spec ct) of
                  Some _ \<Rightarrow>
                    io_then (State_Monad.return (DM_MakeClusterManager (tol_dm lib) (ct_Spec ct) items))
                      (\<lambda>c. ignoring_absent (DM_UninstallCluster e c (ct_Name ct)))
                | None \<Rightarrow> io_ret ()))) h2 = (ret u, h1)"
    by (cases "ask_request e h ?nn")
       (auto simp: deleteTopology_def io_simps return_error_def IgnoreNotFound_def split: option.splits if_splits prod.splits)
  from child_resources_extends [OF items] obtain e1 where e1: "h2 = h @ e1" by auto
  have "\<exists>evs. h1 = h2 @ evs \<and> destroyed e (destroy_cmd (ct_Spec ct) (ct_Name ct)) evs"
  proof (cases "cts_TiDBCluster (ct_Spec ct)")
    case (Some tc)
    with rest obtain h3 c where proxy: "run_state (case tc_HAProxy tc of None \<Rightarrow> io_ret () | Some hap \<Rightarrow> delete_proxy_configs e ct hap items) h2 = (ret (), h3)"
      and "run_state (ignoring_absent (UninstallCluster e c (ct_Name ct))) h3 = (ret u, h1)"
      by (auto simp: run_io_then_ret manager_def)
    moreover from proxy have "\<exists>evs. h3 = h2 @ evs"
      by (auto split: option.splits simp: io_simps dest: delete_proxy_extends)
    ultimately show ?thesis
      using Some by (auto dest!: Uninstall_destroyed(1) simp: destroy_cmd_def intro: destroyed_later)
  next
    case None
    with rest kind show ?thesis
      by (auto simp: run_io_then_ret destroy_cmd_def dest!: Uninstall_destroyed(2))
  qed
  with e1 show ?thesis by (auto intro: destroyed_later)
qed

definition gone_first :: "env \<Rightarrow> nsname \<Rightarrow> nat \<Rightarrow> history \<Rightarrow> event \<Rightarrow> bool" where
  "gone_first e req n h ev \<longleftrightarrow>
     (\<forall>ct' err. ev = Update (KTopology ct') err \<and> meta_DeletionTimestamp (ct_Meta ct') \<noteq> None \<longrightarrow>
        (\<exists>h0 ct. ask_topology e h0 req = Inr ct \<and>
           (nn_Name req \<in> set (meta_Finalizers (ct_Meta ct)) \<longrightarrow>
              nothing_to_destroy e ct \<or> destroyed e (destroy_cmd (ct_Spec ct) (ct_Name ct)) (drop n h))))"

lemma gone_first_other: "not_topology ev \<Longrightarrow> gone_first e req n h ev"
  by (auto simp: gone_first_def not_topology_def)

lemma finalize_gone:
  assumes "ask_topology e h0 req = Inr ct" "n \<le> length h"
  shows "always (gone_first e req n) (finalize_topology e lib req ct) h"
proof -
  let ?del = "if StringsContains (meta_Finalizers (ct_Meta ct)) (nn_Name req) then deleteTopology e lib ct else io_ret ()"
  have "gone_first e req n h1 (Update (KTopology ct') err)" if "run_state ?del h = (ret u, h1)" for u h1 ct' err
  proof -
    have "nothing_to_destroy e ct \<or> destroyed e (destroy_cmd (ct_Spec ct) (ct_Name ct)) (drop n h1)"
      if "nn_Name req \<in> set (meta_Finalizers (ct_Meta ct))"
    proof (cases "nothing_to_destroy e ct")
      case False
      from \<open>run_state ?del h = (ret u, h1)\<close> that have "run_state (deleteTopology e lib ct) h = (ret u, h1)" by simp
      from deleteTopology_destroyed [OF this False] obtain evs where "h1 = h @ evs"
          "destroyed e (destroy_cmd (ct_Spec ct) (ct_Name ct)) evs" by blast
      with assms(2) show ?thesis by (auto intro: destroyed_later)
    qed simp
    with assms(1) show ?thesis unfolding gone_first_def by blast
  qed
  then show ?thesis
    unfolding finalize_topology_def
    by (intro always_intros silent_always [OF delete_silent gone_first_other]) auto
qed

lemma topology_state_no_update: "emits (\<lambda>ev. \<forall>ct err. ev \<noteq> Update (KTopology ct) err) (reconcile_state e lib req ct)"
proof -
  have silent: "emits (\<lambda>ev. \<forall>ct err. ev \<noteq> Update (KTopology ct) err) m" if "emits not_topology m" for m :: "'b io"
    using that by (rule emits_weaken) (simp add: not_topology_def)
  show ?thesis
    unfolding reconcile_state_def Topology_reconcilePending_def Topology_reconcileReady_def reconcile_scaling_def
      reconcileUpdating_def write_status_def Let_def
    by (auto split: ClusterTopologyState.split
        intro!: emits_intros silent [OF install_silent] silent [OF update_silent] silent [OF scaling_silent(1)] silent [OF scaling_silent(2)])
qed

text \<open>C28: a deleted topology is let go only when its cluster is gone: unless there is nothing to
  destroy, the destroy command has been run in the same run of the controller, and it succeeded or
  the tool answered that the cluster does not exist.\<close>

theorem destroyed_before_release: "always (gone_first e req (length h)) (Topology_Reconcile e lib req) h"
proof -
  have "always (gone_first e req n) (reconcile_state e lib req ct) h" for n ct h
    by (rule always_emits [OF topology_state_no_update]) (simp add: gone_first_def)
  moreover have "gone_first e req n h (Update (KTopology (ct\<lparr>ct_Meta := add_finalizer f (ct_Meta ct)\<rparr>)) err)"
    if "meta_DeletionTimestamp (ct_Meta ct) = None" for n h ct f err
    using that by (simp add: gone_first_def add_finalizer_def)
  ultimately show ?thesis
    unfolding Topology_Reconcile_def Let_def
    by (intro always_intros finalize_gone) (auto simp: io_simps gone_first_def)
qed

end
