(* ===== verification/Topology_Ports.thy ===== *)
theory Topology_Ports
  imports Topology_Props
begin

text \<open>
  Which ports the containers of a TiDB cluster expose: the index that \<open>indexResourceExposedPorts\<close>
  builds by inserting one port after the other is the relation between hosts and the endpoints of
  the specification, with the port of the secure shell on every host.
\<close>

section \<open>Endpoints of a specification\<close>

definition tidb_endpoints :: "Specification \<Rightarrow> (string \<times> int) list" where
  "tidb_endpoints spec =
     map (\<lambda>s. (stidb_Host s, stidb_Port s)) (sp_TiDBServers spec) @
     map (\<lambda>s. (spd_Host s, spd_ClientPort s)) (sp_PDServers spec) @
     map (\<lambda>s. (sgrafana_Host s, sgrafana_Port s)) (sp_Grafanas spec) @
     map (\<lambda>s. (smon_Host s, smon_Port s)) (sp_Monitors spec) @
     map (\<lambda>s. (scdc_Host s, scdc_Port s)) (sp_CDCServers spec) @
     concat (map (\<lambda>s. map (Pair (stiflash_Host s))
       [stiflash_TCPPort s, stiflash_HTTPPort s, stiflash_StatusPort s, stiflash_FlashServicePort s,
        stiflash_FlashProxyPort s, stiflash_FlashProxyStatusPort s]) (sp_TiFlashServers spec))"

definition add_endpoints :: "(string \<times> int) list \<Rightarrow> (string, string list) gomap \<Rightarrow> (string, string list) gomap" where
  "add_endpoints eps ix = foldl (\<lambda>ix (host, port). add_port host port ix) ix eps"

lemma add_endpoints_simps [simp]:
  "add_endpoints [] ix = ix" "add_endpoints ((host, port) # eps) ix = add_endpoints eps (add_port host port ix)"
  by (simp_all add: add_endpoints_def)

lemma foldl_add_port: "foldl (\<lambda>ix s. add_port (f s) (g s) ix) ix xs = add_endpoints (map (\<lambda>s. (f s, g s)) xs) ix"
  by (induction xs arbitrary: ix) simp_all

lemma foldl_add_each:
  "foldl (\<lambda>ix s. foldl (\<lambda>ix port. add_port (f s) port ix) ix (g s)) ix xs = add_endpoints (concat (map (\<lambda>s. map (Pair (f s)) (g s)) xs)) ix"
proof (induction xs arbitrary: ix)
  case (Cons x xs)
  then show ?case using foldl_add_port [of "\<lambda>_. f x" "\<lambda>p. p" ix "g x"] by (simp add: add_endpoints_def)
qed simp

lemma index_tidb_endpoints: "index_tidb spec ix = add_endpoints (tidb_endpoints spec) ix"
proof -
  have append: "add_endpoints (xs @ ys) ix = add_endpoints ys (add_endpoints xs ix)" for xs ys ix
    by (simp add: add_endpoints_def)
  show ?thesis
    unfolding index_tidb_def Let_def foldl_add_each tidb_endpoints_def append by (simp only: foldl_add_port)
qed

section \<open>What the index holds\<close>

lemma set_strSet_add [simp]: "set (strSet_add s x) = insert x (set s)"
  by (auto simp: strSet_add_def)

lemma distinct_strSet_add [simp]: "distinct (strSet_add s x) \<longleftrightarrow> distinct s"
  by (auto simp: strSet_add_def)

lemma map_of_add_port:
  "map_of (add_port host port ix) h =
     (if h = host then Some (strSet_add (case map_of ix host of None \<Rightarrow> [] | Some s \<Rightarrow> s) (port_tcp port)) else map_of ix h)"
  by (simp add: add_port_def update_conv')

text \<open>An index lists the ports of a relation between hosts and ports, each once.\<close>

definition lists_ports :: "(string, string list) gomap \<Rightarrow> string set \<Rightarrow> (string \<Rightarrow> string set) \<Rightarrow> bool" where
  "lists_ports ix hosts ports \<longleftrightarrow>
     (\<forall>host. case map_of ix host of
        None \<Rightarrow> host \<notin> hosts
      | Some s \<Rightarrow> host \<in> hosts \<and> distinct s \<and> set s = ports host)"

lemma lists_empty_index: "lists_ports (empty_index trs) (tr_Name ` set trs) (\<lambda>_. {})"
proof -
  have keys: "map_of (foldl (\<lambda>ix item. AList.update (tr_Name item) [] ix) ix trs) h =
     (if h \<in> tr_Name ` set trs then Some [] else map_of ix h)" for ix h
    by (induction trs arbitrary: ix) (auto simp: update_conv')
  show ?thesis unfolding lists_ports_def empty_index_def keys by simp
qed

lemma lists_add_port:
  assumes "lists_ports ix hosts ports" "\<And>h. h \<notin> hosts \<Longrightarrow> ports h = {}"
  shows "lists_ports (add_port host port ix) (insert host hosts) (ports(host := insert (port_tcp port) (ports host)))"
  unfolding lists_ports_def
proof
  fix h
  have "case map_of ix h of None \<Rightarrow> h \<notin> hosts | Some s \<Rightarrow> h \<in> hosts \<and> distinct s \<and> set s = ports h"
    using assms(1) by (simp add: lists_ports_def)
  then show "case map_of (add_port host port ix) h of None \<Rightarrow> h \<notin> insert host hosts
      | Some s \<Rightarrow> h \<in> insert host hosts \<and> distinct s \<and> set s = (ports(host := insert (port_tcp port) (ports host))) h"
    using assms(2) [of h] by (cases "map_of ix h"; cases "h = host") (simp_all add: map_of_add_port)
qed

lemma lists_add_ports:
  assumes "lists_ports ix hosts ports" "\<And>h. h \<notin> hosts \<Longrightarrow> ports h = {}"
  shows "lists_ports (add_endpoints eps ix) (hosts \<union> fst ` set eps) (\<lambda>h. ports h \<union> port_tcp ` {p. (h, p) \<in> set eps})"
  using assms
proof (induction eps arbitrary: ix hosts ports)
  case (Cons ep eps)
  obtain host port where ep: "ep = (host, port)" by (cases ep)
  let ?ports = "ports(host := insert (port_tcp port) (ports host))"
  have "lists_ports (add_endpoints eps (add_port host port ix)) (insert host hosts \<union> fst ` set eps)
      (\<lambda>h. ?ports h \<union> port_tcp ` {p. (h, p) \<in> set eps})"
    by (rule Cons.IH [OF lists_add_port [OF Cons.prems]]) (use Cons.prems(2) in auto)
  moreover have "(\<lambda>h. ?ports h \<union> port_tcp ` {p. (h, p) \<in> set eps}) = (\<lambda>h. ports h \<union> port_tcp ` {p. (h, p) \<in> set (ep # eps)})"
    by (rule ext) (auto simp: ep)
  ultimately show ?case by (simp add: ep)
qed simp

lemma lists_add_ssh:
  assumes "lists_ports ix hosts ports"
  shows "lists_ports (add_ssh ix) hosts (\<lambda>h. insert SSHPort (ports h))"
proof -
  have ssh: "map_of (add_ssh ix) h = map_option (\<lambda>s. strSet_add s SSHPort) (map_of ix h)" for h
    by (induction ix) (auto simp: add_ssh_def)
  show ?thesis unfolding lists_ports_def
  proof
    fix h
    have "case map_of ix h of None \<Rightarrow> h \<notin> hosts | Some s \<Rightarrow> h \<in> hosts \<and> distinct s \<and> set s = ports h"
      using assms by (simp add: lists_ports_def)
    then show "case map_of (add_ssh ix) h of None \<Rightarrow> h \<notin> hosts
      | Some s \<Rightarrow> h \<in> hosts \<and> distinct s \<and> set s = insert SSHPort (ports h)"
      by (cases "map_of ix h") (simp_all add: ssh)
  qed
qed

text \<open>C30: the ports the containers of a TiDB cluster expose are exactly those of the endpoints of
  its specification, each listed once on its host, and the port of the secure shell on every host.\<close>

theorem exposed_ports_exact:
  assumes "cts_TiDBCluster ctf \<noteq> None"
    and "BuildSpecification (tl_unmarshal (tol_tiup lib)) (tl_defaults (tol_tiup lib)) ctf trs True None = ret (spec, control)"
  shows "\<exists>ix. indexResourceExposedPorts lib ctf trs = ret ix \<and>
    lists_ports ix (tr_Name ` set trs \<union> fst ` set (tidb_endpoints spec))
      (\<lambda>host. insert SSHPort (port_tcp ` {port. (host, port) \<in> set (tidb_endpoints spec)}))"
  using assms lists_add_ssh [OF lists_add_ports [OF lists_empty_index [of trs]], of "tidb_endpoints spec"]
  by (simp add: indexResourceExposedPorts_def index_tidb_endpoints)

definition demo_topo_libs :: topo_libs where
  "demo_topo_libs = \<lparr>tol_tiup = demo_lib,
     tol_dm = \<lparr>dl_unmarshal = (\<lambda>s. Inr []), dl_defaults = (\<lambda>d. d), dl_marshal_spec = (\<lambda>s. Inr ''spec'')\<rparr>,
     tol_flink = (\<lambda>c. c)\<rparr>"

theorem exposed_ports_exact_witness:
  "\<exists>ix s. indexResourceExposedPorts demo_topo_libs (ct_Spec (demo_topology [] [''n1'', ''n2''])) demo_nodes = ret ix \<and>
     map_of ix ''n1'' = Some s \<and> set s = {SSHPort, port_tcp 4000, port_tcp 2379}"
proof -
  let ?ctf = "ct_Spec (demo_topology [] [''n1'', ''n2''])"
  let ?um = "tl_unmarshal (tol_tiup demo_topo_libs)" and ?ds = "tl_defaults (tol_tiup demo_topo_libs)"
  have tc: "cts_TiDBCluster ?ctf = Some (demo_cluster [''n1'', ''n2''])"
    by (simp add: demo_topology_def)
  obtain spec control where built: "BuildSpecification ?um ?ds ?ctf demo_nodes True None = ret (spec, control)"
    and eps: "tidb_endpoints spec = [(''n1'', 4000), (''n1'', 2379)]"
    by (simp add: BuildSpecification_def tc resource_nodes_def demo_nodes_def demo_node_def demo_cluster_simps
        setServerConfigs_def demo_um_def find_node_def build_tidb_def build_tikv_def build_pd_def parse_config_def
        generateConfig_def demo_ds_def demo_topo_libs_def demo_lib_def hostName_def tidb_endpoints_def)
  from exposed_ports_exact [OF _ built] tc obtain ix where ix: "indexResourceExposedPorts demo_topo_libs ?ctf demo_nodes = ret ix"
    "lists_ports ix (tr_Name ` set demo_nodes \<union> fst ` set (tidb_endpoints spec))
      (\<lambda>host. insert SSHPort (port_tcp ` {port. (host, port) \<in> set (tidb_endpoints spec)}))" by auto
  from ix(2) have "case map_of ix ''n1'' of None \<Rightarrow> False
    | Some s \<Rightarrow> set s = insert SSHPort (port_tcp ` {port. (''n1'', port) \<in> set (tidb_endpoints spec)})"
    unfolding lists_ports_def by (rule allE [where x = "''n1''"]) (auto simp: eps split: option.splits)
  moreover have "{port. (''n1'', port) \<in> set (tidb_endpoints spec)} = {4000, 2379}"
    by (auto simp: eps)
  ultimately show ?thesis using ix(1) by (auto split: option.splits)
qed

end
