(* ===== verification/Workload_Controller.thy ===== *)
theory Workload_Controller
  imports Topology_Controller
begin

text \<open>
  \<open>controllers/testworkload_controller.go\<close>: a workload waits for its topologies, claims a fresh
  resource for each of its containers and fills it in, follows the phases of the containers until
  all have ended, and gives its resources back to be destroyed when it is deleted.
\<close>

definition testWorkloadFinalizer :: string where
  "testWorkloadFinalizer = ''testworkload.naglfar.pingcap.com''"

section \<open>Nodes and topologies\<close>

definition zero_TestResource :: TestResource where
  "zero_TestResource =
     \<lparr>tr_Meta = zero_meta,
      tr_Spec = \<lparr>trs_Memory = [], trs_Cores = 0, trs_MachineSelector = [], trs_Disks = [], trs_Machine = []\<rparr>,
      tr_Status = zero_ResourceStatus\<rparr>"

text \<open>
  The node and the error, as the two results of the function; a failed read of the node returns the
  zero value with the error. A missing container specification is a nil pointer.
\<close>

definition getWorkloadRequestNode ::
  "env \<Rightarrow> string \<Rightarrow> ContainerSpec option \<Rightarrow> (TestResource option \<times> error option) go io" where
  "getWorkloadRequestNode e ns workloadSpec =
     (case workloadSpec of
        None \<Rightarrow> crash nil_deref
      | Some c \<Rightarrow>
          do { r \<leftarrow> Get_request e \<lparr>nn_Namespace = ns, nn_Name = rrf_Name (cs_ResourceRequest c)\<rparr>;
               case r of
                 Inl err \<Rightarrow> State_Monad.return (Done (None, Some err))
               | Inr _ \<Rightarrow>
                   do { node \<leftarrow> Get_resource e \<lparr>nn_Namespace = ns, nn_Name = rrf_Node (cs_ResourceRequest c)\<rparr>;
                        State_Monad.return (Done (case node of
                          Inl err \<Rightarrow> (Some zero_TestResource, Some err)
                        | Inr n \<Rightarrow> (Some n, None))) } })"

text \<open>\<open>None\<close> when a topology is not ready yet, else the topologies in the order of the keys.\<close>

fun checkTopologiesReady :: "env \<Rightarrow> nsname list \<Rightarrow> (error + TestClusterTopology list option) io" where
  "checkTopologiesReady e [] = State_Monad.return (Inr (Some []))"
| "checkTopologiesReady e (objectKey # ks) =
     do { r \<leftarrow> Get_topology e objectKey;
          case r of
            Inl err \<Rightarrow> State_Monad.return (Inl err)
          | Inr topology \<Rightarrow>
              if ctst_State (ct_Status topology) \<noteq> ClusterTopologyStateReady then State_Monad.return (Inr None)
              else do { rest \<leftarrow> checkTopologiesReady e ks;
                        State_Monad.return (case rest of
                          Inl err \<Rightarrow> Inl err
                        | Inr ts \<Rightarrow> Inr (map_option (\<lambda>ts. topology # ts) ts)) } }"

definition setContainerSpec :: "TestWorkload \<Rightarrow> TestWorkloadItemSpec \<Rightarrow> ContainerSpec \<Rightarrow> TestResourceStatus \<Rightarrow> TestResourceStatus" where
  "setContainerSpec testWorkload workloadSpec c status =
     (let envs =
        [''NAGLFAR_CLUSTER_NS='' @ meta_Namespace (tw_Meta testWorkload),
         ''NAGLFAR_TEST_RESOURCE_REQUEST_NAME='' @ rrf_Name (cs_ResourceRequest c),
         ''NAGLFAR_TESTWORKLOAD_NAME='' @ meta_Name (tw_Meta testWorkload),
         ''NAGLFAR_TESTWORKLOAD_WORKLOAD_ITEM='' @ wi_Name workloadSpec] @
        map (\<lambda>item. ctr_AliasName item @ ''='' @ ctr_Name item) (ws_ClusterTopologiesRefs (tw_Spec testWorkload))
      in status\<lparr>trst_ContainerSpec := (trst_ContainerSpec status)\<lparr>
           rcs_Image := cs_Image c, rcs_ImagePullPolicy := cs_ImagePullPolicy c,
           rcs_Command := cs_Command c, rcs_Envs := envs\<rparr>\<rparr>)"

fun buildTopologyEnvs ::
  "topo_libs \<Rightarrow> ClusterTopologyRef list \<Rightarrow> TestClusterTopology list \<Rightarrow> TestResource list \<Rightarrow> string list res" where
  "buildTopologyEnvs lib [] topologies resources = ret []"
| "buildTopologyEnvs lib (topoRef # refs) topologies resources =
     (case List.find (\<lambda>topo. meta_Name (ct_Meta topo) = ctr_Name topoRef) topologies of
        None \<Rightarrow> buildTopologyEnvs lib refs topologies resources
      | Some topo \<Rightarrow>
          (let prefix = (if ctr_AliasName topoRef \<noteq> [] then ctr_AliasName topoRef else ctr_Name topoRef)
           in res_bind (BuildInjectEnvs lib topo resources) (\<lambda>es.
              res_bind (buildTopologyEnvs lib refs topologies resources) (\<lambda>envs.
                ret (map (\<lambda>env. prefix @ ''_'' @ env) es @ envs)))))"

section \<open>Pending\<close>

definition workload_event :: "TestWorkload \<Rightarrow> string \<Rightarrow> string \<Rightarrow> string \<Rightarrow> unit io" where
  "workload_event w type reason message = Event (meta_Name (tw_Meta w)) type reason message"

definition cannot_find :: "ContainerSpec option \<Rightarrow> error" where
  "cannot_find c = ErrMsg (''cannot find the resource '' @ (case c of None \<Rightarrow> [] | Some x \<Rightarrow> rrf_Name (cs_ResourceRequest x)))"

text \<open>
  The loop of \<open>reconcilePending\<close>: \<open>n\<close> items are installed so far, \<open>k\<close> continues after the loop.
  The status written for a fresh node carries the claim and the container.
\<close>

definition claim_node ::
  "topo_libs \<Rightarrow> TestWorkload \<Rightarrow> TestClusterTopology list \<Rightarrow> TestResource list \<Rightarrow> TestWorkloadItemSpec \<Rightarrow> ContainerSpec
     \<Rightarrow> TestResource \<Rightarrow> TestResource res" where
  "claim_node lib w topologies resources item c node =
     (let status = setContainerSpec w item c ((tr_Status node)\<lparr>trst_ClaimRef := Some (workload_ref w)\<rparr>)
      in res_bind (buildTopologyEnvs lib (ws_ClusterTopologiesRefs (tw_Spec w)) topologies resources) (\<lambda>topologyEnvs.
           ret (node\<lparr>tr_Status := status\<lparr>trst_ContainerSpec := (trst_ContainerSpec status)\<lparr>
             rcs_Envs := rcs_Envs (trst_ContainerSpec status) @ topologyEnvs\<rparr>\<rparr>\<rparr>)))"

definition occupied :: "TestWorkload \<Rightarrow> TestResource \<Rightarrow> bool" where
  "occupied w node \<longleftrightarrow>
     (case trst_ClaimRef (tr_Status node) of None \<Rightarrow> False | Some c \<Rightarrow> c \<noteq> workload_ref w)"

definition forgotten :: "ResourceState \<Rightarrow> string" where
  "forgotten st = ''there's a bug, forget to process the `'' @ ResourceState_str st @ ''` state''"

text \<open>A node that runs or has ended counts when it is claimed by this workload.\<close>

definition pending_installed :: "TestWorkload \<Rightarrow> TestResource \<Rightarrow> reconcile_result io \<Rightarrow> reconcile_result io" where
  "pending_installed w node k =
     (if trst_ClaimRef (tr_Status node) \<noteq> Some (workload_ref w)
      then (let x = ErrMsg (''resource '' @ tr_Name node @ '' is used by others now, wait'')
            in do { workload_event w ''Warning'' ''Precondition'' (error_text x); finish no_requeue (Some x) })
      else k)"

text \<open>
  The start of both loops: look up the node of an item and go on with it. \<open>reason\<close> is the reason of
  the event for a missing node.
\<close>

definition with_node ::
  "env \<Rightarrow> TestWorkload \<Rightarrow> TestWorkloadItemSpec \<Rightarrow> string \<Rightarrow> (TestResource \<Rightarrow> reconcile_result io) \<Rightarrow> reconcile_result io" where
  "with_node e w item reason f =
     do { r \<leftarrow> getWorkloadRequestNode e (meta_Namespace (tw_Meta w)) (wi_DockerContainer item);
          case r of
            Panicked p \<Rightarrow> crash p
          | Running \<Rightarrow> State_Monad.return Running
          | Done (nodeOpt, err) \<Rightarrow>
              (case err of
                 Some x \<Rightarrow> finish no_requeue (Some x)
               | None \<Rightarrow>
                   (case nodeOpt of
                      None \<Rightarrow>
                        (let x = cannot_find (wi_DockerContainer item)
                         in do { workload_event w ''Warning'' reason (error_text x); finish no_requeue (Some x) })
                    | Some node \<Rightarrow> f node)) }"

text \<open>The body of the loop: \<open>skip\<close> goes on without, \<open>counted\<close> with counting the item as installed.\<close>

definition pending_node ::
  "env \<Rightarrow> topo_libs \<Rightarrow> TestWorkload \<Rightarrow> TestClusterTopology list \<Rightarrow> TestResource list \<Rightarrow> TestWorkloadItemSpec \<Rightarrow> ContainerSpec
     \<Rightarrow> reconcile_result io \<Rightarrow> reconcile_result io \<Rightarrow> TestResource \<Rightarrow> reconcile_result io" where
  "pending_node e lib w topologies resources item c skip counted node =
     (if occupied w node
      then do { workload_event w ''Warning'' ''Precondition''
                  (''node '' @ Key (CreateRef (tr_Meta node)) @ '' is occupied by '' @
                   (case trst_ClaimRef (tr_Status node) of None \<Rightarrow> [] | Some cl \<Rightarrow> Key cl));
                finish (requeue_after (5 * second)) None }
      else (case tr_State node of
          ResourceDestroy \<Rightarrow> finish (requeue_after second) None
        | ResourcePending \<Rightarrow> crash (''there's a bug, it shouldn't see the `pending` state'')
        | ResourceUninitialized \<Rightarrow>
            if tr_Image node = []
            then (case claim_node lib w topologies resources item c node of
                    Panicked p \<Rightarrow> crash p
                  | Running \<Rightarrow> State_Monad.return Running
                  | Done r \<Rightarrow>
                      (case r of
                         Inl x \<Rightarrow> do { workload_event w ''Warning'' ''Precondition'' (error_text x); finish no_requeue (Some x) }
                       | Inr node' \<Rightarrow>
                           do { err \<leftarrow> k8s_StatusUpdate e (KResource node');
                                if err \<noteq> None then finish no_requeue err
                                else do { workload_event w ''Normal'' ''Install'' (''preparing the workload: '' @ wi_Name item); skip } }))
            else if tr_Image node \<noteq> cs_Image c
            then (let x = ErrMsg (''resource '' @ tr_Name node @ '' has installed a conflict image'')
                  in do { workload_event w ''Warning'' ''Precondition'' (error_text x); finish no_requeue (Some x) })
            else skip
        | ResourceReady \<Rightarrow> pending_installed w node counted
        | ResourceFinish \<Rightarrow> pending_installed w node counted
        | _ \<Rightarrow> crash (forgotten (tr_State node))))"

fun pending_items ::
  "env \<Rightarrow> topo_libs \<Rightarrow> TestWorkload \<Rightarrow> TestClusterTopology list \<Rightarrow> TestResource list \<Rightarrow> TestWorkloadItemSpec list \<Rightarrow> nat
     \<Rightarrow> (nat \<Rightarrow> reconcile_result io) \<Rightarrow> reconcile_result io" where
  "pending_items e lib w topologies resources [] n k = k n"
| "pending_items e lib w topologies resources (item # items) n k =
     with_node e w item ''Precondition'' (\<lambda>node.
       case wi_DockerContainer item of
         None \<Rightarrow> crash nil_deref
       | Some c \<Rightarrow> pending_node e lib w topologies resources item c
           (pending_items e lib w topologies resources items n k)
           (pending_items e lib w topologies resources items (n + 1) k) node)"

text \<open>The keys of the topologies are a Go map: \<open>order\<close> is the order in which it is ranged over.\<close>

definition topology_keys :: "TestWorkload \<Rightarrow> nsname list" where
  "topology_keys w =
     remdups (map (\<lambda>item. \<lparr>nn_Namespace = meta_Namespace (tw_Meta w), nn_Name = ctr_Name item\<rparr>)
       (ws_ClusterTopologiesRefs (tw_Spec w)))"

definition set_tw_state :: "TestWorkloadState \<Rightarrow> TestWorkload \<Rightarrow> TestWorkload" where
  "set_tw_state st w = w\<lparr>tw_Status := (tw_Status w)\<lparr>twst_State := st\<rparr>\<rparr>"

definition Workload_reconcilePending ::
  "env \<Rightarrow> topo_libs \<Rightarrow> (nsname list \<Rightarrow> nsname list) \<Rightarrow> TestWorkload \<Rightarrow> reconcile_result io" where
  "Workload_reconcilePending e lib order w =
     do { r \<leftarrow> checkTopologiesReady e (order (topology_keys w));
          case r of
            Inl err \<Rightarrow> finish no_requeue (Some err)
          | Inr None \<Rightarrow>
              do { workload_event w ''Warning'' ''Precondition'' ''not all clusters are ready'';
                   finish (requeue_after (5 * second)) None }
          | Inr (Some topologies) \<Rightarrow>
              do { l \<leftarrow> List_resources e (meta_Namespace (tw_Meta w));
                   case l of
                     Inl err \<Rightarrow> finish no_requeue (Some err)
                   | Inr resources \<Rightarrow>
                       pending_items e lib w topologies resources (ws_Workloads (tw_Spec w)) 0 (\<lambda>installedCount.
                         if installedCount = length (ws_Workloads (tw_Spec w))
                         then do { err \<leftarrow> k8s_StatusUpdate e (KWorkload (set_tw_state TestWorkloadStateRunning w));
                                   if err \<noteq> None then finish no_requeue err
                                   else do { workload_event w ''Normal'' ''Install'' ''all workload has been installed'';
                                             finish no_requeue None } }
                         else finish (requeue_after (5 * second)) None) } }"

section \<open>Running\<close>

text \<open>The counters of the loop: changed phases, succeeded and failed items.\<close>

record tally =
  ta_changed :: nat
  ta_succeeded :: nat
  ta_failed :: nat

definition record_phase ::
  "string \<Rightarrow> ResourcePhase \<Rightarrow> (string, WorkloadStatus) gomap \<Rightarrow> (string, WorkloadStatus) gomap \<times> nat" where
  "record_phase name phase m =
     (let (m, n) = (case map_of m name of
            Some _ \<Rightarrow> (m, 0)
          | None \<Rightarrow> (AList.update name \<lparr>wst_Phase = ResourcePhasePending\<rparr> m, 1))
      in if map_of m name \<noteq> Some \<lparr>wst_Phase = phase\<rparr>
         then (AList.update name \<lparr>wst_Phase = phase\<rparr> m, n + 1) else (m, n))"

definition phase_event :: "TestWorkload \<Rightarrow> string \<Rightarrow> ResourcePhase \<Rightarrow> unit io" where
  "phase_event w name phase =
     (case phase of
        ResourcePhaseSucceeded \<Rightarrow> workload_event w ''Normal'' ''Workload'' (''workload '' @ name @ '' succeeded'')
      | ResourcePhaseFailed \<Rightarrow> workload_event w ''Warning'' ''Workload'' (''workload '' @ name @ '' failed'')
      | _ \<Rightarrow> State_Monad.return ())"

definition count_phase :: "ResourcePhase \<Rightarrow> nat \<Rightarrow> tally \<Rightarrow> tally" where
  "count_phase phase n t =
     t\<lparr>ta_changed := ta_changed t + n,
       ta_succeeded := ta_succeeded t + (if phase = ResourcePhaseSucceeded then 1 else 0),
       ta_failed := ta_failed t + (if phase = ResourcePhaseFailed then 1 else 0)\<rparr>"

definition phase_map :: "TestWorkload \<Rightarrow> (string, WorkloadStatus) gomap" where
  "phase_map w = (case twst_WorkloadStatus (tw_Status w) of None \<Rightarrow> [] | Some m \<Rightarrow> m)"

definition set_phases :: "(string, WorkloadStatus) gomap \<Rightarrow> TestWorkload \<Rightarrow> TestWorkload" where
  "set_phases m w = w\<lparr>tw_Status := (tw_Status w)\<lparr>twst_WorkloadStatus := Some m\<rparr>\<rparr>"

fun running_items ::
  "env \<Rightarrow> TestWorkload \<Rightarrow> TestWorkloadItemSpec list \<Rightarrow> tally \<Rightarrow> (TestWorkload \<Rightarrow> tally \<Rightarrow> reconcile_result io)
     \<Rightarrow> reconcile_result io" where
  "running_items e w [] t k = k w t"
| "running_items e w (item # items) t k =
     with_node e w item ''Inspect'' (\<lambda>node.
       if tr_State node \<in> {ResourcePending, ResourceDestroy}
       then crash (''there's a bug, it shouldn't see the `'' @ ResourceState_str (tr_State node) @ ''` state'')
       else if tr_State node \<in> {ResourceUninitialized, ResourceReady, ResourceFinish}
       then (let phase = trst_Phase (tr_Status node);
                 (m, n) = record_phase (wi_Name item) phase (phase_map w)
             in do { phase_event w (wi_Name item) phase;
                     running_items e (set_phases m w) items (count_phase phase n t) k })
       else crash (''it's a bug, we forget to process the `'' @ ResourceState_str (tr_State node) @ ''` state''))"

definition Workload_reconcileRunning :: "env \<Rightarrow> TestWorkload \<Rightarrow> reconcile_result io" where
  "Workload_reconcileRunning e w =
     running_items e w (ws_Workloads (tw_Spec w)) \<lparr>ta_changed = 0, ta_succeeded = 0, ta_failed = 0\<rparr> (\<lambda>w t.
       if ta_changed t \<noteq> 0
       then (let total = length (ws_Workloads (tw_Spec w));
                 w' = (if ta_succeeded t = total then set_tw_state TestWorkloadStateSucceeded w
                       else if ta_succeeded t + ta_failed t = total then set_tw_state TestWorkloadStateFailed w else w)
             in do { (if ta_succeeded t = total \<or> ta_succeeded t + ta_failed t = total
                      then workload_event w ''Normal'' ''Finish'' ''all workloads finished'' else State_Monad.return ());
                     err \<leftarrow> k8s_StatusUpdate e (KWorkload w');
                     finish (requeue_after (5 * second)) err })
       else finish (requeue_after (5 * second)) None)"

definition Workload_reconcileFinish :: "TestWorkload \<Rightarrow> reconcile_result io" where
  "Workload_reconcileFinish w = finish no_requeue None"

section \<open>Deletion\<close>

text \<open>
  The result is the error the function returns. The error of the status update is dropped: the
  condition after it looks at the error of the lookup.
\<close>

fun uninstallWorkload :: "env \<Rightarrow> TestWorkload \<Rightarrow> TestWorkloadItemSpec list \<Rightarrow> error option go io" where
  "uninstallWorkload e w [] = State_Monad.return (Done None)"
| "uninstallWorkload e w (item # items) =
     do { r \<leftarrow> getWorkloadRequestNode e (meta_Namespace (tw_Meta w)) (wi_DockerContainer item);
          case r of
            Panicked p \<Rightarrow> crash p
          | Running \<Rightarrow> State_Monad.return Running
          | Done (nodeOpt, err) \<Rightarrow>
              if IgnoreNotFound err \<noteq> None then State_Monad.return (Done err)
              else (case nodeOpt of
                  None \<Rightarrow> uninstallWorkload e w items
                | Some node \<Rightarrow>
                    if CouldUninstall (tr_State node)
                    then do { _ \<leftarrow> k8s_StatusUpdate e (KResource (node\<lparr>tr_Status :=
                                (tr_Status node)\<lparr>trst_State := ResourceDestroy, trst_ClaimRef := None\<rparr>\<rparr>));
                              if err \<noteq> None then State_Monad.return (Done err) else uninstallWorkload e w items }
                    else uninstallWorkload e w items) }"

definition finalize_workload :: "env \<Rightarrow> TestWorkload \<Rightarrow> reconcile_result io" where
  "finalize_workload e w =
     do { r \<leftarrow> (if StringsContains (meta_Finalizers (tw_Meta w)) testWorkloadFinalizer
                then uninstallWorkload e w (ws_Workloads (tw_Spec w)) else State_Monad.return (Done None));
          case r of
            Panicked p \<Rightarrow> crash p
          | Running \<Rightarrow> State_Monad.return Running
          | Done err \<Rightarrow>
              if err \<noteq> None then finish no_requeue err
              else (case drop_finalizer testWorkloadFinalizer (tw_Meta w) of
                  Panicked p \<Rightarrow> crash p
                | Running \<Rightarrow> State_Monad.return Running
                | Done meta \<Rightarrow> do { err \<leftarrow> k8s_Update e (KWorkload (w\<lparr>tw_Meta := meta\<rparr>)); finish no_requeue err }) }"

definition workload_state ::
  "env \<Rightarrow> topo_libs \<Rightarrow> (nsname list \<Rightarrow> nsname list) \<Rightarrow> TestWorkload \<Rightarrow> reconcile_result io" where
  "workload_state e lib order w =
     (case twst_State (tw_Status w) of
        TestWorkloadStateNone \<Rightarrow>
          do { err \<leftarrow> k8s_StatusUpdate e (KWorkload (set_tw_state TestWorkloadStatePending (set_phases [] w)));
               finish no_requeue err }
      | TestWorkloadStatePending \<Rightarrow> Workload_reconcilePending e lib order w
      | TestWorkloadStateRunning \<Rightarrow> Workload_reconcileRunning e w
      | TestWorkloadStateSucceeded \<Rightarrow> Workload_reconcileFinish w
      | TestWorkloadStateFailed \<Rightarrow> Workload_reconcileFinish w
      | UnknownWorkloadState _ \<Rightarrow> finish no_requeue None)"

definition Workload_Reconcile ::
  "env \<Rightarrow> topo_libs \<Rightarrow> (nsname list \<Rightarrow> nsname list) \<Rightarrow> nsname \<Rightarrow> reconcile_result io" where
  "Workload_Reconcile e lib order req =
     do { r \<leftarrow> Get_workload e req;
          case r of
            Inl err \<Rightarrow> finish no_requeue (IgnoreNotFound (Some err))
          | Inr w \<Rightarrow>
              if meta_DeletionTimestamp (tw_Meta w) \<noteq> None then finalize_workload e w
              else if StringsContains (meta_Finalizers (tw_Meta w)) testWorkloadFinalizer then workload_state e lib order w
              else (let w = w\<lparr>tw_Meta := add_finalizer testWorkloadFinalizer (tw_Meta w)\<rparr>
                    in do { err \<leftarrow> k8s_Update e (KWorkload w);
                            if err \<noteq> None then finish no_requeue err else workload_state e lib order w }) }"

end
