(* ===== verification/Workload_Props.thy ===== *)
theory Workload_Props
  imports Workload_Controller Topology_Ports
begin

text \<open>
  Properties of the workload controller: its state machine, which resources it claims and gives
  back, and that a workload ends when its containers have ended.
\<close>

section \<open>The steps of a workload\<close>

inductive work_trans :: "TestWorkloadState \<Rightarrow> TestWorkloadState \<Rightarrow> bool" where
  created: "work_trans TestWorkloadStateNone TestWorkloadStatePending"
| installed: "work_trans TestWorkloadStatePending TestWorkloadStateRunning"
| polled: "work_trans TestWorkloadStateRunning TestWorkloadStateRunning"
| succeeded: "work_trans TestWorkloadStateRunning TestWorkloadStateSucceeded"
| failed: "work_trans TestWorkloadStateRunning TestWorkloadStateFailed"

inductive_simps work_trans_simps [simp]:
  "work_trans TestWorkloadStateNone s" "work_trans TestWorkloadStatePending s" "work_trans TestWorkloadStateRunning s"

abbreviation tw_State :: "TestWorkload \<Rightarrow> TestWorkloadState" where
  "tw_State w \<equiv> twst_State (tw_Status w)"

abbreviation items_of :: "TestWorkload \<Rightarrow> TestWorkloadItemSpec list" where
  "items_of w \<equiv> ws_Workloads (tw_Spec w)"

text \<open>The node of an item has been read as \<open>node\<close> at some moment.\<close>

definition node_read :: "env \<Rightarrow> TestWorkload \<Rightarrow> TestWorkloadItemSpec \<Rightarrow> TestResource \<Rightarrow> bool" where
  "node_read e w item node \<longleftrightarrow>
     (\<exists>c h. wi_DockerContainer item = Some c \<and>
        ask_resource e h \<lparr>nn_Namespace = meta_Namespace (tw_Meta w), nn_Name = rrf_Node (cs_ResourceRequest c)\<rparr> = Inr node)"

definition installed_item :: "env \<Rightarrow> TestWorkload \<Rightarrow> TestWorkloadItemSpec \<Rightarrow> bool" where
  "installed_item e w item \<longleftrightarrow>
     (\<exists>node. node_read e w item node \<and> tr_State node \<in> {ResourceReady, ResourceFinish} \<and>
        trst_ClaimRef (tr_Status node) = Some (workload_ref w))"

definition ended_item :: "env \<Rightarrow> TestWorkload \<Rightarrow> ResourcePhase set \<Rightarrow> TestWorkloadItemSpec \<Rightarrow> bool" where
  "ended_item e w phases item \<longleftrightarrow> (\<exists>node. node_read e w item node \<and> trst_Phase (tr_Status node) \<in> phases)"

definition work_step :: "env \<Rightarrow> TestWorkload \<Rightarrow> TestWorkload \<Rightarrow> bool" where
  "work_step e w w' \<longleftrightarrow>
     tw_Spec w' = tw_Spec w \<and> tw_Meta w' = tw_Meta w \<and> work_trans (tw_State w) (tw_State w') \<and>
     (tw_State w = TestWorkloadStatePending \<longrightarrow> (\<forall>item\<in>set (items_of w). installed_item e w item)) \<and>
     (tw_State w' = TestWorkloadStateSucceeded \<longrightarrow>
        (\<forall>item\<in>set (items_of w). ended_item e w {ResourcePhaseSucceeded} item)) \<and>
     (tw_State w' = TestWorkloadStateFailed \<longrightarrow>
        (\<forall>item\<in>set (items_of w). ended_item e w {ResourcePhaseSucceeded, ResourcePhaseFailed} item) \<and>
        (\<exists>item\<in>set (items_of w). ended_item e w {ResourcePhaseFailed} item))"

text \<open>What the controller does to a resource: claim a fresh one that is free, or give one back.\<close>

definition claims :: "TestWorkload \<Rightarrow> TestResource \<Rightarrow> TestResource \<Rightarrow> bool" where
  "claims w r r' \<longleftrightarrow>
     tr_Meta r' = tr_Meta r \<and> tr_Spec r' = tr_Spec r \<and>
     tr_State r = ResourceUninitialized \<and> tr_State r' = ResourceUninitialized \<and>
     trst_ClaimRef (tr_Status r) \<in> {None, Some (workload_ref w)} \<and> trst_ClaimRef (tr_Status r') = Some (workload_ref w) \<and> tr_Image r = [] \<and>
     (\<exists>item\<in>set (items_of w). \<exists>c. wi_DockerContainer item = Some c \<and> tr_Image r' = cs_Image c)"

definition gives_back :: "TestWorkload \<Rightarrow> TestResource \<Rightarrow> TestResource \<Rightarrow> bool" where
  "gives_back w r r' \<longleftrightarrow>
     meta_DeletionTimestamp (tw_Meta w) \<noteq> None \<and> CouldUninstall (tr_State r) \<and>
     r' = r\<lparr>tr_Status := (tr_Status r)\<lparr>trst_State := ResourceDestroy, trst_ClaimRef := None\<rparr>\<rparr>"

definition workload_ok :: "env \<Rightarrow> TestWorkload \<Rightarrow> event \<Rightarrow> bool" where
  "workload_ok e w ev \<longleftrightarrow>
     (\<forall>w' err. ev = StatusUpdate (KWorkload w') err \<longrightarrow> work_step e w w') \<and>
     (\<forall>r' err. ev = StatusUpdate (KResource r') err \<longrightarrow>
        (\<exists>item\<in>set (items_of w). \<exists>r. node_read e w item r \<and> (claims w r r' \<or> gives_back w r r')))"

lemma workload_ok_simps [simp]:
  "workload_ok e w (Get k n)" "workload_ok e w (List k2 ns)" "workload_ok e w (Recorded a b c d)"
  "workload_ok e w (Update x err)" "workload_ok e w (StatusUpdate (KWorkload w') err) \<longleftrightarrow> work_step e w w'"
  "workload_ok e w (StatusUpdate (KResource r') err) \<longleftrightarrow>
     (\<exists>item\<in>set (items_of w). \<exists>r. node_read e w item r \<and> (claims w r r' \<or> gives_back w r r'))"
  by (auto simp: workload_ok_def)

lemma emits_workload_event [emits_intros]: "(\<And>a b c d. P (Recorded a b c d)) \<Longrightarrow> emits P (workload_event w ty reason msg)"
  unfolding workload_event_def by (intro emits_intros)

lemma emits_getWorkloadRequestNode [emits_intros]:
  "(\<And>k n. P (Get k n)) \<Longrightarrow> emits P (getWorkloadRequestNode e ns c)"
  unfolding getWorkloadRequestNode_def by (intro emits_intros)

lemma emits_checkTopologiesReady [emits_intros]: "(\<And>k n. P (Get k n)) \<Longrightarrow> emits P (checkTopologiesReady e ks)"
proof (induction ks)
  case Nil
  then show ?case by (simp add: emits_intros)
next
  case (Cons k ks)
  then show ?case unfolding checkTopologiesReady.simps by (intro emits_intros) auto
qed

text \<open>A node that is returned without an error has been read.\<close>

lemma getWorkloadRequestNode_read:
  assumes "run_state (getWorkloadRequestNode e (meta_Namespace (tw_Meta w)) (wi_DockerContainer item)) h = (Done (nodeOpt, err), h')"
  shows "err = None \<Longrightarrow> \<exists>node c. nodeOpt = Some node \<and> wi_DockerContainer item = Some c \<and> node_read e w item node"
    and "nodeOpt = Some node \<Longrightarrow> node = zero_TestResource \<or> node_read e w item node"
  using assms by (auto simp: getWorkloadRequestNode_def node_read_def io_simps split: option.splits sum.splits)

section \<open>Pending\<close>

lemma res_cases:
  obtains (val) x where "m = ret x" | (err) x where "m = Done (Inl x)" | (panic) p where "m = Panicked p" | (run) "m = Running"
proof (cases m)
  case (Done r)
  with val err show thesis by (cases r) auto
qed (use panic run in auto)

lemma claim_node_claims:
  assumes "claim_node lib w topologies resources item c node = ret node'"
    and "item \<in> set (items_of w)" "wi_DockerContainer item = Some c" "\<not> occupied w node"
    and "tr_State node = ResourceUninitialized" "tr_Image node = []"
  shows "claims w node node'"
proof -
  from assms(1) obtain envs where "node' = node\<lparr>tr_Status := (let status = setContainerSpec w item c ((tr_Status node)\<lparr>trst_ClaimRef := Some (workload_ref w)\<rparr>)
      in status\<lparr>trst_ContainerSpec := (trst_ContainerSpec status)\<lparr>rcs_Envs := rcs_Envs (trst_ContainerSpec status) @ envs\<rparr>\<rparr>)\<rparr>"
    by (auto simp: claim_node_def Let_def res_bind_ret_iff)
  moreover have "trst_ClaimRef (tr_Status node) \<in> {None, Some (workload_ref w)}"
    using assms(4) by (auto simp: occupied_def split: option.splits)
  ultimately show ?thesis using assms(2,3,5,6) by (auto simp: claims_def Let_def setContainerSpec_def)
qed

lemma emits_with_node:
  assumes "\<And>k n. P (Get k n)" "\<And>a b c d. P (Recorded a b c d)" "\<And>node. node_read e w item node \<Longrightarrow> emits P (f node)"
  shows "emits P (with_node e w item reason f)"
  unfolding with_node_def Let_def
  by (intro emits_intros assms) (auto dest: getWorkloadRequestNode_read(1))

lemma emits_pending_node:
  assumes "item \<in> set (items_of w)" "wi_DockerContainer item = Some c" "node_read e w item node"
    and "emits (workload_ok e w) skip" "installed_item e w item \<Longrightarrow> emits (workload_ok e w) counted"
  shows "emits (workload_ok e w) (pending_node e lib w topologies resources item c skip counted node)"
proof -
  have claimed: "workload_ok e w (StatusUpdate (KResource node') err)"
    if "claim_node lib w topologies resources item c node = ret node'" "\<not> occupied w node"
      "tr_State node = ResourceUninitialized" "tr_Image node = []" for node' err
    using claim_node_claims [OF that(1) assms(1,2) that(2-4)] assms(1,3) by auto
  have "emits (workload_ok e w) (pending_installed w node counted)" if "tr_State node \<in> {ResourceReady, ResourceFinish}"
    using that assms(3,5) unfolding pending_installed_def Let_def installed_item_def
    by (intro emits_intros) auto
  then show ?thesis
    unfolding pending_node_def Let_def
    by (cases "tr_State node") (auto intro!: emits_intros assms(4) claimed)
qed

lemma pending_items_emits:
  assumes "set items \<subseteq> set (items_of w)"
    and "\<And>m. m \<le> n + length items \<Longrightarrow>
      m = n + length items \<longrightarrow> (\<forall>item\<in>set items. installed_item e w item) \<Longrightarrow> emits (workload_ok e w) (k m)"
  shows "emits (workload_ok e w) (pending_items e lib w topologies resources items n k)"
  using assms
proof (induction items arbitrary: n)
  case Nil
  then show ?case by simp
next
  case (Cons item items)
  have skip: "emits (workload_ok e w) (pending_items e lib w topologies resources items n k)"
    using Cons.prems by (intro Cons.IH) auto
  have count: "emits (workload_ok e w) (pending_items e lib w topologies resources items (n + 1) k)"
    if "installed_item e w item"
    using Cons.prems that by (intro Cons.IH) auto
  from Cons.prems(1) have "item \<in> set (items_of w)" by simp
  with skip count show ?case
    unfolding pending_items.simps
    by (intro emits_with_node emits_case_option emits_crash emits_pending_node) simp_all
qed

lemma pending_workload_ok:
  assumes "tw_State w = TestWorkloadStatePending"
  shows "emits (workload_ok e w) (Workload_reconcilePending e lib order w)"
proof -
  have "work_step e w (set_tw_state TestWorkloadStateRunning w)"
    if "\<forall>item\<in>set (items_of w). installed_item e w item"
    using that assms by (simp add: work_step_def set_tw_state_def)
  then show ?thesis
    unfolding Workload_reconcilePending_def
    by (intro emits_intros pending_items_emits) auto
qed

section \<open>Running\<close>

text \<open>What the loop over the items changes: the recorded phases and nothing else.\<close>

definition same_but_phases :: "TestWorkload \<Rightarrow> TestWorkload \<Rightarrow> bool" where
  "same_but_phases w w' \<longleftrightarrow> tw_Spec w' = tw_Spec w \<and> tw_Meta w' = tw_Meta w \<and> tw_State w' = tw_State w"

lemma same_set_phases: "same_but_phases (set_phases m w) w' \<longleftrightarrow> same_but_phases w w'"
  by (auto simp: same_but_phases_def set_phases_def)

lemma node_read_phases [simp]: "node_read e (set_phases m w) = node_read e w"
  by (intro ext) (simp add: node_read_def set_phases_def)

text \<open>The phases the loop reads, and the counters they give.\<close>

definition phases_read :: "env \<Rightarrow> TestWorkload \<Rightarrow> TestWorkloadItemSpec list \<Rightarrow> ResourcePhase list \<Rightarrow> bool" where
  "phases_read e w items phases \<longleftrightarrow> list_all2 (\<lambda>item phase. ended_item e w {phase} item) items phases"

definition tallied :: "tally \<Rightarrow> ResourcePhase list \<Rightarrow> tally \<Rightarrow> bool" where
  "tallied t phases t' \<longleftrightarrow>
     ta_succeeded t' = ta_succeeded t + length (filter (\<lambda>p. p = ResourcePhaseSucceeded) phases) \<and>
     ta_failed t' = ta_failed t + length (filter (\<lambda>p. p = ResourcePhaseFailed) phases)"

lemma emits_phase_event [emits_intros]: "(\<And>a b c d. P (Recorded a b c d)) \<Longrightarrow> emits P (phase_event w name phase)"
  unfolding phase_event_def by (cases phase) (auto intro!: emits_intros)

lemma running_items_emits:
  assumes "\<And>a b. P (Get a b)" "\<And>a b c d. P (Recorded a b c d)"
    and "\<And>w' t' phases. same_but_phases w w' \<Longrightarrow> phases_read e w items phases \<Longrightarrow> tallied t phases t' \<Longrightarrow> emits P (k w' t')"
  shows "emits P (running_items e w items t k)"
  using assms(3)
proof (induction items arbitrary: w t)
  case Nil
  then show ?case by (simp add: same_but_phases_def phases_read_def tallied_def)
next
  case (Cons item items)
  have "emits P (running_items e (set_phases m w) items (count_phase phase n t) k)"
    if node: "node_read e w item node" and phase: "phase = trst_Phase (tr_Status node)" for node phase m n
  proof (rule Cons.IH)
    fix w' t' phases
    assume "same_but_phases (set_phases m w) w'" "phases_read e (set_phases m w) items phases"
      "tallied (count_phase phase n t) phases t'"
    then show "emits P (k w' t')"
      using node phase
      by (intro Cons.prems [of w' "phase # phases"])
         (auto simp: same_set_phases phases_read_def tallied_def count_phase_def ended_item_def)
  qed
  then show ?case
    unfolding running_items.simps
    by (intro emits_with_node assms(1,2)) (auto simp: Let_def intro!: emits_intros assms(2) split: prod.split)
qed

lemma all_read:
  assumes "phases_read e w items phases" "\<And>p. p \<in> set phases \<Longrightarrow> p \<in> A"
  shows "\<forall>item\<in>set items. ended_item e w A item"
  using assms unfolding phases_read_def by (induction rule: list_all2_induct) (auto simp: ended_item_def)

lemma some_read:
  assumes "phases_read e w items phases" "p \<in> set phases"
  shows "\<exists>item\<in>set items. ended_item e w {p} item"
  using assms unfolding phases_read_def by (metis in_set_conv_nth list_all2_conv_all_nth)

lemma counted_all: "length (filter P xs) = length xs \<Longrightarrow> x \<in> set xs \<Longrightarrow> P x"
  by (metis filter_id_conv length_filter_less order_less_irrefl)

lemma final_step:
  assumes "tw_State w = TestWorkloadStateRunning" "same_but_phases w w'" "phases_read e w (items_of w) phases"
    and "tallied \<lparr>ta_changed = 0, ta_succeeded = 0, ta_failed = 0\<rparr> phases t"
  shows "work_step e w (if ta_succeeded t = length (items_of w) then set_tw_state TestWorkloadStateSucceeded w'
      else if ta_succeeded t + ta_failed t = length (items_of w) then set_tw_state TestWorkloadStateFailed w' else w')"
proof -
  let ?succ = "length (filter (\<lambda>p. p = ResourcePhaseSucceeded) phases)"
  let ?fail = "length (filter (\<lambda>p. p = ResourcePhaseFailed) phases)"
  have t: "ta_succeeded t = ?succ" "ta_failed t = ?fail" using assms(4) by (simp_all add: tallied_def)
  have len: "length phases = length (items_of w)" using assms(3) by (simp add: phases_read_def list_all2_lengthD)
  have "\<forall>item\<in>set (items_of w). ended_item e w {ResourcePhaseSucceeded} item" if "?succ = length phases"
    using all_read [OF assms(3)] counted_all [OF that] by blast
  moreover have "(\<forall>item\<in>set (items_of w). ended_item e w {ResourcePhaseSucceeded, ResourcePhaseFailed} item) \<and>
      (\<exists>item\<in>set (items_of w). ended_item e w {ResourcePhaseFailed} item)"
    if "?succ + ?fail = length phases" "?succ \<noteq> length phases"
  proof -
    have "length (filter (\<lambda>p. p = ResourcePhaseSucceeded \<or> p = ResourcePhaseFailed) xs) =
        length (filter (\<lambda>p. p = ResourcePhaseSucceeded) xs) + length (filter (\<lambda>p. p = ResourcePhaseFailed) xs)" for xs
      by (induction xs) auto
    with that(1) have both: "length (filter (\<lambda>p. p = ResourcePhaseSucceeded \<or> p = ResourcePhaseFailed) phases) = length phases"
      by simp
    have "p = ResourcePhaseSucceeded \<or> p = ResourcePhaseFailed" if "p \<in> set phases" for p
      using counted_all [OF both that] .
    moreover from that have "?fail \<noteq> 0" by (metis add.right_neutral)
    then have "ResourcePhaseFailed \<in> set phases" by (auto simp: filter_empty_conv)
    ultimately show ?thesis using all_read [OF assms(3)] some_read [OF assms(3)] by blast
  qed
  ultimately show ?thesis
    using assms(1,2) by (simp add: t len work_step_def same_but_phases_def set_tw_state_def)
qed

lemma running_workload_ok:
  assumes "tw_State w = TestWorkloadStateRunning"
  shows "emits (workload_ok e w) (Workload_reconcileRunning e w)"
proof -
  have items: "items_of w' = items_of w" if "same_but_phases w w'" for w'
    using that by (simp add: same_but_phases_def)
  show ?thesis
    unfolding Workload_reconcileRunning_def Let_def
    by (intro running_items_emits emits_intros)
       (simp_all only: items workload_ok_simps, rule final_step [OF assms], assumption+)
qed

section \<open>Deletion\<close>

lemma uninstall_ok:
  assumes "meta_DeletionTimestamp (tw_Meta w) \<noteq> None" "set items \<subseteq> set (items_of w)"
  shows "emits (workload_ok e w) (uninstallWorkload e w items)"
  using assms(2)
proof (induction items)
  case Nil
  then show ?case by (simp add: emits_intros)
next
  case (Cons item items)
  have given: "workload_ok e w (StatusUpdate (KResource (node\<lparr>tr_Status :=
      (tr_Status node)\<lparr>trst_State := ResourceDestroy, trst_ClaimRef := None\<rparr>\<rparr>)) err)"
    if run: "run_state (getWorkloadRequestNode e (meta_Namespace (tw_Meta w)) (wi_DockerContainer item)) h = (Done (Some node, er), h')"
      and un: "CouldUninstall (tr_State node)" for node er h h' err
  proof -
    have "\<not> CouldUninstall (tr_State zero_TestResource)" by (simp add: zero_TestResource_def zero_ResourceStatus_def)
    with un getWorkloadRequestNode_read(2) [OF run refl] have "node_read e w item node" by auto
    with Cons.prems assms(1) un show ?thesis by (auto simp: gives_back_def)
  qed
  from Cons show ?case
    unfolding uninstallWorkload.simps by (intro emits_intros) (auto simp del: workload_ok_simps(6) intro: given)
qed

lemma finalize_workload_ok:
  assumes "meta_DeletionTimestamp (tw_Meta w) \<noteq> None"
  shows "emits (workload_ok e w) (finalize_workload e w)"
  unfolding finalize_workload_def by (intro emits_intros uninstall_ok assms) simp_all

lemma workload_state_ok: "emits (workload_ok e w) (workload_state e lib order w)"
proof -
  have "work_step e w (set_tw_state TestWorkloadStatePending (set_phases [] w))" if "tw_State w = TestWorkloadStateNone"
    using that by (simp add: work_step_def set_tw_state_def set_phases_def)
  then show ?thesis
    unfolding workload_state_def Workload_reconcileFinish_def
    by (cases "tw_State w") (auto intro!: emits_intros pending_workload_ok running_workload_ok)
qed

section \<open>The controller\<close>

definition workload_follows :: "env \<Rightarrow> nsname \<Rightarrow> event \<Rightarrow> bool" where
  "workload_follows e req ev \<longleftrightarrow>
     (\<forall>x err. ev = StatusUpdate x err \<longrightarrow> (\<exists>h w fs. ask_workload e h req = Inr w \<and>
        workload_ok e (w\<lparr>tw_Meta := (tw_Meta w)\<lparr>meta_Finalizers := fs\<rparr>\<rparr>) ev))"

text \<open>C32: every status the workload controller writes follows from what it read. A workload runs
  only when each of its nodes was seen ready or finished under its claim, succeeds only when each
  was seen succeeded, fails only when all have ended and one has failed. A resource is claimed only
  when it is fresh and free, and given back only by a workload being deleted.\<close>

theorem workload_steps: "emits (workload_follows e req) (Workload_Reconcile e lib order req)"
proof -
  have other: "workload_follows e req (Get k n)" "workload_follows e req (Update x err)" for k n x err
    by (simp_all add: workload_follows_def)
  have sub: "emits (workload_follows e req) m"
    if "ask_workload e h req = Inr w" "emits (workload_ok e (w\<lparr>tw_Meta := (tw_Meta w)\<lparr>meta_Finalizers := fs\<rparr>\<rparr>)) m"
    for h w fs and m :: "reconcile_result io"
    using that(2) by (rule emits_weaken) (use that(1) in \<open>auto simp: workload_follows_def\<close>)
  have "emits (workload_follows e req) (finalize_workload e w)"
    if "ask_workload e h req = Inr w" "meta_DeletionTimestamp (tw_Meta w) \<noteq> None" for h w
    using sub [OF that(1), of "meta_Finalizers (tw_Meta w)"] finalize_workload_ok [OF that(2)] by simp
  moreover have "emits (workload_follows e req) (workload_state e lib order w)" if "ask_workload e h req = Inr w" for h w
    using sub [OF that, of "meta_Finalizers (tw_Meta w)"] workload_state_ok by simp
  moreover have "emits (workload_follows e req) (workload_state e lib order (w\<lparr>tw_Meta := add_finalizer f (tw_Meta w)\<rparr>))"
    if "ask_workload e h req = Inr w" for h w f
    unfolding add_finalizer_def by (rule sub [OF that workload_state_ok])
  ultimately show ?thesis
    unfolding Workload_Reconcile_def Let_def by (intro emits_intros other) (auto simp: io_simps)
qed

section \<open>Ending\<close>

text \<open>All nodes answer, whatever the moment: each item has ended well.\<close>

definition all_succeed :: "env \<Rightarrow> TestWorkload \<Rightarrow> TestWorkloadItemSpec list \<Rightarrow> bool" where
  "all_succeed e w items \<longleftrightarrow>
     (\<forall>item\<in>set items. \<exists>c node. wi_DockerContainer item = Some c \<and>
        (\<forall>h. \<exists>rr. ask_request e h \<lparr>nn_Namespace = meta_Namespace (tw_Meta w), nn_Name = rrf_Name (cs_ResourceRequest c)\<rparr> = Inr rr) \<and>
        (\<forall>h. ask_resource e h \<lparr>nn_Namespace = meta_Namespace (tw_Meta w), nn_Name = rrf_Node (cs_ResourceRequest c)\<rparr> = Inr node) \<and>
        tr_State node = ResourceFinish \<and> trst_Phase (tr_Status node) = ResourcePhaseSucceeded)"

lemma with_node_run:
  assumes "wi_DockerContainer item = Some c"
    and "\<And>h. \<exists>rr. ask_request e h \<lparr>nn_Namespace = meta_Namespace (tw_Meta w), nn_Name = rrf_Name (cs_ResourceRequest c)\<rparr> = Inr rr"
    and "\<And>h. ask_resource e h \<lparr>nn_Namespace = meta_Namespace (tw_Meta w), nn_Name = rrf_Node (cs_ResourceRequest c)\<rparr> = Inr node"
  shows "\<exists>h'. run_state (with_node e w item reason f) h = run_state (f node) h'"
  using assms(1,3) assms(2) [of h] by (auto simp: with_node_def getWorkloadRequestNode_def io_simps)

definition new_phase :: "TestWorkload \<Rightarrow> TestWorkloadItemSpec list \<Rightarrow> bool" where
  "new_phase w items \<longleftrightarrow>
     (\<exists>item\<in>set items. map_of (phase_map w) (wi_Name item) \<noteq> Some \<lparr>wst_Phase = ResourcePhaseSucceeded\<rparr>)"

lemma record_phase_other:
  "name' \<noteq> name \<Longrightarrow> map_of (fst (record_phase name phase m)) name' = map_of m name'"
  by (auto simp: record_phase_def update_conv' split: option.split)

lemma record_phase_new: "map_of m name \<noteq> Some \<lparr>wst_Phase = phase\<rparr> \<Longrightarrow> snd (record_phase name phase m) > 0"
  by (auto simp: record_phase_def split: option.split)

lemma record_phase_same: "map_of (fst (record_phase name phase m)) name = Some \<lparr>wst_Phase = phase\<rparr>"
  by (auto simp: record_phase_def update_conv' split: option.split)

lemma running_all_succeed:
  assumes "all_succeed e w items"
  shows "\<exists>w' t' h'. run_state (running_items e w items t k) h = run_state (k w' t') h' \<and> same_but_phases w w' \<and>
    ta_succeeded t' = ta_succeeded t + length items \<and> ta_changed t' \<ge> ta_changed t \<and>
    (new_phase w items \<longrightarrow> ta_changed t' > ta_changed t)"
  using assms
proof (induction items arbitrary: w t h)
  case Nil
  then show ?case by (auto simp: same_but_phases_def new_phase_def)
next
  case (Cons item items)
  then obtain c node where c: "wi_DockerContainer item = Some c"
    and req: "\<And>h. \<exists>rr. ask_request e h \<lparr>nn_Namespace = meta_Namespace (tw_Meta w), nn_Name = rrf_Name (cs_ResourceRequest c)\<rparr> = Inr rr"
    and nd: "\<And>h. ask_resource e h \<lparr>nn_Namespace = meta_Namespace (tw_Meta w), nn_Name = rrf_Node (cs_ResourceRequest c)\<rparr> = Inr node"
    and st: "tr_State node = ResourceFinish" "trst_Phase (tr_Status node) = ResourcePhaseSucceeded"
    by (auto simp: all_succeed_def)
  let ?rec = "record_phase (wi_Name item) ResourcePhaseSucceeded (phase_map w)"
  let ?w = "set_phases (fst ?rec) w" and ?t = "count_phase ResourcePhaseSucceeded (snd ?rec) t"
  have "\<exists>h1. run_state (running_items e w (item # items) t k) h = run_state (running_items e ?w items ?t k) h1"
  proof -
    obtain h2 where h2: "run_state (running_items e w (item # items) t k) h = run_state (if tr_State node \<in> {ResourcePending, ResourceDestroy}
       then crash (''there's a bug, it shouldn't see the `'' @ ResourceState_str (tr_State node) @ ''` state'')
       else if tr_State node \<in> {ResourceUninitialized, ResourceReady, ResourceFinish}
       then (let phase = trst_Phase (tr_Status node);
                 (m, n) = record_phase (wi_Name item) phase (phase_map w)
             in do { phase_event w (wi_Name item) phase;
                     running_items e (set_phases m w) items (count_phase phase n t) k })
       else crash (''it's a bug, we forget to process the `'' @ ResourceState_str (tr_State node) @ ''` state'')) h2"
      using with_node_run [OF c req nd] unfolding running_items.simps by blast
    show ?thesis unfolding h2 st
      by (cases ?rec) (auto simp: Let_def phase_event_def workload_event_def io_simps)
  qed
  then obtain h1 where
    "run_state (running_items e w (item # items) t k) h = run_state (running_items e ?w items ?t k) h1" by blast
  moreover have "all_succeed e ?w items" using Cons.prems by (simp add: all_succeed_def set_phases_def)
  from Cons.IH [OF this, of ?t h1] obtain w' t' h' where
    "run_state (running_items e ?w items ?t k) h1 = run_state (k w' t') h'" "same_but_phases ?w w'"
    "ta_succeeded t' = ta_succeeded ?t + length items" "ta_changed t' \<ge> ta_changed ?t"
    "new_phase ?w items \<longrightarrow> ta_changed t' > ta_changed ?t" by blast
  moreover have "snd ?rec > 0 \<or> new_phase ?w items" if "new_phase w (item # items)"
  proof -
    have pm: "phase_map ?w = fst ?rec" by (simp add: phase_map_def set_phases_def)
    from that obtain x where x: "x = item \<or> x \<in> set items"
      "map_of (phase_map w) (wi_Name x) \<noteq> Some \<lparr>wst_Phase = ResourcePhaseSucceeded\<rparr>" by (auto simp: new_phase_def)
    show ?thesis
    proof (cases "wi_Name x = wi_Name item")
      case True
      with x(2) record_phase_new show ?thesis by simp
    next
      case False
      with x have "x \<in> set items" by auto
      moreover from False x(2) have "map_of (phase_map ?w) (wi_Name x) \<noteq> Some \<lparr>wst_Phase = ResourcePhaseSucceeded\<rparr>"
        unfolding pm by (simp add: record_phase_other)
      ultimately show ?thesis unfolding new_phase_def by blast
    qed
  qed
  ultimately show ?case
    by (intro exI [of _ w'] exI [of _ t'] exI [of _ h']) (auto simp: same_set_phases count_phase_def)
qed

lemma running_succeeded:
  assumes "all_succeed e w items" "new_phase w items"
  shows "\<exists>w' t' h'. run_state (running_items e w items \<lparr>ta_changed = 0, ta_succeeded = 0, ta_failed = 0\<rparr> k) h = run_state (k w' t') h' \<and>
    same_but_phases w w' \<and> ta_succeeded t' = length items \<and> ta_changed t' \<noteq> 0"
  using running_all_succeed [OF assms(1), of "\<lparr>ta_changed = 0, ta_succeeded = 0, ta_failed = 0\<rparr>" k h] assms(2) by fastforce

lemma running_ends:
  assumes "all_succeed e w (items_of w)" "new_phase w (items_of w)"
  shows "\<exists>h' w' err. snd (run_state (Workload_reconcileRunning e w) h) = h' @ [StatusUpdate (KWorkload w') err] \<and>
    tw_State w' = TestWorkloadStateSucceeded \<and> tw_Spec w' = tw_Spec w \<and> tw_Meta w' = tw_Meta w"
proof -
  let ?k = "\<lambda>w (t :: tally). if ta_changed t \<noteq> 0
       then (let total = length (ws_Workloads (tw_Spec w));
                 w' = (if ta_succeeded t = total then set_tw_state TestWorkloadStateSucceeded w
                       else if ta_succeeded t + ta_failed t = total then set_tw_state TestWorkloadStateFailed w else w)
             in do { (if ta_succeeded t = total \<or> ta_succeeded t + ta_failed t = total
                      then workload_event w ''Normal'' ''Finish'' ''all workloads finished'' else State_Monad.return ());
                     err \<leftarrow> k8s_StatusUpdate e (KWorkload w');
                     finish (requeue_after (5 * second)) err })
       else finish (requeue_after (5 * second)) None"
  obtain w' t' h' where ended: "run_state (running_items e w (items_of w) \<lparr>ta_changed = 0, ta_succeeded = 0, ta_failed = 0\<rparr> ?k) h = run_state (?k w' t') h'"
    and "same_but_phases w w'" "ta_succeeded t' = length (items_of w)" "ta_changed t' \<noteq> 0"
    using running_succeeded [OF assms, of ?k h] by blast
  from ended have run: "run_state (Workload_reconcileRunning e w) h = run_state (?k w' t') h'"
    unfolding Workload_reconcileRunning_def .
  with \<open>same_but_phases w w'\<close> \<open>ta_succeeded t' = _\<close> \<open>ta_changed t' \<noteq> 0\<close> show ?thesis
    unfolding run
    by (intro exI [of _ "h' @ [Recorded (meta_Name (tw_Meta w')) ''Normal'' ''Finish'' ''all workloads finished'']"]
        exI [of _ "set_tw_state TestWorkloadStateSucceeded w'"])
       (auto simp: same_but_phases_def Let_def workload_event_def set_tw_state_def io_simps)
qed

text \<open>C33: a run of the controller that reads a running workload declares it succeeded in its last write,
  when the workload is not being deleted and has the finalizer, every item has a container whose
  request and node can be read at any moment, the node has ended with success, and for at least one
  item this is not yet the phase recorded. Nothing but the status differs from the workload read.
  The last condition is needed: a workload without items, or all of whose items are already recorded
  as succeeded, is never declared ended.\<close>

theorem workload_ends:
  assumes "ask_workload e h req = Inr w" "tw_State w = TestWorkloadStateRunning"
    and "meta_DeletionTimestamp (tw_Meta w) = None" "testWorkloadFinalizer \<in> set (meta_Finalizers (tw_Meta w))"
    and "all_succeed e w (items_of w)" "new_phase w (items_of w)"
  shows "\<exists>h' w' err. snd (run_state (Workload_Reconcile e lib order req) h) = h' @ [StatusUpdate (KWorkload w') err] \<and>
    tw_State w' = TestWorkloadStateSucceeded \<and> tw_Spec w' = tw_Spec w \<and> tw_Meta w' = tw_Meta w"
proof -
  have "run_state (Workload_Reconcile e lib order req) h =
      run_state (Workload_reconcileRunning e w) (h @ [Get ''TestWorkload'' req])"
    using assms(1-4) by (simp add: Workload_Reconcile_def workload_state_def io_simps StringsContains_iff)
  with running_ends [OF assms(5,6)] show ?thesis by simp
qed

text \<open>A workload of one item whose container has ended well.\<close>

definition demo_item :: TestWorkloadItemSpec where
  "demo_item = \<lparr>wi_Name = ''bench'', wi_DockerContainer = Some \<lparr>
     cs_ResourceRequest = \<lparr>rrf_Name = ''r'', rrf_Node = ''n1''\<rparr>, cs_Image = ''bench'', cs_ImagePullPolicy = PullPolicyNone,
     cs_Command = []\<rparr>\<rparr>"

definition demo_workload :: TestWorkload where
  "demo_workload = \<lparr>tw_Meta = zero_meta\<lparr>meta_Name := ''w'', meta_Namespace := ''ns'', meta_UID := ''w'',
       meta_Finalizers := [testWorkloadFinalizer]\<rparr>,
     tw_Spec = \<lparr>ws_ClusterTopologiesRefs = [], ws_Workloads = [demo_item], ws_TeardownTestClusterTopology = []\<rparr>,
     tw_Status = \<lparr>twst_State = TestWorkloadStateRunning, twst_WorkloadStatus = None, twst_Results = None\<rparr>\<rparr>"

definition demo_ended_env :: env where
  "demo_ended_env = demo_env\<lparr>ask_workload := \<lambda>h n. Inr demo_workload,
     ask_resource := \<lambda>h n. Inr ((demo_node ''n1'' ''10.1.0.1'')\<lparr>tr_Status := zero_ResourceStatus\<lparr>trst_State := ResourceFinish,
       trst_Phase := ResourcePhaseSucceeded\<rparr>\<rparr>)\<rparr>"

theorem workload_ends_witness:
  "\<exists>h' w' err. snd (run_state (Workload_Reconcile demo_ended_env demo_topo_libs (\<lambda>ks. ks) relationshipName) []) = h' @ [StatusUpdate (KWorkload w') err] \<and>
    tw_State w' = TestWorkloadStateSucceeded \<and> tw_Spec w' = tw_Spec demo_workload \<and> tw_Meta w' = tw_Meta demo_workload"
proof (rule workload_ends)
  show "ask_workload demo_ended_env [] relationshipName = Inr demo_workload" by (simp add: demo_ended_env_def)
  show "tw_State demo_workload = TestWorkloadStateRunning" "meta_DeletionTimestamp (tw_Meta demo_workload) = None"
    "testWorkloadFinalizer \<in> set (meta_Finalizers (tw_Meta demo_workload))"
    by (simp_all add: demo_workload_def zero_meta_def)
  show "all_succeed demo_ended_env demo_workload (items_of demo_workload)"
    by (simp add: all_succeed_def demo_workload_def demo_item_def demo_ended_env_def zero_ResourceStatus_def)
  show "new_phase demo_workload (items_of demo_workload)"
    by (simp add: new_phase_def demo_workload_def phase_map_def)
qed

section \<open>Corner cases\<close>

text \<open>A workload without containers is never declared ended.\<close>

lemma empty_workload_never_ends:
  "items_of w = [] \<Longrightarrow> run_state (Workload_reconcileRunning e w) h = (Done (requeue_after (5 * second), None), h)"
  by (simp add: Workload_reconcileRunning_def io_simps)

text \<open>
  A workload that is deleted has the node of its item destroyed even when another workload has
  claimed the node, and takes no notice of a failure of the write.
\<close>

lemma uninstall_ignores_claim:
  assumes "wi_DockerContainer item = Some c" "CouldUninstall (tr_State node)"
    and "\<And>h. ask_request e h \<lparr>nn_Namespace = meta_Namespace (tw_Meta w), nn_Name = rrf_Name (cs_ResourceRequest c)\<rparr> = Inr rr"
    and "\<And>h. ask_resource e h \<lparr>nn_Namespace = meta_Namespace (tw_Meta w), nn_Name = rrf_Node (cs_ResourceRequest c)\<rparr> = Inr node"
  shows "\<exists>h' err. run_state (uninstallWorkload e w [item]) h = (Done None, h' @ [StatusUpdate (KResource (node\<lparr>tr_Status :=
     (tr_Status node)\<lparr>trst_State := ResourceDestroy, trst_ClaimRef := None\<rparr>\<rparr>)) err])"
  using assms by (simp add: getWorkloadRequestNode_def io_simps IgnoreNotFound_def)

end
