(* ===== verification/GoTime.thy ===== *)
theory GoTime
  imports Util
begin

text \<open>
  \<open>pkg/util/duration.go\<close> and \<open>pkg/util/time.go\<close>: durations and times as the texts the API objects
  hold, over \<open>time.ParseDuration\<close>, \<open>time.Parse\<close> and \<open>Time.Format\<close> with the layout RFC 3339.
\<close>

section \<open>Durations\<close>

text \<open>The units, in nanoseconds; the micro sign and the Greek letter are two bytes each.\<close>

definition unitMap :: "(string \<times> int) list" where
  "unitMap =
     [(''ns'', 1), (''us'', 1000), ([CHR 0xC2, CHR 0xB5, CHR ''s''], 1000), ([CHR 0xCE, CHR 0xBC, CHR ''s''], 1000),
      (''ms'', 1000000), (''s'', 1000000000), (''m'', 60 * 1000000000), (''h'', 3600 * 1000000000)]"

text \<open>\<open>leadingInt\<close>: the digits at the front, or \<open>None\<close> when they exceed an \<open>int64\<close>.\<close>

fun leadingInt :: "int \<Rightarrow> string \<Rightarrow> (int \<times> string) option" where
  "leadingInt x [] = Some (x, [])"
| "leadingInt x (c # cs) =
     (case digit_val c of
        None \<Rightarrow> Some (x, c # cs)
      | Some d \<Rightarrow> if 10 * x + int d > max_duration then None else leadingInt (10 * x + int d) cs)"

text \<open>\<open>leadingFraction\<close>: the digits after the point and their scale; digits too many are skipped.\<close>

fun leadingFraction :: "int \<Rightarrow> int \<Rightarrow> bool \<Rightarrow> string \<Rightarrow> int \<times> int \<times> string" where
  "leadingFraction x scale overflow [] = (x, scale, [])"
| "leadingFraction x scale overflow (c # cs) =
     (case digit_val c of
        None \<Rightarrow> (x, scale, c # cs)
      | Some d \<Rightarrow>
          if overflow \<or> 10 * x + int d > max_duration then leadingFraction x scale True cs
          else leadingFraction (10 * x + int d) (10 * scale) False cs)"

definition is_unit_char :: "char \<Rightarrow> bool" where
  "is_unit_char c \<longleftrightarrow> c \<noteq> CHR ''.'' \<and> digit_val c = None"

text \<open>
  One number with its unit: the value in nanoseconds and the rest. The fraction is computed exactly;
  Go computes it in floating point, which can differ below the nanosecond.
\<close>

definition point_part :: "string \<Rightarrow> int \<times> int \<times> string \<times> bool" where
  "point_part r =
     (case r of
        [] \<Rightarrow> (0, 1, r, False)
      | c # cs \<Rightarrow>
          if c = CHR ''.''
          then (case leadingFraction 0 1 False cs of (f, scale, q) \<Rightarrow> (f, scale, q, q \<noteq> cs))
          else (0, 1, r, False))"

definition parse_part :: "string \<Rightarrow> (int \<times> string) option" where
  "parse_part s =
     (case leadingInt 0 s of
        None \<Rightarrow> None
      | Some (v, r) \<Rightarrow>
          let pre = (r \<noteq> s);
              (f, scale, r', post) = point_part r;
              u = takeWhile is_unit_char r'; rest = dropWhile is_unit_char r'
          in if \<not> pre \<and> \<not> post then None
             else case map_of unitMap u of
                    None \<Rightarrow> None
                  | Some unit \<Rightarrow>
                      if v > max_duration div unit then None
                      else let w = v * unit + f * unit div scale
                           in if w > max_duration then None else Some (w, rest))"

lemma leadingInt_length: "leadingInt x s = Some (v, r) \<Longrightarrow> length r \<le> length s"
  by (induction x s rule: leadingInt.induct) (auto split: option.splits if_splits)

lemma leadingFraction_length: "leadingFraction x sc ov s = (f, sc', r) \<Longrightarrow> length r \<le> length s"
  by (induction x sc ov s rule: leadingFraction.induct) (auto split: option.splits if_splits)

lemma unitMap_nonempty: "map_of unitMap u = Some n \<Longrightarrow> u \<noteq> []"
  by (auto simp: unitMap_def split: if_splits)

lemma parse_part_length:
  assumes "parse_part s = Some (w, rest)"
  shows "length rest < length s"
proof -
  from assms obtain v r where r: "leadingInt 0 s = Some (v, r)"
    by (auto simp: parse_part_def split: option.splits)
  obtain f scale r' post where r': "point_part r = (f, scale, r', post)" by (cases "point_part r")
  with assms r obtain n where "map_of unitMap (takeWhile is_unit_char r') = Some n"
    and rest: "rest = dropWhile is_unit_char r'"
    by (auto simp: parse_part_def Let_def split: option.splits if_splits)
  from unitMap_nonempty [OF this(1)] have "length rest < length r'"
    unfolding rest by (cases r') (auto simp: length_dropWhile_le less_Suc_eq_le split: if_splits)
  moreover have "length r' \<le> length r"
  proof (cases r)
    case (Cons c cs)
    obtain f2 sc2 q where "leadingFraction 0 1 False cs = (f2, sc2, q)" by (metis prod_cases3)
    with r' Cons leadingFraction_length [OF this] show ?thesis by (auto simp: point_part_def split: if_splits)
  qed (use r' in \<open>simp add: point_part_def\<close>)
  ultimately show ?thesis using leadingInt_length [OF r] by simp
qed

text \<open>The parts are added up; the sum must stay an \<open>int64\<close>.\<close>

function parse_parts :: "int \<Rightarrow> string \<Rightarrow> int option" where
  "parse_parts d s =
     (if s = [] then Some d
      else case parse_part s of
             None \<Rightarrow> None
           | Some (v, rest) \<Rightarrow> if d + v > max_duration then None else parse_parts (d + v) rest)"
  by pat_completeness auto
termination
  by (relation "measure (\<lambda>(d, s). length s)") (auto dest: parse_part_length)

declare parse_parts.simps [simp del]

definition Duration_Parse :: "string \<Rightarrow> int option" where
  "Duration_Parse r =
     (let (neg, s) = (case r of
          [] \<Rightarrow> (False, [])
        | c # cs \<Rightarrow> if c = CHR ''-'' then (True, cs) else if c = CHR ''+'' then (False, cs) else (False, r))
      in if s = ''0'' then Some 0
         else if s = [] then None
         else map_option (\<lambda>d. if neg then - d else d) (parse_parts 0 s))"

definition Duration_Unwrap :: "string \<Rightarrow> int go" where
  "Duration_Unwrap r =
     (case Duration_Parse r of
        None \<Rightarrow> Panicked (''Duration('' @ r @ '') is invalid'')
      | Some d \<Rightarrow> Done d)"

lemma duration_examples:
  "Duration_Parse ''1h15m30.5s'' = Some (4530500000000)" "Duration_Parse ''-1.5h'' = Some (- 5400000000000)"
  "Duration_Parse ''5'' = None" "Duration_Parse ''.s'' = None" "Duration_Parse ''2562048h'' = None"
  by code_simp+

section \<open>Times\<close>

text \<open>
  A \<open>time.Time\<close> is its distance in nanoseconds from 0001-01-01T00:00:00 UTC, as in \<open>time_Parse\<close>.
  \<open>Format\<close> writes the date and the time in the local zone, \<open>tz\<close> minutes east of UTC: the year and
  the month are found by walking from the first one.
\<close>

definition year_len :: "int \<Rightarrow> int" where
  "year_len y = (if is_leap y then 366 else 365)"

function year_from :: "int \<Rightarrow> int \<Rightarrow> int \<times> int" where
  "year_from y n = (if n < year_len y then (y, n) else year_from (y + 1) (n - year_len y))"
  by pat_completeness auto
termination
  by (relation "measure (\<lambda>(y, n). nat n)") (auto simp: year_len_def split: if_splits)

function month_from :: "int \<Rightarrow> int \<Rightarrow> int \<Rightarrow> int \<times> int" where
  "month_from y m n = (if n < days_in y m \<or> m \<ge> 12 then (m, n) else month_from y (m + 1) (n - days_in y m))"
  by pat_completeness auto
termination
  by (relation "measure (\<lambda>(y, m, n). nat (12 - m))") auto

declare year_from.simps [simp del] month_from.simps [simp del]

definition pad2 :: "int \<Rightarrow> string" where
  "pad2 n = [char_of (48 + nat n div 10), char_of (48 + nat n mod 10)]"

definition format_zone :: "int \<Rightarrow> string" where
  "format_zone tz =
     (if tz = 0 then ''Z''
      else (if tz < 0 then CHR ''-'' else CHR ''+'') # pad2 (\<bar>tz\<bar> div 60) @ '':'' @ pad2 (\<bar>tz\<bar> mod 60))"

definition Time_Format :: "int \<Rightarrow> int \<Rightarrow> string" where
  "Time_Format tz t =
     (let local = t div 1000000000 + tz * 60;
          (y, n) = year_from 1 (local div 86400); (m, d) = month_from y 1 n; s = local mod 86400
      in pad2 (y div 100) @ pad2 (y mod 100) @ ''-'' @ pad2 m @ ''-'' @ pad2 (d + 1) @ ''T'' @
         pad2 (s div 3600) @ '':'' @ pad2 (s div 60 mod 60) @ '':'' @ pad2 (s mod 60) @ format_zone tz)"

definition NewTime :: "int \<Rightarrow> int \<Rightarrow> string" where
  "NewTime tz t = Time_Format tz t"

definition Time_Unwrap :: "string \<Rightarrow> int go" where
  "Time_Unwrap r =
     (case time_Parse r of
        None \<Rightarrow> Panicked (''Time('' @ r @ '') is invalid'')
      | Some t \<Rightarrow> Done t)"

subsection \<open>Reading a time back\<close>

lemma num2_pad2: "0 \<le> n \<Longrightarrow> n < 100 \<Longrightarrow> num2 (pad2 n @ r) = Some (n, r)"
  by (simp add: num2_def pad2_def digit_val_char_of)

lemma expect_Cons: "expect c (c # r) = Some r"
  by (simp add: expect_def)

lemma div_pred:
  assumes "0 < k"
  shows "y div k = (y - 1) div k + (if y mod k = 0 then 1 else (0 :: int))"
proof -
  define q r where "q = y div k" and "r = y mod k"
  have y: "y = k * q + r" "0 \<le> r" "r < k" using assms by (simp_all add: q_def r_def)
  show ?thesis
  proof (cases "r = 0")
    case True
    have "(y - 1) div k = q - 1" by (rule int_div_pos_eq [of _ _ _ "k - 1"]) (use y True assms in \<open>auto simp: algebra_simps\<close>)
    with True show ?thesis by (simp add: q_def r_def)
  next
    case False
    have "(y - 1) div k = q" by (rule int_div_pos_eq [of _ _ _ "r - 1"]) (use y False in auto)
    with False show ?thesis by (simp add: q_def r_def)
  qed
qed

lemma leap_count:
  "(c \<Longrightarrow> b) \<Longrightarrow> (b \<Longrightarrow> a) \<Longrightarrow>
   (if a \<and> (\<not> b \<or> c) then 366 else (365 :: int)) = 365 + (if a then 1 else 0) - (if b then 1 else 0) + (if c then 1 else 0)"
  by auto

lemma days_since_year: "days_since (y + 1) 1 1 = days_since y 1 1 + year_len y"
proof -
  have divs: "y div 4 = (y - 1) div 4 + (if y mod 4 = 0 then 1 else 0)"
    "y div 100 = (y - 1) div 100 + (if y mod 100 = 0 then 1 else 0)"
    "y div 400 = (y - 1) div 400 + (if y mod 400 = 0 then 1 else 0)"
    by (rule div_pred, rule zero_less_numeral)+
  have "y mod 400 = 0 \<Longrightarrow> y mod 100 = 0" "y mod 100 = 0 \<Longrightarrow> y mod 4 = 0"
    by (auto simp: mod_eq_0_iff_dvd intro: dvd_trans [of 100 400] dvd_trans [of 4 100])
  then have len: "year_len y = 365 + (if y mod 4 = 0 then 1 else 0) - (if y mod 100 = 0 then 1 else 0) + (if y mod 400 = 0 then 1 else 0)"
    unfolding year_len_def is_leap_def by (rule leap_count)
  have succ: "days_since (y + 1) 1 1 = 365 * y + y div 4 - y div 100 + y div 400"
    and self: "days_since y 1 1 = 365 * (y - 1) + (y - 1) div 4 - (y - 1) div 100 + (y - 1) div 400"
    by (simp_all add: days_since_def days_before_def)
  have sum: "365 * y + a - b + c = (365 * (y - 1) + a' - b' + c') + (365 + i - j + k)"
    if "a = a' + i" "b = b' + j" "c = c' + k" for a b c a' b' c' i j k
    using that by simp
  show ?thesis unfolding succ self len by (rule sum [OF divs])
qed

lemma year_from_days:
  "0 \<le> n \<Longrightarrow> year_from y n = (y', r) \<Longrightarrow> 0 \<le> r \<and> r < year_len y' \<and> y \<le> y' \<and> days_since y 1 1 + n = days_since y' 1 1 + r"
proof (induction y n rule: year_from.induct)
  case (1 y n)
  show ?case
  proof (cases "n < year_len y")
    case False
    with 1 show ?thesis by (subst (asm) (2) year_from.simps) (simp add: days_since_year)
  qed (use 1 in \<open>subst (asm) (2) year_from.simps, simp\<close>)
qed

lemma days_before_next: "1 \<le> m \<Longrightarrow> days_before y (m + 1) = days_before y m + days_in y m"
proof -
  assume "1 \<le> m"
  then have "Suc 0 \<le> nat m" by linarith
  with \<open>1 \<le> m\<close> show ?thesis by (simp add: days_before_def nat_add_distrib)
qed

lemma days_in_year: "days_before y 13 = year_len y"
  by (simp add: days_before_def year_len_def days_in_def upt_rec)

lemma days_in_pos: "28 \<le> days_in y m \<and> days_in y m \<le> 31"
  by (simp add: days_in_def)

lemma month_from_days:
  assumes "1 \<le> m" "m \<le> 12" "0 \<le> n" "days_before y m + n < year_len y" "month_from y m n = (m', d)"
  shows "1 \<le> m' \<and> m' \<le> 12 \<and> 0 \<le> d \<and> d < days_in y m' \<and> days_before y m + n = days_before y m' + d"
  using assms
proof (induction y m n rule: month_from.induct)
  case (1 y m n)
  have last: "n < days_in y m" if "m = 12"
    using 1(5) that days_before_next [of 12 y] days_in_year [of y] by simp
  show ?case
  proof (cases "n < days_in y m \<or> m \<ge> 12")
    case True
    with 1(2-6) last show ?thesis by (subst (asm) month_from.simps) auto
  next
    case False
    with 1 days_before_next [of m y] show ?thesis by (subst (asm) (2) month_from.simps) auto
  qed
qed

lemma days_since_mono: "y \<le> y' \<Longrightarrow> days_since y 1 1 \<le> days_since y' 1 1"
proof (induction y' rule: int_ge_induct)
  case (step i)
  then show ?case by (simp add: days_since_year year_len_def)
qed simp

lemma days_since_split: "days_since y m d = days_since y 1 1 + days_before y m + (d - 1)"
  by (simp add: days_since_def days_before_def)

lemma parse_zone_format:
  assumes "\<bar>tz\<bar> < 1440"
  shows "parse_zone (format_zone tz) = Some (tz * 60)"
proof -
  have "0 \<le> \<bar>tz\<bar> div 60" "\<bar>tz\<bar> div 60 < 24" "0 \<le> \<bar>tz\<bar> mod 60" "\<bar>tz\<bar> mod 60 < 60" using assms by simp_all
  then show ?thesis
    using num2_pad2 [of "\<bar>tz\<bar> mod 60" "[]"]
    by (auto simp: parse_zone_def format_zone_def num2_pad2 expect_Cons)
qed

lemma parse_frac_zone: "parse_frac (format_zone tz) = (0, format_zone tz)"
  by (simp add: parse_frac_def format_zone_def pad2_def)

text \<open>The date and the time of the day that are printed are in range and give the instant back.\<close>

lemma local_fields:
  assumes "0 \<le> l" "l < days_since 10000 1 1 * 86400"
    and "year_from 1 (l div 86400) = (y, n)" "month_from y 1 n = (m, d)"
  shows "1 \<le> y \<and> y \<le> 9999 \<and> 1 \<le> m \<and> m \<le> 12 \<and> 0 \<le> d \<and> d < days_in y m \<and> days_since y m (d + 1) = l div 86400"
proof -
  from assms(1) have "0 \<le> l div 86400" by simp
  from year_from_days [OF this assms(3)] have y: "0 \<le> n" "n < year_len y" "1 \<le> y" "l div 86400 = days_since y 1 1 + n"
    by (auto simp: days_since_def days_before_def)
  have "days_before y 1 = 0" by (simp add: days_before_def)
  with month_from_days [of 1 n y m d] y(1,2) assms(4)
  have m: "1 \<le> m" "m \<le> 12" "0 \<le> d" "d < days_in y m" "n = days_before y m + d" by simp_all
  from assms(2) have "l div 86400 < days_since 10000 1 1" by (simp add: div_less_iff_less_mult)
  with y days_since_mono [of 10000 y] have "y \<le> 9999" by linarith
  with y m show ?thesis by (simp add: days_since_split [of y m])
qed

lemma parse_fields:
  assumes "0 \<le> y1" "y1 < 100" "0 \<le> y2" "y2 < 100" "1 \<le> mo" "mo \<le> 12" "1 \<le> d" "d \<le> days_in (100 * y1 + y2) mo"
    and "0 \<le> h" "h < 24" "0 \<le> mi" "mi < 60" "0 \<le> sec" "sec < 60" "\<bar>tz\<bar> < 1440"
  shows "time_Parse (pad2 y1 @ pad2 y2 @ ''-'' @ pad2 mo @ ''-'' @ pad2 d @ ''T'' @ pad2 h @ '':'' @ pad2 mi @ '':'' @ pad2 sec @
     format_zone tz) = Some ((((days_since (100 * y1 + y2) mo d * 24 + h) * 60 + mi) * 60 + sec - tz * 60) * 1000000000)"
proof -
  have "d < 100" using assms(8) days_in_pos [of "100 * y1 + y2" mo] by linarith
  with assms(1-14) show ?thesis
    unfolding time_Parse_def
    by (simp add: num2_pad2 expect_Cons parse_frac_zone parse_zone_format [OF assms(15)])
qed

lemma Parse_Format:
  assumes "\<bar>tz\<bar> < 1440" "0 \<le> t div 1000000000 + tz * 60" "t div 1000000000 + tz * 60 < days_since 10000 1 1 * 86400"
  shows "time_Parse (Time_Format tz t) = Some (t - t mod 1000000000)"
proof -
  define l where "l = t div 1000000000 + tz * 60"
  define s where "s = l mod 86400"
  obtain y n where y: "year_from 1 (l div 86400) = (y, n)" by (cases "year_from 1 (l div 86400)")
  obtain m d where m: "month_from y 1 n = (m, d)" by (cases "month_from y 1 n")
  from local_fields [OF _ _ y m] assms(2,3) have f: "1 \<le> y" "y \<le> 9999" "1 \<le> m" "m \<le> 12" "0 \<le> d" "d < days_in y m"
    "days_since y m (d + 1) = l div 86400" by (auto simp: l_def)
  have hms: "0 \<le> s" "s < 86400" by (simp_all add: s_def)
  then have hour: "0 \<le> s div 3600" "s div 3600 < 24" and "0 \<le> s div 60 mod 60" "s div 60 mod 60 < 60" "0 \<le> s mod 60" "s mod 60 < 60"
    by (auto simp: div_less_iff_less_mult)
  have year: "0 \<le> y div 100" "y div 100 < 100" "0 \<le> y mod 100" "y mod 100 < 100" "100 * (y div 100) + y mod 100 = y"
    using f(1,2) by (auto simp: div_less_iff_less_mult pos_imp_zdiv_nonneg_iff)
  have time: "(s div 3600 * 60 + s div 60 mod 60) * 60 + s mod 60 = s"
  proof -
    have "s div 3600 = s div 60 div 60" using zdiv_zmult2_eq [of 60 s 60] by simp
    then show ?thesis by (simp only: div_mult_mod_eq)
  qed
  have "time_Parse (Time_Format tz t) =
      Some ((((days_since (100 * (y div 100) + y mod 100) m (d + 1) * 24 + s div 3600) * 60 + s div 60 mod 60) * 60 + s mod 60 - tz * 60) * 1000000000)"
    unfolding Time_Format_def l_def [symmetric] Let_def s_def [symmetric] y m prod.case
    by (rule parse_fields) (use f year hour assms(1) in auto)
  also have "(((days_since (100 * (y div 100) + y mod 100) m (d + 1) * 24 + s div 3600) * 60 + s div 60 mod 60) * 60 + s mod 60 - tz * 60) =
      l div 86400 * 86400 + s - tz * 60"
    unfolding year(5) f(7) using time by (simp add: algebra_simps)
  also have "l div 86400 * 86400 + s - tz * 60 = t div 1000000000" by (simp add: s_def l_def)
  finally show ?thesis by (simp add: minus_mod_eq_mult_div mult.commute)
qed

text \<open>C34: a time the controllers write is read back to the second, whatever the time zone of the
  process, and never panics.\<close>

theorem time_roundtrip:
  assumes "\<bar>tz\<bar> < 1440" "0 \<le> t div 1000000000 + tz * 60" "t div 1000000000 + tz * 60 < days_since 10000 1 1 * 86400"
  shows "Time_Unwrap (NewTime tz t) = Done (t - t mod 1000000000)"
  using Parse_Format [OF assms] by (simp add: Time_Unwrap_def NewTime_def)

theorem time_roundtrip_witness:
  "Time_Unwrap (NewTime 480 63740000000123456789) = Done 63740000000000000000"
  using time_roundtrip [of 480 63740000000123456789] by (simp add: days_since_def days_before_def)

end
