(* ===== verification/Chaos_Controller.thy ===== *)
theory Chaos_Controller
  imports GoTime Ssh Resource_Controller Request_Controller
begin

text \<open>
  \<open>controllers/procchaos_controller.go\<close> and \<open>api/v1/procchaos_webhook.go\<close>: each task of a process
  chaos kills processes in the container of one of its nodes, once or periodically.

  Two things the code does not define are parameters: the script that lists the processes, read from
  the box of scripts packed into the binary, and the JSON decoder for its output. So is the time zone
  of the process, in minutes east of UTC. The clock counts nanoseconds from 0001-01-01 UTC.
\<close>

record chaos_libs =
  cl_script :: "error + string"
  cl_unmarshal :: "string \<Rightarrow> error + string list"
  cl_zone :: int

section \<open>Webhook\<close>

fun validate_tasks :: "ProcChaosTask list \<Rightarrow> error option" where
  "validate_tasks [] = None"
| "validate_tasks (task # ts) =
     (if pct_Period task \<noteq> [] \<and> Duration_Parse (pct_Period task) = None
      then Some (ErrMsg (''time: invalid duration '' @ pct_Period task))
      else validate_tasks ts)"

definition ProcChaos_ValidateCreate :: "ProcChaos \<Rightarrow> error option" where
  "ProcChaos_ValidateCreate r =
     (if pcsp_Tasks (pc_Spec r) = [] then Some (ErrMsg ''tasks cannot be empty'')
      else validate_tasks (pcsp_Tasks (pc_Spec r)))"

definition ProcChaos_ValidateUpdate :: "ProcChaos \<Rightarrow> ProcChaos \<Rightarrow> error option" where
  "ProcChaos_ValidateUpdate r old =
     (if pcsp_Tasks (pc_Spec r) \<noteq> pcsp_Tasks (pc_Spec old) then Some (ErrMsg ''cannot update tasks'') else None)"

definition ProcChaos_ValidateDelete :: "ProcChaos \<Rightarrow> error option" where
  "ProcChaos_ValidateDelete r = None"

section \<open>Killing\<close>

definition Rand_one :: "env \<Rightarrow> string list \<Rightarrow> string go io" where
  "Rand_one e strSlice = ask (\<lambda>h. RandOne (ask_random e h) strSlice) (\<lambda>_. Random (length strSlice))"

definition Now :: "env \<Rightarrow> int io" where
  "Now e = ask (\<lambda>h. ask_clock e h) (\<lambda>_. Clock)"

text \<open>The loop over the items of the request: whether the node is one of them, and its resource.\<close>

fun find_node_item ::
  "env \<Rightarrow> TestResourceRequest \<Rightarrow> string \<Rightarrow> ResourceRequestItem list \<Rightarrow> TestResource option \<Rightarrow> (error + TestResource option) io" where
  "find_node_item e request node [] found = State_Monad.return (Inr found)"
| "find_node_item e request node (item # items) found =
     (if node = rri_Name item
      then do { r \<leftarrow> Get_resource e \<lparr>nn_Namespace = meta_Namespace (trr_Meta request), nn_Name = node\<rparr>;
                case r of
                  Inl err \<Rightarrow> State_Monad.return (Inl err)
                | Inr resource \<Rightarrow> find_node_item e request node items (Some resource) }
      else find_node_item e request node items found)"

text \<open>
  The second half of \<open>killProc\<close>: list the processes in the container, choose, and kill. Nothing to
  kill is no error.
\<close>

definition kill_in ::
  "env \<Rightarrow> chaos_libs \<Rightarrow> string \<Rightarrow> string \<Rightarrow> ProcChaosTask \<Rightarrow> unit res io" where
  "kill_in e lib docker container task =
     (case cl_script lib of
        Inl err \<Rightarrow> io_fail err
      | Inr findProc \<Rightarrow>
          do { out \<leftarrow> Exec e docker container [''PROC='' @ pct_Pattern task] [''sh'', ''-c'', findProc];
               case out of
                 Inl err \<Rightarrow> io_fail err
               | Inr stdout \<Rightarrow>
                   (case cl_unmarshal lib stdout of
                      Inl err \<Rightarrow> io_fail err
                    | Inr procs \<Rightarrow>
                        if procs = [] then io_ret ()
                        else do { chosen \<leftarrow> (if pct_KillAll task then State_Monad.return (Done procs)
                                            else do { p \<leftarrow> Rand_one e procs; State_Monad.return (go_bind p (\<lambda>p. Done [p])) });
                                  case chosen of
                                    Panicked p \<Rightarrow> State_Monad.return (Panicked p)
                                  | Running \<Rightarrow> State_Monad.return Running
                                  | Done procs \<Rightarrow>
                                      do { r \<leftarrow> Exec e docker container [] [''sh'', ''-c'', ''kill -9 '' @ Join procs '' ''];
                                           case r of Inl err \<Rightarrow> io_fail err | Inr _ \<Rightarrow> io_ret () } }) })"

text \<open>The first half: from the chosen node to the Docker daemon of the machine it is bound to.\<close>

definition killProc :: "env \<Rightarrow> chaos_libs \<Rightarrow> ProcChaosTask \<Rightarrow> TestResourceRequest \<Rightarrow> string res io" where
  "killProc e lib task request =
     do { n \<leftarrow> Rand_one e (pct_Nodes task);
          case n of
            Panicked p \<Rightarrow> State_Monad.return (Panicked p)
          | Running \<Rightarrow> State_Monad.return Running
          | Done node \<Rightarrow>
              do { r \<leftarrow> find_node_item e request node (trrs_Items (trr_Spec request)) None;
                   case r of
                     Inl err \<Rightarrow> io_fail err
                   | Inr found \<Rightarrow>
                       (case found of
                          None \<Rightarrow> io_fail (ErrMsg (''node('' @ node @ '') is not exist''))
                        | Some resource \<Rightarrow>
                            if tr_State resource \<noteq> ResourceReady then io_fail (ErrMsg (''Resource('' @ node @ '') not ready''))
                            else do { rel \<leftarrow> Get_relationship e relationshipName;
                                      case rel of
                                        Inl err \<Rightarrow> io_fail err
                                      | Inr relation \<Rightarrow>
                                          (case nil_get (ResourceToMachine (rel_Status relation)) (resource_key resource) of
                                             None \<Rightarrow> io_fail (ErrMsg (''Resource('' @ node @ '') is not bound with any machine''))
                                           | Some machineRef \<Rightarrow>
                                               do { m \<leftarrow> Get_machine e (Namespaced (mr_Ref machineRef));
                                                    case m of
                                                      Inl err \<Rightarrow> io_fail err
                                                    | Inr machine \<Rightarrow>
                                                        do { c \<leftarrow> MakeClient e machine;
                                                             case c of
                                                               Inl err \<Rightarrow> io_fail err
                                                             | Inr docker \<Rightarrow>
                                                                 io_then (kill_in e lib docker (ContainerName resource) task)
                                                                   (\<lambda>_. io_ret node) } }) }) } }"

section \<open>The reconciler\<close>

text \<open>\<open>kill\<close>: the node is chosen and the processes killed, then the time is recorded.\<close>

definition kill_task :: "env \<Rightarrow> chaos_libs \<Rightarrow> ProcChaosTask \<Rightarrow> TestResourceRequest \<Rightarrow> ProcChaosState res io" where
  "kill_task e lib task request =
     io_then (killProc e lib task request) (\<lambda>node.
       do { now \<leftarrow> Now e;
            io_ret \<lparr>pcs_KilledTime = NewTime (cl_zone lib) now, pcs_KilledNode = node\<rparr> })"

definition set_states :: "ProcChaosState list \<Rightarrow> ProcChaos \<Rightarrow> ProcChaos" where
  "set_states states c = c\<lparr>pc_Status := \<lparr>pcst_States = states\<rparr>\<rparr>"

definition write_chaos :: "env \<Rightarrow> ProcChaos \<Rightarrow> reconcile_result io" where
  "write_chaos e c = do { err \<leftarrow> k8s_StatusUpdate e (KChaos c); finish no_requeue err }"

text \<open>A task without a state yet gets one: a periodic task starts its first period, another kills at once.\<close>

definition first_kill :: "env \<Rightarrow> chaos_libs \<Rightarrow> ProcChaos \<Rightarrow> TestResourceRequest \<Rightarrow> reconcile_result io" where
  "first_kill e lib c request =
     (let states = pcst_States (pc_Status c); task = pcsp_Tasks (pc_Spec c) ! length states
      in if pct_Period task \<noteq> []
         then do { now \<leftarrow> Now e;
                   write_chaos e (set_states (states @ [\<lparr>pcs_KilledTime = NewTime (cl_zone lib) now, pcs_KilledNode = []\<rparr>]) c) }
         else handle (kill_task e lib task request) (\<lambda>state. write_chaos e (set_states (states @ [state]) c)))"

text \<open>\<open>time.Since\<close> saturates; the subtraction from the period is one of 64-bit integers.\<close>

definition since :: "int \<Rightarrow> int \<Rightarrow> int" where
  "since now t = max (- (2 ^ 63)) (min max_duration (now - t))"

text \<open>
  The loop over the tasks from index \<open>i\<close>, with the waiting times collected so far. The first
  periodic task that is due kills and ends the run.
\<close>

fun periodic_kills ::
  "env \<Rightarrow> chaos_libs \<Rightarrow> ProcChaos \<Rightarrow> TestResourceRequest \<Rightarrow> nat \<Rightarrow> ProcChaosTask list \<Rightarrow> int list \<Rightarrow> reconcile_result io" where
  "periodic_kills e lib c request i [] durations = finish (requeue_both (MinDuration durations)) None"
| "periodic_kills e lib c request i (task # ts) durations =
     (if pct_Period task = [] then periodic_kills e lib c request (i + 1) ts durations
      else (let states = pcst_States (pc_Status c); state = states ! i
            in case (Duration_Unwrap (pct_Period task), Time_Unwrap (pcs_KilledTime state)) of
                 (Done period, Done killed) \<Rightarrow>
                   do { now \<leftarrow> Now e;
                        let duration = int64 (period - since now killed);
                        if duration \<le> 0
                        then handle (kill_task e lib task request) (\<lambda>state. write_chaos e (set_states (states[i := state]) c))
                        else periodic_kills e lib c request (i + 1) ts (durations @ [duration]) }
               | (Done period, Panicked p) \<Rightarrow> crash p
               | (Panicked p, _) \<Rightarrow> crash p
               | _ \<Rightarrow> State_Monad.return Running))"

definition ProcChaos_Reconcile :: "env \<Rightarrow> chaos_libs \<Rightarrow> nsname \<Rightarrow> reconcile_result io" where
  "ProcChaos_Reconcile e lib req =
     do { r \<leftarrow> Get_chaos e req;
          case r of
            Inl err \<Rightarrow> finish no_requeue (IgnoreNotFound (Some err))
          | Inr c \<Rightarrow>
              do { q \<leftarrow> Get_request e \<lparr>nn_Namespace = nn_Namespace req, nn_Name = pcsp_Request (pc_Spec c)\<rparr>;
                   case q of
                     Inl err \<Rightarrow> finish no_requeue (IgnoreNotFound (Some err))
                   | Inr request \<Rightarrow>
                       if trrst_State (trr_Status request) \<noteq> TestResourceRequestReady then finish (requeue_both second) None
                       else if length (pcst_States (pc_Status c)) < length (pcsp_Tasks (pc_Spec c))
                       then first_kill e lib c request
                       else periodic_kills e lib c request 0 (pcsp_Tasks (pc_Spec c)) [] } }"

end
