(* ===== verification/Chaos_Props.thy ===== *)
theory Chaos_Props
  imports Chaos_Controller
begin

text \<open>
  Properties of the process chaos controller: where it kills and when, how long it waits, and that
  it does not panic on what the webhook lets through.
\<close>

section \<open>Where and when it kills\<close>

text \<open>
  The container of a ready resource that the task names and the request holds, on the machine the
  relationship binds it to, each as it was read at some moment.
\<close>

definition kill_target :: "env \<Rightarrow> TestResourceRequest \<Rightarrow> ProcChaosTask \<Rightarrow> string \<Rightarrow> string \<Rightarrow> bool" where
  "kill_target e request task docker container \<longleftrightarrow>
     (\<exists>resource rel mref machine h1 h2 h3. \<exists>item\<in>set (trrs_Items (trr_Spec request)). rri_Name item \<in> set (pct_Nodes task) \<and>
        ask_resource e h1 \<lparr>nn_Namespace = meta_Namespace (trr_Meta request), nn_Name = rri_Name item\<rparr> = Inr resource \<and>
        tr_State resource = ResourceReady \<and> container = ContainerName resource \<and>
        ask_relationship e h2 relationshipName = Inr rel \<and>
        nil_get (ResourceToMachine (rel_Status rel)) (resource_key resource) = Some mref \<and>
        ask_machine e h3 (Namespaced (mr_Ref mref)) = Inr machine \<and> docker = DockerURL machine)"

text \<open>A one-shot task is due while it has no state, a periodic one when its period is over.\<close>

definition task_due :: "env \<Rightarrow> ProcChaos \<Rightarrow> ProcChaosTask \<Rightarrow> bool" where
  "task_due e c task \<longleftrightarrow>
     (let tasks = pcsp_Tasks (pc_Spec c); states = pcst_States (pc_Status c)
      in if pct_Period task = [] then length states < length tasks \<and> tasks ! length states = task
         else \<exists>i<length tasks. tasks ! i = task \<and>
           (\<exists>period killed h. Duration_Parse (pct_Period task) = Some period \<and>
              time_Parse (pcs_KilledTime (states ! i)) = Some killed \<and>
              int64 (period - since (ask_clock e h) killed) \<le> 0))"

definition chaos_ok :: "env \<Rightarrow> ProcChaos \<Rightarrow> TestResourceRequest \<Rightarrow> event \<Rightarrow> bool" where
  "chaos_ok e c request ev \<longleftrightarrow>
     (\<forall>d op ok. ev = Docker d op ok \<longrightarrow>
        (\<exists>task\<in>set (pcsp_Tasks (pc_Spec c)). \<exists>name envs cmd. op = ContainerExec name envs cmd \<and>
           task_due e c task \<and> kill_target e request task d name))"

lemma chaos_ok_simps [simp]:
  "chaos_ok e c request (Get k n)" "chaos_ok e c request (StatusUpdate x err)" "chaos_ok e c request Clock"
  "chaos_ok e c request (Random m)"
  by (simp_all add: chaos_ok_def)

lemma chaos_ok_exec:
  "task \<in> set (pcsp_Tasks (pc_Spec c)) \<Longrightarrow> task_due e c task \<Longrightarrow> kill_target e request task d name \<Longrightarrow>
   chaos_ok e c request (Docker d (ContainerExec name envs cmd) ok)"
  by (auto simp: chaos_ok_def)

lemma emits_Rand_one [emits_intros]: "(\<And>n. P (Random n)) \<Longrightarrow> emits P (Rand_one e xs)"
  unfolding Rand_one_def by (rule emits_ask) auto

lemma emits_Now [emits_intros]: "P Clock \<Longrightarrow> emits P (Now e)"
  unfolding Now_def by (rule emits_ask)

lemma emits_find_node_item [emits_intros]:
  "(\<And>k n. P (Get k n)) \<Longrightarrow> emits P (find_node_item e request node items found)"
  by (induction items arbitrary: found) (auto intro!: emits_intros)

lemma find_node_item_read:
  assumes "run_state (find_node_item e request node items found) h = (Inr (Some resource), h')"
  shows "found = Some resource \<or> (\<exists>item\<in>set items. \<exists>h1. rri_Name item = node \<and>
    ask_resource e h1 \<lparr>nn_Namespace = meta_Namespace (trr_Meta request), nn_Name = node\<rparr> = Inr resource)"
  using assms
proof (induction items arbitrary: found h)
  case (Cons item items)
  show ?case
  proof (cases "node = rri_Name item")
    case True
    with Cons.prems obtain r where "ask_resource e h \<lparr>nn_Namespace = meta_Namespace (trr_Meta request), nn_Name = node\<rparr> = Inr r"
      "run_state (find_node_item e request node items (Some r)) (h @ [Get ''TestResource'' \<lparr>nn_Namespace = meta_Namespace (trr_Meta request), nn_Name = node\<rparr>])
        = (Inr (Some resource), h')"
      by (auto simp: io_simps split: sum.splits)
    with Cons.IH [OF this(2)] True show ?thesis by auto
  next
    case False
    with Cons show ?thesis by auto
  qed
qed simp

lemma Rand_one_in: "run_state (Rand_one e xs) h = (Done x, h') \<Longrightarrow> x \<in> set xs"
  by (auto simp: Rand_one_def run_ask dest: RandOne_in)

lemma kill_in_ok:
  assumes "\<And>envs cmd ok. P (Docker d (ContainerExec name envs cmd) ok)" "\<And>n. P (Random n)"
  shows "emits P (kill_in e lib d name task)"
  unfolding kill_in_def Exec_def by (intro emits_intros assms)

lemma killProc_ok:
  assumes "\<And>d name envs cmd ok. kill_target e request task d name \<Longrightarrow> P (Docker d (ContainerExec name envs cmd) ok)"
    and "\<And>n. P (Random n)" "\<And>k n. P (Get k n)"
  shows "emits P (killProc e lib task request)"
proof -
  have target: "kill_target e request task (DockerURL machine) (ContainerName resource)"
    if "run_state (Rand_one e (pct_Nodes task)) h0 = (Done node, h1)"
      "run_state (find_node_item e request node (trrs_Items (trr_Spec request)) None) h1' = (Inr (Some resource), h2)"
      "tr_State resource = ResourceReady" "ask_relationship e h3 relationshipName = Inr rel"
      "nil_get (ResourceToMachine (rel_Status rel)) (resource_key resource) = Some mref"
      "ask_machine e h4 (Namespaced (mr_Ref mref)) = Inr machine" for h0 node h1 h1' resource h2 h3 rel mref h4 machine
    using Rand_one_in [OF that(1)] find_node_item_read [OF that(2)] that(3-6) unfolding kill_target_def by blast
  show ?thesis
    unfolding killProc_def
    by (intro emits_intros kill_in_ok assms(2,3) assms(1)) (auto simp: io_simps split: if_splits option.splits intro: target)
qed

lemma kill_task_ok:
  assumes "task \<in> set (pcsp_Tasks (pc_Spec c))" "task_due e c task"
  shows "emits (chaos_ok e c request) (kill_task e lib task request)"
  unfolding kill_task_def by (intro emits_intros killProc_ok chaos_ok_exec [OF assms]) simp_all

lemma kill_task_emits: "emits (\<lambda>_. True) (kill_task e lib task request)"
  unfolding kill_task_def by (intro emits_intros killProc_ok) simp_all

lemma emits_write_chaos [emits_intros]: "(\<And>x err. P (StatusUpdate x err)) \<Longrightarrow> emits P (write_chaos e c)"
  unfolding write_chaos_def by (intro emits_intros)

lemma first_kill_ok:
  assumes "length (pcst_States (pc_Status c)) < length (pcsp_Tasks (pc_Spec c))"
  shows "emits (chaos_ok e c request) (first_kill e lib c request)"
  unfolding first_kill_def Let_def
  by (intro emits_intros kill_task_ok) (use assms in \<open>simp_all add: task_due_def\<close>)

lemma periodic_kills_ok:
  assumes "drop i (pcsp_Tasks (pc_Spec c)) = ts"
  shows "emits (chaos_ok e c request) (periodic_kills e lib c request i ts durations)"
  using assms
proof (induction ts arbitrary: i durations)
  case Nil
  then show ?case by (simp add: emits_intros)
next
  case (Cons task ts)
  have i: "i < length (pcsp_Tasks (pc_Spec c))" "pcsp_Tasks (pc_Spec c) ! i = task"
    using Cons.prems by (metis drop_all list.distinct(1) not_less) (metis Cons.prems nth_via_drop)
  have rest: "emits (chaos_ok e c request) (periodic_kills e lib c request (i + 1) ts ds)" for ds
    using Cons.prems by (intro Cons.IH) (metis drop_Suc list.sel(3) tl_drop Suc_eq_plus1)
  show ?case
  proof (cases "pct_Period task = []")
    case True
    then show ?thesis using rest by simp
  next
    case False
    let ?killed = "pcs_KilledTime (pcst_States (pc_Status c) ! i)"
    show ?thesis
    proof (cases "\<exists>period killed. Duration_Parse (pct_Period task) = Some period \<and> time_Parse ?killed = Some killed")
      case True
      then obtain period killed where p: "Duration_Parse (pct_Period task) = Some period" "time_Parse ?killed = Some killed" by blast
      have kill: "emits (chaos_ok e c request) (kill_task e lib task request)"
        if "run_state (Now e) h = (now, h')" "int64 (period - since now killed) \<le> 0" for h now h'
      proof (rule kill_task_ok)
        show "task \<in> set (pcsp_Tasks (pc_Spec c))" using i by (metis nth_mem)
        show "task_due e c task"
          using False i p that unfolding task_due_def by (auto simp: Now_def run_ask Let_def)
      qed
      from False p show ?thesis
        by (auto simp: Duration_Unwrap_def Time_Unwrap_def Let_def intro!: emits_intros rest dest: kill)
    next
      case False
      then show ?thesis
        using \<open>pct_Period task \<noteq> []\<close>
        by (auto simp: Duration_Unwrap_def Time_Unwrap_def Let_def intro!: emits_intros split: option.splits)
    qed
  qed
qed

definition chaos_follows :: "env \<Rightarrow> nsname \<Rightarrow> event \<Rightarrow> bool" where
  "chaos_follows e req ev \<longleftrightarrow>
     (\<forall>d op ok. ev = Docker d op ok \<longrightarrow>
        (\<exists>h1 h2 c request. ask_chaos e h1 req = Inr c \<and>
           ask_request e h2 \<lparr>nn_Namespace = nn_Namespace req, nn_Name = pcsp_Request (pc_Spec c)\<rparr> = Inr request \<and>
           trrst_State (trr_Status request) = TestResourceRequestReady \<and> chaos_ok e c request ev))"

text \<open>C35: the process chaos controller runs commands only in the container of a resource that is
  named by the task and by the ready request, was seen ready, and on the machine the relationship
  binds it to; a one-shot task only while it has no state, a periodic one only when its period is over.\<close>

theorem chaos_targets: "emits (chaos_follows e req) (ProcChaos_Reconcile e lib req)"
proof -
  have sub: "emits (chaos_follows e req) m"
    if "ask_chaos e h1 req = Inr c" "trrst_State (trr_Status request) = TestResourceRequestReady"
      "ask_request e h2 \<lparr>nn_Namespace = nn_Namespace req, nn_Name = pcsp_Request (pc_Spec c)\<rparr> = Inr request"
      "emits (chaos_ok e c request) m" for h1 h2 c request and m :: "reconcile_result io"
    using that(4)
  proof (rule emits_weaken)
    fix ev
    assume "chaos_ok e c request ev"
    with that(1-3) show "chaos_follows e req ev" unfolding chaos_follows_def by blast
  qed
  have other: "chaos_follows e req (Get k n)" for k n by (simp add: chaos_follows_def)
  show ?thesis
    unfolding ProcChaos_Reconcile_def
    by (intro emits_intros other) (auto simp: io_simps intro: sub first_kill_ok periodic_kills_ok [OF drop_0])
qed

section \<open>How long it waits\<close>

text \<open>
  What is left of the period of task \<open>j\<close>, by the clock that the run from \<open>h\<close> to \<open>h'\<close> has read.
\<close>

definition periodic :: "ProcChaos \<Rightarrow> nat \<Rightarrow> bool" where
  "periodic c j \<longleftrightarrow> j < length (pcsp_Tasks (pc_Spec c)) \<and> pct_Period (pcsp_Tasks (pc_Spec c) ! j) \<noteq> []"

definition remaining :: "env \<Rightarrow> ProcChaos \<Rightarrow> history \<Rightarrow> history \<Rightarrow> nat \<Rightarrow> int \<Rightarrow> bool" where
  "remaining e c h h' j d \<longleftrightarrow>
     periodic c j \<and>
     (\<exists>h1 h2 period killed. h' = h1 @ Clock # h2 \<and> length h \<le> length h1 \<and>
        Duration_Parse (pct_Period (pcsp_Tasks (pc_Spec c) ! j)) = Some period \<and>
        time_Parse (pcs_KilledTime (pcst_States (pc_Status c) ! j)) = Some killed \<and>
        d = int64 (period - since (ask_clock e h1) killed))"

text \<open>The period of a task is over; its new state is the last thing the run has written.\<close>

definition killed_due :: "env \<Rightarrow> ProcChaos \<Rightarrow> history \<Rightarrow> history \<Rightarrow> ctrl_result \<Rightarrow> bool" where
  "killed_due e c h h' r \<longleftrightarrow>
     r = no_requeue \<and>
     (\<exists>j d h1 state. remaining e c h h' j d \<and> d \<le> 0 \<and>
        h' = h1 @ [StatusUpdate (KChaos (set_states ((pcst_States (pc_Status c))[j := state]) c)) None])"

text \<open>The controller comes back when the first period is over, or after the longest time there is.\<close>

definition comes_back :: "env \<Rightarrow> ProcChaos \<Rightarrow> history \<Rightarrow> history \<Rightarrow> ctrl_result \<Rightarrow> bool" where
  "comes_back e c h h' r \<longleftrightarrow>
     Requeue r \<and> 0 < RequeueAfter r \<and> RequeueAfter r \<le> max_duration \<and>
     (\<forall>j. periodic c j \<longrightarrow> (\<exists>d. remaining e c h h' j d \<and> RequeueAfter r \<le> d)) \<and>
     (if \<exists>j. periodic c j then \<exists>j. remaining e c h h' j (RequeueAfter r) else RequeueAfter r = max_duration)"

lemma remaining_later: "remaining e c h h1 j d \<Longrightarrow> remaining e c h (h1 @ evs) j d"
  unfolding remaining_def by (metis append.assoc append_Cons)

lemma remaining_Clock:
  assumes "periodic c j" "length h \<le> length h1"
    "Duration_Parse (pct_Period (pcsp_Tasks (pc_Spec c) ! j)) = Some period"
    "time_Parse (pcs_KilledTime (pcst_States (pc_Status c) ! j)) = Some killed"
  shows "remaining e c h (h1 @ Clock # h2) j (int64 (period - since (ask_clock e h1) killed))"
  unfolding remaining_def using assms by blast

lemma remaining_bound: "remaining e c h h' j d \<Longrightarrow> d \<le> max_duration"
  by (auto simp: remaining_def int64_def max_duration_def)

text \<open>What the loop has collected when it is at task \<open>i\<close>.\<close>

definition collected :: "env \<Rightarrow> ProcChaos \<Rightarrow> history \<Rightarrow> history \<Rightarrow> nat \<Rightarrow> int list \<Rightarrow> bool" where
  "collected e c h h1 i ds \<longleftrightarrow>
     (\<forall>d\<in>set ds. 0 < d \<and> (\<exists>j. remaining e c h h1 j d)) \<and>
     (\<forall>j<i. periodic c j \<longrightarrow> (\<exists>d\<in>set ds. remaining e c h h1 j d))"

lemma collected_skip: "collected e c h h1 i ds \<Longrightarrow> \<not> periodic c i \<Longrightarrow> collected e c h h1 (i + 1) ds"
  by (auto simp: collected_def less_Suc_eq)

lemma collected_next:
  assumes "collected e c h h1 i ds" "remaining e c h (h1 @ evs) i d" "0 < d"
  shows "collected e c h (h1 @ evs) (i + 1) (ds @ [d])"
  using assms remaining_later [of e c h h1] by (fastforce simp: collected_def less_Suc_eq)

lemma collected_min:
  assumes "collected e c h h' (length (pcsp_Tasks (pc_Spec c))) ds"
  shows "comes_back e c h h' (requeue_both (MinDuration ds))"
proof -
  let ?m = "MinDuration ds"
  have pos: "0 < ?m" and le: "?m \<le> max_duration" and min_in: "?m = max_duration \<or> ?m \<in> set ds" and below: "\<forall>d\<in>set ds. ?m \<le> d"
    using assms foldl_min_in [of max_duration ds] foldl_min_le [of max_duration ds] foldl_min_le_elem [of _ ds max_duration]
    by (auto simp: MinDuration_def collected_def max_duration_def)
  have each: "\<exists>d\<in>set ds. remaining e c h h' j d" if "periodic c j" for j
    using assms that by (auto simp: collected_def periodic_def)
  have "\<exists>j. remaining e c h h' j ?m" if "periodic c j" for j
  proof (cases "?m \<in> set ds")
    case True
    with assms show ?thesis by (auto simp: collected_def)
  next
    case False
    from each [OF that] obtain d where d: "d \<in> set ds" "remaining e c h h' j d" by blast
    with False min_in below remaining_bound [OF d(2)] have "d = ?m" by force
    with d(2) show ?thesis by blast
  qed
  moreover have "?m = max_duration" if "\<forall>j. \<not> periodic c j"
    using that min_in assms by (auto simp: collected_def remaining_def)
  moreover have "\<exists>d. remaining e c h h' j d \<and> ?m \<le> d" if "periodic c j" for j
    using each [OF that] below by blast
  ultimately show ?thesis
    unfolding comes_back_def using pos le by (auto simp: requeue_both_def)
qed

lemma periodic_ends:
  assumes "run_state (periodic_kills e lib c request i ts ds) h1 = (Done (r, None), h')"
    and "i \<le> length (pcsp_Tasks (pc_Spec c))" "drop i (pcsp_Tasks (pc_Spec c)) = ts"
    and "collected e c h h1 i ds" "length h \<le> length h1"
  shows "killed_due e c h h' r \<or> comes_back e c h h' r"
  using assms
proof (induction ts arbitrary: i ds h1)
  case Nil
  then show ?case using collected_min [of e c h h' ds] by (auto simp: io_simps)
next
  case (Cons task ts)
  from Cons.prems(2,3) have i: "i < length (pcsp_Tasks (pc_Spec c))" and task: "pcsp_Tasks (pc_Spec c) ! i = task"
    and rest: "drop (i + 1) (pcsp_Tasks (pc_Spec c)) = ts"
    by (metis drop_all list.distinct(1) not_less) (metis Cons.prems(3) nth_via_drop, metis Cons.prems(3) drop_Suc list.sel(3) tl_drop Suc_eq_plus1)
  show ?case
  proof (cases "pct_Period task = []")
    case True
    with Cons.prems(1,5) i rest collected_skip [OF Cons.prems(4)] task show ?thesis
      by (intro Cons.IH [of "i + 1" ds h1]) (auto simp: periodic_def)
  next
    case False
    let ?killed = "pcs_KilledTime (pcst_States (pc_Status c) ! i)"
    from False Cons.prems(1) obtain period killed where
      p: "Duration_Parse (pct_Period task) = Some period" "time_Parse ?killed = Some killed"
      by (auto simp: Duration_Unwrap_def Time_Unwrap_def Let_def io_simps split: option.splits)
    let ?d = "int64 (period - since (ask_clock e h1) killed)"
    have left: "remaining e c h (h1 @ [Clock]) i ?d"
      using False i task p Cons.prems(5) by (intro remaining_Clock) (auto simp: periodic_def)
    show ?thesis
    proof (cases "?d \<le> 0")
      case True
      with False p Cons.prems(1) have "run_state (handle (kill_task e lib task request) (\<lambda>state. write_chaos e
          (set_states ((pcst_States (pc_Status c))[i := state]) c))) (h1 @ [Clock]) = (Done (r, None), h')"
        by (simp add: Duration_Unwrap_def Time_Unwrap_def Let_def Now_def run_ask)
      then obtain state h2 where kill: "run_state (kill_task e lib task request) (h1 @ [Clock]) = (Done (Inr state), h2)"
        and r: "r = no_requeue" and w: "h' = h2 @ [StatusUpdate (KChaos (set_states ((pcst_States (pc_Status c))[i := state]) c)) None]"
        by (auto simp: handle_def write_chaos_def io_simps split: prod.splits go.splits sum.splits)
      obtain evs where "h2 = (h1 @ [Clock]) @ evs" using emits_run [OF kill_task_emits kill] by blast
      with w remaining_later [OF left] have "remaining e c h h' i ?d" by (metis append.assoc)
      with r w True show ?thesis unfolding killed_due_def by blast
    next
      case False
      with \<open>pct_Period task \<noteq> []\<close> p Cons.prems(1)
      have "run_state (periodic_kills e lib c request (i + 1) ts (ds @ [?d])) (h1 @ [Clock]) = (Done (r, None), h')"
        by (simp add: Duration_Unwrap_def Time_Unwrap_def Let_def Now_def run_ask)
      with i rest collected_next [OF Cons.prems(4) left] False Cons.prems(5) show ?thesis
        by (intro Cons.IH [of "i + 1" "ds @ [?d]" "h1 @ [Clock]"]) auto
    qed
  qed
qed


text \<open>A task with a period of an hour that has killed a minute ago.\<close>

definition demo_chaos :: ProcChaos where
  "demo_chaos = \<lparr>pc_Meta = zero_meta,
     pc_Spec = \<lparr>pcsp_Request = ''r'', pcsp_Tasks = [\<lparr>pct_Pattern = ''tikv'', pct_Nodes = [''n1''], pct_KillAll = True, pct_Period = ''1h''\<rparr>]\<rparr>,
     pc_Status = \<lparr>pcst_States = [\<lparr>pcs_KilledTime = NewTime 0 63739642502000000000, pcs_KilledNode = ''n1''\<rparr>]\<rparr>\<rparr>"

definition demo_chaos_env :: env where
  "demo_chaos_env = demo_env\<lparr>ask_chaos := \<lambda>h n. Inr demo_chaos,
     ask_request := \<lambda>h n. Inr (demo_request\<lparr>trr_Status := \<lparr>trrst_State = TestResourceRequestReady\<rparr>\<rparr>),
     ask_clock := \<lambda>h. 63739642562000000000\<rparr>"

definition demo_chaos_libs :: chaos_libs where
  "demo_chaos_libs = \<lparr>cl_script = Inr ''ps'', cl_unmarshal = (\<lambda>s. Inr [''42'']), cl_zone = 0\<rparr>"

lemma demo_chaos_times:
  "Duration_Parse ''1h'' = Some 3600000000000" "time_Parse (NewTime 0 63739642502000000000) = Some 63739642502000000000"
proof -
  show "Duration_Parse ''1h'' = Some 3600000000000" by code_simp
  show "time_Parse (NewTime 0 63739642502000000000) = Some 63739642502000000000"
    using Parse_Format [of 0 63739642502000000000] by (simp add: NewTime_def days_since_def days_before_def)
qed


section \<open>No panic\<close>

text \<open>Every run ends with a value.\<close>

definition returns :: "'a go io \<Rightarrow> bool" where
  "returns m \<longleftrightarrow> (\<forall>h. \<exists>x h'. run_state m h = (Done x, h'))"

lemma returns_value: "returns (State_Monad.return (Done x))"
  by (simp add: returns_def)

lemma returns_finish: "returns (finish r err)"
  by (simp add: returns_def io_simps)

lemma returns_io: "returns (io_ret x)" "returns (io_fail err)"
  by (simp_all add: returns_def io_simps)

lemma returns_bind: "(\<And>x h h'. run_state m h = (x, h') \<Longrightarrow> returns (f x)) \<Longrightarrow> returns (State_Monad.bind m f)"
  unfolding returns_def by (metis run_state_bind case_prod_conv surj_pair)

lemma returns_io_then:
  assumes "returns m" "\<And>x. returns (f x)"
  shows "returns (io_then m f)"
  unfolding io_then_def
proof (rule returns_bind)
  fix x h h'
  assume "run_state m h = (x, h')"
  with assms(1) obtain r where "x = Done r" unfolding returns_def by (metis prod.inject)
  with assms(2) show "returns (case x of Done r' \<Rightarrow> (case r' of Inl err \<Rightarrow> io_fail err | Inr x \<Rightarrow> f x)
      | Panicked p \<Rightarrow> State_Monad.return (Panicked p) | Running \<Rightarrow> State_Monad.return Running)"
    by (cases r) (simp_all add: returns_io)
qed

lemma returns_handle:
  assumes "returns m" "\<And>x. returns (k x)"
  shows "returns (handle m k)"
  unfolding handle_def
proof (rule returns_bind)
  fix x h h'
  assume "run_state m h = (x, h')"
  with assms(1) obtain r where "x = Done r" unfolding returns_def by (metis prod.inject)
  with assms(2) show "returns (case x of Done r' \<Rightarrow> (case r' of Inl err \<Rightarrow> finish no_requeue (Some err) | Inr x \<Rightarrow> k x)
      | Panicked p \<Rightarrow> crash p | Running \<Rightarrow> State_Monad.return Running)"
    by (cases r) (simp_all add: returns_finish)
qed

lemma returns_if: "(b \<Longrightarrow> returns m) \<Longrightarrow> (\<not> b \<Longrightarrow> returns n) \<Longrightarrow> returns (if b then m else n)"
  by simp

lemma returns_case:
  "(\<And>x. s = Inl x \<Longrightarrow> returns (f x)) \<Longrightarrow> (\<And>y. s = Inr y \<Longrightarrow> returns (g y)) \<Longrightarrow> returns (case s of Inl x \<Rightarrow> f x | Inr y \<Rightarrow> g y)"
  "(p = None \<Longrightarrow> returns m) \<Longrightarrow> (\<And>x. p = Some x \<Longrightarrow> returns (k x)) \<Longrightarrow> returns (case p of None \<Rightarrow> m | Some x \<Rightarrow> k x)"
  by (cases s, auto) (cases p, auto)

lemmas returns_intros = returns_value returns_finish returns_io returns_bind returns_io_then returns_handle returns_if returns_case

lemma Rand_one_done:
  assumes "run_state (Rand_one e xs) h = (r, h')" "xs \<noteq> []"
  shows "\<exists>x. r = Done x"
  using assms by (auto simp: Rand_one_def run_ask RandOne_def)

lemma kill_in_returns: "returns (kill_in e lib d name task)"
proof -
  have chosen: "\<exists>ps. r = Done ps"
    if "run_state (if pct_KillAll task then State_Monad.return (Done procs)
          else do { p \<leftarrow> Rand_one e procs; State_Monad.return (go_bind p (\<lambda>p. Done [p])) }) h = (r, h')" "procs \<noteq> []" for procs h r h'
    using that by (cases "run_state (Rand_one e procs) h") (auto split: if_splits dest: Rand_one_done)
  have last: "returns (case r of Panicked p \<Rightarrow> State_Monad.return (Panicked p) | Running \<Rightarrow> State_Monad.return Running
      | Done procs \<Rightarrow> k procs)" if "\<exists>ps. r = Done ps" "\<And>ps. returns (k ps)" for r :: "string list go" and k :: "string list \<Rightarrow> unit res io"
    using that by auto
  show ?thesis
    unfolding kill_in_def by (intro returns_intros last) (auto dest: chosen)
qed

lemma killProc_returns:
  assumes "pct_Nodes task \<noteq> []"
  shows "returns (killProc e lib task request)"
proof -
  have chosen: "\<exists>n. r = Done n" if "run_state (Rand_one e (pct_Nodes task)) h = (r, h')" for h r h'
    using Rand_one_done [OF that assms] .
  have node: "returns (case r of Panicked p \<Rightarrow> State_Monad.return (Panicked p) | Running \<Rightarrow> State_Monad.return Running
      | Done n \<Rightarrow> k n)" if "\<exists>n. r = Done n" "\<And>n. returns (k n)" for r :: "string go" and k :: "string \<Rightarrow> string res io"
    using that by auto
  show ?thesis
    unfolding killProc_def by (intro returns_intros node kill_in_returns) (auto dest: chosen)
qed

lemma kill_task_returns: "pct_Nodes task \<noteq> [] \<Longrightarrow> returns (kill_task e lib task request)"
  unfolding kill_task_def by (intro returns_intros killProc_returns)

text \<open>
  What the webhook accepts, with a node in every task and recorded times the controller has written.
  The webhook does not ask for the nodes: see \<open>empty_nodes_panic\<close>.
\<close>

definition chaos_valid :: "ProcChaos \<Rightarrow> bool" where
  "chaos_valid c \<longleftrightarrow>
     ProcChaos_ValidateCreate c = None \<and> (\<forall>task\<in>set (pcsp_Tasks (pc_Spec c)). pct_Nodes task \<noteq> []) \<and>
     (\<forall>s\<in>set (pcst_States (pc_Status c)). \<exists>tz t. pcs_KilledTime s = NewTime tz t \<and> \<bar>tz\<bar> < 1440 \<and>
        0 \<le> t div 1000000000 + tz * 60 \<and> t div 1000000000 + tz * 60 < days_since 10000 1 1 * 86400)"

lemma validate_tasks_None_iff:
  "validate_tasks ts = None \<longleftrightarrow> (\<forall>task\<in>set ts. pct_Period task = [] \<or> (\<exists>d. Duration_Parse (pct_Period task) = Some d))"
  by (induction ts) auto

lemma periodic_returns:
  assumes "\<And>task. task \<in> set ts \<Longrightarrow> pct_Nodes task \<noteq> []"
    and "\<And>task. task \<in> set ts \<Longrightarrow> pct_Period task = [] \<or> (\<exists>d. Duration_Parse (pct_Period task) = Some d)"
    and "i + length ts \<le> length (pcst_States (pc_Status c))"
    and "\<And>s. s \<in> set (pcst_States (pc_Status c)) \<Longrightarrow> \<exists>t. time_Parse (pcs_KilledTime s) = Some t"
  shows "returns (periodic_kills e lib c request i ts ds)"
  using assms(1-3)
proof (induction ts arbitrary: i ds)
  case Nil
  then show ?case by (simp add: returns_finish)
next
  case (Cons task ts)
  have rest: "returns (periodic_kills e lib c request (i + 1) ts ds)" for ds
    using Cons.prems by (intro Cons.IH) auto
  show ?case
  proof (cases "pct_Period task = []")
    case False
    with Cons.prems(2) [of task] obtain d where d: "Duration_Parse (pct_Period task) = Some d" by auto
    from Cons.prems(3) have "pcst_States (pc_Status c) ! i \<in> set (pcst_States (pc_Status c))" by simp
    with assms(4) obtain t where t: "time_Parse (pcs_KilledTime (pcst_States (pc_Status c) ! i)) = Some t" by blast
    have "returns (kill_task e lib task request)" using Cons.prems(1) by (intro kill_task_returns) simp
    then show ?thesis
      using False d t rest
      by (auto simp: Duration_Unwrap_def Time_Unwrap_def Let_def write_chaos_def intro!: returns_intros)
  qed (use rest in simp)
qed

text \<open>C37: the controller does not panic on a process chaos that the webhook accepts, whose tasks each
  name a node and whose times it has written itself: whatever the world answers, it returns a result
  or an error.\<close>

theorem chaos_returns:
  assumes "ask_chaos e h req = Inr c" "chaos_valid c"
  shows "\<exists>r h'. run_state (ProcChaos_Reconcile e lib req) h = (Done r, h')"
proof -
  let ?tasks = "pcsp_Tasks (pc_Spec c)" and ?states = "pcst_States (pc_Status c)"
  from assms(2) have nodes: "\<And>task. task \<in> set ?tasks \<Longrightarrow> pct_Nodes task \<noteq> []"
    and periods: "\<And>task. task \<in> set ?tasks \<Longrightarrow> pct_Period task = [] \<or> (\<exists>d. Duration_Parse (pct_Period task) = Some d)"
    by (auto simp: chaos_valid_def ProcChaos_ValidateCreate_def validate_tasks_None_iff split: if_splits)
  have times: "\<exists>t. time_Parse (pcs_KilledTime s) = Some t" if "s \<in> set ?states" for s
    using assms(2) that Parse_Format by (fastforce simp: chaos_valid_def NewTime_def)
  have first: "returns (first_kill e lib c request)" if "length ?states < length ?tasks" for request
    using that nodes unfolding first_kill_def Let_def write_chaos_def by (intro returns_intros kill_task_returns) simp
  have loop: "returns (periodic_kills e lib c request 0 ?tasks [])" if "\<not> length ?states < length ?tasks" for request
    using that nodes periods times by (intro periodic_returns) auto
  have body: "returns (do { q \<leftarrow> Get_request e \<lparr>nn_Namespace = nn_Namespace req, nn_Name = pcsp_Request (pc_Spec c)\<rparr>;
                   case q of
                     Inl err \<Rightarrow> finish no_requeue (IgnoreNotFound (Some err))
                   | Inr request \<Rightarrow>
                       if trrst_State (trr_Status request) \<noteq> TestResourceRequestReady then finish (requeue_both second) None
                       else if length ?states < length ?tasks
                       then first_kill e lib c request
                       else periodic_kills e lib c request 0 ?tasks [] })"
    by (intro returns_intros first loop)
  show ?thesis
    using body assms(1) unfolding ProcChaos_Reconcile_def returns_def by (simp add: Get_chaos_def run_ask)
qed

theorem chaos_returns_witness:
  "\<exists>r h'. run_state (ProcChaos_Reconcile demo_chaos_env demo_chaos_libs relationshipName) [] = (Done r, h')"
proof (rule chaos_returns)
  show "ask_chaos demo_chaos_env [] relationshipName = Inr demo_chaos" by (simp add: demo_chaos_env_def)
  show "chaos_valid demo_chaos"
    unfolding chaos_valid_def
  proof (intro conjI ballI)
    fix s assume "s \<in> set (pcst_States (pc_Status demo_chaos))"
    then have "pcs_KilledTime s = NewTime 0 63739642502000000000" by (simp add: demo_chaos_def)
    then show "\<exists>tz t. pcs_KilledTime s = NewTime tz t \<and> \<bar>tz\<bar> < 1440 \<and>
        0 \<le> t div 1000000000 + tz * 60 \<and> t div 1000000000 + tz * 60 < days_since 10000 1 1 * 86400"
      by (intro exI [of _ 0] exI [of _ 63739642502000000000]) (simp add: days_since_def days_before_def)
  qed (auto simp: demo_chaos_def ProcChaos_ValidateCreate_def demo_chaos_times)
qed

text \<open>A task without nodes passes the webhook and crashes the controller.\<close>

lemma empty_nodes_panic:
  assumes "pcsp_Tasks (pc_Spec c) = [task]" "pct_Nodes task = []" "pct_Period task = []" "pcst_States (pc_Status c) = []"
    and "ask_chaos e h req = Inr c"
    and "\<And>h n. ask_request e h n = Inr request" "trrst_State (trr_Status request) = TestResourceRequestReady"
  shows "ProcChaos_ValidateCreate c = None"
    and "\<exists>p. fst (run_state (ProcChaos_Reconcile e lib req) h) = Panicked p"
  using assms
  by (simp_all add: ProcChaos_ValidateCreate_def ProcChaos_Reconcile_def first_kill_def handle_def kill_task_def io_then_def
      killProc_def Rand_one_def RandOne_def io_simps)

end
