(* ===== verification/Client.thy ===== *)
theory Client
  imports Topology_Controller Workload_Props
begin

text \<open>
  \<open>client/\<close>: what a test program inside a workload calls. The namespace and the names of the
  request, the workload and the item come from the environment of its container; the cluster name
  too may be an alias that is looked up there. \<open>Retry\<close> runs a call up to three times.
\<close>

record client_env =
  ce_getenv :: "string \<Rightarrow> string"

definition client_namespace :: "client_env \<Rightarrow> string" where
  "client_namespace g = ce_getenv g ''NAGLFAR_CLUSTER_NS''"

definition client_requestName :: "client_env \<Rightarrow> string" where
  "client_requestName g = ce_getenv g ''NAGLFAR_TEST_RESOURCE_REQUEST_NAME''"

definition client_testWorkloadName :: "client_env \<Rightarrow> string" where
  "client_testWorkloadName g = ce_getenv g ''NAGLFAR_TESTWORKLOAD_NAME''"

definition client_workloadItemName :: "client_env \<Rightarrow> string" where
  "client_workloadItemName g = ce_getenv g ''NAGLFAR_TESTWORKLOAD_WORKLOAD_ITEM''"

section \<open>Reading with retries\<close>

text \<open>
  A read fills a variable of the caller: the state of the retried call is the history together with
  the variable, which keeps its value when the read fails.
\<close>

definition fill :: "(error + 'a) io \<Rightarrow> (history \<times> 'a, error option) state" where
  "fill m = State (\<lambda>(h, x). case run_state m h of (r, h') \<Rightarrow>
     (case r of Inl err \<Rightarrow> (Some err, (h', x)) | Inr y \<Rightarrow> (None, (h', y))))"

definition retried_read :: "(error + 'a) io \<Rightarrow> 'a \<Rightarrow> (error option \<times> 'a) io" where
  "retried_read m x0 = State (\<lambda>h. case run_state (Retry 3 (fill m)) (h, x0) of (err, (h', x)) \<Rightarrow> ((err, x), h'))"

definition getTestResources :: "env \<Rightarrow> client_env \<Rightarrow> (error + TestResource list) io" where
  "getTestResources e g =
     do { (err, items) \<leftarrow> retried_read (List_resources e (client_namespace g)) [];
          State_Monad.return (case err of Some x \<Rightarrow> Inl x | None \<Rightarrow> Inr items) }"

definition zero_TestClusterTopology :: "string \<Rightarrow> string \<Rightarrow> TestClusterTopology" where
  "zero_TestClusterTopology ns name =
     \<lparr>ct_Meta = zero_meta\<lparr>meta_Name := name, meta_Namespace := ns\<rparr>,
      ct_Spec = \<lparr>cts_ResourceRequest = [], cts_TiDBCluster = None, cts_FlinkCluster = None, cts_DMCluster = None\<rparr>,
      ct_Status = \<lparr>ctst_PreTiDBCluster = None, ctst_TiDBClusterInfo = \<lparr>tci_IsScaling = False, tci_PendingOfflineList = [],
        tci_OfflineList = []\<rparr>, ctst_State = ClusterTopologyStateNone\<rparr>\<rparr>"

definition getClusterTopology :: "env \<Rightarrow> client_env \<Rightarrow> string \<Rightarrow> (TestClusterTopology \<times> error option) io" where
  "getClusterTopology e g clusterName =
     do { (err, ct) \<leftarrow> retried_read (Get_topology e \<lparr>nn_Namespace = client_namespace g, nn_Name = clusterName\<rparr>)
            (zero_TestClusterTopology (client_namespace g) clusterName);
          State_Monad.return (ct, err) }"

definition zero_TestWorkload :: "string \<Rightarrow> string \<Rightarrow> TestWorkload" where
  "zero_TestWorkload ns name =
     \<lparr>tw_Meta = zero_meta\<lparr>meta_Name := name, meta_Namespace := ns\<rparr>,
      tw_Spec = \<lparr>ws_ClusterTopologiesRefs = [], ws_Workloads = [], ws_TeardownTestClusterTopology = []\<rparr>,
      tw_Status = \<lparr>twst_State = TestWorkloadStateNone, twst_WorkloadStatus = None, twst_Results = None\<rparr>\<rparr>"

definition getTestWorkload :: "env \<Rightarrow> client_env \<Rightarrow> (TestWorkload \<times> error option) io" where
  "getTestWorkload e g =
     do { (err, w) \<leftarrow> retried_read (Get_workload e \<lparr>nn_Namespace = client_namespace g, nn_Name = client_testWorkloadName g\<rparr>)
            (zero_TestWorkload (client_namespace g) (client_testWorkloadName g));
          State_Monad.return (w, err) }"

text \<open>The description of a cluster under test, on the cluster addresses of its resources.\<close>

definition GetTiDBClusterTopology :: "env \<Rightarrow> client_env \<Rightarrow> topo_libs \<Rightarrow> string \<Rightarrow> Specification res io" where
  "GetTiDBClusterTopology e g lib clusterName =
     (let originCluster = (if ce_getenv g clusterName = [] then clusterName else ce_getenv g clusterName)
      in do { (topology, err) \<leftarrow> getClusterTopology e g originCluster;
              case err of
                Some x \<Rightarrow> io_fail x
              | None \<Rightarrow>
                  if cts_TiDBCluster (ct_Spec topology) = None
                  then State_Monad.return (Panicked (''incorrect cluster topology used, please check the cluster: '' @
                         clusterName @ '', '' @ originCluster))
                  else do { r \<leftarrow> getTestResources e g;
                            case r of
                              Inl x \<Rightarrow> io_fail x
                            | Inr resources \<Rightarrow>
                                State_Monad.return (res_bind (BuildSpecification (tl_unmarshal (tol_tiup lib)) (tl_defaults (tol_tiup lib))
                                  (ct_Spec topology) resources False None) (\<lambda>(spec, _). ret spec)) } })"

section \<open>Writing with retries\<close>

definition CreateProcChaos :: "env \<Rightarrow> client_env \<Rightarrow> string \<Rightarrow> ProcChaosTask list \<Rightarrow> error option io" where
  "CreateProcChaos e g chaosName tasks =
     Retry 3 (k8s_Create e (KChaos
       \<lparr>pc_Meta = zero_meta\<lparr>meta_Name := chaosName, meta_Namespace := client_namespace g\<rparr>,
        pc_Spec = \<lparr>pcsp_Request = client_requestName g, pcsp_Tasks = tasks\<rparr>, pc_Status = \<lparr>pcst_States = []\<rparr>\<rparr>))"

definition DeleteProcChaos :: "env \<Rightarrow> client_env \<Rightarrow> string \<Rightarrow> error option io" where
  "DeleteProcChaos e g chaosName =
     Retry 3 (k8s_Delete e (KChaos
       \<lparr>pc_Meta = zero_meta\<lparr>meta_Name := chaosName, meta_Namespace := client_namespace g\<rparr>,
        pc_Spec = \<lparr>pcsp_Request = [], pcsp_Tasks = []\<rparr>, pc_Status = \<lparr>pcst_States = []\<rparr>\<rparr>))"

definition set_result :: "string \<Rightarrow> string \<Rightarrow> TestWorkload \<Rightarrow> TestWorkload" where
  "set_result item plainText w =
     w\<lparr>tw_Status := (tw_Status w)\<lparr>twst_Results :=
       Some (AList.update item \<lparr>wr_PlainText = plainText\<rparr> (case twst_Results (tw_Status w) of None \<Rightarrow> [] | Some m \<Rightarrow> m))\<rparr>\<rparr>"

text \<open>The workload is read once, before the retries: every retry writes the object that was read.\<close>

definition SetTestWorkloadResult :: "env \<Rightarrow> client_env \<Rightarrow> string \<Rightarrow> error option io" where
  "SetTestWorkloadResult e g plainText =
     do { r \<leftarrow> Get_workload e \<lparr>nn_Namespace = client_namespace g, nn_Name = client_testWorkloadName g\<rparr>;
          case r of
            Inl err \<Rightarrow> State_Monad.return (Some err)
          | Inr w \<Rightarrow> Retry 3 (k8s_StatusUpdate e (KWorkload (set_result (client_workloadItemName g) plainText w))) }"

text \<open>
  \<open>NewClient\<close>: the loading of the configuration and the client of \<open>controller-runtime\<close> are the
  parameters. A failure of the second gives neither a client nor an error.
\<close>

definition NewClient ::
  "(string \<Rightarrow> error + 'config) \<Rightarrow> ('config \<Rightarrow> error + 'client) \<Rightarrow> string \<Rightarrow> 'client option \<times> error option" where
  "NewClient build new kubeconfig =
     (case build kubeconfig of
        Inl err \<Rightarrow> (None, Some err)
      | Inr config \<Rightarrow> (case new config of Inl _ \<Rightarrow> (None, None) | Inr cli \<Rightarrow> (Some cli, None)))"

lemma NewClient_silent: "build kubeconfig = Inr config \<Longrightarrow> new config = Inl err \<Longrightarrow> NewClient build new kubeconfig = (None, None)"
  by (simp add: NewClient_def)

section \<open>Recording a result\<close>

lemma set_result_changes:
  "\<exists>m. set_result item txt w = w\<lparr>tw_Status := (tw_Status w)\<lparr>twst_Results := Some m\<rparr>\<rparr> \<and>
     map_of m = (case twst_Results (tw_Status w) of None \<Rightarrow> Map.empty | Some m' \<Rightarrow> map_of m')(item \<mapsto> \<lparr>wr_PlainText = txt\<rparr>)"
  by (auto simp: set_result_def update_conv' split: option.split)

text \<open>Writes of one object that fail leave their failures in the history.\<close>

lemma failed_writes:
  "after_failures (k8s_StatusUpdate e x) k h = Some h1 \<Longrightarrow>
   \<exists>errs. length errs = k \<and> h1 = h @ map (\<lambda>err. StatusUpdate x (Some err)) errs"
proof (induction k arbitrary: h)
  case (Suc k)
  then obtain err where "ask_write e h x = Some err" "after_failures (k8s_StatusUpdate e x) k (h @ [StatusUpdate x (Some err)]) = Some h1"
    by (auto simp: io_simps split: option.splits)
  with Suc.IH [OF this(2)] obtain errs where "length errs = k" "h1 = h @ [StatusUpdate x (Some err)] @ map (\<lambda>err. StatusUpdate x (Some err)) errs"
    by auto
  then show ?case by (intro exI [of _ "err # errs"]) simp
qed simp

lemma retried_write:
  assumes "run_state (Retry 3 (k8s_StatusUpdate e x)) h = (None, h')"
  shows "\<exists>errs. length errs < 3 \<and> h' = h @ map (\<lambda>err. StatusUpdate x (Some err)) errs @ [StatusUpdate x None]"
proof -
  from assms obtain k h1 where k: "k < 3" "after_failures (k8s_StatusUpdate e x) k h = Some h1"
    "run_state (k8s_StatusUpdate e x) h1 = (None, h')"
    by (auto simp: Retry_def Retry_from_None_iff)
  from failed_writes [OF k(2)] obtain errs where "length errs = k" "h1 = h @ map (\<lambda>err. StatusUpdate x (Some err)) errs" by blast
  with k show ?thesis by (auto simp: io_simps)
qed

text \<open>C38: when the result of an item is reported as recorded, the object that the last write stored, after
  at most two failed attempts to write the same object, is the workload that was read with nothing
  but its results changed, and in these with nothing but the result of the item.\<close>

theorem result_recorded:
  assumes "run_state (SetTestWorkloadResult e g txt) h = (None, h')"
  shows "\<exists>w w' errs m. ask_workload e h \<lparr>nn_Namespace = client_namespace g, nn_Name = client_testWorkloadName g\<rparr> = Inr w \<and>
    length errs < (3 :: nat) \<and>
    h' = h @ Get ''TestWorkload'' \<lparr>nn_Namespace = client_namespace g, nn_Name = client_testWorkloadName g\<rparr> #
      map (\<lambda>err. StatusUpdate (KWorkload w') (Some err)) errs @ [StatusUpdate (KWorkload w') None] \<and>
    w' = w\<lparr>tw_Status := (tw_Status w)\<lparr>twst_Results := Some m\<rparr>\<rparr> \<and>
    map_of m = (case twst_Results (tw_Status w) of None \<Rightarrow> Map.empty | Some m' \<Rightarrow> map_of m')
      (client_workloadItemName g \<mapsto> \<lparr>wr_PlainText = txt\<rparr>)"
proof -
  let ?nn = "\<lparr>nn_Namespace = client_namespace g, nn_Name = client_testWorkloadName g\<rparr>"
  from assms obtain w where w: "ask_workload e h ?nn = Inr w"
    and run: "run_state (Retry 3 (k8s_StatusUpdate e (KWorkload (set_result (client_workloadItemName g) txt w)))) (h @ [Get ''TestWorkload'' ?nn]) = (None, h')"
    by (auto simp: SetTestWorkloadResult_def Get_workload_def run_ask split: sum.splits)
  from retried_write [OF run] w set_result_changes [of "client_workloadItemName g" "txt" w] show ?thesis
    by (intro exI [of _ w] exI [of _ "set_result (client_workloadItemName g) txt w"]) auto
qed

definition demo_client_env :: client_env where
  "demo_client_env = \<lparr>ce_getenv = (\<lambda>v. if v = ''NAGLFAR_TESTWORKLOAD_WORKLOAD_ITEM'' then ''bench'' else [])\<rparr>"

theorem result_recorded_witness:
  "\<exists>m pre. snd (run_state (SetTestWorkloadResult (demo_env\<lparr>ask_workload := \<lambda>h n. Inr demo_workload\<rparr>) demo_client_env ''ok'') [])
     = pre @ [StatusUpdate (KWorkload (demo_workload\<lparr>tw_Status := (tw_Status demo_workload)\<lparr>twst_Results := Some m\<rparr>\<rparr>)) None] \<and>
     map_of m = [''bench'' \<mapsto> \<lparr>wr_PlainText = ''ok''\<rparr>]"
proof -
  let ?e = "demo_env\<lparr>ask_workload := \<lambda>h n. Inr demo_workload\<rparr>"
  obtain h' where run: "run_state (SetTestWorkloadResult ?e demo_client_env ''ok'') [] = (None, h')"
    by (simp add: SetTestWorkloadResult_def Retry_def Retry_from.simps io_simps)
  from result_recorded [OF run] run show ?thesis
    by (auto simp: demo_client_env_def client_workloadItemName_def demo_workload_def)
qed

end
