(* ===== verification/Plugin.thy ===== *)
theory Plugin
  imports Client
begin

text \<open>
  The two small programs beside the controllers: the \<open>kubectl\<close> plugin that shows the logs of a
  workload (\<open>pkg/cmd/naglfar.go\<close>, \<open>pkg/cmd/logs.go\<close>), and the file server in the upload container
  (\<open>cmd/daemon/deploy.go\<close>).
\<close>

section \<open>Reading objects\<close>

text \<open>\<open>zero\<close> is the object a read fills: its content comes back only beside an error.\<close>

text \<open>The namespace of the command line; the flags are pointers and may be nil.\<close>

definition GetNamespaceFromKubernetesFlags :: "string option \<Rightarrow> bool option \<Rightarrow> string" where
  "GetNamespaceFromKubernetesFlags configNamespace allNamespaces =
     (if allNamespaces = Some True then []
      else case configNamespace of None \<Rightarrow> ''default'' | Some ns \<Rightarrow> if ns = [] then ''default'' else ns)"

definition GetResource :: "env \<Rightarrow> string \<Rightarrow> string \<Rightarrow> TestResource \<Rightarrow> (TestResource \<times> error option) io" where
  "GetResource e ns name zero =
     do { (err, r) \<leftarrow> retried_read (Get_resource e \<lparr>nn_Namespace = ns, nn_Name = name\<rparr>) zero;
          State_Monad.return (r, err) }"

definition plugin_GetMachine :: "env \<Rightarrow> string \<Rightarrow> Machine \<Rightarrow> (Machine \<times> error option) io" where
  "plugin_GetMachine e name zero =
     do { (err, m) \<leftarrow> retried_read (Get_machine e \<lparr>nn_Namespace = ''default'', nn_Name = name\<rparr>) zero;
          State_Monad.return (m, err) }"

text \<open>\<open>List\<close> with \<open>InNamespace\<close> gives the machines of one namespace.\<close>

definition List_machines_in :: "env \<Rightarrow> string \<Rightarrow> (error + Machine list) io" where
  "List_machines_in e ns =
     ask (\<lambda>h. map_sum id (filter (\<lambda>m. meta_Namespace (m_Meta m) = ns)) (ask_machines e h)) (\<lambda>_. List ''Machine'' ns)"

definition GetMachineByHostIP :: "env \<Rightarrow> string \<Rightarrow> (error + Machine) io" where
  "GetMachineByHostIP e hostIP =
     do { r \<leftarrow> List_machines_in e ''default'';
          State_Monad.return (case r of
            Inl err \<Rightarrow> Inl err
          | Inr items \<Rightarrow>
              (case find (\<lambda>item. ms_Host (m_Spec item) = hostIP) items of
                 None \<Rightarrow> Inl (ErrMsg (''machine host ip not found: '' @ hostIP))
               | Some machine \<Rightarrow> Inr machine)) }"

section \<open>Showing the logs of a workload\<close>

text \<open>
  The loop takes the address of its variable: \<open>var\<close> is the variable, \<open>found\<close> says whether
  \<open>targetItem\<close> points to it. A later round writes the next item to the same variable.
\<close>

fun find_target :: "string \<Rightarrow> bool \<Rightarrow> TestWorkloadItemSpec option \<Rightarrow> TestWorkloadItemSpec list \<Rightarrow> TestWorkloadItemSpec option" where
  "find_target name found var [] = (if found then var else None)"
| "find_target name found var (item # items) = find_target name (found \<or> wi_Name item = name) (Some item) items"

text \<open>
  The error of \<open>docker.NewClient\<close> is overwritten, so that a failure leaves a nil client, whose
  methods dereference it. The options of the log request are not part of the model.
\<close>

definition logTestWorkload :: "env \<Rightarrow> TestResource \<Rightarrow> string \<Rightarrow> TestWorkload \<Rightarrow> string res io" where
  "logTestWorkload e zero itemName tw =
     (if tw_State tw = TestWorkloadStatePending
      then io_fail (ErrMsg (''workload '' @ meta_Namespace (tw_Meta tw) @ ''/'' @ meta_Name (tw_Meta tw) @
             '' is pending, please wait it to run''))
      else
        let items = ws_Workloads (tw_Spec tw);
            name = (if length items = 1 \<and> itemName = [] then wi_Name (items ! 0) else itemName)
        in case find_target name False None items of
             None \<Rightarrow> io_fail (ErrMsg (''there exist no item named '' @ name))
           | Some target \<Rightarrow>
               (case wi_DockerContainer target of
                  None \<Rightarrow> State_Monad.return (Panicked nil_deref)
                | Some c \<Rightarrow>
                    do { (node, err) \<leftarrow> GetResource e (meta_Namespace (tw_Meta tw)) (rrf_Node (cs_ResourceRequest c)) zero;
                         case err of
                           Some err \<Rightarrow> io_fail err
                         | None \<Rightarrow>
                             do { m \<leftarrow> GetMachineByHostIP e (trst_HostIP (tr_Status node));
                                  case m of
                                    Inl err \<Rightarrow> io_fail err
                                  | Inr machine \<Rightarrow>
                                      do { d \<leftarrow> docker_NewClient e (DockerURL machine) (ms_DockerVersion (m_Spec machine));
                                           case d of
                                             Inl _ \<Rightarrow> State_Monad.return (Panicked nil_deref)
                                           | Inr docker \<Rightarrow>
                                               do { out \<leftarrow> Logs e docker (meta_Namespace (tw_Meta tw) @ ''.'' @ tr_Name node);
                                                    State_Monad.return (Done out) } } } }))"

definition logs_RunE :: "env \<Rightarrow> TestResource \<Rightarrow> string \<Rightarrow> string \<Rightarrow> string list \<Rightarrow> string res io" where
  "logs_RunE e zero ns itemName args =
     (case args of
        [] \<Rightarrow> io_fail (ErrMsg ''should set the test workload name'')
      | twName # _ \<Rightarrow>
          do { (err, tw) \<leftarrow> retried_read (Get_workload e \<lparr>nn_Namespace = ns, nn_Name = twName\<rparr>) (zero_TestWorkload ns twName);
               case err of Some err \<Rightarrow> io_fail err | None \<Rightarrow> logTestWorkload e zero itemName tw })"

text \<open>Whichever item is asked for, the target is the last one.\<close>

lemma find_target_last:
  "find_target name found var items =
     (if found \<or> name \<in> wi_Name ` set items then (if items = [] then var else Some (last items)) else None)"
  by (induction items arbitrary: found var) auto

lemma find_target_some:
  "find_target name False None items = Some target \<longleftrightarrow> name \<in> wi_Name ` set items \<and> target = last items"
  by (auto simp: find_target_last)

lemma wrong_item:
  "find_target ''bench'' False None [\<lparr>wi_Name = ''bench'', wi_DockerContainer = None\<rparr>, \<lparr>wi_Name = ''check'', wi_DockerContainer = None\<rparr>]
   = Some \<lparr>wi_Name = ''check'', wi_DockerContainer = None\<rparr>"
  by simp

lemma retried_read_fst:
  assumes "run_state (retried_read m x0) h = ((None, x), h')"
  shows "\<exists>h1. run_state m h1 = (Inr x, h')"
proof -
  from assms have "run_state (Retry 3 (fill m)) (h, x0) = (None, (h', x))"
    by (auto simp: retried_read_def split: prod.splits)
  then obtain t where "run_state (fill m) t = (None, (h', x))"
    by (auto simp: Retry_def Retry_from_None_iff)
  then show ?thesis by (cases t) (auto simp: fill_def split: prod.splits sum.splits)
qed

lemma emits_Retry_fill:
  assumes "emits P m" "run_state (Retry_from i n (fill m)) (h, x0) = (err, (h', x))"
  shows "\<exists>evs. h' = h @ evs \<and> list_all P evs"
  using assms(2)
proof (induction i n "fill m" arbitrary: h x0 rule: Retry_from.induct)
  case (1 i n)
  obtain err1 h1 x1 where one: "run_state (fill m) (h, x0) = (err1, (h1, x1))" by (metis prod_cases3)
  then obtain r where "run_state m h = (r, h1)" by (auto simp: fill_def split: prod.splits sum.splits)
  with assms(1) obtain e1 where e1: "h1 = h @ e1" "list_all P e1" unfolding emits_def by blast
  show ?case
  proof (cases "err1 = None \<or> i \<ge> n - 1")
    case True
    with 1(2) one e1 show ?thesis by (subst (asm) Retry_from.simps) (auto split: option.splits)
  next
    case False
    with 1(2) one have "run_state (Retry_from (i + 1) n (fill m)) (h1, x1) = (err, (h', x))"
      by (subst (asm) Retry_from.simps) auto
    from 1(1) [OF _ this] False obtain e2 where "h' = h1 @ e2" "list_all P e2" by auto
    with e1 show ?thesis by (intro exI [of _ "e1 @ e2"]) simp
  qed
qed

lemma emits_retried_read [emits_intros]: "emits P m \<Longrightarrow> emits P (retried_read m x0)"
  unfolding emits_def [of P "retried_read m x0"]
  by (auto simp: retried_read_def Retry_def split: prod.splits dest: emits_Retry_fill)

text \<open>
  The container of the resource that the last item of the workload names, on a machine of the
  namespace \<open>default\<close> with the address of that resource.
\<close>

definition logs_source :: "env \<Rightarrow> TestWorkload \<Rightarrow> string \<Rightarrow> string \<Rightarrow> bool" where
  "logs_source e tw docker container \<longleftrightarrow>
     (\<exists>c node machine machines h1 h2. wi_DockerContainer (last (ws_Workloads (tw_Spec tw))) = Some c \<and>
        ask_resource e h1 \<lparr>nn_Namespace = meta_Namespace (tw_Meta tw), nn_Name = rrf_Node (cs_ResourceRequest c)\<rparr> = Inr node \<and>
        ask_machines e h2 = Inr machines \<and> machine \<in> set machines \<and> meta_Namespace (m_Meta machine) = ''default'' \<and>
        ms_Host (m_Spec machine) = trst_HostIP (tr_Status node) \<and>
        docker = DockerURL machine \<and> container = meta_Namespace (tw_Meta tw) @ ''.'' @ tr_Name node)"

definition only_logs :: "env \<Rightarrow> TestWorkload \<Rightarrow> event \<Rightarrow> bool" where
  "only_logs e tw ev \<longleftrightarrow>
     (\<forall>d op ok. ev = Docker d op ok \<longrightarrow> (\<exists>name. op = ContainerLogs name \<and> logs_source e tw d name))"

lemma emits_plugin [emits_intros]:
  "(\<And>k n. P (Get k n)) \<Longrightarrow> emits P (GetResource e ns name zero)"
  "(\<And>k ns. P (List k ns)) \<Longrightarrow> emits P (GetMachineByHostIP e ip)"
  "(\<And>ok. P (Docker d (ContainerLogs name) ok)) \<Longrightarrow> emits P (Logs e d name)"
  unfolding GetResource_def GetMachineByHostIP_def List_machines_in_def Logs_def
  by (intro emits_intros emits_ask; assumption)+

lemma GetResource_read:
  "run_state (GetResource e ns name zero) h = ((node, None), h') \<Longrightarrow>
   \<exists>h1. ask_resource e h1 \<lparr>nn_Namespace = ns, nn_Name = name\<rparr> = Inr node"
  by (auto simp: GetResource_def io_simps split: prod.splits dest!: retried_read_fst)

lemma find_SomeD: "find P xs = Some x \<Longrightarrow> x \<in> set xs \<and> P x"
  by (induction xs) (auto split: if_splits)

lemma GetMachineByHostIP_read:
  "run_state (GetMachineByHostIP e ip) h = (Inr machine, h') \<Longrightarrow>
   \<exists>h1 machines. ask_machines e h1 = Inr machines \<and> machine \<in> set machines \<and>
     meta_Namespace (m_Meta machine) = ''default'' \<and> ms_Host (m_Spec machine) = ip"
  by (cases "ask_machines e h")
     (auto simp: GetMachineByHostIP_def List_machines_in_def run_ask dest!: find_SomeD split: option.splits, blast)

text \<open>Whichever item is asked for, the plugin shows no logs but those of the container that the
  last item of the workload runs in, on the machine with the address of its resource.\<close>

theorem logs_from_last_item:
  "emits (only_logs e tw) (logTestWorkload e zero itemName tw)"
proof -
  have source: "logs_source e tw (DockerURL machine) (meta_Namespace (tw_Meta tw) @ ''.'' @ tr_Name node)"
    if "find_target name False None (ws_Workloads (tw_Spec tw)) = Some target" "wi_DockerContainer target = Some c"
      "run_state (GetResource e (meta_Namespace (tw_Meta tw)) (rrf_Node (cs_ResourceRequest c)) zero) h1 = ((node, None), h1')"
      "run_state (GetMachineByHostIP e (trst_HostIP (tr_Status node))) h2 = (Inr machine, h2')"
    for name target c h1 node h1' h2 machine h2'
    using that GetResource_read [OF that(3)] GetMachineByHostIP_read [OF that(4)]
    unfolding logs_source_def by (auto simp: find_target_some)
  show ?thesis
    unfolding logTestWorkload_def Let_def io_fail_def
    by (intro emits_intros) (auto simp: docker_NewClient_def only_logs_def dest: source split: option.splits)
qed

section \<open>The file server of the upload container\<close>

text \<open>
  The files of the container by path. Whether a file can be removed or opened is up to the operating
  system; \<open>body\<close> is what could be read of the request. A file that could not be removed is written
  over from its start and keeps what is beyond the new content.
\<close>

type_synonym files = "string \<Rightarrow> string option"

definition BaseDir :: string where
  "BaseDir = ''/var/naglfar/lib/''"

definition remove_file :: "(files \<Rightarrow> string \<Rightarrow> bool) \<Rightarrow> string \<Rightarrow> files \<Rightarrow> files" where
  "remove_file removable path fs = (if removable fs path then fs(path := None) else fs)"

definition upload_file ::
  "(files \<Rightarrow> string \<Rightarrow> bool) \<Rightarrow> (files \<Rightarrow> string \<Rightarrow> bool) \<Rightarrow> string \<Rightarrow> string \<Rightarrow> files \<Rightarrow> files" where
  "upload_file removable openable fileName body fs =
     (let path = BaseDir @ fileName; fs' = remove_file removable path fs
      in if openable fs' path
         then fs'(path \<mapsto> body @ drop (length body) (case fs' path of None \<Rightarrow> [] | Some old \<Rightarrow> old))
         else fs')"

definition delete_file :: "(files \<Rightarrow> string \<Rightarrow> bool) \<Rightarrow> string \<Rightarrow> files \<Rightarrow> files" where
  "delete_file removable fileName fs = remove_file removable (BaseDir @ fileName) fs"

lemma upload_file_content:
  assumes "openable (remove_file removable (BaseDir @ f) fs) (BaseDir @ f)" "fs (BaseDir @ f) = None \<or> removable fs (BaseDir @ f)"
  shows "upload_file removable openable f body fs = fs(BaseDir @ f \<mapsto> body)"
  using assms by (auto simp: upload_file_def Let_def remove_file_def)

lemma upload_file_stale_tail:
  "upload_file (\<lambda>_ _. False) (\<lambda>_ _. True) ''a'' ''xy'' [BaseDir @ ''a'' \<mapsto> ''12345''] (BaseDir @ ''a'') = Some ''xy345''"
  by (simp add: upload_file_def Let_def remove_file_def)

lemma delete_upload:
  "(\<And>fs. removable fs (BaseDir @ f)) \<Longrightarrow> delete_file removable f (upload_file removable openable f body fs) = fs(BaseDir @ f := None)"
  by (auto simp: delete_file_def upload_file_def Let_def remove_file_def)

end
