(* ===== verification/Concurrency.thy ===== *)
theory Concurrency
  imports System
begin

text \<open>
  The controllers run at the same time, each with several workers, and read the relationship from a
  cache that may lag behind. The API server accepts a write of the relationship only when the object
  carries the version that is stored (\<open>resourceVersion\<close>). Under this rule the reads and writes of
  any number of workers, in any order, have the effect of steps taken one at a time.
\<close>

section \<open>Reading, computing and writing\<close>

text \<open>
  The versions that were stored, the current one last, and the copies that workers hold with their
  version. A worker may read any version, write the result of a step on its copy when the copy is
  current, and drop its copy: because the write was refused, or for any other reason.
\<close>

record 's shared =
  sh_Versions :: "'s list"
  sh_Copies :: "nat \<rightharpoonup> 's \<times> nat"

inductive race :: "('s \<Rightarrow> 'l \<Rightarrow> 's \<Rightarrow> bool) \<Rightarrow> 's \<Rightarrow> 's shared \<Rightarrow> 'l list \<Rightarrow> bool" for step init where
  race_start: "race step init \<lparr>sh_Versions = [init], sh_Copies = Map.empty\<rparr> []"
| race_read: "race step init \<sigma> ls \<Longrightarrow> v < length (sh_Versions \<sigma>) \<Longrightarrow>
    race step init (\<sigma>\<lparr>sh_Copies := (sh_Copies \<sigma>)(p \<mapsto> (sh_Versions \<sigma> ! v, v))\<rparr>) ls"
| race_write: "race step init \<sigma> ls \<Longrightarrow> sh_Copies \<sigma> p = Some (s, v) \<Longrightarrow> Suc v = length (sh_Versions \<sigma>) \<Longrightarrow> step s l s' \<Longrightarrow>
    race step init (\<sigma>\<lparr>sh_Versions := sh_Versions \<sigma> @ [s'], sh_Copies := (sh_Copies \<sigma>)(p := None)\<rparr>) (ls @ [l])"
| race_drop: "race step init \<sigma> ls \<Longrightarrow> race step init (\<sigma>\<lparr>sh_Copies := (sh_Copies \<sigma>)(p := None)\<rparr>) ls"

text \<open>Steps taken one at a time.\<close>

inductive run_of :: "('s \<Rightarrow> 'l \<Rightarrow> 's \<Rightarrow> bool) \<Rightarrow> 's \<Rightarrow> 'l list \<Rightarrow> 's \<Rightarrow> bool" for step s where
  run_start: "run_of step s [] s"
| run_more: "run_of step s ls s1 \<Longrightarrow> step s1 l s2 \<Longrightarrow> run_of step s (ls @ [l]) s2"

text \<open>A copy is the version it claims to be, and the \<open>i\<close>-th version is the result of the first \<open>i\<close> writes.\<close>

lemma race_copies:
  "race step init \<sigma> ls \<Longrightarrow> sh_Copies \<sigma> p = Some (s, v) \<Longrightarrow> v < length (sh_Versions \<sigma>) \<and> s = sh_Versions \<sigma> ! v"
  by (induction arbitrary: p s v rule: race.induct) (auto simp: nth_append split: if_splits)

lemma race_versions:
  "race step init \<sigma> ls \<Longrightarrow> length (sh_Versions \<sigma>) = Suc (length ls) \<and>
   (\<forall>i\<le>length ls. run_of step init (take i ls) (sh_Versions \<sigma> ! i))"
proof (induction rule: race.induct)
  case race_start
  show ?case by (simp add: run_start)
next
  case (race_write \<sigma> ls p s v l s')
  have s: "s = sh_Versions \<sigma> ! length ls"
    using race_copies [OF race_write.hyps(1,2)] race_write.hyps(3) race_write.IH by simp
  have "run_of step init (take i (ls @ [l])) ((sh_Versions \<sigma> @ [s']) ! i)" if "i \<le> Suc (length ls)" for i
  proof (cases "i = Suc (length ls)")
    case True
    have "run_of step init (take (length ls) ls) s" using race_write.IH s by blast
    then have "run_of step init (ls @ [l]) s'" using race_write.hyps(4) by (simp add: run_more)
    with True race_write.IH show ?thesis by (simp add: nth_append)
  next
    case False
    with that race_write.IH show ?thesis by (simp add: nth_append)
  qed
  with race_write.IH show ?case by simp
qed simp_all

section \<open>Invariants under concurrency\<close>

text \<open>What a step keeps holds of every version that is ever stored, and of every copy.\<close>

locale kept =
  fixes step :: "'s \<Rightarrow> 'l \<Rightarrow> 's \<Rightarrow> bool" and init :: 's and inv :: "'s \<Rightarrow> bool"
  assumes inv_init: "inv init" and inv_step: "step s l s' \<Longrightarrow> inv s \<Longrightarrow> inv s'"
begin

lemma run_inv: "run_of step init ls s \<Longrightarrow> inv s"
  by (induction rule: run_of.induct) (auto intro: inv_init inv_step)

lemma version_inv: "race step init \<sigma> ls \<Longrightarrow> s \<in> set (sh_Versions \<sigma>) \<Longrightarrow> inv s"
  using race_versions [of step init \<sigma> ls] run_inv by (auto simp: in_set_conv_nth less_Suc_eq_le)

lemma copy_inv: "race step init \<sigma> ls \<Longrightarrow> sh_Copies \<sigma> p = Some (s, v) \<Longrightarrow> inv s"
  using race_copies [of step init \<sigma> ls p s v] version_inv by auto

end

definition proper_rel_step :: "units \<Rightarrow> RelationshipStatus \<Rightarrow> rel_label \<Rightarrow> RelationshipStatus \<Rightarrow> bool" where
  "proper_rel_step u s l s' \<longleftrightarrow> rel_step u s l s' \<and> proper_step s l s'"

interpretation rel_kept: kept "rel_step u" "rel_Status zero_Relationship" rel_inv for u
  by unfold_locales (auto intro: rel_inv_empty rel_step_inv)

interpretation proper_kept: kept "proper_rel_step u" "rel_Status zero_Relationship" "\<lambda>s. rel_inv s \<and> index_inv s" for u
  by unfold_locales
    (auto simp: proper_rel_step_def intro: rel_inv_empty index_inv_empty rel_step_inv proper_step_index)

lemma run_of_rel_run: "run_of (rel_step u) s ls s' \<longleftrightarrow> rel_run u s ls s'"
proof
  show "run_of (rel_step u) s ls s' \<Longrightarrow> rel_run u s ls s'"
    by (induction rule: run_of.induct) (auto intro: rel_run.intros)
  show "rel_run u s ls s' \<Longrightarrow> run_of (rel_step u) s ls s'"
    by (induction rule: rel_run.induct) (auto intro: run_of.intros)
qed

section \<open>A race\<close>

text \<open>
  Two workers read the first version; one writes, the copy of the other is refused; it reads again
  and writes.
\<close>

lemma race_two:
  assumes "step z l s1" "step s1 l' s2"
  obtains \<sigma> where "race step z \<sigma> [l, l']" "sh_Versions \<sigma> = [z, s1, s2]"
proof -
  let ?\<sigma>1 = "\<lparr>sh_Versions = [z], sh_Copies = [0 \<mapsto> (z, 0)]\<rparr>"
  let ?\<sigma>2 = "\<lparr>sh_Versions = [z], sh_Copies = [0 \<mapsto> (z, 0), 1 \<mapsto> (z, 0)]\<rparr>"
  let ?\<sigma>3 = "\<lparr>sh_Versions = [z, s1], sh_Copies = [1 \<mapsto> (z, 0)]\<rparr>"
  let ?\<sigma>4 = "\<lparr>sh_Versions = [z, s1], sh_Copies = Map.empty\<rparr>"
  let ?\<sigma>5 = "\<lparr>sh_Versions = [z, s1], sh_Copies = [1 \<mapsto> (s1, 1)]\<rparr>"
  have 1: "race step z ?\<sigma>1 []"
    using race_read [OF race_start [where step = step and init = z], where v = 0 and p = 0] by simp
  have 2: "race step z ?\<sigma>2 []" using race_read [OF 1, where v = 0 and p = 1] by simp
  have "race step z (?\<sigma>2\<lparr>sh_Versions := sh_Versions ?\<sigma>2 @ [s1], sh_Copies := (sh_Copies ?\<sigma>2)(0 := None)\<rparr>) ([] @ [l])"
    by (rule race_write [OF 2 _ _ assms(1)]) simp_all
  moreover have "[0 \<mapsto> (z, 0::nat), (1::nat) \<mapsto> (z, 0)](0 := None) = [1 \<mapsto> (z, 0)]" by (rule ext) simp
  ultimately have 3: "race step z ?\<sigma>3 [l]" by simp
  have 4: "race step z ?\<sigma>4 [l]" using race_drop [OF 3, where p = 1] by simp
  have 5: "race step z ?\<sigma>5 [l]" using race_read [OF 4, where v = 1 and p = 1] by simp
  have "race step z (?\<sigma>5\<lparr>sh_Versions := sh_Versions ?\<sigma>5 @ [s2], sh_Copies := (sh_Copies ?\<sigma>5)(1 := None)\<rparr>) ([l] @ [l'])"
    by (rule race_write [OF 5 _ _ assms(2)]) simp_all
  then have "race step z \<lparr>sh_Versions = [z, s1, s2], sh_Copies = Map.empty\<rparr> [l, l']" by simp
  then show ?thesis by (rule that) (rule shared.select_convs(1))
qed

text \<open>A worker that reads the current version can always take the next step.\<close>

lemma race_more:
  assumes "race step init \<sigma> ls" "sh_Versions \<sigma> = vs @ [s]" "step s l s'"
  obtains \<sigma>' where "race step init \<sigma>' (ls @ [l])" "sh_Versions \<sigma>' = vs @ [s, s']"
proof -
  let ?\<sigma> = "\<sigma>\<lparr>sh_Copies := (sh_Copies \<sigma>)(0 \<mapsto> (s, length vs))\<rparr>"
  have read: "race step init ?\<sigma> ls" using race_read [OF assms(1), where v = "length vs" and p = 0] assms(2) by simp
  have "race step init (?\<sigma>\<lparr>sh_Versions := sh_Versions ?\<sigma> @ [s'], sh_Copies := (sh_Copies ?\<sigma>)(0 := None)\<rparr>) (ls @ [l])"
    by (rule race_write [OF read _ _ assms(3)]) (simp_all add: assms(2))
  then show ?thesis by (rule that) (simp add: assms(2))
qed

lemma demo_race:
  obtains \<sigma> where "race (rel_step demo_units) (rel_Status zero_Relationship) \<sigma> [Initialised, Admitted demo_request demo_resources]"
    "sh_Versions \<sigma> = [rel_Status zero_Relationship, demo_status, demo_placed]"
  using race_two [where step = "rel_step demo_units", OF demo_steps] by blast

text \<open>The same with fresh items, and the release of the first resource.\<close>

lemma demo_proper_steps:
  "proper_rel_step demo_units (rel_Status zero_Relationship) Initialised demo_status"
  "proper_rel_step demo_units demo_status (Admitted demo_request demo_resources) demo_placed"
  "proper_rel_step demo_units demo_placed (Released (resource_key demo_first)) demo_released"
proof -
  have plain: "\<forall>r\<in>set (map snd demo_resources). plain_ref (resource_ref r)" by code_simp
  show "proper_rel_step demo_units (rel_Status zero_Relationship) Initialised demo_status"
    using demo_steps(1) by (simp add: proper_rel_step_def proper_step_def)
  show "proper_rel_step demo_units demo_status (Admitted demo_request demo_resources) demo_placed"
    using demo_steps(2) demo_fresh plain by (auto simp: proper_rel_step_def proper_step_def demo_items_looked_up)
  have "plain_ref (resource_ref demo_first)" by code_simp
  then have "proper_step demo_placed (Released (resource_key demo_first)) demo_released"
    using demo_machine_of demo_release unfolding proper_step_def rel_label.case by metis
  with rel_step.released [OF demo_machine_of(1) demo_release]
  show "proper_rel_step demo_units demo_placed (Released (resource_key demo_first)) demo_released"
    by (simp add: proper_rel_step_def)
qed

lemma demo_proper_race:
  obtains \<sigma> where "race (proper_rel_step demo_units) (rel_Status zero_Relationship) \<sigma>
      [Initialised, Admitted demo_request demo_resources, Released (resource_key demo_first)]"
    "sh_Versions \<sigma> = [rel_Status zero_Relationship, demo_status, demo_placed, demo_released]"
proof -
  obtain \<sigma> where two: "race (proper_rel_step demo_units) (rel_Status zero_Relationship) \<sigma> [Initialised, Admitted demo_request demo_resources]"
    and versions: "sh_Versions \<sigma> = [rel_Status zero_Relationship, demo_status] @ [demo_placed]"
    using race_two [where step = "proper_rel_step demo_units", OF demo_proper_steps(1,2)] by auto
  from race_more [where step = "proper_rel_step demo_units", OF two versions demo_proper_steps(3)]
  show ?thesis using that by (metis append_Cons append_Nil)
qed

end
