(* ===== verification/Capacity.thy ===== *)
theory Capacity
  imports Admission
begin

text \<open>
  What admission takes from a machine is there: cores above the reserved ones, exclusive disks of
  the machine, and memory. Sizes are kept as texts, which \<open>go-units\<close> prints with four digits, so
  that every subtraction in \<open>Rest\<close> may give back too much: the memory of the resources on a machine
  stays within what it offers up to one such error per resource.
\<close>

section \<open>Sizes that are printed and read back\<close>

text \<open>
  Sizes are non-negative 64-bit numbers, and a size up to \<open>B\<close> that is printed is read back at most
  \<open>\<delta>\<close> too large; a negative one is not read back.
\<close>

definition sizes_read_within :: "units \<Rightarrow> int \<Rightarrow> int \<Rightarrow> bool" where
  "sizes_read_within u \<delta> B \<longleftrightarrow>
     0 \<le> \<delta> \<and> (\<forall>t x. RAMInBytes u t = Inr x \<longrightarrow> 0 \<le> x \<and> x < 2 ^ 63) \<and>
     (\<forall>n y. - (2 ^ 63) \<le> n \<and> n \<le> B \<longrightarrow> RAMInBytes u (BytesSize u n) = Inr y \<longrightarrow> y \<le> n + \<delta>)"

definition size_of :: "units \<Rightarrow> bytes_size \<Rightarrow> int" where
  "size_of u b = (case Unwrap u b of Done x \<Rightarrow> x | _ \<Rightarrow> 0)"

lemma size_of_Done: "Unwrap u b = Done x \<Longrightarrow> size_of u b = x"
  by (simp add: size_of_def)

definition memory_of :: "units \<Rightarrow> ResourceRefList \<Rightarrow> int" where
  "memory_of u rs = sum_list (map (\<lambda>rr. size_of u (rb_Memory (rr_Binding rr))) rs)"

lemma memory_of_simps [simp]:
  "memory_of u [] = 0" "memory_of u (r # rs) = size_of u (rb_Memory (rr_Binding r)) + memory_of u rs"
  "memory_of u (rs @ qs) = memory_of u rs + memory_of u qs"
  by (simp_all add: memory_of_def)

lemma Unwrap_range: "sizes_read_within u \<delta> B \<Longrightarrow> Unwrap u b = Done x \<Longrightarrow> 0 \<le> x \<and> x < 2 ^ 63"
  by (auto simp: sizes_read_within_def Unwrap_def ToSize_def split: sum.splits)

lemma Sub_size:
  assumes "sizes_read_within u \<delta> B" "Sub u b c = Done d" "Unwrap u d = Done z" "size_of u b - size_of u c \<le> B"
  shows "z \<le> size_of u b - size_of u c + \<delta>"
proof -
  from assms(2) obtain x y where xy: "Unwrap u b = Done x" "Unwrap u c = Done y" and d: "d = Size u (int64 (x - y))"
    by (auto simp: Sub_def)
  have "int64 (x - y) = x - y"
    using Unwrap_range [OF assms(1) xy(1)] Unwrap_range [OF assms(1) xy(2)] by (intro int64_id) auto
  with d assms(3) have "RAMInBytes u (BytesSize u (x - y)) = Inr z"
    by (auto simp: Unwrap_def ToSize_def Size_def split: sum.splits)
  moreover have "- (2 ^ 63) \<le> x - y" "x - y \<le> B"
    using assms(4) xy Unwrap_range [OF assms(1) xy(1)] Unwrap_range [OF assms(1) xy(2)] by (simp_all add: size_of_Done)
  ultimately show ?thesis using assms(1) xy by (simp add: sizes_read_within_def size_of_Done)
qed

section \<open>What a machine offers\<close>

definition machine_cores :: "Machine \<Rightarrow> int set" where
  "machine_cores m =
     (case (mst_Info (m_Status m), ms_Reserve (m_Spec m)) of
        (Some info, Some reserve) \<Rightarrow> {max 0 (rsv_Cores reserve)..<mi_Threads info}
      | _ \<Rightarrow> {})"

definition machine_memory :: "units \<Rightarrow> Machine \<Rightarrow> int" where
  "machine_memory u m =
     (case (mst_Info (m_Status m), ms_Reserve (m_Spec m)) of
        (Some info, Some reserve) \<Rightarrow> size_of u (mi_Memory info) - size_of u (rsv_Memory reserve)
      | _ \<Rightarrow> 0)"

text \<open>A resource that uses cores and disks of the machine.\<close>

definition uses_machine :: "Machine \<Rightarrow> ResourceRef \<Rightarrow> bool" where
  "uses_machine m rr \<longleftrightarrow>
     set (rb_CPUSet (rr_Binding rr)) \<subseteq> machine_cores m \<and>
     set (binding_devices (rr_Binding rr)) \<subseteq> set (ms_ExclusiveDisks (m_Spec m))"

lemma exclusive_disks_keys:
  "exclusive_disks u excl devs disks = Done disks' \<Longrightarrow> gm_keys disks' \<subseteq> gm_keys disks \<union> set excl"
proof (induction devs arbitrary: disks)
  case (Cons d devs)
  obtain device disk where d: "d = (device, disk)" by (cases d)
  show ?case
  proof (cases "device \<in> set excl")
    case True
    with Cons.prems obtain sz where "exclusive_disks u excl devs (AList.update device
        \<lparr>dr_Size = sz, dr_Kind = disk_kind device, dr_MountPath = sd_MountPoint disk\<rparr> disks) = Done disks'"
      by (auto simp: d)
    from Cons.IH [OF this] True show ?thesis by (auto simp only: gm_keys_update)
  next
    case False
    with Cons d show ?thesis by simp
  qed
qed simp

lemma Available_cases:
  assumes "Available u m = Done (Some a)"
  obtains info reserve where "mst_Info (m_Status m) = Some info" "ms_Reserve (m_Spec m) = Some reserve"
    "Sub u (mi_Memory info) (rsv_Memory reserve) = Done (ar_Memory a)"
    "exclusive_disks u (ms_ExclusiveDisks (m_Spec m)) (mi_StorageDevices info) [] = Done (ar_Disks a)"
    "ar_IdleCPUSet a = deleteCPUSet (makeCPUSet (mi_Threads info)) (makeCPUSet (rsv_Cores reserve))"
  using assms by (auto simp: Available_def split: option.splits)

lemma Available_offers:
  assumes "Available u m = Done (Some a)"
  shows "set (ar_IdleCPUSet a) = machine_cores m" "gm_keys (ar_Disks a) \<subseteq> set (ms_ExclusiveDisks (m_Spec m))"
proof -
  from assms obtain info reserve where *: "mst_Info (m_Status m) = Some info" "ms_Reserve (m_Spec m) = Some reserve"
    "exclusive_disks u (ms_ExclusiveDisks (m_Spec m)) (mi_StorageDevices info) [] = Done (ar_Disks a)"
    "ar_IdleCPUSet a = deleteCPUSet (makeCPUSet (mi_Threads info)) (makeCPUSet (rsv_Cores reserve))"
    by (rule Available_cases)
  show "set (ar_IdleCPUSet a) = machine_cores m" using * by (auto simp: machine_cores_def)
  show "gm_keys (ar_Disks a) \<subseteq> set (ms_ExclusiveDisks (m_Spec m))"
    using exclusive_disks_keys [OF *(3)] by simp
qed

section \<open>One fit\<close>

lemma Rest_loop_Unwrap:
  assumes "Rest_loop u rest rs = Done (Some r)" "Unwrap u (ar_Memory r) = Done y"
  obtains y0 where "Unwrap u (ar_Memory rest) = Done y0"
  using assms
  by (cases rs) (auto simp: Rest_loop_unfold Sub_def simp del: Rest_loop.simps(2))

lemma Rest_loop_memory:
  assumes u: "sizes_read_within u \<delta> B"
  shows "Rest_loop u rest rs = Done (Some r) \<Longrightarrow> Unwrap u (ar_Memory rest) = Done y0 \<Longrightarrow> Unwrap u (ar_Memory r) = Done y \<Longrightarrow>
    y0 + \<delta> * int (length rs) \<le> B \<Longrightarrow> y + memory_of u rs \<le> y0 + \<delta> * int (length rs)"
proof (induction rs arbitrary: rest y0)
  case (Cons a rs)
  let ?x = "size_of u (rb_Memory (rr_Binding a))"
  from Cons.prems(1) obtain mem disks where sub: "Sub u (ar_Memory rest) (rb_Memory (rr_Binding a)) = Done mem"
    and rec: "Rest_loop u (rest\<lparr>ar_IdleCPUSet := deleteCPUSet (ar_IdleCPUSet rest) (rb_CPUSet (rr_Binding a)),
             ar_Memory := mem, ar_Disks := disks\<rparr>) rs = Done (Some r)"
    by (auto simp: Rest_loop_unfold simp del: Rest_loop.simps(2) split: option.splits)
  from sub have "0 \<le> ?x" using Unwrap_range [OF u] by (auto simp: Sub_def size_of_def)
  have \<delta>: "0 \<le> \<delta>" "0 \<le> \<delta> * int (length rs)" using u by (simp_all add: sizes_read_within_def)
  from rec Cons.prems(3) obtain z where z: "Unwrap u mem = Done z" by (auto elim: Rest_loop_Unwrap)
  have y0: "size_of u (ar_Memory rest) = y0" using Cons.prems(2) by (rule size_of_Done)
  have bound: "y0 + (\<delta> + \<delta> * int (length rs)) \<le> B" using Cons.prems(4) by (simp add: algebra_simps)
  with \<open>0 \<le> ?x\<close> \<delta> have "size_of u (ar_Memory rest) - ?x \<le> B" unfolding y0 by linarith
  then have "z \<le> y0 - ?x + \<delta>" using Sub_size [OF u sub z] by (simp add: y0)
  moreover from this have "z + \<delta> * int (length rs) \<le> B" using bound \<open>0 \<le> ?x\<close> by linarith
  ultimately show ?case using Cons.IH [OF rec _ Cons.prems(3)] z by (simp add: algebra_simps)
qed simp

text \<open>The memory of a list of resources stays within what the machine offers.\<close>

definition memory_within :: "units \<Rightarrow> int \<Rightarrow> int \<Rightarrow> Machine \<Rightarrow> ResourceRefList \<Rightarrow> bool" where
  "memory_within u \<delta> B m rs \<longleftrightarrow>
     (machine_memory u m + \<delta> * int (length rs) \<le> B \<longrightarrow>
      memory_of u rs \<le> machine_memory u m + \<delta> * int (length rs))"

lemma fit_on_memory:
  assumes u: "sizes_read_within u \<delta> B" and fit: "fit_on u m c rs item = Done (Some b)"
  shows "memory_within u \<delta> B m (rs @ [new_ref item b])"
proof -
  let ?n = "int (length rs)"
  from fit obtain avail r :: AvailableResource where av: "Available u m = Done (Some avail)"
      and loop: "Rest_loop u avail rs = Done (Some r)"
    and ov: "resourceOverflow u (disk_order c (meta_Name (m_Meta m)) (tr_Name item)) (Some r)
       (tr_Spec item) = Done (Some b)"
    by (rule fit_on_SomeD)
  from ov obtain y want where y: "Unwrap u (ar_Memory r) = Done y" and
    want: "Unwrap u (rb_Memory b) = Done want" "want \<le> y"
    by (elim resourceOverflow_SomeD) auto
  from loop y obtain y0 where y0: "Unwrap u (ar_Memory avail) = Done y0" by (rule Rest_loop_Unwrap)
  from av obtain info reserve where *: "mst_Info (m_Status m) = Some info" "ms_Reserve (m_Spec m) = Some reserve"
    "Sub u (mi_Memory info) (rsv_Memory reserve) = Done (ar_Memory avail)" by (rule Available_cases)
  have \<delta>: "0 \<le> \<delta>" "0 \<le> \<delta> * ?n" using u by (simp_all add: sizes_read_within_def)
  have "memory_of u rs + want \<le> machine_memory u m + (\<delta> + \<delta> * ?n)"
    if "machine_memory u m + (\<delta> + \<delta> * ?n) \<le> B"
  proof -
    have mm: "machine_memory u m = size_of u (mi_Memory info) - size_of u (rsv_Memory reserve)"
      by (simp add: machine_memory_def *)
    have "machine_memory u m \<le> B" using that \<delta> by linarith
    then have "y0 \<le> machine_memory u m + \<delta>" using Sub_size [OF u *(3) y0] by (simp add: mm)
    moreover from this that have "y + memory_of u rs \<le> y0 + \<delta> * ?n"
      by (intro Rest_loop_memory [OF u loop y0 y]) linarith
    ultimately show ?thesis using want(2) by linarith
  qed
  then show ?thesis
    by (simp add: memory_within_def new_ref_def size_of_Done [OF want(1)] algebra_simps)
qed

lemma fit_on_uses:
  assumes fair: "fair c" and fit: "fit_on u m c rs item = Done (Some b)"
  shows "uses_machine m (new_ref item b)"
proof -
  let ?ord = "disk_order c (meta_Name (m_Meta m)) (tr_Name item)"
  from fit obtain avail r :: AvailableResource where av: "Available u m = Done (Some avail)"
      and loop: "Rest_loop u avail rs = Done (Some r)"
    and ov: "resourceOverflow u ?ord (Some r) (tr_Spec item) = Done (Some b)"
    by (rule fit_on_SomeD)
  from ov have cpus: "rb_CPUSet b = take (nat (trs_Cores (tr_Spec item))) (ar_IdleCPUSet r)"
    and bd: "bind_disks u ?ord (trs_Disks (tr_Spec item)) (ar_Disks r) [] = Done (rb_Disks b)"
    by (elim resourceOverflow_SomeD, simp)+
  have "set (rb_CPUSet b) \<subseteq> machine_cores m"
    using Rest_loop_cpus [OF loop] Available_offers(1) [OF av] by (auto simp: cpus dest: in_set_takeD)
  moreover have "d \<in> set (ms_ExclusiveDisks (m_Spec m))" if "d \<in> set (binding_devices b)" for d
  proof -
    from that obtain n x where "(n, x) \<in> set (rb_Disks b)" "d = db_Device x"
      by (auto simp: binding_devices_def)
    with bind_disks_fits [OF bd fair_set(1) [OF fair] subset_refl _ subset_refl, of n x]
    obtain dr where "(d, dr) \<in> set (ar_Disks r)" by (auto simp: disk_fits_def)
    then have "map_of (ar_Disks r) d \<noteq> None" by (metis weak_map_of_SomeI option.distinct(1))
    then have "map_of (ar_Disks avail) d \<noteq> None" using Rest_loop_disks [OF loop] by metis
    then show ?thesis using Available_offers(2) [OF av] map_of_not_None_iff by fastforce
  qed
  ultimately show ?thesis by (auto simp: uses_machine_def new_ref_def)
qed

section \<open>The whole admission\<close>

text \<open>
  What the resources on a machine become, \<open>rs\<close> to \<open>rs'\<close>: each new one uses cores and disks of an
  open machine of that key, and where there is a new one the memory is within that of such a machine.
\<close>

definition offered :: "units \<Rightarrow> int \<Rightarrow> int \<Rightarrow> Machine set \<Rightarrow> ResourceRefList \<Rightarrow> ResourceRefList \<Rightarrow> bool" where
  "offered u \<delta> B ms rs rs' \<longleftrightarrow>
     (\<forall>rr\<in>set rs'. rr \<in> set rs \<or> (\<exists>m\<in>ms. uses_machine m rr)) \<and>
     (rs' = rs \<or> (\<exists>m\<in>ms. memory_within u \<delta> B m rs'))"

lemma offered_refl [simp]: "offered u \<delta> B ms rs rs"
  by (simp add: offered_def)

lemma offered_trans: "offered u \<delta> B ms rs qs \<Longrightarrow> offered u \<delta> B ms qs ps \<Longrightarrow> offered u \<delta> B ms rs ps"
  unfolding offered_def by metis

lemma bind_items_offered:
  assumes u: "sizes_read_within u \<delta> B" and "fair c" "m \<in> ms"
  shows "bind_items u c m rs bs items = Done (Some (rs', bs')) \<Longrightarrow> offered u \<delta> B ms rs rs'"
proof (induction items arbitrary: rs bs)
  case (Cons i items)
  then obtain item where i: "i = Some item" by (cases i) auto
  with Cons.prems obtain b where fit: "fit_on u m c rs item = Done (Some b)"
    and rest: "bind_items u c m (rs @ [new_ref item b]) (AList.update (tr_Name item) b bs) items
      = Done (Some (rs', bs'))"
    by (auto simp: bind_items_Some_Cons simp del: bind_items.simps(3) split: option.splits)
  have "offered u \<delta> B ms rs (rs @ [new_ref item b])"
    using fit_on_uses [OF assms(2) fit] fit_on_memory [OF u fit] assms(3) by (auto simp: offered_def)
  then show ?case using Cons.IH [OF rest] by (rule offered_trans)
qed simp

lemma tryBindResource_offered:
  assumes "sizes_read_within u \<delta> B" "fair c"
    and "tryBindResource u c s ms g = Done (s', Some m)"
  shows "m \<in> set ms \<and> offered u \<delta> B {m} (resources_on s (machine_key m)) (resources_on s' (machine_key m)) \<and>
    (\<forall>mk. mk \<noteq> machine_key m \<longrightarrow> resources_on s' mk = resources_on s mk)"
proof -
  from assms(3) obtain rs bs m2r where "m \<in> set ms" and
    items: "bind_items u c m (resources_on s (machine_key m)) [] (ig_Items g) = Done (Some (rs, bs))"
    and put: "nil_put (MachineToResources s) (machine_key m) rs = Done m2r"
    and rec: "record_items m bs (s\<lparr>MachineToResources := m2r\<rparr>) (ig_Items g) = Done s'"
    by (rule tryBindResource_Some)
  have "resources_on s' mk = (if mk = machine_key m then rs else resources_on s mk)" for mk
    using record_items_frame [OF rec] nil_get_put [OF put] by (simp add: resources_on_def)
  with bind_items_offered [OF assms(1,2) _ items, of "{m}"] \<open>m \<in> set ms\<close> show ?thesis by simp
qed

lemma offered_mono: "offered u \<delta> B ms rs rs' \<Longrightarrow> ms \<subseteq> ms' \<Longrightarrow> offered u \<delta> B ms' rs rs'"
  unfolding offered_def by blast

lemma place_groups_offered:
  assumes "sizes_read_within u \<delta> B" "fair c" "set sortedMs \<subseteq> M" "snd ` set cands \<subseteq> M"
  shows "place_groups u c reqs cands sortedMs s toLock gs = Done (Inr (s', toLock')) \<Longrightarrow>
    offered u \<delta> B {m \<in> M. machine_key m = mk} (resources_on s mk) (resources_on s' mk)"
proof (induction gs arbitrary: s toLock)
  case (Cons g gs)
  from Cons.prems obtain ms s1 m where
      ms: "group_candidates s reqs cands sortedMs g = Done (Inr ms)"
      and bind: "tryBindResource u c s ms g = Done (s1, Some m)"
      and rest: "place_groups u c reqs cands sortedMs s1
       (if locks_machine reqs g then toLock @ [meta_Name (m_Meta m)] else toLock) gs
       = Done (Inr (s', toLock'))" by (rule place_groups_ConsE)
  note b = tryBindResource_offered [OF assms(1,2) bind]
  then have "m \<in> M" using group_candidates_subset [OF ms] assms(3,4) by blast
  with b have "offered u \<delta> B {m \<in> M. machine_key m = mk} (resources_on s mk) (resources_on s1 mk)"
    by (cases "mk = machine_key m") (auto elim!: offered_mono)
  then show ?case using Cons.IH [OF rest] by (rule offered_trans)
qed simp

text \<open>C7: an accepted request gets what its machines have: every new resource on a machine uses
  threads of the machine outside its reserve and disks declared exclusive, and the memory of all
  the resources on it is at most the memory of the machine less its reserve, plus one printing
  error \<open>\<delta>\<close> of the sizes per resource.\<close>

theorem tryRequest_capacity:
  assumes "sizes_read_within u \<delta> B" "fair c"
    and "tryRequest_core u c s request rm machines = Done (TryAccepted s')"
  shows "offered u \<delta> B {m \<in> open_machines machines s. machine_key m = mk} (resources_on s mk) (resources_on s' mk)"
proof -
  from assms(3) obtain reqs expl s1 toLock s2 where
    groups: "place_groups u c reqs (selectNonLockMachines machines s)
       (sortMachines c (selectNonLockMachines machines s) expl s) s []
       (groupCoLocatedItems c (trrs_Items (trr_Spec request)) rm) = Done (Inr (s1, toLock))"
    and lock: "lock_machines (request_ref request) s1 toLock = Done s2"
    and s': "s' = accept (request_ref request) s2" by (rule tryRequest_acceptedE)
  have "resources_on s' = resources_on s1"
    using lock_machines_result [OF lock] by (intro resources_on_cong) (simp add: s')
  then show ?thesis
    using place_groups_offered [OF assms(1,2) _ _ groups, of "open_machines machines s" mk,
        unfolded selectNonLockMachines_open sortMachines_set [OF assms(2)]] by simp
qed

lemma Atoi_range: "Atoi s = (x, None) \<Longrightarrow> - (2 ^ 63) \<le> x \<and> x < 2 ^ 63"
  by (auto simp: Atoi_def Let_def split: prod.splits option.splits if_splits)

lemma demo_sizes:
  assumes "B < 2 ^ 63"
  shows "sizes_read_within demo_units 0 B"
proof -
  have "0 \<le> x \<and> x < 2 ^ 63" if "RAMInBytes demo_units t = Inr x" for t x
    using that Atoi_range [of t x] by (auto simp: demo_units_def split: prod.splits option.splits if_splits)
  moreover have "y \<le> n" if "- (2 ^ 63) \<le> n \<and> n \<le> B" "RAMInBytes demo_units (BytesSize demo_units n) = Inr y" for n y
    using that assms Atoi_Itoa [of n] by (auto simp: demo_units_def split: if_splits)
  ultimately show ?thesis by (simp add: sizes_read_within_def)
qed

theorem tryRequest_capacity_witness:
  "memory_of demo_units (resources_on demo_placed (machine_key demo_machine)) \<le> 8"
proof -
  have "offered demo_units 0 8 {m \<in> open_machines demo_machines demo_status. machine_key m = machine_key demo_machine}
      [] (resources_on demo_placed (machine_key demo_machine))"
    using tryRequest_capacity [OF demo_sizes fair_demo demo_accepted, of 8 "machine_key demo_machine"]
    by (simp add: demo_status_def resources_on_def nil_get_def)
  moreover have "resources_on demo_placed (machine_key demo_machine) \<noteq> []" by code_simp
  moreover have "m = demo_machine" if "m \<in> open_machines demo_machines demo_status" for m
    using that by (auto simp: open_machines_def demo_machines_def)
  moreover have "machine_memory demo_units demo_machine = 8" by code_simp
  ultimately have "memory_within demo_units 0 8 demo_machine (resources_on demo_placed (machine_key demo_machine))"
    by (auto simp: offered_def)
  with \<open>machine_memory demo_units demo_machine = 8\<close> show ?thesis by (simp add: memory_within_def)
qed

section \<open>A machine that fits is found\<close>

text \<open>
  When a machine beside the resources \<open>rs\<close> can take an item without disks: enough free cores outside
  the reserve and enough memory left.
\<close>

definition can_host :: "units \<Rightarrow> Machine \<Rightarrow> ResourceRefList \<Rightarrow> TestResource \<Rightarrow> bool" where
  "can_host u m rs item \<longleftrightarrow>
     trs_Cores (tr_Spec item) \<le> int (card (machine_cores m - set (cpus_of rs))) \<and>
     (\<exists>r have_mem want. Rest u m rs = Done (Some r) \<and> Unwrap u (ar_Memory r) = Done have_mem \<and>
        Unwrap u (trs_Memory (tr_Spec item)) = Done want \<and> want \<le> have_mem)"

lemma Rest_cores:
  assumes "Rest u m rs = Done (Some r)"
  shows "length (ar_IdleCPUSet r) = card (machine_cores m - set (cpus_of rs))"
proof -
  from assms obtain avail where av: "Available u m = Done (Some avail)" and loop: "Rest_loop u avail rs = Done (Some r)"
    by (auto simp: Rest_def split: option.splits)
  have "distinct (ar_IdleCPUSet r)" using Rest_loop_sorted [OF loop] Available_cpus [OF av] by simp
  then have "length (ar_IdleCPUSet r) = card (set (ar_IdleCPUSet r))" by (simp add: distinct_card)
  then show ?thesis by (simp add: Rest_loop_cpus [OF loop] Available_offers(1) [OF av])
qed

lemma fit_on_diskless:
  assumes "trs_Disks (tr_Spec item) = []"
  shows "(\<exists>b. fit_on u m c rs item = Done (Some b)) \<longleftrightarrow> can_host u m rs item"
proof (cases "Rest u m rs")
  case (Done x)
  show ?thesis
  proof (cases x)
    case None
    with Done show ?thesis by (simp add: fit_on_def resourceOverflow_def can_host_def)
  next
    case (Some r)
    with Done assms Rest_cores [of u m rs r] show ?thesis
      by (cases "Unwrap u (ar_Memory r)"; cases "Unwrap u (trs_Memory (tr_Spec item))")
        (auto simp: fit_on_def resourceOverflow_def can_host_def pickCpuSet_def Let_def)
  qed
qed (simp_all add: fit_on_def can_host_def)

lemma tryBindResource_found:
  assumes "tryBindResource u c s ms g = Done (s', bound)" "ig_Items g = [Some item]"
  shows "bound \<noteq> None \<longleftrightarrow> (\<exists>m\<in>set ms. \<exists>b. fit_on u m c (resources_on s (machine_key m)) item = Done (Some b))"
  using assms
proof (induction ms)
  case (Cons m ms)
  let ?fit = "fit_on u m c (resources_on s (machine_key m)) item"
  show ?case
  proof (cases ?fit)
    case (Done x)
    with Cons show ?thesis
      by (cases x) (auto simp: bind_items_Some_Cons simp del: bind_items.simps(3))
  qed (use Cons.prems in \<open>simp_all add: bind_items_Some_Cons del: bind_items.simps(3)\<close>)
qed simp

text \<open>A request for one item without disks, on any machine.\<close>

definition asks_for_one :: "TestResourceRequest \<Rightarrow> (string, TestResource) gomap \<Rightarrow> TestResource \<Rightarrow> bool" where
  "asks_for_one request rm item \<longleftrightarrow>
     trrs_Machines (trr_Spec request) = [] \<and> trs_Disks (tr_Spec item) = [] \<and>
     (\<exists>i. trrs_Items (trr_Spec request) = [i] \<and> trs_Machine (rri_Spec i) = [] \<and> map_of rm (rri_Name i) = Some item)"

lemma tryRequest_found:
  assumes "fair c" "asks_for_one request rm item"
    and "tryRequest_core u c s request rm machines = Done res"
  shows "(\<exists>s'. res = TryAccepted s') \<longleftrightarrow>
    (\<exists>m\<in>open_machines machines s. can_host u m (resources_on s (machine_key m)) item)"
proof -
  let ?cands = "selectNonLockMachines machines s"
  let ?ms = "sortMachines c ?cands [] s" and ?g = "\<lparr>ig_ExplicitMachine = [], ig_Items = [Some item]\<rparr>"
  have "group_order c [] = []" using assms(1) unfolding fair_def by (metis mset_zero_iff mset.simps(1))
  with assms(2) have gs: "groupCoLocatedItems c (trrs_Items (trr_Spec request)) rm = [?g]"
    by (auto simp: asks_for_one_def groupCoLocatedItems_def named_items_def)
  have cl: "group_candidates s [] ?cands ?ms ?g = Done (Inr ?ms)" by (simp add: group_candidates_def)
  have core: "tryRequest_core u c s request rm machines =
      go_bind (go_bind (tryBindResource u c s ?ms ?g) (\<lambda>(s', bound).
         case bound of None \<Rightarrow> Done (Inl ''fail to find suitable machines'') | Some m \<Rightarrow> Done (Inr (s', []))))
       (\<lambda>res. case res of Inl message \<Rightarrow> Done (TryLater message)
          | Inr (s', toLock) \<Rightarrow> go_bind (lock_machines (request_ref request) s' toLock) (\<lambda>s''.
              Done (TryAccepted (accept (request_ref request) s''))))"
    using assms(2) by (simp add: tryRequest_core_def asks_for_one_def gs cl Let_def locks_machine_def cong: option.case_cong)
  with assms(3) obtain s' bound where bind: "tryBindResource u c s ?ms ?g = Done (s', bound)"
    by (cases "tryBindResource u c s ?ms ?g") auto
  have "(\<exists>s'. res = TryAccepted s') \<longleftrightarrow> bound \<noteq> None"
    using assms(3) unfolding core bind by (cases bound) auto
  also have "\<dots> \<longleftrightarrow> (\<exists>m\<in>open_machines machines s. \<exists>b. fit_on u m c (resources_on s (machine_key m)) item = Done (Some b))"
    by (simp add: tryBindResource_found [OF bind] sortMachines_set [OF assms(1)] selectNonLockMachines_open del: not_None_eq)
  finally show ?thesis
    using assms(2) fit_on_diskless by (simp add: asks_for_one_def)
qed


definition demo_one :: TestResourceRequest where
  "demo_one = demo_request\<lparr>trr_Spec := \<lparr>trrs_Machines = [],
     trrs_Items = [\<lparr>rri_Name = ''n2'', rri_Spec = (demo_spec 1 [])\<lparr>trs_Machine := []\<rparr>\<rparr>]\<rparr>\<rparr>"


end
