(* ===== verification/Isolation.thy ===== *)
theory Isolation
  imports Resource_Props Concurrency Capacity
begin

text \<open>
  From the bindings in the relationship to the containers on the daemons: the resource controller
  creates a container only on the machine the resource is bound to and only with the configuration
  of its binding, so that the containers of two resources never share a core of their machine.
\<close>

section \<open>Which containers are created\<close>

text \<open>The entry that a relationship the controller read has for a resource.\<close>

definition entry_read :: "env \<Rightarrow> TestResource \<Rightarrow> MachineRef \<Rightarrow> bool" where
  "entry_read e r mr \<longleftrightarrow>
     (\<exists>h rel. ask_relationship e h relationshipName = Inr rel \<and>
        nil_get (ResourceToMachine (rel_Status rel)) (resource_key r) = Some mr)"

definition on_bound_machine :: "env \<Rightarrow> TestResource \<Rightarrow> string \<Rightarrow> bool" where
  "on_bound_machine e r d \<longleftrightarrow>
     (\<exists>mr m h. entry_read e r mr \<and> ask_machine e h (Namespaced (mr_Ref mr)) = Inr m \<and> d = DockerURL m)"

text \<open>
  What a container may use under a binding: the cores it is pinned to, its memory limit, and what
  is mounted into it. The last three conditions are the image and the privileges of the
  specification.
\<close>

definition mount_of_disk :: "DiskBinding \<Rightarrow> Mount" where
  "mount_of_disk d =
     \<lparr>mnt_Type = ''bind'', mnt_Source = db_OriginPath d, mnt_Target = db_MountPath d, mnt_ReadOnly = False\<rparr>"

definition mount_of_spec :: "TestResourceMount \<Rightarrow> Mount" where
  "mount_of_spec t =
     \<lparr>mnt_Type = trm_Type t, mnt_Source = trm_Source t, mnt_Target = trm_Target t, mnt_ReadOnly = trm_ReadOnly t\<rparr>"

definition limited_to :: "units \<Rightarrow> TestResource \<Rightarrow> ResourceBinding \<Rightarrow> ContainerConf \<Rightarrow> HostConf \<Rightarrow> bool" where
  "limited_to u r b cfg hc \<longleftrightarrow>
     (let c = trst_ContainerSpec (tr_Status r)
      in hc_CpusetCpus hc = Join (map Itoa (rb_CPUSet b)) '','' \<and>
         ToSize u (rb_Memory b) = Inr (hc_Memory hc) \<and>
         hc_Mounts hc = map (\<lambda>(_, d). mount_of_disk d) (rb_Disks b) @ map mount_of_spec (rcs_Mounts c) \<and>
         hc_Binds hc = rcs_Binds c \<and>
         cc_Image cfg = rcs_Image c \<and> hc_CapAdd hc = rcs_CapAdd c \<and> hc_Privileged hc = rcs_Privilege c)"

text \<open>
  The cleaner of a resource sees the disks of the binding and nothing else; where the entry has
  disappeared since the machine was read, it sees nothing.
\<close>

definition cleans_only :: "DiskBinding list \<Rightarrow> ContainerConf \<Rightarrow> HostConf \<Rightarrow> bool" where
  "cleans_only disks cfg hc \<longleftrightarrow>
     hc_Mounts hc = map mount_of_disk disks \<and> hc_Binds hc = [] \<and> hc_CapAdd hc = [] \<and>
     \<not> hc_Privileged hc \<and> cc_Image cfg = cleanerImage"

definition with_binding :: "env \<Rightarrow> units \<Rightarrow> TestResource \<Rightarrow> string \<Rightarrow> ContainerConf \<Rightarrow> HostConf \<Rightarrow> bool" where
  "with_binding e u r name cfg hc \<longleftrightarrow>
     name = ContainerName r \<and> (\<exists>mr. entry_read e r mr \<and> limited_to u r (mr_Binding mr) cfg hc) \<or>
     name = ContainerCleanerName r \<and>
       (cleans_only [] cfg hc \<or> (\<exists>mr. entry_read e r mr \<and> cleans_only (map snd (rb_Disks (mr_Binding mr))) cfg hc))"

definition created_for :: "env \<Rightarrow> units \<Rightarrow> nsname \<Rightarrow> event \<Rightarrow> bool" where
  "created_for e u req ev \<longleftrightarrow>
     (\<forall>d name cfg hc ok. ev = Docker d (ContainerCreate name cfg hc) ok \<longrightarrow>
        (\<exists>h r. ask_resource e h req = Inr r \<and> on_bound_machine e r d \<and> with_binding e u r name cfg hc))"

lemma created_for_simps [simp]:
  "created_for e u req (Get k nn)" "created_for e u req (Update x err)" "created_for e u req (StatusUpdate x err)"
  "created_for e u req (Recorded a b c f)"
  "created_for e u req (Docker d (ContainerInspect n) ok)" "created_for e u req (Docker d (ContainerStart n) ok)"
  "created_for e u req (Docker d (ContainerWait n) ok)" "created_for e u req (Docker d (ContainerRemove n force) ok)"
  "created_for e u req (Docker d (NetworkConnect w n) ok)" "created_for e u req (Docker d (ImageInspect n) ok)"
  "created_for e u req (Docker d (ImagePull n) ok)"
  "created_for e u req (Docker d (ContainerCreate name cfg hc) ok) \<longleftrightarrow>
     (\<exists>h r. ask_resource e h req = Inr r \<and> on_bound_machine e r d \<and> with_binding e u r name cfg hc)"
  by (simp_all add: created_for_def)

lemmas create_intros = emits_return emits_bind emits_if emits_case_sum emits_case_option emits_case_go
  emits_case_prod emits_finish emits_crash emits_MakeClient emits_actions emits_getRelationship

lemma MakeClient_URL: "run_state (MakeClient e m) h1 = (Inr d, h2) \<Longrightarrow> d = DockerURL m"
  by (drule MakeClient_made) simp

text \<open>
  \<open>getRelationship\<close> hides a missing relationship and the map read hides a missing entry, in
  \<open>getHostMachine\<close> as in \<open>getResourceBinding\<close>. What then stops the controller is that no machine
  has the empty name, and that no size is the empty text.
\<close>

definition no_empty_name :: "env \<Rightarrow> bool" where
  "no_empty_name e \<longleftrightarrow> (\<forall>h ns m. ask_machine e h \<lparr>nn_Namespace = ns, nn_Name = []\<rparr> \<noteq> Inr m)"

definition no_empty_size :: "units \<Rightarrow> bool" where
  "no_empty_size u \<longleftrightarrow> (\<forall>n. ToSize u [] \<noteq> Inr n)"

lemma machine_of_read:
  assumes "run_state (getRelationship e) h1 = (Inr rel, h2)"
  obtains "machine_of (rel_Status rel) (resource_key r) = zero_MachineRef"
  | mr where "machine_of (rel_Status rel) (resource_key r) = mr" "entry_read e r mr"
proof (cases "nil_get (ResourceToMachine (rel_Status rel)) (resource_key r)")
  case None
  then show ?thesis using that(1) by (simp add: machine_of_def)
next
  case (Some mr)
  then have "rel \<noteq> zero_Relationship" by (auto simp: zero_Relationship_def nil_get_def)
  then have "entry_read e r mr"
    using getRelationship_answer [OF assms] Some unfolding entry_read_def by blast
  then show ?thesis using that(2) Some by (simp add: machine_of_def)
qed

lemma getHostMachine_bound:
  assumes "run_state (getHostMachine e (resource_ref r)) h1 = (Inr m, h2)" "no_empty_name e"
  shows "on_bound_machine e r (DockerURL m)"
proof -
  from assms(1) obtain rel h where rel: "run_state (getRelationship e) h1 = (Inr rel, h)"
    and "run_state (Get_machine e (Namespaced (mr_Ref (machine_of (rel_Status rel) (resource_key r))))) h = (Inr m, h2)"
    unfolding getHostMachine_def
    by (cases "run_state (getRelationship e) h1") (auto simp: resource_key_def split: sum.splits)
  then have read: "ask_machine e h (Namespaced (mr_Ref (machine_of (rel_Status rel) (resource_key r)))) = Inr m"
    by (simp add: action_defs io_simps)
  show ?thesis
  proof (cases rule: machine_of_read [OF rel, of r])
    case 1
    then show ?thesis
      using read assms(2) by (simp add: no_empty_name_def Namespaced_def zero_MachineRef_def)
  next
    case (2 mr)
    then show ?thesis using read unfolding on_bound_machine_def by blast
  qed
qed

lemma getResourceBinding_read:
  assumes "run_state (getResourceBinding e (resource_ref r)) h1 = (Inr b, h2)"
  obtains "b = mr_Binding zero_MachineRef" | mr where "entry_read e r mr" "b = mr_Binding mr"
proof -
  from assms obtain rel h where rel: "run_state (getRelationship e) h1 = (Inr rel, h)"
    and b: "b = mr_Binding (machine_of (rel_Status rel) (resource_key r))"
    unfolding getResourceBinding_def
    by (cases "run_state (getRelationship e) h1") (auto simp: resource_key_def split: sum.splits)
  show ?thesis by (cases rule: machine_of_read [OF rel, of r]) (use that b in auto)
qed

lemma ContainerConfig_limits:
  assumes "ContainerConfig u r b = Done (cfg, hc)"
  shows "hc_CpusetCpus hc = cpuSetStr (rb_CPUSet b)" "Unwrap u (rb_Memory b) = Done (hc_Memory hc)"
  using assms by (auto simp: ContainerConfig_def Let_def)

lemma ContainerConfig_limited:
  assumes "ContainerConfig u r b = Done (cfg, hc)"
  shows "limited_to u r b cfg hc"
  using assms
  by (auto simp: ContainerConfig_def limited_to_def Let_def Unwrap_def cpuSetStr_Join zero_HostConf_def zero_Conf_def
      disk_mount_def mount_of_disk_def bind_mount_def mount_of_spec_def TypeBind_def split: sum.splits)

lemma ContainerConfig_sized:
  "ContainerConfig u r b = Done c \<Longrightarrow> no_empty_size u \<Longrightarrow> b \<noteq> mr_Binding zero_MachineRef"
  by (cases c) (auto simp: no_empty_size_def zero_MachineRef_def zero_binding_def Unwrap_def
      dest!: ContainerConfig_limits(2) split: sum.splits)

lemma ContainerCleanerConfig_cleans:
  "ContainerCleanerConfig b = (cfg, hc) \<Longrightarrow> cleans_only (map snd (rb_Disks b)) cfg hc"
  by (auto simp: ContainerCleanerConfig_def cleans_only_def Let_def zero_HostConf_def zero_Conf_def
      disk_mount_def mount_of_disk_def TypeBind_def split: if_splits)

lemma emits_pull_and_create_for:
  assumes "ask_resource e h req = Inr r" "on_bound_machine e r d" "with_binding e u r name cfg hc"
  shows "emits (created_for e u req) (pull_and_create e r d name reason cfg hc)"
proof -
  have "emits (created_for e u req) (record_warnings r reason ws)" for ws
    by (rule emits_record_warnings) simp
  moreover have "emits (created_for e u req) (PullImageByPolicy e d image policy)" for image policy
    unfolding PullImageByPolicy_def by (intro create_intros) simp_all
  ultimately show ?thesis
    unfolding pull_and_create_def by (intro create_intros) (use assms in auto)
qed

lemma emits_createContainer_for:
  assumes "ask_resource e h req = Inr r" "on_bound_machine e r d" and sized: "no_empty_size u"
  shows "emits (created_for e u req) (createContainer e u r d)"
proof -
  have bound: "emits (created_for e u req) (getResourceBinding e (resource_ref r))"
    by (rule emits_getResourceBinding) simp
  have "emits (created_for e u req) (pull_and_create e r d (ContainerName r) reason cfg hc)"
    if "run_state (getResourceBinding e (resource_ref r)) h1 = (Inr b, h2)" "ContainerConfig u r b = Done (cfg, hc)"
    for reason b cfg hc h1 h2
    by (rule emits_pull_and_create_for [OF assms(1,2)], rule getResourceBinding_read [OF that(1)])
      (use ContainerConfig_sized [OF that(2) sized] ContainerConfig_limited [OF that(2)] in \<open>auto simp: with_binding_def\<close>)
  then show ?thesis
    unfolding createContainer_def by (intro create_intros bound) auto
qed

lemma emits_createCleaner_for:
  assumes "ask_resource e h req = Inr r" "on_bound_machine e r d"
  shows "emits (created_for e u req) (createCleaner e r d)"
proof -
  have bound: "emits (created_for e u req) (getResourceBinding e (resource_ref r))"
    by (rule emits_getResourceBinding) simp
  have "emits (created_for e u req) (pull_and_create e r d (ContainerCleanerName r) reason cfg hc)"
    if "run_state (getResourceBinding e (resource_ref r)) h1 = (Inr b, h2)" "ContainerCleanerConfig b = (cfg, hc)"
    for reason b cfg hc h1 h2
    by (rule emits_pull_and_create_for [OF assms], rule getResourceBinding_read [OF that(1)])
      (use ContainerCleanerConfig_cleans [OF that(2)] in \<open>auto simp: with_binding_def zero_MachineRef_def zero_binding_def\<close>)
  then show ?thesis
    unfolding createCleaner_def Let_def by (intro create_intros bound) auto
qed

lemma emits_finalize_for:
  assumes "ask_resource e h req = Inr r" "on_bound_machine e r (DockerURL m)"
  shows "emits (created_for e u req) (finalize e r m)"
proof -
  have "emits (created_for e u req) (removeContainer e r d)" for d
    unfolding removeContainer_def by (intro create_intros) simp_all
  moreover have "emits (created_for e u req) (createCleaner e r d)" if "run_state (MakeClient e m) h1 = (Inr d, h2)" for d h1 h2
    using emits_createCleaner_for [OF assms(1), of d] assms(2) MakeClient_URL [OF that] by simp
  ultimately show ?thesis
    unfolding finalize_def by (intro create_intros) auto
qed

lemma emits_state_for:
  assumes "ask_resource e h req = Inr r" and world: "no_empty_name e" "no_empty_size u"
  shows "emits (created_for e u req) (reconcileStatePending e r)"
    "emits (created_for e u req) (reconcileStateUninitialized e u r)"
    "emits (created_for e u req) (reconcileStateReady e r)"
    "emits (created_for e u req) (reconcileStateDestroy e r)"
    "emits (created_for e u req) (delete_resource e r)"
proof -
  let ?P = "created_for e u req"
  have host: "emits ?P (getHostMachine e (resource_ref r))" by (rule emits_getHostMachine) simp
  have drop: "emits ?P (drop_resource_finalizer e r)" by (rule emits_drop_resource_finalizer) simp
  have started: "emits ?P (started_container e r stats)" for stats
    unfolding started_container_def by (intro create_intros) simp_all
  have request: "emits ?P (requestResource e r)" by (rule emits_requestResource) simp
  show "emits ?P (reconcileStatePending e r)"
    unfolding reconcileStatePending_def by (intro create_intros request) simp_all
  show "emits ?P (reconcileStateReady e r)"
    unfolding reconcileStateReady_def Let_def by (intro create_intros host) simp_all
  have create: "emits ?P (createContainer e u r d)"
    if "run_state (getHostMachine e (resource_ref r)) h1 = (Inr m, h2)" "run_state (MakeClient e m) h3 = (Inr d, h4)"
    for m d h1 h2 h3 h4
    using emits_createContainer_for [OF assms(1) _ world(2)] getHostMachine_bound [OF that(1) world(1)] MakeClient_URL [OF that(2)] by simp
  show "emits ?P (reconcileStateUninitialized e u r)"
    unfolding reconcileStateUninitialized_def by (intro create_intros host started) (auto intro: create)
  have final: "emits ?P (finalize e r m)" if "run_state (getHostMachine e (resource_ref r)) h1 = (Inr m, h2)" for m h1 h2
    by (rule emits_finalize_for [OF assms(1) getHostMachine_bound [OF that world(1)]])
  show "emits ?P (reconcileStateDestroy e r)"
    unfolding reconcileStateDestroy_def by (intro create_intros host) (auto intro: final)
  have release: "emits ?P (finalize e r m)"
    if "run_state (getRelationship e) h1 = (Inr rel, h2)"
      "nil_get (ResourceToMachine (rel_Status rel)) (resource_key r) = Some mr"
      "run_state (Get_machine e (Namespaced (mr_Ref mr))) h3 = (Inr m, h4)" for rel mr m h1 h2 h3 h4
  proof (rule emits_finalize_for [OF assms(1)])
    have "rel \<noteq> zero_Relationship" using that(2) by (auto simp: zero_Relationship_def nil_get_def)
    then have "entry_read e r mr"
      using getRelationship_answer [OF that(1)] that(2) unfolding entry_read_def by blast
    moreover have "ask_machine e h3 (Namespaced (mr_Ref mr)) = Inr m"
      using that(3) by (simp add: action_defs io_simps)
    ultimately show "on_bound_machine e r (DockerURL m)" unfolding on_bound_machine_def by blast
  qed
  show "emits ?P (delete_resource e r)"
    unfolding delete_resource_def by (intro create_intros drop) (auto intro: release)
qed

text \<open>C6: whatever else the world answers, as long as it has no machine with an empty name and the units
  library reads no size from the empty text, the resource controller creates containers only for the
  resource it read, and only on the daemon of a machine that a relationship it read has in the entry
  of this resource. The container of the resource is pinned to exactly the cores of the binding in
  such an entry, limited to its memory, and sees its disks and the mounts of the specification,
  nothing else; the cleaner sees the disks of such a binding, or nothing.\<close>

theorem containers_bound:
  assumes world: "no_empty_name e" "no_empty_size u"
  shows "emits (created_for e u req) (TestResource_Reconcile e u req)"
proof -
  have "emits (created_for e u req) (case tr_State r of
                      ResourceStateNone \<Rightarrow>
                        do { err \<leftarrow> k8s_StatusUpdate e (KResource (set_state ResourcePending r));
                             finish no_requeue err }
                    | ResourcePending \<Rightarrow> reconcileStatePending e r
                    | ResourceUninitialized \<Rightarrow> reconcileStateUninitialized e u r
                    | ResourceReady \<Rightarrow> reconcileStateReady e r
                    | ResourceFinish \<Rightarrow> reconcileStateFinish e r
                    | ResourceDestroy \<Rightarrow> reconcileStateDestroy e r
                    | UnknownResourceState _ \<Rightarrow> finish no_requeue None)"
    if "ask_resource e h1 req = Inr r" for h1 r
    using emits_state_for [OF that world]
    by (cases "tr_State r") (auto simp: reconcileStateFinish_def intro!: create_intros)
  then show ?thesis
    unfolding TestResource_Reconcile_def
    by (intro create_intros) (auto dest!: Get_resource_answer intro: emits_state_for(5) [OF _ world])
qed

lemma emits_snd: "emits P m \<Longrightarrow> list_all P (snd (run_state m []))"
  unfolding emits_def by (metis append_Nil prod.collapse)

text \<open>On the placed cluster the container of the first resource is created so.\<close>

definition creating_run :: history where
  "creating_run = snd (run_state (TestResource_Reconcile (placed_env (placed_resource ResourceUninitialized)) demo_units
     \<lparr>nn_Namespace = ''default'', nn_Name = ''n1''\<rparr>) [])"

lemma placed_no_empty: "no_empty_name (placed_env r)" "no_empty_size demo_units"
proof -
  show "no_empty_name (placed_env r)" by (simp add: no_empty_name_def placed_env_def)
  have "case ToSize demo_units [] of Inl _ \<Rightarrow> True | Inr _ \<Rightarrow> False" by code_simp
  then show "no_empty_size demo_units" by (auto simp: no_empty_size_def)
qed

theorem containers_bound_witness:
  "list_all (created_for (placed_env (placed_resource ResourceUninitialized)) demo_units
     \<lparr>nn_Namespace = ''default'', nn_Name = ''n1''\<rparr>) creating_run \<and>
   (\<exists>d cfg hc. Docker d (ContainerCreate (ContainerName (placed_resource ResourceUninitialized)) cfg hc) True \<in> set creating_run \<and>
     hc_CpusetCpus hc = ''1,2'' \<and> hc_Memory hc = 3)"
proof (intro conjI)
  show "list_all (created_for (placed_env (placed_resource ResourceUninitialized)) demo_units
     \<lparr>nn_Namespace = ''default'', nn_Name = ''n1''\<rparr>) creating_run"
    unfolding creating_run_def by (rule emits_snd [OF containers_bound [OF placed_no_empty]])
  have "list_ex (\<lambda>ev. case ev of Docker d (ContainerCreate name cfg hc) True \<Rightarrow>
      name = ContainerName (placed_resource ResourceUninitialized) \<and> hc_CpusetCpus hc = ''1,2'' \<and> hc_Memory hc = 3 | _ \<Rightarrow> False) creating_run"
    by code_simp
  then show "\<exists>d cfg hc. Docker d (ContainerCreate (ContainerName (placed_resource ResourceUninitialized)) cfg hc) True \<in> set creating_run \<and>
     hc_CpusetCpus hc = ''1,2'' \<and> hc_Memory hc = 3"
    unfolding list_ex_iff by (fastforce split: event.splits docker_op.splits bool.splits)
qed

section \<open>Containers on one machine\<close>

text \<open>
  Docker reads \<open>CpusetCpus\<close> as a list of core numbers; the empty text is no restriction.
\<close>

definition shares_core :: "HostConf \<Rightarrow> HostConf \<Rightarrow> bool" where
  "shares_core hc hc' \<longleftrightarrow>
     hc_CpusetCpus hc = [] \<or> hc_CpusetCpus hc' = [] \<or>
     set (Split (hc_CpusetCpus hc) '','') \<inter> set (Split (hc_CpusetCpus hc') '','') \<noteq> {}"

lemma Itoa_no_comma: "CHR '','' \<notin> set (Itoa i)"
  using Itoa_chars [of "CHR '',''" i] by (auto simp: digit_val_def)

lemma Split_cpuSetStr: "xs \<noteq> [] \<Longrightarrow> Split (cpuSetStr xs) '','' = map Itoa xs"
  unfolding cpuSetStr_Join by (intro Split_Join) (auto simp: Itoa_no_comma)

lemma cpuSetStr_Nil_iff: "cpuSetStr xs = [] \<longleftrightarrow> xs = []"
proof
  assume "cpuSetStr xs = []"
  then show "xs = []" using Split_cpuSetStr [of xs] by (cases xs; cases "tl xs") (auto simp: cpuSetStr_Join)
qed (simp add: cpuSetStr_Join)

lemma shares_core_configs:
  assumes "ContainerConfig u r b = Done (cfg, hc)" "ContainerConfig u q b' = Done (cfg', hc')"
  shows "shares_core hc hc' \<longleftrightarrow> rb_CPUSet b = [] \<or> rb_CPUSet b' = [] \<or> set (rb_CPUSet b) \<inter> set (rb_CPUSet b') \<noteq> {}"
proof (cases "rb_CPUSet b = [] \<or> rb_CPUSet b' = []")
  case True
  then show ?thesis by (auto simp: shares_core_def ContainerConfig_limits [OF assms(1)] ContainerConfig_limits [OF assms(2)] cpuSetStr_Nil_iff)
next
  case False
  then show ?thesis
    by (auto simp: shares_core_def ContainerConfig_limits [OF assms(1)] ContainerConfig_limits [OF assms(2)]
        cpuSetStr_Nil_iff Split_cpuSetStr)
qed

lemma cpus_of_apart:
  "distinct (cpus_of rs) \<Longrightarrow> a \<in> set rs \<Longrightarrow> b \<in> set rs \<Longrightarrow> a \<noteq> b \<Longrightarrow>
   set (rb_CPUSet (rr_Binding a)) \<inter> set (rb_CPUSet (rr_Binding b)) = {}"
  by (induction rs) (auto simp: cpus_of_def)

text \<open>
  A resource that asks for no core, which no webhook refuses, is fitted with none and gets a
  container that is not confined at all.
\<close>

lemma coreless_unconfined:
  assumes "fit_on u m c rs item = Done (Some b)" "trs_Cores (tr_Spec item) \<le> 0" "ContainerConfig u r b = Done (cfg, hc)"
  shows "hc_CpusetCpus hc = []"
  using fit_on_cpus(3) [OF assms(1)] assms(2) by (simp add: ContainerConfig_limits [OF assms(3)] cpuSetStr_Nil_iff)

text \<open>C5: suppose that every write of the relationship is a proper step: only requests with fresh items are
  admitted, a resource is released only with the machine key its entry records, and names have no slash.
  In every version that concurrent workers store, take two resources with places on one machine whose
  bindings have a core each. The containers configured from these bindings share no core. For a
  resource without cores, which no webhook refuses, this fails: see \<open>coreless_unconfined\<close>.\<close>

theorem containers_isolated:
  assumes run: "race (proper_rel_step u) (rel_Status zero_Relationship) \<sigma> ls" "s \<in> set (sh_Versions \<sigma>)"
    and placed: "nil_get (ResourceToMachine s) (resource_key r) = Some mr"
      "nil_get (ResourceToMachine s) (resource_key q) = Some mq"
    and two: "Key (mr_Ref mr) = Key (mr_Ref mq)" "resource_key r \<noteq> resource_key q"
    and cores: "rb_CPUSet (mr_Binding mr) \<noteq> []" "rb_CPUSet (mr_Binding mq) \<noteq> []"
    and config: "ContainerConfig u r (mr_Binding mr) = Done (cfg, hc)"
      "ContainerConfig u q (mr_Binding mq) = Done (cfg', hc')"
  shows "\<not> shares_core hc hc'"
proof -
  let ?rs = "resources_on s (Key (mr_Ref mr))"
  have "indexed s" using proper_kept.version_inv [OF run] by (simp add: index_inv_def)
  then obtain a b where a: "a \<in> set ?rs" "Key (rr_Ref a) = resource_key r" "rr_Binding a = mr_Binding mr"
    and b: "b \<in> set ?rs" "Key (rr_Ref b) = resource_key q" "rr_Binding b = mr_Binding mq"
    using placed two(1) unfolding indexed_def by metis
  have "machines_exclusive s" using proper_kept.version_inv [OF run] by (simp add: rel_inv_def)
  then have "distinct (cpus_of ?rs)" by (simp add: machines_exclusive_def exclusive_def)
  moreover have "a \<noteq> b" using a(2) b(2) two(2) by metis
  ultimately have "set (rb_CPUSet (rr_Binding a)) \<inter> set (rb_CPUSet (rr_Binding b)) = {}"
    by (rule cpus_of_apart [OF _ a(1) b(1)])
  then have "set (rb_CPUSet (mr_Binding mr)) \<inter> set (rb_CPUSet (mr_Binding mq)) = {}" by (simp only: a(3) b(3))
  with cores show ?thesis by (simp add: shares_core_configs [OF config])
qed

text \<open>The containers of the two resources of the small cluster.\<close>

definition demo_host_conf :: "nat \<Rightarrow> HostConf" where
  "demo_host_conf i =
     (let r = snd (demo_resources ! i)
      in case ContainerConfig demo_units r (mr_Binding (machine_of demo_placed (resource_key r))) of
           Done (cfg, hc) \<Rightarrow> hc | _ \<Rightarrow> zero_HostConf)"

lemma demo_configs:
  assumes "i \<in> {0, 1}"
  shows "\<exists>cfg. ContainerConfig demo_units (snd (demo_resources ! i))
      (mr_Binding (machine_of demo_placed (resource_key (snd (demo_resources ! i))))) = Done (cfg, demo_host_conf i)"
proof -
  have "(case ContainerConfig demo_units (snd (demo_resources ! i))
      (mr_Binding (machine_of demo_placed (resource_key (snd (demo_resources ! i))))) of Done _ \<Rightarrow> True | _ \<Rightarrow> False)"
    using assms by (elim insertE emptyE; simp only:) code_simp+
  then show ?thesis by (auto simp: demo_host_conf_def Let_def split: go.splits prod.splits)
qed

theorem containers_isolated_witness: "\<not> shares_core (demo_host_conf 0) (demo_host_conf 1)"
proof -
  let ?r = "snd (demo_resources ! 0)" and ?q = "snd (demo_resources ! 1)"
  let ?mr = "machine_of demo_placed (resource_key ?r)" and ?mq = "machine_of demo_placed (resource_key ?q)"
  obtain cfg cfg' where config: "ContainerConfig demo_units ?r (mr_Binding ?mr) = Done (cfg, demo_host_conf 0)"
    "ContainerConfig demo_units ?q (mr_Binding ?mq) = Done (cfg', demo_host_conf 1)"
    using demo_configs [of 0] demo_configs [of 1] by blast
  have placed: "nil_get (ResourceToMachine demo_placed) (resource_key ?r) = Some ?mr"
    "nil_get (ResourceToMachine demo_placed) (resource_key ?q) = Some ?mq"
    and two: "Key (mr_Ref ?mr) = Key (mr_Ref ?mq)" "resource_key ?r \<noteq> resource_key ?q"
    and cores: "rb_CPUSet (mr_Binding ?mr) \<noteq> []" "rb_CPUSet (mr_Binding ?mq) \<noteq> []"
    by code_simp+
  obtain \<sigma> where race: "race (proper_rel_step demo_units) (rel_Status zero_Relationship) \<sigma>
      [Initialised, Admitted demo_request demo_resources, Released (resource_key demo_first)]"
    and "sh_Versions \<sigma> = [rel_Status zero_Relationship, demo_status, demo_placed, demo_released]"
    by (rule demo_proper_race)
  then have version: "demo_placed \<in> set (sh_Versions \<sigma>)" by simp
  show ?thesis by (rule containers_isolated [OF race version placed two cores config])
qed

end
