(* ===== verification/Progress.thy ===== *)
theory Progress
  imports Request_Props Capacity
begin

text \<open>
  Progress of a request: in a world that answers, a run of the request controller on a pending request
  admits it when a machine has room for it. And a request that can never be admitted: one with two items
  of the same name.
\<close>

section \<open>A pending request is admitted\<close>

text \<open>A world that shows one state of the request, its resource, the relationship and the machines.\<close>

definition shows_pending ::
  "env \<Rightarrow> nsname \<Rightarrow> TestResourceRequest \<Rightarrow> TestResource \<Rightarrow> Relationship \<Rightarrow> Machine list \<Rightarrow> bool" where
  "shows_pending e req request r rel ms \<longleftrightarrow>
     (\<forall>h. ask_request e h req = Inr request \<and>
        ask_resources e h (meta_Namespace (trr_Meta request)) = Inr [r] \<and>
        ask_relationship e h relationshipName = Inr rel \<and> ask_machines e h = Inr ms)"

text \<open>The request is alive and pending, its resource is its own and has no place, it is not accepted yet.\<close>

definition waits :: "TestResourceRequest \<Rightarrow> TestResource \<Rightarrow> Relationship \<Rightarrow> bool" where
  "waits request r rel \<longleftrightarrow>
     trrst_State (trr_Status request) = TestResourceRequestPending \<and>
     meta_DeletionTimestamp (trr_Meta request) = None \<and> requestFinalizer \<in> set (meta_Finalizers (trr_Meta request)) \<and>
     (case meta_Controller (tr_Meta r) of None \<Rightarrow> False | Some owner \<Rightarrow> or_UID owner = meta_UID (trr_Meta request)) \<and>
     \<not> IsRequired (tr_State r) \<and> \<not> IfExist (AcceptedRequests (rel_Status rel)) (request_ref request)"

lemma pending_tries:
  assumes "shows_pending e req request r rel ms" "waits request r rel" "length (trrs_Items (trr_Spec request)) = 1"
  shows "\<exists>h'. run_state (Request_Reconcile e u c setref req) h = run_state (tryRequest e u c rel request [(tr_Name r, r)]) h'"
proof -
  obtain owner where owner: "meta_Controller (tr_Meta r) = Some owner" "or_UID owner = meta_UID (trr_Meta request)"
    using assms(2) by (auto simp: waits_def split: option.splits)
  then have scan: "scan_resources (meta_UID (trr_Meta request)) [r] [] 0 = Inr ([(tr_Name r, r)], 0)"
    using assms(2) by (simp add: waits_def)
  have "run_state (Request_Reconcile e u c setref req) h = run_state (reconcilePending e u c setref request) (h @ [Get ''TestResourceRequest'' req])"
    using assms(1,2) by (simp add: Request_Reconcile_def io_simps shows_pending_def waits_def
        lacks_finalizer_def being_deleted_def StringsContains_iff)
  then show ?thesis
    using assms by (auto simp: reconcilePending_def listResources_def listOwnedResources_def io_simps shows_pending_def
        waits_def scan simp del: scan_resources.simps)
qed

lemma pending_run:
  assumes world: "shows_pending e req request r rel ms" "waits request r rel" "length (trrs_Items (trr_Spec request)) = 1"
    and "tryRequest_core u c (rel_Status rel) request [(tr_Name r, r)] (getMachines_book ms) = Done (TryAccepted s)"
  shows "\<exists>err h'. run_state (Request_Reconcile e u c setref req) h
    = (Done (no_requeue, err), h' @ [StatusUpdate (KRelationship (rel\<lparr>rel_Status := s\<rparr>)) err])"
  using pending_tries [OF world, of u c setref h] assms(1,4)
  by (auto simp: tryRequest_def getMachines_def io_simps shows_pending_def)

text \<open>C9: progress. Take a pending request that is alive, not yet accepted, declares no machine and has one
  item, without disks and without the name of a machine, whose resource has been created, has no
  place and is the only one of its namespace; and a world that keeps showing this, the relationship
  and machines of different names, with no unreadable size, so that \<open>tryRequest\<close> returns. When a
  listed machine that is ready and not locked has room, the next run of the controller ends with a
  write of the relationship in which the request is accepted.\<close>

theorem pending_admitted:
  assumes "fair c" "shows_pending e req request r rel ms" "waits request r rel"
    and "asks_for_one request [(tr_Name r, r)] r"
    and "distinct (map (\<lambda>m. meta_Name (m_Meta m)) ms)"
    and "tryRequest_core u c (rel_Status rel) request [(tr_Name r, r)] (getMachines_book ms) = Done res"
    and "m \<in> set ms" "mst_State (m_Status m) = MachineReady"
    and "nil_get (MachineLocks (rel_Status rel)) (meta_Name (m_Meta m)) = None"
    and "can_host u m (resources_on (rel_Status rel) (machine_key m)) r"
  shows "\<exists>s err h'. run_state (Request_Reconcile e u c setref req) h
      = (Done (no_requeue, err), h' @ [StatusUpdate (KRelationship (rel\<lparr>rel_Status := s\<rparr>)) err]) \<and>
    IfExist (AcceptedRequests s) (request_ref request)"
proof -
  obtain s where s: "tryRequest_core u c (rel_Status rel) request [(tr_Name r, r)] (getMachines_book ms) = Done (TryAccepted s)"
    using tryRequest_found [OF assms(1,4,6)] assms(6-10) by (auto simp: open_ready_eq [OF assms(5)] ready_unlocked_def)
  have "length (trrs_Items (trr_Spec request)) = 1" using assms(4) by (auto simp: asks_for_one_def)
  with pending_run [OF assms(2,3) _ s] admission_locks [OF assms(1) s] show ?thesis by blast
qed

definition demo_waiting :: TestResourceRequest where
  "demo_waiting = demo_one\<lparr>trr_Meta := (demo_meta ''req'' ''u2'')\<lparr>meta_Finalizers := [requestFinalizer]\<rparr>\<rparr>"

definition demo_owned :: TestResource where
  "demo_owned = (demo_resource ''n2'' ''u4'' (demo_spec 1 []))\<lparr>tr_Meta := (demo_meta ''n2'' ''u4'')\<lparr>meta_Controller :=
     Some \<lparr>or_APIVersion = [], or_Kind = ''TestResourceRequest'', or_Name = ''req'', or_UID = ''u2''\<rparr>\<rparr>\<rparr>"

definition demo_pending_env :: env where
  "demo_pending_env = demo_env\<lparr>ask_request := \<lambda>h n. Inr demo_waiting, ask_resources := \<lambda>h ns. Inr [demo_owned]\<rparr>"

theorem pending_admitted_witness:
  "\<exists>s err h'. run_state (Request_Reconcile demo_pending_env demo_units demo_choices (\<lambda>_ r. Inr r) relationshipName) []
      = (Done (no_requeue, err), h' @ [StatusUpdate (KRelationship
          (\<lparr>rel_Meta = demo_meta (nn_Name relationshipName) ''u0'', rel_Status = demo_status\<rparr>\<lparr>rel_Status := s\<rparr>)) err]) \<and>
    IfExist (AcceptedRequests s) (request_ref demo_waiting)"
proof -
  let ?rel = "\<lparr>rel_Meta = demo_meta (nn_Name relationshipName) ''u0'', rel_Status = demo_status\<rparr>"
  let ?rm = "[(tr_Name demo_owned, demo_owned)]"
  have world: "shows_pending demo_pending_env relationshipName demo_waiting demo_owned ?rel [demo_machine]"
    by (simp add: shows_pending_def demo_pending_env_def)
  have waits: "waits demo_waiting demo_owned ?rel" by code_simp
  have one: "asks_for_one demo_waiting ?rm demo_owned"
    by (simp add: asks_for_one_def demo_waiting_def demo_one_def demo_owned_def demo_resource_def demo_spec_def demo_meta_def)
  have "(case tryRequest_core demo_units demo_choices demo_status demo_waiting ?rm (getMachines_book [demo_machine]) of
      Done _ \<Rightarrow> True | _ \<Rightarrow> False)" by code_simp
  then obtain res where res: "tryRequest_core demo_units demo_choices (rel_Status ?rel) demo_waiting ?rm
      (getMachines_book [demo_machine]) = Done res" by (auto split: go.splits)
  have opened: "mst_State (m_Status demo_machine) = MachineReady" "nil_get (MachineLocks (rel_Status ?rel)) (meta_Name (m_Meta demo_machine)) = None"
    by (simp_all add: demo_machine_def demo_status_def nil_get_def)
  have "(case fit_on demo_units demo_machine demo_choices (resources_on demo_status (machine_key demo_machine)) demo_owned of
      Done (Some _) \<Rightarrow> True | _ \<Rightarrow> False)" by code_simp
  moreover have "trs_Disks (tr_Spec demo_owned) = []" by code_simp
  ultimately have host: "can_host demo_units demo_machine (resources_on (rel_Status ?rel) (machine_key demo_machine)) demo_owned"
    using fit_on_diskless [of demo_owned demo_units demo_machine demo_choices] by (auto split: go.splits option.splits)
  show ?thesis by (rule pending_admitted [OF fair_demo world waits one _ res _ opened host]) simp_all
qed

section \<open>Items of the same name\<close>

text \<open>
  The controller compares the number of resources with the number of items. When two items have
  the same name, there are never enough resources: the request is never admitted and never ready, and
  no event says so.
\<close>

lemma scan_resources_keys:
  "scan_resources uid rs rm n = Inr (rm', n') \<Longrightarrow>
   gm_keys rm' \<subseteq> gm_keys rm \<union> tr_Name ` set rs \<and> (gm_wf rm \<longrightarrow> gm_wf rm')"
proof (induction rs arbitrary: rm n)
  case (Cons r rs)
  then obtain k where "scan_resources uid rs (AList.update (tr_Name r) r rm) k = Inr (rm', n')"
    by (auto split: option.splits if_splits)
  from Cons.IH [OF this] show ?case by (auto simp: gm_keys_update)
qed simp

definition no_status :: "event \<Rightarrow> bool" where
  "no_status ev \<longleftrightarrow> (\<forall>x err. ev \<noteq> StatusUpdate x err)"

lemma no_status_simps [simp]:
  "no_status (Get k n)" "no_status (List k ns)" "no_status (Create x err)" "no_status (Recorded a b c d)"
  by (simp_all add: no_status_def)

lemma duplicate_items_stuck:
  assumes dup: "\<not> distinct (map rri_Name (trrs_Items (trr_Spec request)))"
    and names: "\<And>h rs. ask_resources e h (meta_Namespace (trr_Meta request)) = Inr rs \<Longrightarrow>
      tr_Name ` set rs \<subseteq> rri_Name ` set (trrs_Items (trr_Spec request))"
  shows "emits no_status (reconcilePending e u c setref request)"
proof -
  let ?items = "trrs_Items (trr_Spec request)"
  have short: "length rm < length ?items"
    if "scan_resources uid rs [] 0 = Inr (rm, n)" "tr_Name ` set rs \<subseteq> rri_Name ` set ?items" for uid rs rm n
  proof -
    have "distinct (map fst rm)" using scan_resources_keys [OF that(1)] by simp
    moreover have "gm_keys rm \<subseteq> tr_Name ` set rs" using scan_resources_keys [OF that(1)] by simp
    then have "fst ` set rm \<subseteq> rri_Name ` set ?items" using that(2) by (rule subset_trans)
    ultimately have "length rm \<le> card (rri_Name ` set ?items)"
      by (metis card_mono distinct_card finite_imageI List.finite_set length_map set_map)
    also have "\<dots> < length ?items"
      using dup card_length [of "map rri_Name ?items"] card_distinct [of "map rri_Name ?items"]
      by (metis le_neq_implies_less length_map set_map)
    finally show ?thesis .
  qed
  have "length rm \<noteq> length ?items"
    if "run_state (listResources e request) h1 = (Inr rs, h2)" "scan_resources uid rs [] 0 = Inr (rm, n)" for uid rs rm n h1 h2
    using short [OF that(2)] names [of h1 rs] that(1) by (simp add: listResources_def io_simps)
  then show ?thesis
    unfolding reconcilePending_def by (intro emits_intros) (auto intro!: emits_intros)
qed

end
