(* ===== verification/Webhooks.thy ===== *)
theory Webhooks
  imports NoPanic Chaos_Controller Topology_Webhook Workload
begin

text \<open>
  \<open>api/v1/*_webhook.go\<close>: the operations of the webhooks that check nothing, and what the webhooks
  together guarantee of the objects the API server stores. Machines and resources are defaulted and
  checked when they are created, but their updates are only defaulted; requests are checked when they
  are created and never again; a process chaos keeps its tasks for life.
\<close>

section \<open>Operations that accept everything\<close>

definition TestResource_ValidateUpdate :: "TestResource \<Rightarrow> TestResource \<Rightarrow> error option" where
  "TestResource_ValidateUpdate r old = None"

definition TestResource_ValidateDelete :: "TestResource \<Rightarrow> error option" where
  "TestResource_ValidateDelete r = None"

definition TestResourceRequest_Default :: "TestResourceRequest \<Rightarrow> TestResourceRequest" where
  "TestResourceRequest_Default r = r"

definition TestResourceRequest_ValidateUpdate ::
  "TestResourceRequest \<Rightarrow> TestResourceRequest \<Rightarrow> error option" where
  "TestResourceRequest_ValidateUpdate r old = None"

definition TestResourceRequest_ValidateDelete :: "TestResourceRequest \<Rightarrow> error option" where
  "TestResourceRequest_ValidateDelete r = None"

definition Machine_ValidateUpdate :: "Machine \<Rightarrow> Machine \<Rightarrow> error option" where
  "Machine_ValidateUpdate r old = None"

definition Machine_ValidateDelete :: "Machine \<Rightarrow> error option" where
  "Machine_ValidateDelete r = None"

definition TestWorkload_Default :: "TestWorkload \<Rightarrow> TestWorkload" where
  "TestWorkload_Default r = r"

definition TestWorkload_ValidateUpdate :: "TestWorkload \<Rightarrow> TestWorkload \<Rightarrow> error option" where
  "TestWorkload_ValidateUpdate r old = None"

definition TestWorkload_ValidateDelete :: "TestWorkload \<Rightarrow> error option" where
  "TestWorkload_ValidateDelete r = None"

definition Topology_Default :: "TestClusterTopology \<Rightarrow> TestClusterTopology" where
  "Topology_Default r = r"

definition Topology_ValidateDelete :: "TestClusterTopology \<Rightarrow> error option" where
  "Topology_ValidateDelete r = None"

section \<open>The objects of one kind in the API server\<close>

text \<open>
  The API server sends a new or updated object through the defaults and then the checks of its
  webhook; the webhooks are registered for creation and update only. A write to the status
  subresource leaves everything else of the stored object alone and meets no webhook.
\<close>

record 'a hooks =
  hk_Default :: "'a \<Rightarrow> 'a"
  hk_ValidateCreate :: "'a \<Rightarrow> error option"
  hk_ValidateUpdate :: "'a \<Rightarrow> 'a \<Rightarrow> error option"
  hk_same_spec :: "'a \<Rightarrow> 'a \<Rightarrow> bool"

inductive api_step :: "'a hooks \<Rightarrow> (nsname \<rightharpoonup> 'a) \<Rightarrow> (nsname \<rightharpoonup> 'a) \<Rightarrow> bool" for hk where
  api_create: "st k = None \<Longrightarrow> y = hk_Default hk x \<Longrightarrow> hk_ValidateCreate hk y = None \<Longrightarrow> api_step hk st (st(k \<mapsto> y))"
| api_update: "st k = Some old \<Longrightarrow> y = hk_Default hk x \<Longrightarrow> hk_ValidateUpdate hk y old = None \<Longrightarrow>
    api_step hk st (st(k \<mapsto> y))"
| api_status: "st k = Some old \<Longrightarrow> hk_same_spec hk x old \<Longrightarrow> api_step hk st (st(k \<mapsto> x))"
| api_delete: "api_step hk st (st(k := None))"

inductive api_run :: "'a hooks \<Rightarrow> (nsname \<rightharpoonup> 'a) \<Rightarrow> bool" for hk where
  api_empty: "api_run hk Map.empty"
| api_next: "api_run hk st \<Longrightarrow> api_step hk st st' \<Longrightarrow> api_run hk st'"

inductive_cases api_step_elim: "api_step hk st st'"

text \<open>What a webhook has to keep so that every stored object has a property.\<close>

locale webhook =
  fixes hk :: "'a hooks" and sound :: "'a \<Rightarrow> bool"
  assumes sound_create: "hk_ValidateCreate hk (hk_Default hk x) = None \<Longrightarrow> sound (hk_Default hk x)"
    and sound_update: "sound old \<Longrightarrow> hk_ValidateUpdate hk (hk_Default hk x) old = None \<Longrightarrow> sound (hk_Default hk x)"
    and sound_status: "sound old \<Longrightarrow> hk_same_spec hk x old \<Longrightarrow> sound x"
begin

lemma step_sound:
  "api_step hk st st' \<Longrightarrow> (\<And>j z. st j = Some z \<Longrightarrow> sound z) \<Longrightarrow> st' k = Some x \<Longrightarrow> sound x"
  by (cases rule: api_step.cases)
    (auto split: if_splits intro: sound_create, (metis sound_update sound_status)+)

lemma stored: "api_run hk st \<Longrightarrow> st k = Some x \<Longrightarrow> sound x"
  by (induction arbitrary: k x rule: api_run.induct) (auto intro: step_sound)

end

section \<open>The kinds\<close>

definition machine_hooks :: "units \<Rightarrow> Machine hooks" where
  "machine_hooks u = \<lparr>hk_Default = Machine_Default u, hk_ValidateCreate = Machine_ValidateCreate u,
     hk_ValidateUpdate = Machine_ValidateUpdate, hk_same_spec = (\<lambda>x old. m_Spec x = m_Spec old)\<rparr>"

definition resource_hooks :: "units \<Rightarrow> TestResource hooks" where
  "resource_hooks u = \<lparr>hk_Default = TestResource_Default u, hk_ValidateCreate = TestResource_ValidateCreate u,
     hk_ValidateUpdate = TestResource_ValidateUpdate, hk_same_spec = (\<lambda>x old. tr_Spec x = tr_Spec old)\<rparr>"

definition request_hooks :: "units \<Rightarrow> TestResourceRequest hooks" where
  "request_hooks u = \<lparr>hk_Default = TestResourceRequest_Default,
     hk_ValidateCreate = TestResourceRequest_ValidateCreate u,
     hk_ValidateUpdate = TestResourceRequest_ValidateUpdate, hk_same_spec = (\<lambda>x old. trr_Spec x = trr_Spec old)\<rparr>"

definition chaos_hooks :: "ProcChaos hooks" where
  "chaos_hooks = \<lparr>hk_Default = (\<lambda>r. r), hk_ValidateCreate = ProcChaos_ValidateCreate,
     hk_ValidateUpdate = ProcChaos_ValidateUpdate, hk_same_spec = (\<lambda>x old. pc_Spec x = pc_Spec old)\<rparr>"

text \<open>The shape that the defaults give a machine and a resource, whatever was submitted.\<close>

definition machine_typed :: "Machine \<Rightarrow> bool" where
  "machine_typed m \<longleftrightarrow>
     ms_DockerPort (m_Spec m) \<noteq> 0 \<and> ms_DockerVersion (m_Spec m) \<noteq> [] \<and>
     (\<exists>r. ms_Reserve (m_Spec m) = Some r \<and> rsv_Cores r \<noteq> 0)"

definition disks_typed :: "units \<Rightarrow> TestResource \<Rightarrow> bool" where
  "disks_typed u r \<longleftrightarrow>
     (\<forall>(n, d)\<in>set (trs_Disks (tr_Spec r)). dsp_MountPath d \<noteq> [] \<and> (dsp_Size d \<noteq> [] \<or> dsp_Size d = Zero u))"

lemma Machine_Default_typed: "machine_typed (Machine_Default u m)"
  by (simp add: machine_typed_def Machine_Default_def Let_def)

lemma path_Join_rooted: "path_Join [''/mnt'', n] \<noteq> []"
  by (simp add: path_Join_def path_Clean_def Let_def)

lemma default_disk_typed:
  "dsp_MountPath (default_disk u n d) \<noteq> []"
  "dsp_Size (default_disk u n d) = (if dsp_Size d = [] then Zero u else dsp_Size d)"
  by (simp_all add: default_disk_def Let_def mountPrefix_def path_Join_rooted)

lemma TestResource_Default_typed: "disks_typed u (TestResource_Default u r)"
  by (auto simp: disks_typed_def TestResource_Default_def Let_def default_disk_typed split: if_splits)

interpretation machine_hook: webhook "machine_hooks u" machine_typed for u
  by unfold_locales (auto simp: machine_hooks_def Machine_Default_typed, simp add: machine_typed_def)

interpretation resource_hook: webhook "resource_hooks u" "disks_typed u" for u
  by unfold_locales (auto simp: resource_hooks_def TestResource_Default_typed, simp add: disks_typed_def)

interpretation chaos_hook: webhook chaos_hooks "\<lambda>c. ProcChaos_ValidateCreate c = None"
  by unfold_locales
    (auto simp: chaos_hooks_def ProcChaos_ValidateUpdate_def ProcChaos_ValidateCreate_def split: if_splits)

text \<open>A stored machine has a reserve, so that computing what it offers can only fail on a size.\<close>

lemma stored_machine_panics:
  "api_run (machine_hooks u) ms \<Longrightarrow> ms k = Some m \<Longrightarrow> Available u m = Panicked p \<Longrightarrow> size_panic p"
  using machine_hook.stored [of u ms k m] Available_panic [of u m p] by (auto simp: machine_typed_def)

section \<open>From a request to its resources\<close>

text \<open>A resource all of whose sizes can be read and all of whose disks have a path.\<close>

definition resource_typed :: "units \<Rightarrow> TestResource \<Rightarrow> bool" where
  "resource_typed u r \<longleftrightarrow>
     (\<exists>n. Unwrap u (trs_Memory (tr_Spec r)) = Done n) \<and>
     (\<forall>(n, d)\<in>set (trs_Disks (tr_Spec r)). dsp_MountPath d \<noteq> [] \<and> (\<exists>x. Unwrap u (dsp_Size d) = Done x))"

lemma Default_accepted:
  assumes "ToSize u (Zero u) = Inr z" "TestResourceSpec_ValidateCreate u (tr_Spec r) = None"
  shows "TestResource_ValidateCreate u (TestResource_Default u r) = None"
    and "resource_typed u (TestResource_Default u r)"
proof -
  let ?d = "TestResource_Default u r"
  obtain m where m: "ToSize u (trs_Memory (tr_Spec ?d)) = Inr m"
    using assms(2) by (auto simp: TestResourceSpec_ValidateCreate_def TestResource_Default_def Let_def split: sum.splits)
  have sizes: "\<exists>x. ToSize u (dsp_Size d) = Inr x" if "(n, d) \<in> set (trs_Disks (tr_Spec ?d))" for n d
  proof -
    from that obtain d0 where d0: "d = default_disk u n d0" "(n, d0) \<in> set (trs_Disks (tr_Spec r))"
      by (auto simp: TestResource_Default_def Let_def)
    from assms(2) have "\<forall>d\<in>snd ` set (trs_Disks (tr_Spec r)). dsp_Size d = [] \<or> (\<exists>x. ToSize u (dsp_Size d) = Inr x)"
      by (simp add: TestResourceSpec_ValidateCreate_def validate_disks_None_iff split: sum.splits)
    with d0(2) have "dsp_Size d0 = [] \<or> (\<exists>x. ToSize u (dsp_Size d0) = Inr x)" by force
    with assms(1) show ?thesis by (auto simp: d0(1) default_disk_typed)
  qed
  show "TestResource_ValidateCreate u ?d = None"
    using m sizes by (auto simp: TestResource_ValidateCreate_def TestResourceSpec_ValidateCreate_def validate_disks_None_iff)
  show "resource_typed u ?d"
    using m sizes TestResource_Default_typed [of u r]
    by (auto simp: resource_typed_def disks_typed_def Unwrap_Done_iff)
qed

text \<open>C10: the resources of a request that the webhook has accepted are accepted by their own webhook
  once they are defaulted, each with the specification of its item, and are well typed: every size of
  theirs can be read and every disk has a path to be mounted on.\<close>

theorem request_resources_typed:
  assumes zero: "ToSize u (Zero u) = Inr z"
    and valid: "TestResourceRequest_ValidateCreate u r = None"
    and item: "item \<in> set (trrs_Items (trr_Spec r))"
  shows "TestResource_ValidateCreate u (TestResource_Default u (ConstructTestResource r item)) = None \<and>
    resource_typed u (TestResource_Default u (ConstructTestResource r item)) \<and>
    trs_Cores (tr_Spec (TestResource_Default u (ConstructTestResource r item))) = trs_Cores (rri_Spec item) \<and>
    trs_Memory (tr_Spec (TestResource_Default u (ConstructTestResource r item))) = trs_Memory (rri_Spec item) \<and>
    gm_keys (trs_Disks (tr_Spec (TestResource_Default u (ConstructTestResource r item)))) = gm_keys (trs_Disks (rri_Spec item))"
proof -
  have "TestResourceSpec_ValidateCreate u (tr_Spec (ConstructTestResource r item)) = None"
    using valid item by (simp add: ValidateCreate_accepts ConstructTestResource_def)
  from Default_accepted [OF zero this] show ?thesis
    by (simp add: TestResource_Default_def ConstructTestResource_def Let_def image_comp comp_def case_prod_beta')
qed

theorem request_resources_typed_witness:
  "resource_typed demo_units (TestResource_Default demo_units (ConstructTestResource demo_request (hd demo_items)))"
proof -
  have "ToSize demo_units (Zero demo_units) = Inr 0" "TestResourceRequest_ValidateCreate demo_units demo_request = None"
    by code_simp+
  moreover have "hd demo_items \<in> set (trrs_Items (trr_Spec demo_request))"
    by (simp add: demo_request_def demo_items_def)
  ultimately show ?thesis using request_resources_typed by blast
qed

section \<open>An update can bring the scheduler down\<close>

text \<open>
  The webhook of the requests checks at creation that every machine an item names is declared, and
  the scheduler relies on it. It does not check updates.
\<close>

definition undeclared :: "TestResourceRequest \<Rightarrow> bool" where
  "undeclared r \<longleftrightarrow>
     trrs_Machines (trr_Spec r) = [] \<and> trrs_Items (trr_Spec r) \<noteq> [] \<and>
     (\<forall>i\<in>set (trrs_Items (trr_Spec r)). trs_Machine (rri_Spec i) \<noteq> [])"

lemma undeclared_panics:
  assumes "fair c" "undeclared r"
  shows "tryRequest_core u c s r rm machines = Panicked nil_deref"
proof -
  let ?items = "trrs_Items (trr_Spec r)"
  have none: "filter (\<lambda>i. trs_Machine (rri_Spec i) = []) ?items = []"
    using assms(2) by (auto simp: undeclared_def filter_empty_conv)
  obtain i where i: "i \<in> set ?items" "trs_Machine (rri_Spec i) \<noteq> []"
    using assms(2) by (metis undeclared_def list.set_sel(1))
  from groupCoLocatedItems_together [OF assms(1) i(2) i(1) refl, of rm]
  obtain g gs where gs: "groupCoLocatedItems c ?items rm = g # gs"
    by (cases "groupCoLocatedItems c ?items rm") auto
  have "ig_ExplicitMachine g \<in> gm_keys (named_items ?items rm)"
    using list.set_intros(1) [of g gs, folded gs] none
    by (auto simp: groupCoLocatedItems_def fair_set(2) [OF assms(1)] split: prod.splits intro: rev_image_eqI)
  then obtain l where "map_of (named_items ?items rm) (ig_ExplicitMachine g) = Some l"
    by (metis map_of_not_None_iff)
  then have "ig_ExplicitMachine g \<noteq> []" by (auto simp: map_of_named_items Let_def split: if_splits)
  then show ?thesis
    using assms(2) by (simp add: tryRequest_core_def undeclared_def gs group_candidates_def Let_def)
qed

lemma request_update_stored:
  assumes "TestResourceRequest_ValidateCreate u q = None"
  shows "api_run (request_hooks u) [k \<mapsto> r]"
proof -
  have "api_step (request_hooks u) Map.empty [k \<mapsto> q]"
    by (rule api_create [where x = q]) (simp_all add: request_hooks_def TestResourceRequest_Default_def assms)
  moreover have "api_step (request_hooks u) [k \<mapsto> q] ([k \<mapsto> q](k \<mapsto> r))"
    by (rule api_update [where x = r and old = q])
      (simp_all add: request_hooks_def TestResourceRequest_Default_def TestResourceRequest_ValidateUpdate_def)
  ultimately show ?thesis by (metis api_run.intros fun_upd_upd)
qed

text \<open>C11: an accepted request can be updated to any other, also to one whose items name machines
  that it does not declare; on such a request the scheduler dereferences a nil pointer, whatever
  the cluster looks like.\<close>

theorem request_update_panics:
  assumes "TestResourceRequest_ValidateCreate u q = None" "undeclared r"
  shows "\<exists>st. api_run (request_hooks u) st \<and> st k = Some r \<and>
    (\<forall>c s rm machines. fair c \<longrightarrow> tryRequest_core u c s r rm machines = Panicked nil_deref)"
  using request_update_stored [OF assms(1)] undeclared_panics [OF _ assms(2)] by (metis fun_upd_same)

definition demo_renamed :: TestResourceRequest where
  "demo_renamed = demo_request\<lparr>trr_Spec := (trr_Spec demo_request)\<lparr>trrs_Machines := []\<rparr>\<rparr>"

theorem request_update_panics_witness:
  "tryRequest_core demo_units demo_choices demo_status demo_renamed demo_resources demo_machines = Panicked nil_deref"
proof -
  have "TestResourceRequest_ValidateCreate demo_units demo_request = None" by code_simp
  moreover have "undeclared demo_renamed"
    by (simp add: undeclared_def demo_renamed_def demo_request_def demo_items_def demo_spec_def)
  ultimately show ?thesis using request_update_panics fair_demo by blast
qed

end
