(* ===== verification/Wiring.thy ===== *)
theory Wiring
  imports Workload Topology Traces
begin

text \<open>
  \<open>main.go\<close>: the manager is made, the controllers and webhooks are registered with it one after the
  other, and it is started; the first failure ends the process. And the test workflow of
  \<open>api/v1/testworkflow_types.go\<close>, whose controller does nothing yet.
\<close>

section \<open>Test workflows\<close>

record WorkflowStepItem =
  wsi_Name :: string
  wsi_TestResourceRequest :: "TestResourceSpec option"
  wsi_TestClusterTopology :: "TestClusterTopology option"
  wsi_TestWorkload :: "TestWorkload option"

record TestWorkflowSpec =
  wfs_Steps :: "WorkflowStepItem list"

type_synonym TestWorkflowStatus = unit

record TestWorkflow =
  wf_Meta :: object_meta
  wf_Spec :: TestWorkflowSpec
  wf_Status :: TestWorkflowStatus

definition TestWorkflow_Reconcile :: "nsname \<Rightarrow> reconcile_result io" where
  "TestWorkflow_Reconcile req = finish no_requeue None"

lemma TestWorkflow_Reconcile_silent: "emits (\<lambda>_. False) (TestWorkflow_Reconcile req)"
  unfolding TestWorkflow_Reconcile_def by (intro emits_intros)

section \<open>The start of the process\<close>

datatype setup_step = NewManager | SetupController string | SetupWebhook string | StartManager

definition main_steps :: "setup_step list" where
  "main_steps =
     [NewManager,
      SetupController ''Relationship'',
      SetupController ''Machine'', SetupWebhook ''Machine'',
      SetupController ''TestResource'',
      SetupController ''TestResourceRequest'',
      SetupController ''TestClusterTopology'',
      SetupController ''TestWorkload'',
      SetupController ''TestWorkflow'',
      SetupWebhook ''TestResourceRequest'',
      SetupWebhook ''TestResource'',
      SetupWebhook ''TestClusterTopology'',
      SetupWebhook ''ProcChaos'',
      SetupController ''ProcChaos'',
      SetupWebhook ''TestWorkload'',
      StartManager]"

text \<open>The steps that were taken, and the exit status; \<open>fails\<close> says which calls return an error.\<close>

fun run_steps :: "(setup_step \<Rightarrow> bool) \<Rightarrow> setup_step list \<Rightarrow> setup_step list \<times> int" where
  "run_steps fails [] = ([], 0)"
| "run_steps fails (s # ss) =
     (if fails s then ([s], 1) else let (taken, status) = run_steps fails ss in (s # taken, status))"

definition main :: "(setup_step \<Rightarrow> bool) \<Rightarrow> setup_step list \<times> int" where
  "main fails = run_steps fails main_steps"

lemma run_steps_status: "snd (run_steps fails ss) = 0 \<longleftrightarrow> (\<forall>s\<in>set ss. \<not> fails s)"
  by (induction ss) (auto simp: case_prod_beta' Let_def)

text \<open>
  The manager serves only with every controller and every webhook registered: a webhook that cannot be
  registered keeps the controllers, which rely on its checks, from running.
\<close>

lemma main_start:
  assumes "StartManager \<in> set (fst (main fails))"
  shows "\<forall>s\<in>set main_steps. s \<noteq> StartManager \<longrightarrow> s \<in> set (fst (main fails)) \<and> \<not> fails s"
proof -
  have "main_steps = butlast main_steps @ [StartManager]" "StartManager \<notin> set (butlast main_steps)"
    by (simp_all add: main_steps_def)
  moreover have "\<forall>s\<in>set xs. s \<in> set (fst (run_steps fails (xs @ [StartManager]))) \<and> \<not> fails s"
    if "StartManager \<in> set (fst (run_steps fails (xs @ [StartManager])))" "StartManager \<notin> set xs" for xs
    using that by (induction xs) (auto simp: case_prod_beta' Let_def split: if_splits)
  ultimately show ?thesis using assms unfolding main_def
    by (metis UnE list.set(1,2) set_append singletonD)
qed

end
