(* ===== verification/Memory.thy ===== *)
theory Memory
  imports Prelude
begin

text \<open>
  The memory of a Go program as far as copying is concerned: structs are values, while pointers,
  slices and maps refer to cells that several values may share. A type says how a value is
  read: whether it is one of the type (\<open>shaped\<close>), what it looks like (\<open>view\<close>) and which cells it
  reaches (\<open>cells\<close>). A value reads the same wherever the cells it reaches are the same (\<open>frame\<close>).
\<close>

section \<open>Values, cells and types\<close>

text \<open>Numbers, booleans and strings have no parts that could be shared.\<close>

datatype scalar = GoString string | GoInt int | GoBool bool

text \<open>
  A pointer holds the address of a cell, a slice the address of its array with an offset and a length, a
  map the address of its entries, with the keys (strings in the types of this program) in the
  order of an iteration; nil is \<open>None\<close>.
\<close>

datatype gval =
    Scalar scalar
  | Struct "(string \<times> gval) list"
  | Ptr "nat option"
  | Slice "(nat \<times> nat \<times> nat) option"
  | MapOf "nat option"

datatype cell = One gval | Arr "gval list" | Entries "(string \<times> gval) list"

text \<open>The address of a cell is its place; cells are only ever added.\<close>

type_synonym mem = "cell list"

datatype gtype = TScalar | TStruct "(string \<times> gtype) list" | TPtr gtype | TSlice gtype | TMap gtype

definition cell_at :: "mem \<Rightarrow> nat \<Rightarrow> cell option" where
  "cell_at m a = (if a < length m then Some (m ! a) else None)"

definition field :: "(string \<times> gval) list \<Rightarrow> string \<Rightarrow> gval" where
  "field vs F = (case map_of vs F of None \<Rightarrow> Ptr None | Some v \<Rightarrow> v)"

text \<open>What a pointer, a slice and a map refer to.\<close>

definition pointee :: "mem \<Rightarrow> nat \<Rightarrow> gval option" where
  "pointee m a = (case cell_at m a of Some (One x) \<Rightarrow> Some x | _ \<Rightarrow> None)"

definition elements :: "mem \<Rightarrow> nat \<times> nat \<times> nat \<Rightarrow> gval list option" where
  "elements m s =
     (case s of (a, off, n) \<Rightarrow>
        (case cell_at m a of
           Some (Arr xs) \<Rightarrow> if off + n \<le> length xs then Some (take n (drop off xs)) else None
         | _ \<Rightarrow> None))"

definition entries :: "mem \<Rightarrow> nat \<Rightarrow> (string \<times> gval) list option" where
  "entries m a = (case cell_at m a of Some (Entries es) \<Rightarrow> Some es | _ \<Rightarrow> None)"

section \<open>Reading a value by its type\<close>

text \<open>\<open>shaped\<close>: the value is one of the type, and what it refers to is there.\<close>

fun shaped :: "gtype \<Rightarrow> mem \<Rightarrow> gval \<Rightarrow> bool" where
  "shaped TScalar m v = (case v of Scalar _ \<Rightarrow> True | _ \<Rightarrow> False)"
| "shaped (TStruct fs) m v =
     (case v of
        Struct vs \<Rightarrow> map fst vs = map fst fs \<and> distinct (map fst fs) \<and>
          (\<forall>x\<in>set fs. shaped (snd x) m (field vs (fst x)))
      | _ \<Rightarrow> False)"
| "shaped (TPtr T) m v =
     (case v of
        Ptr None \<Rightarrow> True
      | Ptr (Some a) \<Rightarrow> (case pointee m a of None \<Rightarrow> False | Some x \<Rightarrow> shaped T m x)
      | _ \<Rightarrow> False)"
| "shaped (TSlice T) m v =
     (case v of
        Slice None \<Rightarrow> True
      | Slice (Some s) \<Rightarrow> (case elements m s of None \<Rightarrow> False | Some xs \<Rightarrow> \<forall>x\<in>set xs. shaped T m x)
      | _ \<Rightarrow> False)"
| "shaped (TMap T) m v =
     (case v of
        MapOf None \<Rightarrow> True
      | MapOf (Some a) \<Rightarrow> (case entries m a of None \<Rightarrow> False | Some es \<Rightarrow> \<forall>x\<in>set es. shaped T m (snd x))
      | _ \<Rightarrow> False)"

text \<open>\<open>view\<close>: the value with everything it refers to, and no addresses.\<close>

datatype tree =
    VScalar scalar
  | VStruct "(string \<times> tree) list"
  | VNil
  | VPtr tree
  | VSlice "tree list"
  | VMap "(string \<times> tree) list"

fun view :: "gtype \<Rightarrow> mem \<Rightarrow> gval \<Rightarrow> tree" where
  "view TScalar m v = (case v of Scalar s \<Rightarrow> VScalar s | _ \<Rightarrow> VNil)"
| "view (TStruct fs) m v =
     (case v of Struct vs \<Rightarrow> VStruct (map (\<lambda>x. (fst x, view (snd x) m (field vs (fst x)))) fs) | _ \<Rightarrow> VNil)"
| "view (TPtr T) m v =
     (case v of
        Ptr (Some a) \<Rightarrow> (case pointee m a of None \<Rightarrow> VNil | Some x \<Rightarrow> VPtr (view T m x))
      | _ \<Rightarrow> VNil)"
| "view (TSlice T) m v =
     (case v of
        Slice (Some s) \<Rightarrow> (case elements m s of None \<Rightarrow> VNil | Some xs \<Rightarrow> VSlice (map (view T m) xs))
      | _ \<Rightarrow> VNil)"
| "view (TMap T) m v =
     (case v of
        MapOf (Some a) \<Rightarrow>
          (case entries m a of None \<Rightarrow> VNil | Some es \<Rightarrow> VMap (map (\<lambda>x. (fst x, view T m (snd x))) es))
      | _ \<Rightarrow> VNil)"

text \<open>\<open>cells\<close>: the addresses that are reached from the value.\<close>

fun cells :: "gtype \<Rightarrow> mem \<Rightarrow> gval \<Rightarrow> nat set" where
  "cells TScalar m v = {}"
| "cells (TStruct fs) m v =
     (case v of Struct vs \<Rightarrow> (\<Union>x\<in>set fs. cells (snd x) m (field vs (fst x))) | _ \<Rightarrow> {})"
| "cells (TPtr T) m v =
     (case v of
        Ptr (Some a) \<Rightarrow> insert a (case pointee m a of None \<Rightarrow> {} | Some x \<Rightarrow> cells T m x)
      | _ \<Rightarrow> {})"
| "cells (TSlice T) m v =
     (case v of
        Slice (Some s) \<Rightarrow> insert (fst s) (case elements m s of None \<Rightarrow> {} | Some xs \<Rightarrow> (\<Union>x\<in>set xs. cells T m x))
      | _ \<Rightarrow> {})"
| "cells (TMap T) m v =
     (case v of
        MapOf (Some a) \<Rightarrow>
          insert a (case entries m a of None \<Rightarrow> {} | Some es \<Rightarrow> (\<Union>x\<in>set es. cells T m (snd x)))
      | _ \<Rightarrow> {})"

text \<open>A type without pointers, slices and maps.\<close>

fun flat :: "gtype \<Rightarrow> bool" where
  "flat TScalar = True"
| "flat (TStruct fs) = (\<forall>x\<in>set fs. flat (snd x))"
| "flat _ = False"

lemma gtype_induct [case_names Scalar Struct Ptr Slice Map]:
  assumes "P TScalar" "\<And>fs. (\<And>x. x \<in> set fs \<Longrightarrow> P (snd x)) \<Longrightarrow> P (TStruct fs)"
    "\<And>T. P T \<Longrightarrow> P (TPtr T)" "\<And>T. P T \<Longrightarrow> P (TSlice T)" "\<And>T. P T \<Longrightarrow> P (TMap T)"
  shows "P T"
proof (induction T)
  case (TStruct fs)
  have "P (snd x)" if "x \<in> set fs" for x by (rule TStruct [OF that]) (simp add: snds.simps)
  then show ?case by (rule assms(2))
qed (simp_all add: assms)

text \<open>The values of a type.\<close>

lemma shaped_iff:
  "shaped TScalar m v \<longleftrightarrow> (\<exists>s. v = Scalar s)"
  "shaped (TStruct fs) m v \<longleftrightarrow> (\<exists>vs. v = Struct vs \<and> map fst vs = map fst fs \<and> distinct (map fst fs) \<and>
     (\<forall>x\<in>set fs. shaped (snd x) m (field vs (fst x))))"
  "shaped (TPtr T) m v \<longleftrightarrow> v = Ptr None \<or> (\<exists>a x. v = Ptr (Some a) \<and> pointee m a = Some x \<and> shaped T m x)"
  "shaped (TSlice T) m v \<longleftrightarrow>
     v = Slice None \<or> (\<exists>s xs. v = Slice (Some s) \<and> elements m s = Some xs \<and> (\<forall>x\<in>set xs. shaped T m x))"
  "shaped (TMap T) m v \<longleftrightarrow>
     v = MapOf None \<or> (\<exists>a es. v = MapOf (Some a) \<and> entries m a = Some es \<and> (\<forall>x\<in>set es. shaped T m (snd x)))"
  by (cases v; auto split: option.splits)+

lemma flat_cells: "flat T \<Longrightarrow> cells T m v = {}"
  by (induction T arbitrary: v rule: gtype_induct) (simp_all split: gval.split)

section \<open>What a value depends on\<close>

lemma refers_cong:
  assumes "cell_at m' a = cell_at m a"
  shows "pointee m' a = pointee m a" "entries m' a = entries m a" "elements m' (a, s) = elements m (a, s)"
  using assms by (simp_all add: pointee_def entries_def elements_def)

text \<open>A value reads the same in every memory that agrees on the cells it reaches.\<close>

lemma frame:
  "shaped T m v \<Longrightarrow> (\<And>a. a \<in> cells T m v \<Longrightarrow> cell_at m' a = cell_at m a) \<Longrightarrow>
   shaped T m' v \<and> view T m' v = view T m v \<and> cells T m' v = cells T m v"
proof (induction T m v rule: shaped.induct)
  case (2 fs m v)
  then obtain vs where v: "v = Struct vs" by (auto split: gval.splits)
  have IH: "shaped (snd x) m' (field vs (fst x)) \<and>
      view (snd x) m' (field vs (fst x)) = view (snd x) m (field vs (fst x)) \<and>
      cells (snd x) m' (field vs (fst x)) = cells (snd x) m (field vs (fst x))" if "x \<in> set fs" for x
  proof (rule 2(1) [OF v that])
    show "shaped (snd x) m (field vs (fst x))" using 2(2) v that by simp
    show "cell_at m' a = cell_at m a" if "a \<in> cells (snd x) m (field vs (fst x))" for a
      using 2(3) [of a] v \<open>x \<in> set fs\<close> that by auto
  qed
  then show ?case using 2(2) v by simp
next
  case (3 T m v)
  show ?case
  proof (cases "\<exists>a x. v = Ptr (Some a) \<and> pointee m a = Some x")
    case True
    then obtain a x where v: "v = Ptr (Some a)" "pointee m a = Some x" by blast
    have "a \<in> cells (TPtr T) m v" using v by simp
    then have x: "pointee m' a = Some x" using refers_cong(1) [OF 3(3)] v(2) by simp
    have "shaped T m' x \<and> view T m' x = view T m x \<and> cells T m' x = cells T m x"
    proof (rule 3(1) [OF v(1) refl v(2)])
      show "shaped T m x" using 3(2) v by simp
      show "cell_at m' b = cell_at m b" if "b \<in> cells T m x" for b using 3(3) [of b] v that by simp
    qed
    then show ?thesis using v x by simp
  next
    case False
    with 3(2) have "v = Ptr None" by (cases v) (auto split: option.splits)
    then show ?thesis by simp
  qed
next
  case (4 T m v)
  show ?case
  proof (cases "\<exists>s xs. v = Slice (Some s) \<and> elements m s = Some xs")
    case True
    then obtain a s xs where v: "v = Slice (Some (a, s))" "elements m (a, s) = Some xs" by auto
    have "a \<in> cells (TSlice T) m v" using v by simp
    then have xs: "elements m' (a, s) = Some xs" using refers_cong(3) [OF 4(3)] v(2) by simp
    have "shaped T m' x \<and> view T m' x = view T m x \<and> cells T m' x = cells T m x" if "x \<in> set xs" for x
    proof (rule 4(1) [OF v(1) refl v(2) that])
      show "shaped T m x" using 4(2) v that by simp
      show "cell_at m' b = cell_at m b" if "b \<in> cells T m x" for b using 4(3) [of b] v \<open>x \<in> set xs\<close> that by auto
    qed
    then show ?thesis using v xs by simp
  next
    case False
    with 4(2) have "v = Slice None" by (cases v) (auto split: option.splits)
    then show ?thesis by simp
  qed
next
  case (5 T m v)
  show ?case
  proof (cases "\<exists>a es. v = MapOf (Some a) \<and> entries m a = Some es")
    case True
    then obtain a es where v: "v = MapOf (Some a)" "entries m a = Some es" by blast
    have "a \<in> cells (TMap T) m v" using v by simp
    then have es: "entries m' a = Some es" using refers_cong(2) [OF 5(3)] v(2) by simp
    have "shaped T m' (snd x) \<and> view T m' (snd x) = view T m (snd x) \<and> cells T m' (snd x) = cells T m (snd x)"
      if "x \<in> set es" for x
    proof (rule 5(1) [OF v(1) refl v(2) that])
      show "shaped T m (snd x)" using 5(2) v that by simp
      show "cell_at m' b = cell_at m b" if "b \<in> cells T m (snd x)" for b using 5(3) [of b] v \<open>x \<in> set es\<close> that by auto
    qed
    then show ?thesis using v es by simp
  next
    case False
    with 5(2) have "v = MapOf None" by (cases v) (auto split: option.splits)
    then show ?thesis by simp
  qed
qed (simp split: gval.splits)

text \<open>What a value reaches is there, so that new cells change nothing.\<close>

lemma refers_bound:
  "pointee m a = Some x \<Longrightarrow> a < length m" "entries m a = Some es \<Longrightarrow> a < length m"
  "elements m (a, s) = Some xs \<Longrightarrow> a < length m"
  by (auto simp: pointee_def entries_def elements_def cell_at_def split: if_splits prod.splits)

lemma cells_bound: "shaped T m v \<Longrightarrow> a \<in> cells T m v \<Longrightarrow> a < length m"
proof (induction T arbitrary: v rule: gtype_induct)
  case (Struct fs)
  from Struct.prems(1) obtain vs where v: "v = Struct vs" "\<And>x. x \<in> set fs \<Longrightarrow> shaped (snd x) m (field vs (fst x))"
    unfolding shaped_iff by blast
  from Struct.prems(2) v(1) obtain x where "x \<in> set fs" "a \<in> cells (snd x) m (field vs (fst x))" by auto
  with Struct.IH v(2) show ?case by blast
next
  case (Ptr T)
  then show ?case unfolding shaped_iff by (auto dest: refers_bound)
next
  case (Slice T)
  from Slice.prems obtain s xs where v: "v = Slice (Some s)" "elements m s = Some xs" "\<forall>x\<in>set xs. shaped T m x"
    unfolding shaped_iff by auto
  with Slice.prems(2) consider "a = fst s" | x where "x \<in> set xs" "a \<in> cells T m x" by auto
  then show ?case using refers_bound(3) [of m "fst s" "snd s" xs] Slice.IH v by cases auto
next
  case (Map T)
  from Map.prems obtain b es where v: "v = MapOf (Some b)" "entries m b = Some es" "\<forall>x\<in>set es. shaped T m (snd x)"
    unfolding shaped_iff by auto
  with Map.prems(2) consider "a = b" | x where "x \<in> set es" "a \<in> cells T m (snd x)" by auto
  then show ?case using refers_bound(2) [OF v(2)] Map.IH v(3) by cases blast+
qed simp

lemma cell_at_append: "a < length m \<Longrightarrow> cell_at (m @ new) a = cell_at m a"
  by (simp add: cell_at_def nth_append)

lemma extended:
  assumes "shaped T m v"
  shows "shaped T (m @ new) v" "view T (m @ new) v = view T m v" "cells T (m @ new) v = cells T m v"
  using frame [OF assms, of "m @ new"] cells_bound [OF assms] cell_at_append by simp_all

end
