(* ===== verification/Api_Types.thy ===== *)
theory Api_Types
  imports Memory
begin

text \<open>
  The types of \<open>api/v1\<close> as they lie in memory: which fields of each struct are pointers, slices and
  maps. Strings, named strings, numbers and booleans are scalars; an embedded struct is a field with
  the name of its type. The metadata of Kubernetes objects is defined outside of the repository and is
  a parameter, with the two functions that copy it.
\<close>

record meta_lib =
  TypeMeta_type :: gtype
  ObjectMeta_type :: gtype
  ListMeta_type :: gtype
  ObjectMeta_into :: "gval \<Rightarrow> mem \<Rightarrow> (gval \<times> mem) go"
  ListMeta_into :: "gval \<Rightarrow> mem \<Rightarrow> (gval \<times> mem) go"

text \<open>\<open>ref.Ref\<close> of \<open>pkg/ref\<close>.\<close>

definition Ref_type :: gtype where
  "Ref_type = TStruct [(''Namespace'', TScalar), (''Name'', TScalar), (''UID'', TScalar)]"

section \<open>Machines: \<open>api/v1/machine_types.go\<close>\<close>

definition DiskResource_type :: gtype where
  "DiskResource_type = TStruct [(''Size'', TScalar), (''Kind'', TScalar), (''MountPath'', TScalar)]"

definition AvailableResource_type :: gtype where
  "AvailableResource_type = TStruct
     [(''Memory'', TScalar), (''IdleCPUSet'', TSlice TScalar), (''Disks'', TMap DiskResource_type)]"

definition ReserveResources_type :: gtype where
  "ReserveResources_type = TStruct [(''Cores'', TScalar), (''Memory'', TScalar)]"

definition MachineSpec_type :: gtype where
  "MachineSpec_type = TStruct
     [(''Host'', TScalar), (''DockerPort'', TScalar), (''DockerVersion'', TScalar),
      (''DockerTLS'', TScalar), (''Reserve'', TPtr ReserveResources_type),
      (''ExclusiveDisks'', TSlice TScalar)]"

definition StorageDevice_type :: gtype where
  "StorageDevice_type = TStruct
     [(''Filesystem'', TScalar), (''Total'', TScalar), (''Used'', TScalar), (''MountPoint'', TScalar)]"

definition MachineInfo_type :: gtype where
  "MachineInfo_type = TStruct
     [(''Architecture'', TScalar), (''Threads'', TScalar), (''Memory'', TScalar),
      (''StorageDevices'', TMap StorageDevice_type)]"

definition MachineStatus_type :: gtype where
  "MachineStatus_type = TStruct
     [(''State'', TScalar), (''ChaosPort'', TScalar), (''Info'', TPtr MachineInfo_type),
      (''UploadPort'', TScalar)]"

definition Machine_type :: "meta_lib \<Rightarrow> gtype" where
  "Machine_type L = TStruct
     [(''TypeMeta'', TypeMeta_type L), (''ObjectMeta'', ObjectMeta_type L),
      (''Spec'', MachineSpec_type), (''Status'', MachineStatus_type)]"

definition MachineList_type :: "meta_lib \<Rightarrow> gtype" where
  "MachineList_type L = TStruct
     [(''TypeMeta'', TypeMeta_type L), (''ListMeta'', ListMeta_type L),
      (''Items'', TSlice (Machine_type L))]"

section \<open>The relationship: \<open>api/v1/relationship_types.go\<close>\<close>

definition AcceptResources_type :: gtype where
  "AcceptResources_type = TSlice Ref_type"

definition DiskBinding_type :: gtype where
  "DiskBinding_type = TStruct
     [(''Kind'', TScalar), (''Size'', TScalar), (''Device'', TScalar), (''OriginPath'', TScalar),
      (''MountPath'', TScalar)]"

definition ResourceBinding_type :: gtype where
  "ResourceBinding_type = TStruct
     [(''Memory'', TScalar), (''CPUSet'', TSlice TScalar), (''Disks'', TMap DiskBinding_type)]"

definition MachineRef_type :: gtype where
  "MachineRef_type = TStruct [(''Ref'', Ref_type), (''Binding'', ResourceBinding_type)]"

definition RelationshipSpec_type :: gtype where
  "RelationshipSpec_type = TStruct []"

definition ResourceRef_type :: gtype where
  "ResourceRef_type = TStruct [(''Ref'', Ref_type), (''Binding'', ResourceBinding_type)]"

definition ResourceRefList_type :: gtype where
  "ResourceRefList_type = TSlice ResourceRef_type"

definition RelationshipStatus_type :: gtype where
  "RelationshipStatus_type = TStruct
     [(''MachineToResources'', TMap ResourceRefList_type),
      (''ResourceToMachine'', TMap MachineRef_type), (''AcceptedRequests'', AcceptResources_type),
      (''MachineLocks'', TMap Ref_type)]"

definition Relationship_type :: "meta_lib \<Rightarrow> gtype" where
  "Relationship_type L = TStruct
     [(''TypeMeta'', TypeMeta_type L), (''ObjectMeta'', ObjectMeta_type L),
      (''Spec'', RelationshipSpec_type), (''Status'', RelationshipStatus_type)]"

definition RelationshipList_type :: "meta_lib \<Rightarrow> gtype" where
  "RelationshipList_type L = TStruct
     [(''TypeMeta'', TypeMeta_type L), (''ListMeta'', ListMeta_type L),
      (''Items'', TSlice (Relationship_type L))]"

section \<open>Test resources: \<open>api/v1/testresource_types.go\<close>\<close>

definition DiskSpec_type :: gtype where
  "DiskSpec_type = TStruct [(''MountPath'', TScalar), (''Kind'', TScalar), (''Size'', TScalar)]"

definition TestResourceMount_type :: gtype where
  "TestResourceMount_type = TStruct
     [(''Type'', TScalar), (''Source'', TScalar), (''Target'', TScalar), (''ReadOnly'', TScalar)]"

definition ResourceContainerSpec_type :: gtype where
  "ResourceContainerSpec_type = TStruct
     [(''Privilege'', TScalar), (''CapAdd'', TSlice TScalar),
      (''Mounts'', TSlice TestResourceMount_type), (''Binds'', TSlice TScalar), (''Image'', TScalar),
      (''ImagePullPolicy'', TScalar), (''Command'', TSlice TScalar), (''Envs'', TSlice TScalar),
      (''ExposedPorts'', TSlice TScalar), (''PortBindings'', TScalar), (''ClusterIP'', TScalar)]"

definition TestResourceSpec_type :: gtype where
  "TestResourceSpec_type = TStruct
     [(''Memory'', TScalar), (''Cores'', TScalar), (''MachineSelector'', TScalar),
      (''Disks'', TMap DiskSpec_type), (''Machine'', TScalar)]"

definition TestResourceStatus_type :: gtype where
  "TestResourceStatus_type = TStruct
     [(''State'', TScalar), (''Phase'', TScalar), (''ExitCode'', TScalar),
      (''ResourceContainerSpec'', ResourceContainerSpec_type), (''HostIP'', TScalar),
      (''HostName'', TScalar), (''Password'', TScalar), (''SSHPort'', TScalar),
      (''PortBindings'', TScalar), (''ClaimRef'', TPtr Ref_type)]"

definition TestResource_type :: "meta_lib \<Rightarrow> gtype" where
  "TestResource_type L = TStruct
     [(''TypeMeta'', TypeMeta_type L), (''ObjectMeta'', ObjectMeta_type L),
      (''Spec'', TestResourceSpec_type), (''Status'', TestResourceStatus_type)]"

definition TestResourceList_type :: "meta_lib \<Rightarrow> gtype" where
  "TestResourceList_type L = TStruct
     [(''TypeMeta'', TypeMeta_type L), (''ListMeta'', ListMeta_type L),
      (''Items'', TSlice (TestResource_type L))]"

section \<open>Requests: \<open>api/v1/testresourcerequest_types.go\<close>\<close>

definition MachineRequest_type :: gtype where
  "MachineRequest_type = TStruct
     [(''Name'', TScalar), (''TestMachineResource'', TScalar), (''Exclusive'', TScalar)]"

definition ResourceRequestItem_type :: gtype where
  "ResourceRequestItem_type = TStruct [(''Name'', TScalar), (''Spec'', TestResourceSpec_type)]"

definition TestResourceRequestSpec_type :: gtype where
  "TestResourceRequestSpec_type = TStruct
     [(''Machines'', TSlice (TPtr MachineRequest_type)),
      (''Items'', TSlice (TPtr ResourceRequestItem_type))]"

definition TestResourceRequestStatus_type :: gtype where
  "TestResourceRequestStatus_type = TStruct [(''State'', TScalar)]"

definition TestResourceRequest_type :: "meta_lib \<Rightarrow> gtype" where
  "TestResourceRequest_type L = TStruct
     [(''TypeMeta'', TypeMeta_type L), (''ObjectMeta'', ObjectMeta_type L),
      (''Spec'', TestResourceRequestSpec_type), (''Status'', TestResourceRequestStatus_type)]"

definition TestResourceRequestList_type :: "meta_lib \<Rightarrow> gtype" where
  "TestResourceRequestList_type L = TStruct
     [(''TypeMeta'', TypeMeta_type L), (''ListMeta'', ListMeta_type L),
      (''Items'', TSlice (TestResourceRequest_type L))]"

section \<open>Cluster topologies: \<open>api/v1/testclustertopology_types.go\<close>\<close>

definition AlertManagerSpec_type :: gtype where
  "AlertManagerSpec_type = TStruct
     [(''Host'', TScalar), (''WebPort'', TScalar), (''ClusterPort'', TScalar),
      (''DeployDir'', TScalar), (''DataDir'', TScalar), (''LogDir'', TScalar)]"

definition CDCSpec_type :: gtype where
  "CDCSpec_type = TStruct
     [(''Host'', TScalar), (''Port'', TScalar), (''DeployDir'', TScalar), (''LogDir'', TScalar)]"

definition Global_type :: gtype where
  "Global_type = TStruct [(''DeployDir'', TScalar), (''DataDir'', TScalar)]"

definition DMServerConfigs_type :: gtype where
  "DMServerConfigs_type = TStruct [(''Master'', TScalar), (''Worker'', TScalar)]"

definition MasterSpec_type :: gtype where
  "MasterSpec_type = TStruct
     [(''Host'', TScalar), (''Port'', TScalar), (''PeerPort'', TScalar), (''DeployDir'', TScalar),
      (''DataDir'', TScalar), (''Config'', TScalar), (''LogDir'', TScalar)]"

definition WorkerSpec_type :: gtype where
  "WorkerSpec_type = TStruct
     [(''Host'', TScalar), (''Port'', TScalar), (''DeployDir'', TScalar), (''DataDir'', TScalar),
      (''LogDir'', TScalar), (''Config'', TScalar)]"

definition PrometheusSpec_type :: gtype where
  "PrometheusSpec_type = TStruct
     [(''Host'', TScalar), (''Port'', TScalar), (''DeployDir'', TScalar), (''DataDir'', TScalar),
      (''LogDir'', TScalar)]"

definition GrafanaSpec_type :: gtype where
  "GrafanaSpec_type = TStruct [(''Host'', TScalar), (''Port'', TScalar), (''DeployDir'', TScalar)]"

definition DMCluster_type :: gtype where
  "DMCluster_type = TStruct
     [(''Version'', TScalar), (''Global'', TPtr Global_type),
      (''ServerConfigs'', DMServerConfigs_type), (''Control'', TScalar),
      (''Master'', TSlice MasterSpec_type), (''Worker'', TSlice WorkerSpec_type),
      (''AlertManager'', TSlice AlertManagerSpec_type), (''Monitor'', TSlice PrometheusSpec_type),
      (''Grafana'', TSlice GrafanaSpec_type)]"

definition DrainerSpec_type :: gtype where
  "DrainerSpec_type = TStruct
     [(''Host'', TScalar), (''Config'', TScalar), (''SSHPort'', TScalar), (''Port'', TScalar),
      (''CommitTS'', TScalar), (''DeployDir'', TScalar), (''DataDir'', TScalar)]"

definition JobManagerSpec_type :: gtype where
  "JobManagerSpec_type = TStruct [(''Host'', TScalar), (''WebPort'', TScalar), (''Config'', TScalar)]"

definition TaskManagerSpec_type :: gtype where
  "TaskManagerSpec_type = TStruct [(''Host'', TScalar), (''Config'', TScalar)]"

definition FlinkCluster_type :: gtype where
  "FlinkCluster_type = TStruct
     [(''Version'', TScalar), (''JobManager'', JobManagerSpec_type),
      (''TaskManager'', TSlice TaskManagerSpec_type)]"

definition HAProxy_type :: gtype where
  "HAProxy_type = TStruct
     [(''Host'', TScalar), (''Port'', TScalar), (''Version'', TScalar), (''Config'', TScalar)]"

definition PDSpec_type :: gtype where
  "PDSpec_type = TStruct
     [(''Host'', TScalar), (''ClientPort'', TScalar), (''PeerPort'', TScalar), (''Config'', TScalar),
      (''DeployDir'', TScalar), (''DataDir'', TScalar), (''LogDir'', TScalar)]"

definition PumpSpec_type :: gtype where
  "PumpSpec_type = TStruct
     [(''Host'', TScalar), (''SSHPort'', TScalar), (''Port'', TScalar), (''DeployDir'', TScalar),
      (''DataDir'', TScalar), (''Config'', TScalar)]"

definition ServerConfigs_type :: gtype where
  "ServerConfigs_type = TStruct [(''TiDB'', TScalar), (''TiKV'', TScalar), (''PD'', TScalar)]"

definition TiDBClusterVersion_type :: gtype where
  "TiDBClusterVersion_type = TStruct
     [(''Version'', TScalar), (''TiDBDownloadURL'', TScalar), (''TiKVDownloadURL'', TScalar),
      (''PDDownloadURL'', TScalar), (''PatchPolicy'', TScalar)]"

definition TiDBSpec_type :: gtype where
  "TiDBSpec_type = TStruct
     [(''Host'', TScalar), (''Port'', TScalar), (''Config'', TScalar), (''StatusPort'', TScalar),
      (''DeployDir'', TScalar), (''LogDir'', TScalar)]"

definition TiKVSpec_type :: gtype where
  "TiKVSpec_type = TStruct
     [(''Host'', TScalar), (''Port'', TScalar), (''StatusPort'', TScalar), (''Config'', TScalar),
      (''DeployDir'', TScalar), (''DataDir'', TScalar), (''LogDir'', TScalar)]"

definition TiFlashSpec_type :: gtype where
  "TiFlashSpec_type = TStruct
     [(''Host'', TScalar), (''TCPPort'', TScalar), (''HTTPPort'', TScalar), (''ServicePort'', TScalar),
      (''ProxyPort'', TScalar), (''ProxyStatusPort'', TScalar), (''MetricsPort'', TScalar),
      (''DeployDir'', TScalar), (''DataDir'', TScalar), (''Config'', TScalar),
      (''LearnerConfig'', TScalar), (''LogDir'', TScalar)]"

definition TiDBCluster_type :: gtype where
  "TiDBCluster_type = TStruct
     [(''TiUPMirror'', TScalar), (''UpgradePolicy'', TScalar), (''Version'', TiDBClusterVersion_type),
      (''Global'', TPtr Global_type), (''ServerConfigs'', ServerConfigs_type), (''Control'', TScalar),
      (''HAProxy'', TPtr HAProxy_type), (''TiDB'', TSlice TiDBSpec_type),
      (''TiKV'', TSlice TiKVSpec_type), (''PD'', TSlice PDSpec_type), (''Pump'', TSlice PumpSpec_type),
      (''Drainer'', TSlice DrainerSpec_type), (''Monitor'', TSlice PrometheusSpec_type),
      (''Grafana'', TSlice GrafanaSpec_type), (''AlertManager'', TSlice AlertManagerSpec_type),
      (''CDC'', TSlice CDCSpec_type), (''TiFlash'', TSlice TiFlashSpec_type)]"

definition TestClusterTopologySpec_type :: gtype where
  "TestClusterTopologySpec_type = TStruct
     [(''ResourceRequest'', TScalar), (''TiDBCluster'', TPtr TiDBCluster_type),
      (''FlinkCluster'', TPtr FlinkCluster_type), (''DMCluster'', TPtr DMCluster_type)]"

definition TiDBClusterInfo_type :: gtype where
  "TiDBClusterInfo_type = TStruct
     [(''IsScaling'', TScalar), (''PendingOfflineList'', TSlice TScalar),
      (''OfflineList'', TSlice TScalar)]"

definition TestClusterTopologyStatus_type :: gtype where
  "TestClusterTopologyStatus_type = TStruct
     [(''PreTiDBCluster'', TPtr TiDBCluster_type), (''TiDBClusterInfo'', TiDBClusterInfo_type),
      (''State'', TScalar)]"

definition TestClusterTopology_type :: "meta_lib \<Rightarrow> gtype" where
  "TestClusterTopology_type L = TStruct
     [(''TypeMeta'', TypeMeta_type L), (''ObjectMeta'', ObjectMeta_type L),
      (''Spec'', TestClusterTopologySpec_type), (''Status'', TestClusterTopologyStatus_type)]"

definition TestClusterTopologyList_type :: "meta_lib \<Rightarrow> gtype" where
  "TestClusterTopologyList_type L = TStruct
     [(''TypeMeta'', TypeMeta_type L), (''ListMeta'', ListMeta_type L),
      (''Items'', TSlice (TestClusterTopology_type L))]"

section \<open>Workloads: \<open>api/v1/testworkload_types.go\<close>\<close>

definition ClusterTopologyRef_type :: gtype where
  "ClusterTopologyRef_type = TStruct [(''Name'', TScalar), (''AliasName'', TScalar)]"

definition ResourceRequestRef_type :: gtype where
  "ResourceRequestRef_type = TStruct [(''Name'', TScalar), (''Node'', TScalar)]"

definition ContainerSpec_type :: gtype where
  "ContainerSpec_type = TStruct
     [(''ResourceRequest'', ResourceRequestRef_type), (''Image'', TScalar),
      (''ImagePullPolicy'', TScalar), (''Command'', TSlice TScalar)]"

definition TestWorkloadItemSpec_type :: gtype where
  "TestWorkloadItemSpec_type = TStruct
     [(''Name'', TScalar), (''DockerContainer'', TPtr ContainerSpec_type)]"

definition TestWorkloadSpec_type :: gtype where
  "TestWorkloadSpec_type = TStruct
     [(''ClusterTopologiesRefs'', TSlice ClusterTopologyRef_type),
      (''Workloads'', TSlice TestWorkloadItemSpec_type),
      (''TeardownTestClusterTopology'', TSlice TScalar)]"

definition WorkloadStatus_type :: gtype where
  "WorkloadStatus_type = TStruct [(''Phase'', TScalar)]"

definition TestWorkloadResult_type :: gtype where
  "TestWorkloadResult_type = TStruct [(''PlainText'', TScalar)]"

definition TestWorkloadStatus_type :: gtype where
  "TestWorkloadStatus_type = TStruct
     [(''State'', TScalar), (''WorkloadStatus'', TMap WorkloadStatus_type),
      (''Results'', TMap TestWorkloadResult_type)]"

definition TestWorkload_type :: "meta_lib \<Rightarrow> gtype" where
  "TestWorkload_type L = TStruct
     [(''TypeMeta'', TypeMeta_type L), (''ObjectMeta'', ObjectMeta_type L),
      (''Spec'', TestWorkloadSpec_type), (''Status'', TestWorkloadStatus_type)]"

definition TestWorkloadList_type :: "meta_lib \<Rightarrow> gtype" where
  "TestWorkloadList_type L = TStruct
     [(''TypeMeta'', TypeMeta_type L), (''ListMeta'', ListMeta_type L),
      (''Items'', TSlice (TestWorkload_type L))]"

section \<open>Workflows: \<open>api/v1/testworkflow_types.go\<close>\<close>

definition WorkflowStepItem_type :: "meta_lib \<Rightarrow> gtype" where
  "WorkflowStepItem_type L = TStruct
     [(''Name'', TScalar), (''TestResourceRequest'', TPtr TestResourceSpec_type),
      (''TestClusterTopology'', TPtr (TestClusterTopology_type L)),
      (''TestWorkload'', TPtr (TestWorkload_type L))]"

definition TestWorkflowSpec_type :: "meta_lib \<Rightarrow> gtype" where
  "TestWorkflowSpec_type L = TStruct [(''Steps'', TSlice (WorkflowStepItem_type L))]"

definition TestWorkflowStatus_type :: gtype where
  "TestWorkflowStatus_type = TStruct []"

definition TestWorkflow_type :: "meta_lib \<Rightarrow> gtype" where
  "TestWorkflow_type L = TStruct
     [(''TypeMeta'', TypeMeta_type L), (''ObjectMeta'', ObjectMeta_type L),
      (''Spec'', TestWorkflowSpec_type L), (''Status'', TestWorkflowStatus_type)]"

definition TestWorkflowList_type :: "meta_lib \<Rightarrow> gtype" where
  "TestWorkflowList_type L = TStruct
     [(''TypeMeta'', TypeMeta_type L), (''ListMeta'', ListMeta_type L),
      (''Items'', TSlice (TestWorkflow_type L))]"

section \<open>Process chaos: \<open>api/v1/procchaos_types.go\<close>\<close>

definition ProcChaosTask_type :: gtype where
  "ProcChaosTask_type = TStruct
     [(''Pattern'', TScalar), (''Nodes'', TSlice TScalar), (''KillAll'', TScalar), (''Period'', TScalar)]"

definition ProcChaosSpec_type :: gtype where
  "ProcChaosSpec_type = TStruct [(''Request'', TScalar), (''Tasks'', TSlice (TPtr ProcChaosTask_type))]"

definition ProcChaosState_type :: gtype where
  "ProcChaosState_type = TStruct [(''KilledTime'', TScalar), (''KilledNode'', TScalar)]"

definition ProcChaosStatus_type :: gtype where
  "ProcChaosStatus_type = TStruct [(''States'', TSlice (TPtr ProcChaosState_type))]"

definition ProcChaos_type :: "meta_lib \<Rightarrow> gtype" where
  "ProcChaos_type L = TStruct
     [(''TypeMeta'', TypeMeta_type L), (''ObjectMeta'', ObjectMeta_type L),
      (''Spec'', ProcChaosSpec_type), (''Status'', ProcChaosStatus_type)]"

definition ProcChaosList_type :: "meta_lib \<Rightarrow> gtype" where
  "ProcChaosList_type L = TStruct
     [(''TypeMeta'', TypeMeta_type L), (''ListMeta'', ListMeta_type L),
      (''Items'', TSlice (ProcChaos_type L))]"

section \<open>Types without references\<close>

lemmas flat_type_defs =
  Ref_type_def DiskResource_type_def ReserveResources_type_def StorageDevice_type_def
  DiskBinding_type_def RelationshipSpec_type_def DiskSpec_type_def TestResourceMount_type_def
  MachineRequest_type_def TestResourceRequestStatus_type_def AlertManagerSpec_type_def CDCSpec_type_def
  Global_type_def DMServerConfigs_type_def MasterSpec_type_def WorkerSpec_type_def
  PrometheusSpec_type_def GrafanaSpec_type_def DrainerSpec_type_def JobManagerSpec_type_def
  TaskManagerSpec_type_def HAProxy_type_def PDSpec_type_def PumpSpec_type_def ServerConfigs_type_def
  TiDBClusterVersion_type_def TiDBSpec_type_def TiKVSpec_type_def TiFlashSpec_type_def
  ClusterTopologyRef_type_def ResourceRequestRef_type_def WorkloadStatus_type_def
  TestWorkloadResult_type_def TestWorkflowStatus_type_def ProcChaosState_type_def

lemma flat_types [simp]:
  "flat Ref_type" "flat DiskResource_type" "flat ReserveResources_type" "flat StorageDevice_type"
  "flat DiskBinding_type" "flat RelationshipSpec_type" "flat DiskSpec_type"
  "flat TestResourceMount_type" "flat MachineRequest_type" "flat TestResourceRequestStatus_type"
  "flat AlertManagerSpec_type" "flat CDCSpec_type" "flat Global_type" "flat DMServerConfigs_type"
  "flat MasterSpec_type" "flat WorkerSpec_type" "flat PrometheusSpec_type" "flat GrafanaSpec_type"
  "flat DrainerSpec_type" "flat JobManagerSpec_type" "flat TaskManagerSpec_type" "flat HAProxy_type"
  "flat PDSpec_type" "flat PumpSpec_type" "flat ServerConfigs_type" "flat TiDBClusterVersion_type"
  "flat TiDBSpec_type" "flat TiKVSpec_type" "flat TiFlashSpec_type" "flat ClusterTopologyRef_type"
  "flat ResourceRequestRef_type" "flat WorkloadStatus_type" "flat TestWorkloadResult_type"
  "flat TestWorkflowStatus_type" "flat ProcChaosState_type"
  by (simp_all add: flat_type_defs)

end
