(* ===== verification/Copying.thy ===== *)
theory Copying
  imports Memory
begin

text \<open>
  The statements of which the generated functions \<open>DeepCopyInto\<close> consist, as functions on copiers,
  the contract \<open>fresh_copy\<close> of a deep copy, and that each statement keeps it. A \<open>DeepCopyInto\<close>
  is a function from the value of \<open>in\<close> to the value it leaves in \<open>out\<close>: that the cell of
  \<open>out\<close> is taken before and not after it is filled cannot be seen. The case of a value that is not
  of the type of the statement does not occur in a Go program.
\<close>

section \<open>Statements\<close>

type_synonym copier = "gval \<Rightarrow> mem \<Rightarrow> (gval \<times> mem) go"

text \<open>\<open>*out = *in\<close>, \<open>out.F = in.F\<close> and \<open>copy(*out, *in)\<close> on each element: the value itself.\<close>

definition same :: copier where
  "same v m = Done (v, m)"

text \<open>\<open>if in.F != nil { *out = new(T); (*in).DeepCopyInto(*out) }\<close>\<close>

definition copy_ptr :: "copier \<Rightarrow> copier" where
  "copy_ptr f v m =
     (case v of
        Ptr None \<Rightarrow> Done (Ptr None, m)
      | Ptr (Some a) \<Rightarrow>
          (case pointee m a of
             None \<Rightarrow> Panicked nil_deref
           | Some x \<Rightarrow> go_bind (f x m) (\<lambda>(y, m'). Done (Ptr (Some (length m')), m' @ [One y])))
      | _ \<Rightarrow> Panicked nil_deref)"

fun copy_all :: "copier \<Rightarrow> gval list \<Rightarrow> mem \<Rightarrow> (gval list \<times> mem) go" where
  "copy_all f [] m = Done ([], m)"
| "copy_all f (x # xs) m =
     go_bind (f x m) (\<lambda>(y, m'). go_bind (copy_all f xs m') (\<lambda>(ys, m''). Done (y # ys, m'')))"

text \<open>\<open>*out = make([]T, len(*in))\<close> and the loop over the elements; a nil slice has length 0.\<close>

definition make_slice :: "copier \<Rightarrow> copier" where
  "make_slice f v m =
     (case v of
        Slice None \<Rightarrow> Done (Slice (Some (length m, 0, 0)), m @ [Arr []])
      | Slice (Some s) \<Rightarrow>
          (case elements m s of
             None \<Rightarrow> Panicked nil_deref
           | Some xs \<Rightarrow>
               go_bind (copy_all f xs m) (\<lambda>(ys, m'). Done (Slice (Some (length m', 0, length ys)), m' @ [Arr ys])))
      | _ \<Rightarrow> Panicked nil_deref)"

text \<open>The same under \<open>if in.F != nil\<close>.\<close>

definition copy_slice :: "copier \<Rightarrow> copier" where
  "copy_slice f v m = (if v = Slice None then Done (v, m) else make_slice f v m)"

text \<open>\<open>if in.F != nil { *out = make(map[string]T, len(*in)); for key, val := range *in { ... } }\<close>\<close>

definition copy_map :: "copier \<Rightarrow> copier" where
  "copy_map f v m =
     (case v of
        MapOf None \<Rightarrow> Done (MapOf None, m)
      | MapOf (Some a) \<Rightarrow>
          (case entries m a of
             None \<Rightarrow> Panicked nil_deref
           | Some es \<Rightarrow>
               go_bind (copy_all f (map snd es) m) (\<lambda>(ys, m').
                 Done (MapOf (Some (length m')), m' @ [Entries (zip (map fst es) ys)])))
      | _ \<Rightarrow> Panicked nil_deref)"

text \<open>\<open>*val.DeepCopy()\<close>: the copy is taken out of the cell that was made for it.\<close>

definition through_new :: "copier \<Rightarrow> copier" where
  "through_new f v m = go_bind (f v m) (\<lambda>(y, m'). Done (y, m' @ [One y]))"

text \<open>\<open>*out = *in\<close>, and then a statement for some of the fields.\<close>

fun run_fields ::
  "(string \<times> copier) list \<Rightarrow> (string \<times> gval) list \<Rightarrow> (string \<times> gval) list \<Rightarrow> mem
     \<Rightarrow> ((string \<times> gval) list \<times> mem) go" where
  "run_fields [] ins outs m = Done (outs, m)"
| "run_fields ((F, f) # ss) ins outs m =
     go_bind (f (field ins F) m) (\<lambda>(y, m'). run_fields ss ins (AList.update F y outs) m')"

definition into :: "(string \<times> copier) list \<Rightarrow> copier" where
  "into ss v m =
     (case v of
        Struct vs \<Rightarrow> go_bind (run_fields ss vs vs m) (\<lambda>(ws, m'). Done (Struct ws, m'))
      | _ \<Rightarrow> Panicked nil_deref)"

section \<open>The contract\<close>

text \<open>
  \<open>w\<close> is a copy of \<open>v\<close> made between \<open>m\<close> and \<open>m'\<close>: it is of the type, looks like
  \<open>v\<close>, and all it reaches is new.
\<close>

definition copied :: "gtype \<Rightarrow> mem \<Rightarrow> mem \<Rightarrow> gval \<Rightarrow> gval \<Rightarrow> bool" where
  "copied T m m' v w \<longleftrightarrow>
     shaped T m' w \<and> view T m' w = view T m v \<and> cells T m' w \<subseteq> {length m ..< length m'}"

definition fresh_copy :: "gtype \<Rightarrow> copier \<Rightarrow> bool" where
  "fresh_copy T f \<longleftrightarrow>
     (\<forall>m v. shaped T m v \<longrightarrow> (\<exists>w new. f v m = Done (w, m @ new) \<and> copied T m (m @ new) v w))"

lemma fresh_copyI:
  "(\<And>m v. shaped T m v \<Longrightarrow> \<exists>w new. f v m = Done (w, m @ new) \<and> copied T m (m @ new) v w) \<Longrightarrow> fresh_copy T f"
  by (simp add: fresh_copy_def)

lemma fresh_copyE:
  assumes "fresh_copy T f" "shaped T m v"
  obtains w new where "f v m = Done (w, m @ new)" "copied T m (m @ new) v w"
  using assms unfolding fresh_copy_def by blast

lemma copied_extended: "copied T m m' v w \<Longrightarrow> copied T m (m' @ new) v w"
  by (auto simp: copied_def extended)

lemma copied_earlier: "shaped T m v \<Longrightarrow> copied T (m @ new) m' v w \<Longrightarrow> copied T m m' v w"
  by (auto simp: copied_def extended)

section \<open>The statements keep the contract\<close>

lemma flat_same: "flat T \<Longrightarrow> shaped T m v \<Longrightarrow> copied T m (m @ new) v v"
  by (simp add: copied_def extended flat_cells)

lemma fresh_same: "flat T \<Longrightarrow> fresh_copy T same"
  by (rule fresh_copyI) (use flat_same [where new = "[]"] in \<open>auto simp: same_def\<close>)

lemma pointee_new: "pointee (m @ [One y]) (length m) = Some y"
  by (simp add: pointee_def cell_at_def)

lemma elements_new: "elements (m @ [Arr ys]) (length m, 0, length ys) = Some ys"
  by (simp add: elements_def cell_at_def)

lemma entries_new: "entries (m @ [Entries es]) (length m) = Some es"
  by (simp add: entries_def cell_at_def)

lemma fresh_ptr: "fresh_copy T f \<Longrightarrow> fresh_copy (TPtr T) (copy_ptr f)"
proof (rule fresh_copyI)
  fix m v assume f: "fresh_copy T f" and "shaped (TPtr T) m v"
  then consider "v = Ptr None" | a x where "v = Ptr (Some a)" "pointee m a = Some x" "shaped T m x"
    unfolding shaped_iff by blast
  then show "\<exists>w new. copy_ptr f v m = Done (w, m @ new) \<and> copied (TPtr T) m (m @ new) v w"
  proof cases
    case 1
    then have "copy_ptr f v m = Done (v, m @ [])" "copied (TPtr T) m (m @ []) v v"
      by (simp_all add: copy_ptr_def copied_def)
    then show ?thesis by blast
  next
    case (2 a x)
    from f 2(3) obtain y new where y: "f x m = Done (y, m @ new)" "copied T m (m @ new) x y" by (rule fresh_copyE)
    let ?m = "m @ new @ [One y]"
    have p: "pointee ?m (length m + length new) = Some y" using pointee_new [of "m @ new" y] by simp
    have "copied T m ?m x y" using copied_extended [OF y(2), of "[One y]"] by simp
    then have "copied (TPtr T) m ?m v (Ptr (Some (length m + length new)))" using 2 p by (auto simp: copied_def)
    moreover have "copy_ptr f v m = Done (Ptr (Some (length m + length new)), ?m)" using 2 y by (simp add: copy_ptr_def)
    ultimately show ?thesis by blast
  qed
qed

lemma copy_all_fresh:
  assumes f: "fresh_copy T f"
  shows "\<forall>x\<in>set xs. shaped T m x \<Longrightarrow>
    \<exists>ys new. copy_all f xs m = Done (ys, m @ new) \<and> list_all2 (copied T m (m @ new)) xs ys"
proof (induction xs arbitrary: m)
  case Nil
  have "copy_all f [] m = Done ([], m @ [])" by simp
  then show ?case by blast
next
  case (Cons x xs)
  from Cons.prems have x: "shaped T m x" and xs: "\<forall>x\<in>set xs. shaped T m x" by simp_all
  from f x obtain y n1 where y: "f x m = Done (y, m @ n1)" "copied T m (m @ n1) x y" by (rule fresh_copyE)
  from xs have "\<forall>x\<in>set xs. shaped T (m @ n1) x" by (simp add: extended)
  from Cons.IH [OF this] obtain ys n2 where
    ys: "copy_all f xs (m @ n1) = Done (ys, (m @ n1) @ n2)" "list_all2 (copied T (m @ n1) ((m @ n1) @ n2)) xs ys" by blast
  have "list_all2 (copied T m ((m @ n1) @ n2)) xs ys"
    by (rule list.rel_mono_strong [OF ys(2)]) (use xs in \<open>auto intro: copied_earlier\<close>)
  with y ys(1) copied_extended [OF y(2), of n2]
  have "copy_all f (x # xs) m = Done (y # ys, m @ n1 @ n2) \<and> list_all2 (copied T m (m @ n1 @ n2)) (x # xs) (y # ys)" by simp
  then show ?case by blast
qed

text \<open>What the copies of the elements of a list have in common.\<close>

lemma copied_list:
  assumes "list_all2 (copied T m m') xs ys"
  shows "\<forall>y\<in>set ys. shaped T m' y" "map (view T m') ys = map (view T m) xs"
    "(\<Union>y\<in>set ys. cells T m' y) \<subseteq> {length m ..< length m'}" "length ys = length xs"
  using assms by (induction rule: list_all2_induct) (auto simp: copied_def)

lemma fresh_make_slice:
  assumes "fresh_copy T f" "shaped (TSlice T) m v" "v \<noteq> Slice None"
  shows "\<exists>w new. make_slice f v m = Done (w, m @ new) \<and> copied (TSlice T) m (m @ new) v w"
proof -
  from assms(2,3) obtain s xs where v: "v = Slice (Some s)" "elements m s = Some xs" and xs: "\<forall>x\<in>set xs. shaped T m x"
    unfolding shaped_iff by blast
  from copy_all_fresh [OF assms(1) xs] obtain ys new where
    ys: "copy_all f xs m = Done (ys, m @ new)" "list_all2 (copied T m (m @ new)) xs ys" by blast
  let ?m = "m @ new @ [Arr ys]" and ?s = "(length m + length new, 0, length ys)"
  have e: "elements ?m ?s = Some ys" using elements_new [of "m @ new" ys] by simp
  have "list_all2 (copied T m ?m) xs ys"
    by (rule list_all2_mono [OF ys(2)]) (use copied_extended [of T m "m @ new" _ _ "[Arr ys]"] in simp)
  note copied_list [OF this]
  then have "copied (TSlice T) m ?m v (Slice (Some ?s))" using v e by (auto simp: copied_def)
  moreover have "make_slice f v m = Done (Slice (Some ?s), ?m)" using v ys by (simp add: make_slice_def)
  ultimately show ?thesis by blast
qed

lemma fresh_slice: "fresh_copy T f \<Longrightarrow> fresh_copy (TSlice T) (copy_slice f)"
proof (rule fresh_copyI)
  fix m v assume f: "fresh_copy T f" "shaped (TSlice T) m v"
  show "\<exists>w new. copy_slice f v m = Done (w, m @ new) \<and> copied (TSlice T) m (m @ new) v w"
  proof (cases "v = Slice None")
    case True
    then have "copy_slice f v m = Done (v, m @ [])" "copied (TSlice T) m (m @ []) v v"
      by (simp_all add: copy_slice_def copied_def)
    then show ?thesis by blast
  next
    case False
    with fresh_make_slice [OF f] show ?thesis by (simp add: copy_slice_def)
  qed
qed

lemma map_values:
  "map g ys = map h (map snd es) \<Longrightarrow>
   map (\<lambda>x. (fst x, g (snd x))) (zip (map fst es) ys) = map (\<lambda>x. (fst x, h (snd x))) es"
  by (induction es arbitrary: ys) auto

lemma fresh_map: "fresh_copy T f \<Longrightarrow> fresh_copy (TMap T) (copy_map f)"
proof (rule fresh_copyI)
  fix m v assume f: "fresh_copy T f" and "shaped (TMap T) m v"
  then consider "v = MapOf None" | a es where "v = MapOf (Some a)" "entries m a = Some es" "\<forall>x\<in>set (map snd es). shaped T m x"
    unfolding shaped_iff by auto
  then show "\<exists>w new. copy_map f v m = Done (w, m @ new) \<and> copied (TMap T) m (m @ new) v w"
  proof cases
    case 1
    then have "copy_map f v m = Done (v, m @ [])" "copied (TMap T) m (m @ []) v v"
      by (simp_all add: copy_map_def copied_def)
    then show ?thesis by blast
  next
    case (2 a es)
    from copy_all_fresh [OF f 2(3)] obtain ys new where
      ys: "copy_all f (map snd es) m = Done (ys, m @ new)" "list_all2 (copied T m (m @ new)) (map snd es) ys" by blast
    let ?es = "zip (map fst es) ys"
    let ?m = "m @ new @ [Entries ?es]" and ?a = "length m + length new"
    have e: "entries ?m ?a = Some ?es" using entries_new [of "m @ new" ?es] by simp
    have "list_all2 (copied T m ?m) (map snd es) ys"
      by (rule list_all2_mono [OF ys(2)]) (use copied_extended [of T m "m @ new" _ _ "[Entries ?es]"] in simp)
    note c = copied_list [OF this]
    have view: "map (\<lambda>x. (fst x, view T ?m (snd x))) ?es = map (\<lambda>x. (fst x, view T m (snd x))) es"
      by (rule map_values) (use c(2) in simp)
    have vals: "snd x \<in> set ys" if "x \<in> set ?es" for x using that set_zip_rightD [of "fst x" "snd x"] by simp
    have "(\<Union>x\<in>set ?es. cells T ?m (snd x)) \<subseteq> {length m ..< length ?m}" using c(3) vals by fastforce
    moreover have "\<forall>x\<in>set ?es. shaped T ?m (snd x)" using c(1) vals by blast
    ultimately have "copied (TMap T) m ?m v (MapOf (Some ?a))" using 2(1,2) e view by (simp add: copied_def)
    moreover have "copy_map f v m = Done (MapOf (Some ?a), ?m)" using 2 ys by (simp add: copy_map_def)
    ultimately show ?thesis by blast
  qed
qed

lemma fresh_through_new: "fresh_copy T f \<Longrightarrow> fresh_copy T (through_new f)"
proof (rule fresh_copyI)
  fix m v assume "fresh_copy T f" "shaped T m v"
  then obtain y new where y: "f v m = Done (y, m @ new)" "copied T m (m @ new) v y" by (rule fresh_copyE)
  from copied_extended [OF y(2), of "[One y]"] y(1)
  have "through_new f v m = Done (y, m @ (new @ [One y])) \<and> copied T m (m @ (new @ [One y])) v y"
    by (simp add: through_new_def)
  then show "\<exists>w new. through_new f v m = Done (w, m @ new) \<and> copied T m (m @ new) v w" by blast
qed

text \<open>
  A struct is copied afresh when every field that is not flat has a statement, which copies it
  afresh, and every statement is about a field.
\<close>

definition copies_fields :: "(string \<times> gtype) list \<Rightarrow> (string \<times> copier) list \<Rightarrow> bool" where
  "copies_fields fs ss \<longleftrightarrow>
     (\<forall>s\<in>set ss. fst s \<in> fst ` set fs) \<and>
     (\<forall>x\<in>set fs. (\<forall>s\<in>set ss. fst s = fst x \<longrightarrow> fresh_copy (snd x) (snd s)) \<and>
        (flat (snd x) \<or> fst x \<in> fst ` set ss))"

lemma field_update: "field (AList.update F y vs) G = (if G = F then y else field vs G)"
  by (simp add: field_def update_conv')

lemma run_fields_fresh:
  assumes types: "\<forall>s\<in>set ss. \<exists>T. (fst s, T) \<in> set fs \<and> shaped T m (field ins (fst s)) \<and> fresh_copy T (snd s) \<and>
      (\<forall>T'. (fst s, T') \<in> set fs \<longrightarrow> T' = T)"
    and names: "map fst outs = map fst fs"
  shows "\<exists>ws new. run_fields ss ins outs (m @ mid) = Done (ws, m @ mid @ new) \<and> map fst ws = map fst fs \<and>
    (\<forall>x\<in>set fs. (fst x \<in> fst ` set ss \<longrightarrow> copied (snd x) m (m @ mid @ new) (field ins (fst x)) (field ws (fst x))) \<and>
       (fst x \<notin> fst ` set ss \<longrightarrow> field ws (fst x) = field outs (fst x)))"
  using assms
proof (induction ss arbitrary: outs mid)
  case Nil
  show ?case by (rule exI [of _ outs], rule exI [of _ "[]"]) (simp add: Nil.prems(2))
next
  case (Cons s ss)
  obtain F f where s: "s = (F, f)" by fastforce
  have "\<exists>T. (F, T) \<in> set fs \<and> shaped T m (field ins F) \<and> fresh_copy T f \<and> (\<forall>T'. (F, T') \<in> set fs \<longrightarrow> T' = T)"
    using Cons.prems(1) s by simp
  then obtain T where T: "(F, T) \<in> set fs" "shaped T m (field ins F)" "fresh_copy T f"
    "\<And>T'. (F, T') \<in> set fs \<Longrightarrow> T' = T" by blast
  from T(2) have "shaped T (m @ mid) (field ins F)" by (rule extended(1))
  with T(3) obtain y n1 where y: "f (field ins F) (m @ mid) = Done (y, (m @ mid) @ n1)"
    "copied T (m @ mid) ((m @ mid) @ n1) (field ins F) y" by (rule fresh_copyE)
  from copied_earlier [OF T(2) y(2)] have y': "copied T m (m @ mid @ n1) (field ins F) y" by simp
  have "F \<in> fst ` set fs" using T(1) by force
  with Cons.prems(2) have names: "map fst (AList.update F y outs) = map fst fs"
    by (metis set_map update_keys)
  from Cons.prems(1) have "\<forall>s\<in>set ss. \<exists>T. (fst s, T) \<in> set fs \<and> shaped T m (field ins (fst s)) \<and> fresh_copy T (snd s) \<and>
      (\<forall>T'. (fst s, T') \<in> set fs \<longrightarrow> T' = T)" by simp
  from Cons.IH [OF this names, of "mid @ n1"] obtain ws n2 where
    run: "run_fields ss ins (AList.update F y outs) (m @ mid @ n1) = Done (ws, m @ (mid @ n1) @ n2)"
    and ws: "map fst ws = map fst fs" "\<And>x. x \<in> set fs \<Longrightarrow> fst x \<in> fst ` set ss \<Longrightarrow>
        copied (snd x) m (m @ (mid @ n1) @ n2) (field ins (fst x)) (field ws (fst x))"
      "\<And>x. x \<in> set fs \<Longrightarrow> fst x \<notin> fst ` set ss \<Longrightarrow> field ws (fst x) = field (AList.update F y outs) (fst x)" by auto
  let ?m = "m @ mid @ n1 @ n2"
  have "(fst x \<in> fst ` set (s # ss) \<longrightarrow> copied (snd x) m ?m (field ins (fst x)) (field ws (fst x))) \<and>
      (fst x \<notin> fst ` set (s # ss) \<longrightarrow> field ws (fst x) = field outs (fst x))" if x: "x \<in> set fs" for x
  proof (cases "fst x \<in> fst ` set ss")
    case True
    with ws(2) [OF x] show ?thesis by simp
  next
    case False
    with ws(3) [OF x] have w: "field ws (fst x) = (if fst x = F then y else field outs (fst x))"
      by (simp add: field_update)
    have "copied (snd x) m ?m (field ins (fst x)) y" if "fst x = F"
      using copied_extended [OF y', of n2] T(4) [of "snd x"] x that by (cases x) simp
    with False w s show ?thesis by auto
  qed
  moreover have "run_fields (s # ss) ins outs (m @ mid) = Done (ws, m @ mid @ n1 @ n2)" using s y(1) run by simp
  ultimately show ?case using ws(1) by blast
qed

lemma fresh_struct:
  assumes "copies_fields fs ss"
  shows "fresh_copy (TStruct fs) (into ss)"
proof (rule fresh_copyI)
  fix m v assume "shaped (TStruct fs) m v"
  then obtain vs where v: "v = Struct vs" "map fst vs = map fst fs" "distinct (map fst fs)"
    and shapes: "\<And>x. x \<in> set fs \<Longrightarrow> shaped (snd x) m (field vs (fst x))" unfolding shaped_iff by blast
  have "\<exists>T. (fst s, T) \<in> set fs \<and> shaped T m (field vs (fst s)) \<and> fresh_copy T (snd s) \<and>
      (\<forall>T'. (fst s, T') \<in> set fs \<longrightarrow> T' = T)" if "s \<in> set ss" for s
  proof -
    from assms that obtain x where x: "x \<in> set fs" "fst x = fst s" unfolding copies_fields_def by fastforce
    then have "fresh_copy (snd x) (snd s)" using assms that unfolding copies_fields_def by metis
    with x shapes [OF x(1)] show ?thesis using eq_key_imp_eq_value [OF v(3)] by (metis prod.collapse)
  qed
  then obtain ws new where run: "run_fields ss vs vs (m @ []) = Done (ws, m @ [] @ new)" and names: "map fst ws = map fst fs"
    and ws: "\<And>x. x \<in> set fs \<Longrightarrow> fst x \<in> fst ` set ss \<Longrightarrow> copied (snd x) m (m @ [] @ new) (field vs (fst x)) (field ws (fst x))"
      "\<And>x. x \<in> set fs \<Longrightarrow> fst x \<notin> fst ` set ss \<Longrightarrow> field ws (fst x) = field vs (fst x)"
    using run_fields_fresh [of ss fs m vs vs "[]"] v(2) by blast
  have "copied (snd x) m (m @ new) (field vs (fst x)) (field ws (fst x))" if "x \<in> set fs" for x
  proof (cases "fst x \<in> fst ` set ss")
    case True
    with ws(1) [OF that] show ?thesis by simp
  next
    case False
    with assms that have "flat (snd x)" unfolding copies_fields_def by blast
    with flat_same [OF _ shapes [OF that], of new] ws(2) [OF that False] show ?thesis by simp
  qed
  then have "copied (TStruct fs) m (m @ new) v (Struct ws)"
    using v names by (auto simp: copied_def subset_iff)
  moreover have "into ss v m = Done (Struct ws, m @ new)" using run v by (simp add: into_def)
  ultimately show "\<exists>w new. into ss v m = Done (w, m @ new) \<and> copied (TStruct fs) m (m @ new) v w" by blast
qed

section \<open>What a deep copy is for\<close>

text \<open>
  Whatever the program does to a memory later, it writes some cells and takes new ones: cells outside
  of \<open>W\<close> are as they were.
\<close>

definition writes_only :: "nat set \<Rightarrow> mem \<Rightarrow> mem \<Rightarrow> bool" where
  "writes_only W m m' \<longleftrightarrow> (\<forall>a. a < length m \<longrightarrow> a \<notin> W \<longrightarrow> cell_at m' a = cell_at m a)"

lemma unwritten:
  assumes "shaped T m v" "writes_only W m m'" "cells T m v \<inter> W = {}"
  shows "shaped T m' v" "view T m' v = view T m v"
proof -
  have "cell_at m' a = cell_at m a" if "a \<in> cells T m v" for a
    using assms that cells_bound [OF assms(1) that] by (auto simp: writes_only_def)
  with frame [OF assms(1)] show "shaped T m' v" "view T m' v = view T m v" by blast+
qed

text \<open>
  The copy and the values that were there before share no cell: writes through one side are not seen
  from the other.
\<close>

locale deep_copier =
  fixes T :: gtype and f :: copier
  assumes fresh: "fresh_copy T f"
begin

lemma makes: "shaped T m v \<Longrightarrow> \<exists>w m'. f v m = Done (w, m') \<and> view T m' w = view T m v"
  by (erule fresh_copyE [OF fresh]) (auto simp: copied_def)

lemma result: "shaped T m v \<Longrightarrow> f v m = Done (w, m') \<Longrightarrow> copied T m m' v w \<and> (\<exists>new. m' = m @ new)"
  by (erule fresh_copyE [OF fresh]) auto

lemma copy_isolated:
  assumes "shaped T m v" "f v m = Done (w, m')" "writes_only W m' m''" "cells T m' w \<inter> W = {}"
  shows "shaped T m'' w \<and> view T m'' w = view T m v"
  using result [OF assms(1,2)] unwritten [OF _ assms(3)] assms(4) by (auto simp: copied_def)

lemma old_apart:
  assumes "shaped T m v" "f v m = Done (w, m')" "shaped U m u"
  shows "shaped U m' u" "view U m' u = view U m u" "cells U m' u \<inter> cells T m' w = {}"
proof -
  from result [OF assms(1,2)] obtain new where new: "m' = m @ new" "cells T m' w \<subseteq> {length m ..< length m'}"
    by (auto simp: copied_def)
  show "shaped U m' u" "view U m' u = view U m u" using extended [OF assms(3)] new(1) by simp_all
  have "cells U m' u \<subseteq> {..< length m}" using extended(3) [OF assms(3)] cells_bound [OF assms(3)] new(1) by auto
  with new(2) show "cells U m' u \<inter> cells T m' w = {}" by fastforce
qed

lemma original_isolated:
  assumes "shaped T m v" "f v m = Done (w, m')" "shaped U m u" "writes_only W m' m''" "cells U m' u \<inter> W = {}"
  shows "shaped U m'' u \<and> view U m'' u = view U m u"
  using old_apart [OF assms(1-3)] unwritten [OF _ assms(4)] assms(5) by auto

end

end
