(* ===== verification/Deepcopy.thy ===== *)
theory Deepcopy
  imports Api_Types Copying
begin

text \<open>
  \<open>api/v1/zz_generated.deepcopy.go\<close>: for each type of the API the function \<open>DeepCopyInto\<close>, its
  wrapper \<open>DeepCopy\<close>, and for the kinds of objects \<open>DeepCopyObject\<close>. \<open>Deepcopy_Props\<close> shows that all of
  them keep the contract of a deep copy: no field was forgotten when the types changed. What rests on it
  is that the rest of this development may treat the objects as values.
\<close>

section \<open>The three functions\<close>

record copiers =
  cp_Into :: copier
  cp_DeepCopy :: copier
  cp_DeepCopyObject :: "copier option"

text \<open>\<open>DeepCopy\<close> makes a new object for \<open>DeepCopyInto\<close> to fill, and gives nil for nil.\<close>

definition generated :: "copier \<Rightarrow> copiers" where
  "generated f = \<lparr>cp_Into = f, cp_DeepCopy = copy_ptr f, cp_DeepCopyObject = None\<rparr>"

text \<open>\<open>if c := in.DeepCopy(); c != nil { return c }; return nil\<close>\<close>

definition as_object :: "copier \<Rightarrow> copier" where
  "as_object deepcopy v m = go_bind (deepcopy v m) (\<lambda>(c, m'). Done (if c \<noteq> Ptr None then c else Ptr None, m'))"

definition generated_object :: "copier \<Rightarrow> copiers" where
  "generated_object f = (generated f)\<lparr>cp_DeepCopyObject := Some (as_object (copy_ptr f))\<rparr>"

text \<open>
  For a slice type \<open>DeepCopyInto\<close> does not ask for nil, which \<open>DeepCopy\<close> does; the copy is made in a new variable.
\<close>

definition generated_slice :: "copier \<Rightarrow> copiers" where
  "generated_slice f =
     \<lparr>cp_Into = make_slice f,
      cp_DeepCopy = (\<lambda>v m. if v = Slice None then Done (v, m) else through_new (make_slice f) v m),
      cp_DeepCopyObject = None\<rparr>"

section \<open>Structs without references\<close>

definition copy_DiskResource :: copiers where
  "copy_DiskResource = generated same"

definition copy_ReserveResources :: copiers where
  "copy_ReserveResources = generated same"

definition copy_StorageDevice :: copiers where
  "copy_StorageDevice = generated same"

definition copy_DiskBinding :: copiers where
  "copy_DiskBinding = generated same"

definition copy_RelationshipSpec :: copiers where
  "copy_RelationshipSpec = generated same"

definition copy_DiskSpec :: copiers where
  "copy_DiskSpec = generated same"

definition copy_TestResourceMount :: copiers where
  "copy_TestResourceMount = generated same"

definition copy_MachineRequest :: copiers where
  "copy_MachineRequest = generated same"

definition copy_TestResourceRequestStatus :: copiers where
  "copy_TestResourceRequestStatus = generated same"

definition copy_AlertManagerSpec :: copiers where
  "copy_AlertManagerSpec = generated same"

definition copy_CDCSpec :: copiers where
  "copy_CDCSpec = generated same"

definition copy_Global :: copiers where
  "copy_Global = generated same"

definition copy_DMServerConfigs :: copiers where
  "copy_DMServerConfigs = generated same"

definition copy_MasterSpec :: copiers where
  "copy_MasterSpec = generated same"

definition copy_WorkerSpec :: copiers where
  "copy_WorkerSpec = generated same"

definition copy_PrometheusSpec :: copiers where
  "copy_PrometheusSpec = generated same"

definition copy_GrafanaSpec :: copiers where
  "copy_GrafanaSpec = generated same"

definition copy_DrainerSpec :: copiers where
  "copy_DrainerSpec = generated same"

definition copy_JobManagerSpec :: copiers where
  "copy_JobManagerSpec = generated same"

definition copy_TaskManagerSpec :: copiers where
  "copy_TaskManagerSpec = generated same"

definition copy_HAProxy :: copiers where
  "copy_HAProxy = generated same"

definition copy_PDSpec :: copiers where
  "copy_PDSpec = generated same"

definition copy_PumpSpec :: copiers where
  "copy_PumpSpec = generated same"

definition copy_ServerConfigs :: copiers where
  "copy_ServerConfigs = generated same"

definition copy_TiDBClusterVersion :: copiers where
  "copy_TiDBClusterVersion = generated same"

definition copy_TiDBSpec :: copiers where
  "copy_TiDBSpec = generated same"

definition copy_TiKVSpec :: copiers where
  "copy_TiKVSpec = generated same"

definition copy_TiFlashSpec :: copiers where
  "copy_TiFlashSpec = generated same"

definition copy_ClusterTopologyRef :: copiers where
  "copy_ClusterTopologyRef = generated same"

definition copy_ResourceRequestRef :: copiers where
  "copy_ResourceRequestRef = generated same"

definition copy_WorkloadStatus :: copiers where
  "copy_WorkloadStatus = generated same"

definition copy_TestWorkloadResult :: copiers where
  "copy_TestWorkloadResult = generated same"

definition copy_TestWorkflowStatus :: copiers where
  "copy_TestWorkflowStatus = generated same"

definition copy_ProcChaosState :: copiers where
  "copy_ProcChaosState = generated same"

lemmas flat_copiers =
  copy_DiskResource_def copy_ReserveResources_def copy_StorageDevice_def copy_DiskBinding_def
  copy_RelationshipSpec_def copy_DiskSpec_def copy_TestResourceMount_def copy_MachineRequest_def
  copy_TestResourceRequestStatus_def copy_AlertManagerSpec_def copy_CDCSpec_def copy_Global_def
  copy_DMServerConfigs_def copy_MasterSpec_def copy_WorkerSpec_def copy_PrometheusSpec_def
  copy_GrafanaSpec_def copy_DrainerSpec_def copy_JobManagerSpec_def copy_TaskManagerSpec_def
  copy_HAProxy_def copy_PDSpec_def copy_PumpSpec_def copy_ServerConfigs_def copy_TiDBClusterVersion_def
  copy_TiDBSpec_def copy_TiKVSpec_def copy_TiFlashSpec_def copy_ClusterTopologyRef_def
  copy_ResourceRequestRef_def copy_WorkloadStatus_def copy_TestWorkloadResult_def
  copy_TestWorkflowStatus_def copy_ProcChaosState_def

section \<open>Machines\<close>

definition copy_AvailableResource :: copiers where
  "copy_AvailableResource = generated (into
     [(''IdleCPUSet'', copy_slice same), (''Disks'', copy_map same)])"

definition copy_MachineSpec :: copiers where
  "copy_MachineSpec = generated (into
     [(''Reserve'', copy_ptr same), (''ExclusiveDisks'', copy_slice same)])"

definition copy_MachineInfo :: copiers where
  "copy_MachineInfo = generated (into [(''StorageDevices'', copy_map same)])"

definition copy_MachineStatus :: copiers where
  "copy_MachineStatus = generated (into [(''Info'', copy_ptr (cp_Into copy_MachineInfo))])"

definition copy_Machine :: "meta_lib \<Rightarrow> copiers" where
  "copy_Machine L = generated_object (into
     [(''TypeMeta'', same), (''ObjectMeta'', ObjectMeta_into L), (''Spec'', cp_Into copy_MachineSpec),
      (''Status'', cp_Into copy_MachineStatus)])"

definition copy_MachineList :: "meta_lib \<Rightarrow> copiers" where
  "copy_MachineList L = generated_object (into
     [(''TypeMeta'', same), (''ListMeta'', ListMeta_into L),
      (''Items'', copy_slice (cp_Into (copy_Machine L)))])"

section \<open>The relationship\<close>

definition copy_AcceptResources :: copiers where
  "copy_AcceptResources = generated_slice same"

definition copy_ResourceBinding :: copiers where
  "copy_ResourceBinding = generated (into [(''CPUSet'', copy_slice same), (''Disks'', copy_map same)])"

definition copy_MachineRef :: copiers where
  "copy_MachineRef = generated (into [(''Ref'', same), (''Binding'', cp_Into copy_ResourceBinding)])"

definition copy_ResourceRef :: copiers where
  "copy_ResourceRef = generated (into [(''Ref'', same), (''Binding'', cp_Into copy_ResourceBinding)])"

definition copy_ResourceRefList :: copiers where
  "copy_ResourceRefList = generated_slice (cp_Into copy_ResourceRef)"

definition copy_RelationshipStatus :: copiers where
  "copy_RelationshipStatus = generated (into
     [(''MachineToResources'', copy_map (copy_slice (cp_Into copy_ResourceRef))),
      (''ResourceToMachine'', copy_map (through_new (cp_Into copy_MachineRef))),
      (''AcceptedRequests'', copy_slice same), (''MachineLocks'', copy_map same)])"

definition copy_Relationship :: "meta_lib \<Rightarrow> copiers" where
  "copy_Relationship L = generated_object (into
     [(''TypeMeta'', same), (''ObjectMeta'', ObjectMeta_into L), (''Spec'', same),
      (''Status'', cp_Into copy_RelationshipStatus)])"

definition copy_RelationshipList :: "meta_lib \<Rightarrow> copiers" where
  "copy_RelationshipList L = generated_object (into
     [(''TypeMeta'', same), (''ListMeta'', ListMeta_into L),
      (''Items'', copy_slice (cp_Into (copy_Relationship L)))])"

section \<open>Test resources\<close>

definition copy_ResourceContainerSpec :: copiers where
  "copy_ResourceContainerSpec = generated (into
     [(''CapAdd'', copy_slice same), (''Mounts'', copy_slice same), (''Binds'', copy_slice same),
      (''Command'', copy_slice same), (''Envs'', copy_slice same), (''ExposedPorts'', copy_slice same)])"

definition copy_TestResourceSpec :: copiers where
  "copy_TestResourceSpec = generated (into [(''Disks'', copy_map same)])"

definition copy_TestResourceStatus :: copiers where
  "copy_TestResourceStatus = generated (into
     [(''ResourceContainerSpec'', cp_Into copy_ResourceContainerSpec), (''ClaimRef'', copy_ptr same)])"

definition copy_TestResource :: "meta_lib \<Rightarrow> copiers" where
  "copy_TestResource L = generated_object (into
     [(''TypeMeta'', same), (''ObjectMeta'', ObjectMeta_into L),
      (''Spec'', cp_Into copy_TestResourceSpec), (''Status'', cp_Into copy_TestResourceStatus)])"

definition copy_TestResourceList :: "meta_lib \<Rightarrow> copiers" where
  "copy_TestResourceList L = generated_object (into
     [(''TypeMeta'', same), (''ListMeta'', ListMeta_into L),
      (''Items'', copy_slice (cp_Into (copy_TestResource L)))])"

section \<open>Requests\<close>

definition copy_ResourceRequestItem :: copiers where
  "copy_ResourceRequestItem = generated (into [(''Spec'', cp_Into copy_TestResourceSpec)])"

definition copy_TestResourceRequestSpec :: copiers where
  "copy_TestResourceRequestSpec = generated (into
     [(''Machines'', copy_slice (copy_ptr same)),
      (''Items'', copy_slice (copy_ptr (cp_Into copy_ResourceRequestItem)))])"

definition copy_TestResourceRequest :: "meta_lib \<Rightarrow> copiers" where
  "copy_TestResourceRequest L = generated_object (into
     [(''TypeMeta'', same), (''ObjectMeta'', ObjectMeta_into L),
      (''Spec'', cp_Into copy_TestResourceRequestSpec), (''Status'', same)])"

definition copy_TestResourceRequestList :: "meta_lib \<Rightarrow> copiers" where
  "copy_TestResourceRequestList L = generated_object (into
     [(''TypeMeta'', same), (''ListMeta'', ListMeta_into L),
      (''Items'', copy_slice (cp_Into (copy_TestResourceRequest L)))])"

section \<open>Cluster topologies\<close>

definition copy_DMCluster :: copiers where
  "copy_DMCluster = generated (into
     [(''Global'', copy_ptr same), (''ServerConfigs'', same), (''Master'', copy_slice same),
      (''Worker'', copy_slice same), (''AlertManager'', copy_slice same),
      (''Monitor'', copy_slice same), (''Grafana'', copy_slice same)])"

definition copy_FlinkCluster :: copiers where
  "copy_FlinkCluster = generated (into [(''JobManager'', same), (''TaskManager'', copy_slice same)])"

definition copy_TiDBCluster :: copiers where
  "copy_TiDBCluster = generated (into
     [(''Version'', same), (''Global'', copy_ptr same), (''ServerConfigs'', same),
      (''HAProxy'', copy_ptr same), (''TiDB'', copy_slice same), (''TiKV'', copy_slice same),
      (''PD'', copy_slice same), (''Pump'', copy_slice same), (''Drainer'', copy_slice same),
      (''Monitor'', copy_slice same), (''Grafana'', copy_slice same),
      (''AlertManager'', copy_slice same), (''CDC'', copy_slice same), (''TiFlash'', copy_slice same)])"

definition copy_TestClusterTopologySpec :: copiers where
  "copy_TestClusterTopologySpec = generated (into
     [(''TiDBCluster'', copy_ptr (cp_Into copy_TiDBCluster)),
      (''FlinkCluster'', copy_ptr (cp_Into copy_FlinkCluster)),
      (''DMCluster'', copy_ptr (cp_Into copy_DMCluster))])"

definition copy_TiDBClusterInfo :: copiers where
  "copy_TiDBClusterInfo = generated (into
     [(''PendingOfflineList'', copy_slice same), (''OfflineList'', copy_slice same)])"

definition copy_TestClusterTopologyStatus :: copiers where
  "copy_TestClusterTopologyStatus = generated (into
     [(''PreTiDBCluster'', copy_ptr (cp_Into copy_TiDBCluster)),
      (''TiDBClusterInfo'', cp_Into copy_TiDBClusterInfo)])"

definition copy_TestClusterTopology :: "meta_lib \<Rightarrow> copiers" where
  "copy_TestClusterTopology L = generated_object (into
     [(''TypeMeta'', same), (''ObjectMeta'', ObjectMeta_into L),
      (''Spec'', cp_Into copy_TestClusterTopologySpec),
      (''Status'', cp_Into copy_TestClusterTopologyStatus)])"

definition copy_TestClusterTopologyList :: "meta_lib \<Rightarrow> copiers" where
  "copy_TestClusterTopologyList L = generated_object (into
     [(''TypeMeta'', same), (''ListMeta'', ListMeta_into L),
      (''Items'', copy_slice (cp_Into (copy_TestClusterTopology L)))])"

section \<open>Workloads\<close>

definition copy_ContainerSpec :: copiers where
  "copy_ContainerSpec = generated (into [(''ResourceRequest'', same), (''Command'', copy_slice same)])"

definition copy_TestWorkloadItemSpec :: copiers where
  "copy_TestWorkloadItemSpec = generated (into
     [(''DockerContainer'', copy_ptr (cp_Into copy_ContainerSpec))])"

definition copy_TestWorkloadSpec :: copiers where
  "copy_TestWorkloadSpec = generated (into
     [(''ClusterTopologiesRefs'', copy_slice same),
      (''Workloads'', copy_slice (cp_Into copy_TestWorkloadItemSpec)),
      (''TeardownTestClusterTopology'', copy_slice same)])"

definition copy_TestWorkloadStatus :: copiers where
  "copy_TestWorkloadStatus = generated (into
     [(''WorkloadStatus'', copy_map same), (''Results'', copy_map same)])"

definition copy_TestWorkload :: "meta_lib \<Rightarrow> copiers" where
  "copy_TestWorkload L = generated_object (into
     [(''TypeMeta'', same), (''ObjectMeta'', ObjectMeta_into L),
      (''Spec'', cp_Into copy_TestWorkloadSpec), (''Status'', cp_Into copy_TestWorkloadStatus)])"

definition copy_TestWorkloadList :: "meta_lib \<Rightarrow> copiers" where
  "copy_TestWorkloadList L = generated_object (into
     [(''TypeMeta'', same), (''ListMeta'', ListMeta_into L),
      (''Items'', copy_slice (cp_Into (copy_TestWorkload L)))])"

section \<open>Workflows\<close>

definition copy_WorkflowStepItem :: "meta_lib \<Rightarrow> copiers" where
  "copy_WorkflowStepItem L = generated (into
     [(''TestResourceRequest'', copy_ptr (cp_Into copy_TestResourceSpec)),
      (''TestClusterTopology'', copy_ptr (cp_Into (copy_TestClusterTopology L))),
      (''TestWorkload'', copy_ptr (cp_Into (copy_TestWorkload L)))])"

definition copy_TestWorkflowSpec :: "meta_lib \<Rightarrow> copiers" where
  "copy_TestWorkflowSpec L = generated (into [(''Steps'', copy_slice (cp_Into (copy_WorkflowStepItem L)))])"

definition copy_TestWorkflow :: "meta_lib \<Rightarrow> copiers" where
  "copy_TestWorkflow L = generated_object (into
     [(''TypeMeta'', same), (''ObjectMeta'', ObjectMeta_into L),
      (''Spec'', cp_Into (copy_TestWorkflowSpec L)), (''Status'', same)])"

definition copy_TestWorkflowList :: "meta_lib \<Rightarrow> copiers" where
  "copy_TestWorkflowList L = generated_object (into
     [(''TypeMeta'', same), (''ListMeta'', ListMeta_into L),
      (''Items'', copy_slice (cp_Into (copy_TestWorkflow L)))])"

section \<open>Process chaos\<close>

definition copy_ProcChaosTask :: copiers where
  "copy_ProcChaosTask = generated (into [(''Nodes'', copy_slice same)])"

definition copy_ProcChaosSpec :: copiers where
  "copy_ProcChaosSpec = generated (into [(''Tasks'', copy_slice (copy_ptr (cp_Into copy_ProcChaosTask)))])"

definition copy_ProcChaosStatus :: copiers where
  "copy_ProcChaosStatus = generated (into [(''States'', copy_slice (copy_ptr same))])"

definition copy_ProcChaos :: "meta_lib \<Rightarrow> copiers" where
  "copy_ProcChaos L = generated_object (into
     [(''TypeMeta'', same), (''ObjectMeta'', ObjectMeta_into L),
      (''Spec'', cp_Into copy_ProcChaosSpec), (''Status'', cp_Into copy_ProcChaosStatus)])"

definition copy_ProcChaosList :: "meta_lib \<Rightarrow> copiers" where
  "copy_ProcChaosList L = generated_object (into
     [(''TypeMeta'', same), (''ListMeta'', ListMeta_into L),
      (''Items'', copy_slice (cp_Into (copy_ProcChaos L)))])"

end
