(* ===== verification/Deepcopy_Props.thy ===== *)
theory Deepcopy_Props
  imports Deepcopy
begin

text \<open>
  The deep copies of the API keep their contract, one type after the other, and what this means for
  the previous cluster that the status of a topology keeps.
\<close>

section \<open>The contract of the three functions\<close>

definition deep :: "gtype \<Rightarrow> copiers \<Rightarrow> bool" where
  "deep T d \<longleftrightarrow>
     fresh_copy T (cp_Into d) \<and> fresh_copy (TPtr T) (cp_DeepCopy d) \<and>
     (case cp_DeepCopyObject d of None \<Rightarrow> True | Some f \<Rightarrow> fresh_copy (TPtr T) f)"

text \<open>What is relied on of the copies of the metadata.\<close>

definition meta_lib_ok :: "meta_lib \<Rightarrow> bool" where
  "meta_lib_ok L \<longleftrightarrow>
     flat (TypeMeta_type L) \<and> fresh_copy (ObjectMeta_type L) (ObjectMeta_into L) \<and>
     fresh_copy (ListMeta_type L) (ListMeta_into L)"

lemma as_object_id: "as_object f = f"
proof (intro ext)
  show "as_object f v m = f v m" for v m by (cases "f v m") (auto simp: as_object_def)
qed

lemma deep_generated: "fresh_copy T f \<Longrightarrow> deep T (generated f)" "fresh_copy T f \<Longrightarrow> deep T (generated_object f)"
  by (simp_all add: deep_def generated_def generated_object_def as_object_id fresh_ptr)

lemma deep_Into: "deep T d \<Longrightarrow> fresh_copy T (cp_Into d)"
  by (simp add: deep_def)

lemma copies_fields_Nil: "copies_fields fs [] \<longleftrightarrow> (\<forall>x\<in>set fs. flat (snd x))"
  by (simp add: copies_fields_def)

named_theorems deep_copies \<open>copiers that are deep\<close>

lemmas deep_rules = deep_generated fresh_struct fresh_same fresh_ptr fresh_slice fresh_map fresh_through_new deep_Into

section \<open>The structs, each after those it contains\<close>

lemma deep_flat: "flat T \<Longrightarrow> deep T (generated same)"
  by (simp add: deep_rules)

lemma deep_AvailableResource [deep_copies]: "deep AvailableResource_type copy_AvailableResource"
  by (simp add: AvailableResource_type_def copy_AvailableResource_def deep_copies deep_rules copies_fields_def)

lemma deep_MachineSpec [deep_copies]: "deep MachineSpec_type copy_MachineSpec"
  by (simp add: MachineSpec_type_def copy_MachineSpec_def deep_copies deep_rules copies_fields_def)

lemma deep_MachineInfo [deep_copies]: "deep MachineInfo_type copy_MachineInfo"
  by (simp add: MachineInfo_type_def copy_MachineInfo_def deep_copies deep_rules copies_fields_def)

lemma deep_MachineStatus [deep_copies]: "deep MachineStatus_type copy_MachineStatus"
  by (simp add: MachineStatus_type_def copy_MachineStatus_def deep_copies deep_rules copies_fields_def)

lemma deep_Machine [deep_copies]: "meta_lib_ok L \<Longrightarrow> deep (Machine_type L) (copy_Machine L)"
  by (simp add: Machine_type_def copy_Machine_def deep_copies deep_rules copies_fields_def meta_lib_ok_def)

lemma deep_MachineList [deep_copies]: "meta_lib_ok L \<Longrightarrow> deep (MachineList_type L) (copy_MachineList L)"
  by (simp add: MachineList_type_def copy_MachineList_def deep_copies deep_rules copies_fields_def meta_lib_ok_def)

lemma deep_ResourceBinding [deep_copies]: "deep ResourceBinding_type copy_ResourceBinding"
  by (simp add: ResourceBinding_type_def copy_ResourceBinding_def deep_copies deep_rules copies_fields_def)

lemma deep_MachineRef [deep_copies]: "deep MachineRef_type copy_MachineRef"
  by (simp add: MachineRef_type_def copy_MachineRef_def deep_copies deep_rules copies_fields_def)

lemma deep_ResourceRef [deep_copies]: "deep ResourceRef_type copy_ResourceRef"
  by (simp add: ResourceRef_type_def copy_ResourceRef_def deep_copies deep_rules copies_fields_def)

lemma deep_RelationshipStatus [deep_copies]: "deep RelationshipStatus_type copy_RelationshipStatus"
  by (simp add: RelationshipStatus_type_def ResourceRefList_type_def AcceptResources_type_def
    copy_RelationshipStatus_def deep_copies deep_rules copies_fields_def)

lemma deep_Relationship [deep_copies]: "meta_lib_ok L \<Longrightarrow> deep (Relationship_type L) (copy_Relationship L)"
  by (simp add: Relationship_type_def copy_Relationship_def deep_copies deep_rules copies_fields_def meta_lib_ok_def)

lemma deep_RelationshipList [deep_copies]: "meta_lib_ok L \<Longrightarrow> deep (RelationshipList_type L) (copy_RelationshipList L)"
  by (simp add: RelationshipList_type_def copy_RelationshipList_def deep_copies deep_rules copies_fields_def meta_lib_ok_def)

lemma deep_ResourceContainerSpec [deep_copies]: "deep ResourceContainerSpec_type copy_ResourceContainerSpec"
  by (simp add: ResourceContainerSpec_type_def copy_ResourceContainerSpec_def deep_copies deep_rules copies_fields_def)

lemma deep_TestResourceSpec [deep_copies]: "deep TestResourceSpec_type copy_TestResourceSpec"
  by (simp add: TestResourceSpec_type_def copy_TestResourceSpec_def deep_copies deep_rules copies_fields_def)

lemma deep_TestResourceStatus [deep_copies]: "deep TestResourceStatus_type copy_TestResourceStatus"
  by (simp add: TestResourceStatus_type_def copy_TestResourceStatus_def deep_copies deep_rules copies_fields_def)

lemma deep_TestResource [deep_copies]: "meta_lib_ok L \<Longrightarrow> deep (TestResource_type L) (copy_TestResource L)"
  by (simp add: TestResource_type_def copy_TestResource_def deep_copies deep_rules copies_fields_def meta_lib_ok_def)

lemma deep_TestResourceList [deep_copies]: "meta_lib_ok L \<Longrightarrow> deep (TestResourceList_type L) (copy_TestResourceList L)"
  by (simp add: TestResourceList_type_def copy_TestResourceList_def deep_copies deep_rules copies_fields_def meta_lib_ok_def)

lemma deep_ResourceRequestItem [deep_copies]: "deep ResourceRequestItem_type copy_ResourceRequestItem"
  by (simp add: ResourceRequestItem_type_def copy_ResourceRequestItem_def deep_copies deep_rules copies_fields_def)

lemma deep_TestResourceRequestSpec [deep_copies]: "deep TestResourceRequestSpec_type copy_TestResourceRequestSpec"
  by (simp add: TestResourceRequestSpec_type_def copy_TestResourceRequestSpec_def deep_copies deep_rules copies_fields_def)

lemma deep_TestResourceRequest [deep_copies]: "meta_lib_ok L \<Longrightarrow> deep (TestResourceRequest_type L) (copy_TestResourceRequest L)"
  by (simp add: TestResourceRequest_type_def copy_TestResourceRequest_def deep_copies deep_rules copies_fields_def meta_lib_ok_def)

lemma deep_TestResourceRequestList [deep_copies]: "meta_lib_ok L \<Longrightarrow> deep (TestResourceRequestList_type L) (copy_TestResourceRequestList L)"
  by (simp add: TestResourceRequestList_type_def copy_TestResourceRequestList_def deep_copies deep_rules copies_fields_def meta_lib_ok_def)

lemma deep_DMCluster [deep_copies]: "deep DMCluster_type copy_DMCluster"
  by (simp add: DMCluster_type_def copy_DMCluster_def deep_copies deep_rules copies_fields_def)

lemma deep_FlinkCluster [deep_copies]: "deep FlinkCluster_type copy_FlinkCluster"
  by (simp add: FlinkCluster_type_def copy_FlinkCluster_def deep_copies deep_rules copies_fields_def)

lemma deep_TiDBCluster [deep_copies]: "deep TiDBCluster_type copy_TiDBCluster"
  by (simp add: TiDBCluster_type_def copy_TiDBCluster_def deep_copies deep_rules copies_fields_def)

lemma deep_TestClusterTopologySpec [deep_copies]: "deep TestClusterTopologySpec_type copy_TestClusterTopologySpec"
  by (simp add: TestClusterTopologySpec_type_def copy_TestClusterTopologySpec_def deep_copies deep_rules copies_fields_def)

lemma deep_TiDBClusterInfo [deep_copies]: "deep TiDBClusterInfo_type copy_TiDBClusterInfo"
  by (simp add: TiDBClusterInfo_type_def copy_TiDBClusterInfo_def deep_copies deep_rules copies_fields_def)

lemma deep_TestClusterTopologyStatus [deep_copies]: "deep TestClusterTopologyStatus_type copy_TestClusterTopologyStatus"
  by (simp add: TestClusterTopologyStatus_type_def copy_TestClusterTopologyStatus_def deep_copies deep_rules copies_fields_def)

lemma deep_TestClusterTopology [deep_copies]: "meta_lib_ok L \<Longrightarrow> deep (TestClusterTopology_type L) (copy_TestClusterTopology L)"
  by (simp add: TestClusterTopology_type_def copy_TestClusterTopology_def deep_copies deep_rules copies_fields_def meta_lib_ok_def)

lemma deep_TestClusterTopologyList [deep_copies]: "meta_lib_ok L \<Longrightarrow> deep (TestClusterTopologyList_type L) (copy_TestClusterTopologyList L)"
  by (simp add: TestClusterTopologyList_type_def copy_TestClusterTopologyList_def deep_copies deep_rules copies_fields_def meta_lib_ok_def)

lemma deep_ContainerSpec [deep_copies]: "deep ContainerSpec_type copy_ContainerSpec"
  by (simp add: ContainerSpec_type_def copy_ContainerSpec_def deep_copies deep_rules copies_fields_def)

lemma deep_TestWorkloadItemSpec [deep_copies]: "deep TestWorkloadItemSpec_type copy_TestWorkloadItemSpec"
  by (simp add: TestWorkloadItemSpec_type_def copy_TestWorkloadItemSpec_def deep_copies deep_rules copies_fields_def)

lemma deep_TestWorkloadSpec [deep_copies]: "deep TestWorkloadSpec_type copy_TestWorkloadSpec"
  by (simp add: TestWorkloadSpec_type_def copy_TestWorkloadSpec_def deep_copies deep_rules copies_fields_def)

lemma deep_TestWorkloadStatus [deep_copies]: "deep TestWorkloadStatus_type copy_TestWorkloadStatus"
  by (simp add: TestWorkloadStatus_type_def copy_TestWorkloadStatus_def deep_copies deep_rules copies_fields_def)

lemma deep_TestWorkload [deep_copies]: "meta_lib_ok L \<Longrightarrow> deep (TestWorkload_type L) (copy_TestWorkload L)"
  by (simp add: TestWorkload_type_def copy_TestWorkload_def deep_copies deep_rules copies_fields_def meta_lib_ok_def)

lemma deep_TestWorkloadList [deep_copies]: "meta_lib_ok L \<Longrightarrow> deep (TestWorkloadList_type L) (copy_TestWorkloadList L)"
  by (simp add: TestWorkloadList_type_def copy_TestWorkloadList_def deep_copies deep_rules copies_fields_def meta_lib_ok_def)

lemma deep_WorkflowStepItem [deep_copies]: "meta_lib_ok L \<Longrightarrow> deep (WorkflowStepItem_type L) (copy_WorkflowStepItem L)"
  by (simp add: WorkflowStepItem_type_def copy_WorkflowStepItem_def deep_copies deep_rules copies_fields_def meta_lib_ok_def)

lemma deep_TestWorkflowSpec [deep_copies]: "meta_lib_ok L \<Longrightarrow> deep (TestWorkflowSpec_type L) (copy_TestWorkflowSpec L)"
  by (simp add: TestWorkflowSpec_type_def copy_TestWorkflowSpec_def deep_copies deep_rules copies_fields_def meta_lib_ok_def)

lemma deep_TestWorkflow [deep_copies]: "meta_lib_ok L \<Longrightarrow> deep (TestWorkflow_type L) (copy_TestWorkflow L)"
  by (simp add: TestWorkflow_type_def copy_TestWorkflow_def deep_copies deep_rules copies_fields_def meta_lib_ok_def)

lemma deep_TestWorkflowList [deep_copies]: "meta_lib_ok L \<Longrightarrow> deep (TestWorkflowList_type L) (copy_TestWorkflowList L)"
  by (simp add: TestWorkflowList_type_def copy_TestWorkflowList_def deep_copies deep_rules copies_fields_def meta_lib_ok_def)

lemma deep_ProcChaosTask [deep_copies]: "deep ProcChaosTask_type copy_ProcChaosTask"
  by (simp add: ProcChaosTask_type_def copy_ProcChaosTask_def deep_copies deep_rules copies_fields_def)

lemma deep_ProcChaosSpec [deep_copies]: "deep ProcChaosSpec_type copy_ProcChaosSpec"
  by (simp add: ProcChaosSpec_type_def copy_ProcChaosSpec_def deep_copies deep_rules copies_fields_def)

lemma deep_ProcChaosStatus [deep_copies]: "deep ProcChaosStatus_type copy_ProcChaosStatus"
  by (simp add: ProcChaosStatus_type_def copy_ProcChaosStatus_def deep_copies deep_rules copies_fields_def)

lemma deep_ProcChaos [deep_copies]: "meta_lib_ok L \<Longrightarrow> deep (ProcChaos_type L) (copy_ProcChaos L)"
  by (simp add: ProcChaos_type_def copy_ProcChaos_def deep_copies deep_rules copies_fields_def meta_lib_ok_def)

lemma deep_ProcChaosList [deep_copies]: "meta_lib_ok L \<Longrightarrow> deep (ProcChaosList_type L) (copy_ProcChaosList L)"
  by (simp add: ProcChaosList_type_def copy_ProcChaosList_def deep_copies deep_rules copies_fields_def meta_lib_ok_def)

section \<open>All types\<close>

text \<open>The structs of the API with their copiers.\<close>

definition api_types :: "meta_lib \<Rightarrow> (string \<times> gtype \<times> copiers) list" where
  "api_types L =
     [(''DiskResource'', DiskResource_type, copy_DiskResource),
      (''AvailableResource'', AvailableResource_type, copy_AvailableResource),
      (''ReserveResources'', ReserveResources_type, copy_ReserveResources),
      (''MachineSpec'', MachineSpec_type, copy_MachineSpec),
      (''StorageDevice'', StorageDevice_type, copy_StorageDevice),
      (''MachineInfo'', MachineInfo_type, copy_MachineInfo),
      (''MachineStatus'', MachineStatus_type, copy_MachineStatus),
      (''Machine'', Machine_type L, copy_Machine L),
      (''MachineList'', MachineList_type L, copy_MachineList L),
      (''DiskBinding'', DiskBinding_type, copy_DiskBinding),
      (''ResourceBinding'', ResourceBinding_type, copy_ResourceBinding),
      (''MachineRef'', MachineRef_type, copy_MachineRef),
      (''RelationshipSpec'', RelationshipSpec_type, copy_RelationshipSpec),
      (''ResourceRef'', ResourceRef_type, copy_ResourceRef),
      (''RelationshipStatus'', RelationshipStatus_type, copy_RelationshipStatus),
      (''Relationship'', Relationship_type L, copy_Relationship L),
      (''RelationshipList'', RelationshipList_type L, copy_RelationshipList L),
      (''DiskSpec'', DiskSpec_type, copy_DiskSpec),
      (''TestResourceMount'', TestResourceMount_type, copy_TestResourceMount),
      (''ResourceContainerSpec'', ResourceContainerSpec_type, copy_ResourceContainerSpec),
      (''TestResourceSpec'', TestResourceSpec_type, copy_TestResourceSpec),
      (''TestResourceStatus'', TestResourceStatus_type, copy_TestResourceStatus),
      (''TestResource'', TestResource_type L, copy_TestResource L),
      (''TestResourceList'', TestResourceList_type L, copy_TestResourceList L),
      (''MachineRequest'', MachineRequest_type, copy_MachineRequest),
      (''ResourceRequestItem'', ResourceRequestItem_type, copy_ResourceRequestItem),
      (''TestResourceRequestSpec'', TestResourceRequestSpec_type, copy_TestResourceRequestSpec),
      (''TestResourceRequestStatus'', TestResourceRequestStatus_type, copy_TestResourceRequestStatus),
      (''TestResourceRequest'', TestResourceRequest_type L, copy_TestResourceRequest L),
      (''TestResourceRequestList'', TestResourceRequestList_type L, copy_TestResourceRequestList L),
      (''AlertManagerSpec'', AlertManagerSpec_type, copy_AlertManagerSpec),
      (''CDCSpec'', CDCSpec_type, copy_CDCSpec),
      (''Global'', Global_type, copy_Global),
      (''DMServerConfigs'', DMServerConfigs_type, copy_DMServerConfigs),
      (''MasterSpec'', MasterSpec_type, copy_MasterSpec),
      (''WorkerSpec'', WorkerSpec_type, copy_WorkerSpec),
      (''PrometheusSpec'', PrometheusSpec_type, copy_PrometheusSpec),
      (''GrafanaSpec'', GrafanaSpec_type, copy_GrafanaSpec),
      (''DMCluster'', DMCluster_type, copy_DMCluster),
      (''DrainerSpec'', DrainerSpec_type, copy_DrainerSpec),
      (''JobManagerSpec'', JobManagerSpec_type, copy_JobManagerSpec),
      (''TaskManagerSpec'', TaskManagerSpec_type, copy_TaskManagerSpec),
      (''FlinkCluster'', FlinkCluster_type, copy_FlinkCluster),
      (''HAProxy'', HAProxy_type, copy_HAProxy),
      (''PDSpec'', PDSpec_type, copy_PDSpec),
      (''PumpSpec'', PumpSpec_type, copy_PumpSpec),
      (''ServerConfigs'', ServerConfigs_type, copy_ServerConfigs),
      (''TiDBClusterVersion'', TiDBClusterVersion_type, copy_TiDBClusterVersion),
      (''TiDBSpec'', TiDBSpec_type, copy_TiDBSpec),
      (''TiKVSpec'', TiKVSpec_type, copy_TiKVSpec),
      (''TiFlashSpec'', TiFlashSpec_type, copy_TiFlashSpec),
      (''TiDBCluster'', TiDBCluster_type, copy_TiDBCluster),
      (''TestClusterTopologySpec'', TestClusterTopologySpec_type, copy_TestClusterTopologySpec),
      (''TiDBClusterInfo'', TiDBClusterInfo_type, copy_TiDBClusterInfo),
      (''TestClusterTopologyStatus'', TestClusterTopologyStatus_type, copy_TestClusterTopologyStatus),
      (''TestClusterTopology'', TestClusterTopology_type L, copy_TestClusterTopology L),
      (''TestClusterTopologyList'', TestClusterTopologyList_type L, copy_TestClusterTopologyList L),
      (''ClusterTopologyRef'', ClusterTopologyRef_type, copy_ClusterTopologyRef),
      (''ResourceRequestRef'', ResourceRequestRef_type, copy_ResourceRequestRef),
      (''ContainerSpec'', ContainerSpec_type, copy_ContainerSpec),
      (''TestWorkloadItemSpec'', TestWorkloadItemSpec_type, copy_TestWorkloadItemSpec),
      (''TestWorkloadSpec'', TestWorkloadSpec_type, copy_TestWorkloadSpec),
      (''WorkloadStatus'', WorkloadStatus_type, copy_WorkloadStatus),
      (''TestWorkloadResult'', TestWorkloadResult_type, copy_TestWorkloadResult),
      (''TestWorkloadStatus'', TestWorkloadStatus_type, copy_TestWorkloadStatus),
      (''TestWorkload'', TestWorkload_type L, copy_TestWorkload L),
      (''TestWorkloadList'', TestWorkloadList_type L, copy_TestWorkloadList L),
      (''WorkflowStepItem'', WorkflowStepItem_type L, copy_WorkflowStepItem L),
      (''TestWorkflowSpec'', TestWorkflowSpec_type L, copy_TestWorkflowSpec L),
      (''TestWorkflowStatus'', TestWorkflowStatus_type, copy_TestWorkflowStatus),
      (''TestWorkflow'', TestWorkflow_type L, copy_TestWorkflow L),
      (''TestWorkflowList'', TestWorkflowList_type L, copy_TestWorkflowList L),
      (''ProcChaosTask'', ProcChaosTask_type, copy_ProcChaosTask),
      (''ProcChaosSpec'', ProcChaosSpec_type, copy_ProcChaosSpec),
      (''ProcChaosState'', ProcChaosState_type, copy_ProcChaosState),
      (''ProcChaosStatus'', ProcChaosStatus_type, copy_ProcChaosStatus),
      (''ProcChaos'', ProcChaos_type L, copy_ProcChaos L),
      (''ProcChaosList'', ProcChaosList_type L, copy_ProcChaosList L)]"

lemma api_types_deep: "meta_lib_ok L \<Longrightarrow> (n, T, d) \<in> set (api_types L) \<Longrightarrow> deep T d"
  by (auto simp: api_types_def deep_copies deep_flat flat_copiers)

text \<open>The two slice types: \<open>DeepCopy\<close> is deep, while \<open>DeepCopyInto\<close> makes an empty slice of nil.\<close>

lemma slice_DeepCopy:
  assumes "fresh_copy T f"
  shows "fresh_copy (TSlice T) (cp_DeepCopy (generated_slice f))"
proof (rule fresh_copyI)
  fix m v assume v: "shaped (TSlice T) m v"
  show "\<exists>w new. cp_DeepCopy (generated_slice f) v m = Done (w, m @ new) \<and> copied (TSlice T) m (m @ new) v w"
  proof (cases "v = Slice None")
    case True
    then have "cp_DeepCopy (generated_slice f) v m = Done (v, m @ [])" "copied (TSlice T) m (m @ []) v v"
      by (simp_all add: generated_slice_def copied_def)
    then show ?thesis by blast
  next
    case False
    from fresh_make_slice [OF assms v this] obtain w new where
      w: "make_slice f v m = Done (w, m @ new)" "copied (TSlice T) m (m @ new) v w" by blast
    from copied_extended [OF w(2), of "[One w]"]
    have "cp_DeepCopy (generated_slice f) v m = Done (w, m @ (new @ [One w])) \<and> copied (TSlice T) m (m @ (new @ [One w])) v w"
      using False w(1) by (simp add: generated_slice_def through_new_def)
    then show ?thesis by blast
  qed
qed

lemma slices_deep:
  "fresh_copy AcceptResources_type (cp_DeepCopy copy_AcceptResources)"
  "fresh_copy ResourceRefList_type (cp_DeepCopy copy_ResourceRefList)"
  by (simp_all add: AcceptResources_type_def ResourceRefList_type_def copy_AcceptResources_def copy_ResourceRefList_def
      slice_DeepCopy deep_rules deep_copies)

lemma nil_slice_Into: "cp_Into copy_AcceptResources (Slice None) m = Done (Slice (Some (length m, 0, 0)), m @ [Arr []])"
  by (simp add: copy_AcceptResources_def generated_slice_def make_slice_def)

text \<open>
  Every copying function of the package: for each struct \<open>DeepCopyInto\<close> and \<open>DeepCopy\<close>, for each kind
  of object \<open>DeepCopyObject\<close> as well, and \<open>DeepCopy\<close> of the two slice types; each with the type it
  copies. Left out are only the \<open>DeepCopyInto\<close> of the slice types, see \<open>nil_slice_Into\<close>.
\<close>

definition copy_functions :: "meta_lib \<Rightarrow> (string \<times> gtype \<times> copier) list" where
  "copy_functions L =
     concat (map (\<lambda>(n, T, d).
       [(n @ ''.DeepCopyInto'', T, cp_Into d), (n @ ''.DeepCopy'', TPtr T, cp_DeepCopy d)] @
       (case cp_DeepCopyObject d of None \<Rightarrow> [] | Some f \<Rightarrow> [(n @ ''.DeepCopyObject'', TPtr T, f)])) (api_types L)) @
     [(''AcceptResources.DeepCopy'', AcceptResources_type, cp_DeepCopy copy_AcceptResources),
      (''ResourceRefList.DeepCopy'', ResourceRefList_type, cp_DeepCopy copy_ResourceRefList)]"

lemma copy_functions_deep:
  assumes "meta_lib_ok L" "(n, T, f) \<in> set (copy_functions L)"
  shows "fresh_copy T f"
  using assms(2) api_types_deep [OF assms(1)] slices_deep
  by (auto simp: copy_functions_def deep_def split: option.splits) (metis option.case_eq_if option.distinct(1) option.sel)+

definition fields_of :: "gval \<Rightarrow> (string \<times> gval) list" where
  "fields_of v = (case v of Struct vs \<Rightarrow> vs | _ \<Rightarrow> [])"

text \<open>
  Small values for the theorems below: the zero value of a type, with every scalar an empty text, a library of metadata
  with a name, finalizers and labels, and a machine status with its storage devices.
\<close>

fun zero_of :: "gtype \<Rightarrow> gval" where
  "zero_of TScalar = Scalar (GoString [])"
| "zero_of (TStruct fs) = Struct (map (\<lambda>x. (fst x, zero_of (snd x))) fs)"
| "zero_of (TPtr T) = Ptr None"
| "zero_of (TSlice T) = Slice None"
| "zero_of (TMap T) = MapOf None"

definition with_field :: "string \<Rightarrow> gval \<Rightarrow> gval \<Rightarrow> gval" where
  "with_field F x v = Struct (AList.update F x (fields_of v))"

definition demo_meta_lib :: meta_lib where
  "demo_meta_lib =
     \<lparr>TypeMeta_type = TStruct [(''Kind'', TScalar), (''APIVersion'', TScalar)],
      ObjectMeta_type = TStruct [(''Name'', TScalar), (''Labels'', TMap TScalar), (''Finalizers'', TSlice TScalar)],
      ListMeta_type = TStruct [(''ResourceVersion'', TScalar)],
      ObjectMeta_into = into [(''Labels'', copy_map same), (''Finalizers'', copy_slice same)],
      ListMeta_into = same\<rparr>"

lemma demo_meta_lib_ok: "meta_lib_ok demo_meta_lib"
  by (simp add: meta_lib_ok_def demo_meta_lib_def deep_rules copies_fields_def)

definition demo_status_mem :: mem where
  "demo_status_mem =
     [One (with_field ''Info'' (Ptr (Some 1)) (zero_of MachineStatus_type)),
      One (with_field ''StorageDevices'' (MapOf (Some 2)) (zero_of MachineInfo_type)),
      Entries [(''/dev/nvme0'', zero_of StorageDevice_type)]]"

lemma demo_status_shaped: "shaped (TPtr MachineStatus_type) demo_status_mem (Ptr (Some 0))"
  by code_simp

text \<open>C39: \<open>DeepCopyInto\<close> and \<open>DeepCopy\<close> of every struct of the API, \<open>DeepCopyObject\<close> of every kind of object and
  \<open>DeepCopy\<close> of the two slice types make a copy without a panic that looks like the original, and
  whatever is written later to what the original reaches is not seen in the copy, nor the other way
  round; given that the copies of the Kubernetes metadata are of this kind.\<close>

theorem deep_copies_isolated:
  assumes "meta_lib_ok L" "(n, T, f) \<in> set (copy_functions L)" "shaped T m v"
  shows "\<exists>w m'. f v m = Done (w, m') \<and> view T m' w = view T m v \<and>
    (\<forall>W m''. writes_only W m' m'' \<longrightarrow>
       (W \<subseteq> cells T m' v \<longrightarrow> view T m'' w = view T m v) \<and>
       (W \<subseteq> cells T m' w \<longrightarrow> view T m'' v = view T m v))"
proof -
  from copy_functions_deep [OF assms(1,2)] have copier: "deep_copier T f" by unfold_locales
  from deep_copier.makes [OF copier assms(3)] obtain w m' where
    w: "f v m = Done (w, m')" "view T m' w = view T m v" by blast
  have apart: "cells T m' v \<inter> cells T m' w = {}"
    by (rule deep_copier.old_apart(3) [OF copier assms(3) w(1) assms(3)])
  have "view T m'' w = view T m v" if "writes_only W m' m''" "W \<subseteq> cells T m' v" for W m''
    using deep_copier.copy_isolated [OF copier assms(3) w(1) that(1)] that(2) apart by blast
  moreover have "view T m'' v = view T m v" if "writes_only W m' m''" "W \<subseteq> cells T m' w" for W m''
    using deep_copier.original_isolated [OF copier assms(3) w(1) assms(3) that(1)] that(2) apart by blast
  ultimately show ?thesis using w by blast
qed

theorem deep_copies_isolated_witness:
  "\<exists>w m'. cp_DeepCopy copy_MachineStatus (Ptr (Some 0)) demo_status_mem = Done (w, m') \<and>
     view (TPtr MachineStatus_type) m' w = view (TPtr MachineStatus_type) demo_status_mem (Ptr (Some 0))"
proof -
  have "(''MachineStatus.DeepCopy'', TPtr MachineStatus_type, cp_DeepCopy copy_MachineStatus) \<in> set (copy_functions demo_meta_lib)"
    by (simp add: copy_functions_def api_types_def)
  from deep_copies_isolated [OF demo_meta_lib_ok this demo_status_shaped] show ?thesis by blast
qed

lemma copy_functions_count: "length (copy_functions demo_meta_lib) = 174"
  by code_simp

section \<open>The previous cluster of a topology\<close>

text \<open>The parts of a topology object that are concerned.\<close>

definition spec_part :: "gval \<Rightarrow> gval" where
  "spec_part ct = field (fields_of ct) ''Spec''"

definition status_part :: "gval \<Rightarrow> gval" where
  "status_part ct = field (fields_of ct) ''Status''"

definition spec_cluster :: "gval \<Rightarrow> gval" where
  "spec_cluster ct = field (fields_of (spec_part ct)) ''TiDBCluster''"

definition previous_cluster :: "gval \<Rightarrow> gval" where
  "previous_cluster ct = field (fields_of (status_part ct)) ''PreTiDBCluster''"

text \<open>
  \<open>ct.Status.PreTiDBCluster = ct.Spec.TiDBCluster.DeepCopy()\<close>, as in \<open>Reconcile\<close> of the topology
  controller when a cluster becomes ready.
\<close>

definition record_cluster :: copier where
  "record_cluster ct m =
     go_bind (cp_DeepCopy copy_TiDBCluster (spec_cluster ct) m) (\<lambda>(pre, m').
       Done (Struct (AList.update ''Status'' (Struct (AList.update ''PreTiDBCluster'' pre (fields_of (status_part ct))))
               (fields_of ct)), m'))"

interpretation tidb_copier: deep_copier "TPtr TiDBCluster_type" "cp_DeepCopy copy_TiDBCluster"
  using deep_TiDBCluster by unfold_locales (simp add: deep_def)

lemma struct_fields: "shaped (TStruct fs) m v \<Longrightarrow> (F, T) \<in> set fs \<Longrightarrow> shaped T m (field (fields_of v) F)"
  unfolding shaped_iff by (auto simp: fields_of_def)

lemma topology_parts:
  assumes "shaped (TestClusterTopology_type L) m ct"
  shows "shaped TestClusterTopologySpec_type m (spec_part ct)" "shaped (TPtr TiDBCluster_type) m (spec_cluster ct)"
proof -
  show spec: "shaped TestClusterTopologySpec_type m (spec_part ct)"
    unfolding spec_part_def by (rule struct_fields [OF assms [unfolded TestClusterTopology_type_def]]) simp
  show "shaped (TPtr TiDBCluster_type) m (spec_cluster ct)"
    unfolding spec_cluster_def by (rule struct_fields [OF spec [unfolded TestClusterTopologySpec_type_def]]) simp
qed

lemma recorded:
  assumes "cp_DeepCopy copy_TiDBCluster (spec_cluster ct) m = Done (pre, m')"
  obtains ct' where "record_cluster ct m = Done (ct', m')" "spec_part ct' = spec_part ct" "previous_cluster ct' = pre"
proof
  let ?ct = "Struct (AList.update ''Status'' (Struct (AList.update ''PreTiDBCluster'' pre (fields_of (status_part ct)))) (fields_of ct))"
  show "record_cluster ct m = Done (?ct, m')" by (simp add: record_cluster_def assms)
  show "spec_part ?ct = spec_part ct" by (simp add: spec_part_def fields_of_def field_update)
  show "previous_cluster ?ct = pre" by (simp add: previous_cluster_def status_part_def fields_of_def field_update)
qed

text \<open>C40: when a cluster is ready, the status records it as it is in the specification; what is written later to
  the specification does not change the record, and what is written to the record (a scale-in fills in ports there)
  does not change the specification.\<close>

theorem previous_cluster_kept:
  assumes "shaped (TestClusterTopology_type L) m ct"
  shows "\<exists>ct' m'. record_cluster ct m = Done (ct', m') \<and> spec_part ct' = spec_part ct \<and>
    view (TPtr TiDBCluster_type) m' (previous_cluster ct') = view (TPtr TiDBCluster_type) m (spec_cluster ct) \<and>
    (\<forall>W m''. writes_only W m' m'' \<longrightarrow>
       (W \<subseteq> cells TestClusterTopologySpec_type m' (spec_part ct') \<longrightarrow>
          view (TPtr TiDBCluster_type) m'' (previous_cluster ct') = view (TPtr TiDBCluster_type) m (spec_cluster ct)) \<and>
       (W \<subseteq> cells (TPtr TiDBCluster_type) m' (previous_cluster ct') \<longrightarrow>
          view TestClusterTopologySpec_type m'' (spec_part ct') = view TestClusterTopologySpec_type m (spec_part ct)))"
proof -
  note parts = topology_parts [OF assms]
  from tidb_copier.makes [OF parts(2)] obtain pre m' where
    pre: "cp_DeepCopy copy_TiDBCluster (spec_cluster ct) m = Done (pre, m')"
    "view (TPtr TiDBCluster_type) m' pre = view (TPtr TiDBCluster_type) m (spec_cluster ct)" by blast
  obtain ct' where ct': "record_cluster ct m = Done (ct', m')" "spec_part ct' = spec_part ct" "previous_cluster ct' = pre"
    by (rule recorded [OF pre(1)])
  note apart = tidb_copier.old_apart(3) [OF parts(2) pre(1) parts(1)]
  have "view (TPtr TiDBCluster_type) m'' pre = view (TPtr TiDBCluster_type) m (spec_cluster ct)"
    if "writes_only W m' m''" "W \<subseteq> cells TestClusterTopologySpec_type m' (spec_part ct)" for W m''
    using tidb_copier.copy_isolated [OF parts(2) pre(1) that(1)] that(2) apart by blast
  moreover have "view TestClusterTopologySpec_type m'' (spec_part ct) = view TestClusterTopologySpec_type m (spec_part ct)"
    if "writes_only W m' m''" "W \<subseteq> cells (TPtr TiDBCluster_type) m' pre" for W m''
    using tidb_copier.original_isolated [OF parts(2) pre(1) parts(1) that(1)] that(2) apart by blast
  ultimately show ?thesis using pre(2) ct' by auto
qed

definition demo_topology_mem :: mem where
  "demo_topology_mem =
     [One (with_field ''TiDB'' (Slice (Some (1, 0, 1))) (zero_of TiDBCluster_type)), Arr [zero_of TiDBSpec_type]]"

definition demo_topology_val :: gval where
  "demo_topology_val =
     with_field ''Spec'' (with_field ''TiDBCluster'' (Ptr (Some 0)) (zero_of TestClusterTopologySpec_type))
       (zero_of (TestClusterTopology_type demo_meta_lib))"

lemma demo_topology_shaped: "shaped (TestClusterTopology_type demo_meta_lib) demo_topology_mem demo_topology_val"
  by code_simp

theorem previous_cluster_kept_witness:
  "\<exists>ct' m'. record_cluster demo_topology_val demo_topology_mem = Done (ct', m') \<and>
     view (TPtr TiDBCluster_type) m' (previous_cluster ct') =
       view (TPtr TiDBCluster_type) demo_topology_mem (spec_cluster demo_topology_val)"
  using previous_cluster_kept [OF demo_topology_shaped] by blast

end
