(* ===== verification/Panics.thy ===== *)
theory Panics
  imports Env
begin

text \<open>
  A small calculus for the panics of a controller: an action panics only with certain messages when
  its parts do, one rule per construct of the handlers.
\<close>

section \<open>Panics of an action\<close>

text \<open>\<open>panics_only P m\<close>: when \<open>m\<close> panics, it does so with a message of \<open>P\<close>.\<close>

definition panics_only :: "(string \<Rightarrow> bool) \<Rightarrow> 'a go io \<Rightarrow> bool" where
  "panics_only P m \<longleftrightarrow> (\<forall>h p h'. run_state m h = (Panicked p, h') \<longrightarrow> P p)"

lemma panics_onlyD: "panics_only P m \<Longrightarrow> run_state m h = (Panicked p, h') \<Longrightarrow> P p"
  unfolding panics_only_def by blast

lemma panics_weaken: "panics_only P m \<Longrightarrow> (\<And>p. P p \<Longrightarrow> Q p) \<Longrightarrow> panics_only Q m"
  unfolding panics_only_def by blast

lemma panics_return:
  "panics_only P (State_Monad.return (Done x))" "panics_only P (State_Monad.return Running)"
  "P p \<Longrightarrow> panics_only P (crash p)" "panics_only P (finish r err)"
  by (simp_all add: panics_only_def io_simps)

lemma panics_bind:
  "(\<And>x h h'. run_state m h = (x, h') \<Longrightarrow> panics_only P (f x)) \<Longrightarrow> panics_only P (State_Monad.bind m f)"
  unfolding panics_only_def by (auto simp: run_state_bind split: prod.splits)

lemma panics_if: "(b \<Longrightarrow> panics_only P m) \<Longrightarrow> (\<not> b \<Longrightarrow> panics_only P n) \<Longrightarrow> panics_only P (if b then m else n)"
  by simp

lemma panics_case:
  "(\<And>x. s = Inl x \<Longrightarrow> panics_only P (f x)) \<Longrightarrow> (\<And>y. s = Inr y \<Longrightarrow> panics_only P (g y)) \<Longrightarrow>
     panics_only P (case s of Inl x \<Rightarrow> f x | Inr y \<Rightarrow> g y)"
  "(o' = None \<Longrightarrow> panics_only P m) \<Longrightarrow> (\<And>x. o' = Some x \<Longrightarrow> panics_only P (k x)) \<Longrightarrow>
     panics_only P (case o' of None \<Rightarrow> m | Some x \<Rightarrow> k x)"
  by (cases s, auto) (cases o', auto)

lemma panics_pair: "(\<And>x y. p = (x, y) \<Longrightarrow> panics_only P (f x y)) \<Longrightarrow> panics_only P (case p of (x, y) \<Rightarrow> f x y)"
  by (cases p) auto

lemma panics_go:
  "(\<And>p. r = Panicked p \<Longrightarrow> P p) \<Longrightarrow> (\<And>x. r = Done x \<Longrightarrow> panics_only P (k x)) \<Longrightarrow>
   panics_only P (case r of Panicked p \<Rightarrow> crash p | Running \<Rightarrow> State_Monad.return Running | Done x \<Rightarrow> k x)"
  by (cases r) (auto intro: panics_return)

lemmas panics_intros = panics_return panics_bind panics_if panics_case panics_pair panics_go

end
