(* ===== verification/Request_Returns.thy ===== *)
theory Request_Returns
  imports Progress Panics
begin

text \<open>
  With which panics a run of the request controller can end, when the world holds what the webhooks
  and the other controllers have written.
\<close>

section \<open>The resources of a pending request\<close>

text \<open>When the number of resources is that of the items and each is named after one, every item has its resource.\<close>

lemma scanned_complete:
  assumes scan: "scan_resources uid rs [] 0 = Inr (rm, n)" and number: "length rm = length items"
    and named: "\<And>r owner. r \<in> set rs \<Longrightarrow> meta_Controller (tr_Meta r) = Some owner \<Longrightarrow> or_UID owner = uid \<Longrightarrow>
      tr_Name r \<in> rri_Name ` set items"
    and item: "i \<in> set items"
  shows "map_of rm (rri_Name i) \<noteq> None"
proof -
  note rm = scan_resources_Inr [OF scan]
  have "gm_keys rm = tr_Name ` set rs" using rm(4) by simp
  also have "\<dots> \<subseteq> rri_Name ` set items"
  proof
    fix n assume "n \<in> tr_Name ` set rs"
    then obtain r where r: "r \<in> set rs" "n = tr_Name r" by blast
    from rm(1) r(1) obtain owner where "meta_Controller (tr_Meta r) = Some owner" "or_UID owner = uid" by auto
    from named [OF r(1) this] show "n \<in> rri_Name ` set items" unfolding r(2) .
  qed
  finally have keys: "gm_keys rm \<subseteq> rri_Name ` set items" .
  have "card (rri_Name ` set items) \<le> length rm" using card_length [of "map rri_Name items"] number by simp
  also have "length rm = card (gm_keys rm)" using rm(3) distinct_card [of "map fst rm"] by simp
  finally have "gm_keys rm = rri_Name ` set items" using keys by (intro card_seteq) simp_all
  then have "rri_Name i \<in> gm_keys rm" using item by simp
  then show ?thesis unfolding map_of_not_None_iff [symmetric] by simp
qed

section \<open>The request controller\<close>

text \<open>
  What a run of the controller may read: requests that the webhook has accepted, a relationship that
  its controller has initialised, machines with a reserve (set by their webhook), and in the namespace
  of the request no resources of its own but those it has created for its items.
\<close>

definition request_world :: "env \<Rightarrow> units \<Rightarrow> nsname \<Rightarrow> bool" where
  "request_world e u req \<longleftrightarrow>
     (\<forall>h request. ask_request e h req = Inr request \<longrightarrow>
        TestResourceRequest_ValidateCreate u request = None \<and>
        (\<forall>h rs. ask_resources e h (meta_Namespace (trr_Meta request)) = Inr rs \<longrightarrow>
           (\<forall>r\<in>set rs. \<forall>owner. meta_Controller (tr_Meta r) = Some owner \<longrightarrow> or_UID owner = meta_UID (trr_Meta request) \<longrightarrow>
              tr_Name r \<in> rri_Name ` set (trrs_Items (trr_Spec request))))) \<and>
     (\<forall>h. case ask_relationship e h relationshipName of
        Inl err \<Rightarrow> \<not> IsNotFound (Some err) | Inr rel \<Rightarrow> Initialized (rel_Status rel)) \<and>
     (\<forall>h ms. ask_machines e h = Inr ms \<longrightarrow> (\<forall>m\<in>set ms. ms_Reserve (m_Spec m) \<noteq> None))"

lemma request_worldD:
  assumes "request_world e u req"
  shows "ask_request e h req = Inr request \<Longrightarrow> TestResourceRequest_ValidateCreate u request = None"
    and "ask_request e h req = Inr request \<Longrightarrow> ask_resources e h1 (meta_Namespace (trr_Meta request)) = Inr rs \<Longrightarrow>
      r \<in> set rs \<Longrightarrow> meta_Controller (tr_Meta r) = Some owner \<Longrightarrow> or_UID owner = meta_UID (trr_Meta request) \<Longrightarrow>
      tr_Name r \<in> rri_Name ` set (trrs_Items (trr_Spec request))"
    and "ask_machines e h = Inr ms \<Longrightarrow> m \<in> set ms \<Longrightarrow> ms_Reserve (m_Spec m) \<noteq> None"
  using assms unfolding request_world_def by blast+

lemma relationship_initialized:
  "request_world e u req \<Longrightarrow> run_state (getRelationship e) h = (Inr rel, h') \<Longrightarrow> Initialized (rel_Status rel)"
  by (auto simp: request_world_def io_simps split: sum.splits if_splits dest!: spec [of _ h])

lemma machines_reserve:
  assumes "request_world e u req" "run_state (getMachines e) h = (Inr machines, h')"
  shows "\<forall>(n, m)\<in>set machines. ms_Reserve (m_Spec m) \<noteq> None"
proof -
  from getMachines_answer [OF assms(2)] obtain ms where ms: "ask_machines e h = Inr ms" "machines = getMachines_book ms" by blast
  from request_worldD(3) [OF assms(1) ms(1)] have "\<forall>m\<in>set ms. ms_Reserve (m_Spec m) \<noteq> None" by blast
  then show ?thesis using getMachines_book_ready [of _ _ ms] ms(2) by fastforce
qed

lemma resources_complete:
  assumes "request_world e u req" "ask_request e h0 req = Inr request"
    and "run_state (listResources e request) h = (Inr rs, h')"
    and "scan_resources (meta_UID (trr_Meta request)) rs [] 0 = Inr (rm, n)" "length rm = length (trrs_Items (trr_Spec request))"
  shows "\<forall>i\<in>set (trrs_Items (trr_Spec request)). map_of rm (rri_Name i) \<noteq> None"
proof
  fix i assume i: "i \<in> set (trrs_Items (trr_Spec request))"
  from assms(3) have "ask_resources e h (meta_Namespace (trr_Meta request)) = Inr rs" by (simp add: listResources_def io_simps)
  with assms(1,2) show "map_of rm (rri_Name i) \<noteq> None"
    by (intro scanned_complete [OF assms(4,5) _ i] request_worldD(2) [OF assms(1,2)])
qed

lemma panics_tries:
  "(\<And>err. panics_only P (f err)) \<Longrightarrow> (\<And>m. panics_only P (g m)) \<Longrightarrow> (\<And>s. panics_only P (k s)) \<Longrightarrow>
   panics_only P (case t of TryFailed err \<Rightarrow> f err | TryLater m \<Rightarrow> g m | TryAccepted s \<Rightarrow> k s)"
  by (cases t) simp_all

lemma tryRequest_returns:
  assumes "fair c" "request_world e u req" "TestResourceRequest_ValidateCreate u request = None"
    and "Initialized (rel_Status rel)" "\<forall>i\<in>set (trrs_Items (trr_Spec request)). map_of rm (rri_Name i) \<noteq> None"
  shows "panics_only size_panic (tryRequest e u c rel request rm)"
  unfolding tryRequest_def
proof (intro panics_intros panics_tries)
  show "size_panic p" if "run_state (getMachines e) h = (r, h')" "r = Inr machines"
    "tryRequest_core u c (rel_Status rel) request rm machines = Panicked p" for r h h' machines p
    using tryRequest_panics [OF assms(1,4,3,5) machines_reserve [OF assms(2)] that(3)] that(1,2) by blast
qed

lemma create_missing_returns: "panics_only P (create_missing e setref request rm items)"
  by (induction items) (auto intro!: panics_intros)

lemma pending_returns:
  assumes "fair c" "request_world e u req" "ask_request e h0 req = Inr request"
  shows "panics_only size_panic (reconcilePending e u c setref request)"
proof -
  have "TestResourceRequest_ValidateCreate u request = None" by (rule request_worldD(1) [OF assms(2,3)])
  then show ?thesis
    unfolding reconcilePending_def
    by (intro panics_intros create_missing_returns tryRequest_returns [OF assms(1,2)])
      (auto dest: relationship_initialized [OF assms(2)] resources_complete [OF assms(2,3)])
qed

lemma deletion_returns: "requestFinalizer \<in> set (meta_Finalizers (trr_Meta request)) \<Longrightarrow> panics_only P (reconcileDeletion e request)"
  unfolding reconcileDeletion_def by (intro panics_intros) (simp add: drop_finalizer_present)

lemma request_states:
  "panics_only P none \<Longrightarrow> panics_only P pending \<Longrightarrow> panics_only P ready \<Longrightarrow> (\<And>s. panics_only P (other s)) \<Longrightarrow>
   panics_only P (case st of RequestStateNone \<Rightarrow> none | TestResourceRequestPending \<Rightarrow> pending
     | TestResourceRequestReady \<Rightarrow> ready | UnknownRequestState s \<Rightarrow> other s)"
  by (cases st) simp_all

text \<open>Whatever happens while it runs, the request controller neither dereferences a nil pointer nor writes
  to a nil map: the only panic it can end with is a size that cannot be read, as long as it reads requests
  that were accepted, an initialised relationship, machines with a reserve and resources made for the items.\<close>

theorem request_returns:
  assumes "fair c" "request_world e u req" "run_state (Request_Reconcile e u c setref req) h = (Panicked p, h')"
  shows "size_panic p"
proof -
  have "panics_only size_panic (Request_Reconcile e u c setref req)"
    unfolding Request_Reconcile_def reconcileReady_def
    by (intro panics_intros request_states)
      (auto intro: deletion_returns pending_returns [OF assms(1,2)] dest!: request_answer simp: being_deleted_def StringsContains_iff)
  then show ?thesis using assms(3) by (rule panics_onlyD)
qed

text \<open>The waiting request of one item in a world whose only machine has an unreadable amount of memory.\<close>

definition demo_broken_env :: env where
  "demo_broken_env = demo_pending_env\<lparr>ask_machines := \<lambda>h. Inr (map snd demo_broken)\<rparr>"

lemma demo_broken_world: "request_world demo_broken_env demo_units relationshipName"
proof -
  have "TestResourceRequest_ValidateCreate demo_units demo_waiting = None" by code_simp
  moreover have "Initialized demo_status" by code_simp
  moreover have "tr_Name demo_owned \<in> rri_Name ` set (trrs_Items (trr_Spec demo_waiting))" by code_simp
  moreover have "\<forall>m\<in>set (map snd demo_broken). ms_Reserve (m_Spec m) \<noteq> None"
    by (simp add: demo_broken_def demo_machine_def)
  ultimately show ?thesis by (simp add: request_world_def demo_broken_env_def demo_pending_env_def)
qed

lemma demo_broken_panics:
  "\<exists>p h'. run_state (Request_Reconcile demo_broken_env demo_units demo_choices (\<lambda>_ r. Inr r) relationshipName) [] = (Panicked p, h')"
proof -
  let ?rel = "\<lparr>rel_Meta = demo_meta (nn_Name relationshipName) ''u0'', rel_Status = demo_status\<rparr>"
  let ?rm = "[(tr_Name demo_owned, demo_owned)]"
  have world: "shows_pending demo_broken_env relationshipName demo_waiting demo_owned ?rel (map snd demo_broken)"
    by (simp add: shows_pending_def demo_broken_env_def demo_pending_env_def)
  have waits: "waits demo_waiting demo_owned ?rel" by code_simp
  have one: "length (trrs_Items (trr_Spec demo_waiting)) = 1" by code_simp
  have "tryRequest_core demo_units demo_choices demo_status demo_waiting ?rm (getMachines_book (map snd demo_broken)) =
    Panicked ''BytesSize(8 sticks) is invalid''" by code_simp
  with pending_tries [OF world waits one, of demo_units demo_choices "\<lambda>_ r. Inr r" "[]"] show ?thesis
    by (auto simp: tryRequest_def getMachines_def io_simps demo_broken_env_def)
qed

text \<open>
  That the resources bear the names of the items is needed. No webhook keeps the items of a request
  from being renamed while it waits: then the resource made for the old name still counts as many as there are
  items, and the scheduler dereferences the missing resource of the new name.
\<close>

lemma renamed_item_panics:
  "tryRequest_core demo_units demo_choices demo_status
     (demo_waiting\<lparr>trr_Spec := (trr_Spec demo_waiting)\<lparr>trrs_Items := map (rri_Name_update (\<lambda>_. ''n3'')) (trrs_Items (trr_Spec demo_waiting))\<rparr>\<rparr>)
     [(tr_Name demo_owned, demo_owned)] demo_machines = Panicked nil_deref"
  by code_simp

end
