(* ===== verification/Resource_Returns.thy ===== *)
theory Resource_Returns
  imports Concurrency Panics
begin

text \<open>
  With which panics a run of the resource controller can end while concurrent workers write the
  relationship: the release of a place is safe in every version they store.
\<close>

text \<open>
  What is read: the relationship in one of its versions or not at all, a machine under the reference of
  the relationship that is the one referred to (not a later one of the same name), and containers that
  publish each exposed port.
\<close>

definition resource_world :: "env \<Rightarrow> RelationshipStatus set \<Rightarrow> bool" where
  "resource_world e versions \<longleftrightarrow>
     (\<forall>h rel. ask_relationship e h relationshipName = Inr rel \<longrightarrow> rel_Status rel \<in> versions \<and>
        (\<forall>k mr h m. nil_get (ResourceToMachine (rel_Status rel)) k = Some mr \<longrightarrow>
           ask_machine e h (Namespaced (mr_Ref mr)) = Inr m \<longrightarrow> CreateRef (m_Meta m) = mr_Ref mr)) \<and>
     (\<forall>h d name stats. ask_inspect e h d name = Inr stats \<longrightarrow> (\<forall>(port, hostPorts)\<in>set (cj_Ports stats). hostPorts \<noteq> []))"

lemma add_ports_Done: "\<forall>(port, hostPorts)\<in>set ports. hostPorts \<noteq> [] \<Longrightarrow> \<exists>s. add_ports acc ports = Done s"
  by (induction ports arbitrary: acc) (auto split: list.split)

lemma ready_status_Done:
  "\<forall>(port, hostPorts)\<in>set (cj_Ports stats). hostPorts \<noteq> [] \<Longrightarrow> ready_status stats ip s \<noteq> Panicked p"
  using add_ports_Done [of "cj_Ports stats"] by (auto simp: ready_status_def Let_def go_bind_Panicked_iff) (metis go.distinct(1))

lemma createContainer_panic: "run_state (createContainer e u resource d) h = (Panicked p, h') \<Longrightarrow> size_panic p"
  by (auto simp: createContainer_def ContainerConfig_def Let_def io_simps go_bind_Panicked_iff
      split: sum.splits go.splits prod.splits dest: Unwrap_panic)

lemma uninitialized_returns:
  assumes "resource_world e versions"
  shows "panics_only size_panic (reconcileStateUninitialized e u resource)"
proof -
  have started: "panics_only size_panic (started_container e resource stats)" if "ask_inspect e h d name = Inr stats" for h d name stats
  proof -
    have "\<forall>(port, hostPorts)\<in>set (cj_Ports stats). hostPorts \<noteq> []" using assms that unfolding resource_world_def by blast
    then show ?thesis unfolding started_container_def
      by (intro panics_intros) (auto split: if_splits dest: ready_status_Done)
  qed
  have created: "panics_only size_panic (case r of Panicked p \<Rightarrow> crash p | Running \<Rightarrow> State_Monad.return Running
      | Done (Some x) \<Rightarrow> finish no_requeue (Some x) | Done None \<Rightarrow> finish requeue_now None)"
    if "run_state (createContainer e u resource d) h = (r, h')" for d h r h'
    using that by (auto split: go.splits option.splits intro!: panics_return dest: createContainer_panic)
  show ?thesis
    unfolding reconcileStateUninitialized_def
    by (intro panics_bind panics_return panics_if panics_case created) (auto simp: io_simps intro: started)
qed

lemma ready_returns: "panics_only P (reconcileStateReady e resource)"
  unfolding reconcileStateReady_def Let_def by (intro panics_intros)

lemma destroy_returns: "panics_only P (reconcileStateDestroy e resource)"
  unfolding reconcileStateDestroy_def by (intro panics_intros)

lemma drop_resource_returns: "resourceFinalizer \<in> set (meta_Finalizers (tr_Meta resource)) \<Longrightarrow> panics_only P (drop_resource_finalizer e resource)"
  unfolding drop_resource_finalizer_def by (intro panics_intros) (simp add: drop_finalizer_present)

lemma delete_returns:
  assumes world: "resource_world e versions" and versions: "\<forall>s\<in>versions. indexed s"
    and finalizer: "resourceFinalizer \<in> set (meta_Finalizers (tr_Meta resource))"
  shows "panics_only P (delete_resource e resource)"
proof -
  have release: "False"
    if rel: "run_state (getRelationship e) h1 = (Inr rel, h2)" and mr: "nil_get (ResourceToMachine (rel_Status rel)) (resource_key resource) = Some mr"
      and m: "ask_machine e h3 (Namespaced (mr_Ref mr)) = Inr m"
      and panic: "release_resource (rel_Status rel) (machine_key m) resource = Panicked p" for h1 h2 h3 rel mr m p
  proof -
    from rel mr have "ask_relationship e h1 relationshipName = Inr rel"
      by (auto simp: io_simps zero_Relationship_def nil_get_def split: sum.splits if_splits)
    with world mr m have "rel_Status rel \<in> versions" "CreateRef (m_Meta m) = mr_Ref mr"
      unfolding resource_world_def by blast+
    with versions release_possible [OF _ mr] panic show False by (simp add: machine_key_def)
  qed
  show ?thesis
    unfolding delete_resource_def
    by (intro panics_bind panics_return panics_if panics_case panics_go drop_resource_returns finalizer)
      (auto simp: Get_machine_def run_ask dest: release)
qed

lemma resource_states:
  "panics_only P none \<Longrightarrow> panics_only P pending \<Longrightarrow> panics_only P un \<Longrightarrow> panics_only P ready \<Longrightarrow> panics_only P fin \<Longrightarrow>
   panics_only P destroy \<Longrightarrow> (\<And>s. panics_only P (other s)) \<Longrightarrow>
   panics_only P (case st of ResourceStateNone \<Rightarrow> none | ResourcePending \<Rightarrow> pending | ResourceUninitialized \<Rightarrow> un
     | ResourceReady \<Rightarrow> ready | ResourceFinish \<Rightarrow> fin | ResourceDestroy \<Rightarrow> destroy | UnknownResourceState s \<Rightarrow> other s)"
  by (cases st) simp_all

theorem resource_returns:
  assumes "race (proper_rel_step u) (rel_Status zero_Relationship) \<sigma> ls" "resource_world e (set (sh_Versions \<sigma>))"
    and "run_state (TestResource_Reconcile e u req) h = (Panicked p, h')"
  shows "size_panic p"
proof -
  have versions: "\<forall>s\<in>set (sh_Versions \<sigma>). indexed s" using proper_kept.version_inv [OF assms(1)] by (simp add: index_inv_def)
  have "panics_only size_panic (TestResource_Reconcile e u req)"
    unfolding TestResource_Reconcile_def reconcileStatePending_def reconcileStateFinish_def
    by (intro panics_intros resource_states uninitialized_returns [OF assms(2)] ready_returns destroy_returns
        delete_returns [OF assms(2) versions]) (simp add: being_deleted_def StringsContains_iff)
  then show ?thesis using assms(3) by (rule panics_onlyD)
qed

end
