(* ===== verification/Workload_Returns.thy ===== *)
theory Workload_Returns
  imports Workload_Props Topology_Ports Panics
begin

text \<open>
  With which panics a run of the workload controller can end. The controller panics on purpose
  when a node is in a state it does not expect, and one of these states is an ordinary one: that of a
  resource that waits for a place.
\<close>

section \<open>What the controller does not expect\<close>

text \<open>A node in a state for which the loop of the state of the workload has no case but a panic.\<close>

definition unexpected :: "TestWorkload \<Rightarrow> TestResource \<Rightarrow> bool" where
  "unexpected w node \<longleftrightarrow>
     tr_State node \<notin> {ResourceUninitialized, ResourceReady, ResourceFinish} \<and>
     \<not> (tw_State w = TestWorkloadStatePending \<and> tr_State node = ResourceDestroy)"

text \<open>
  The panics that are accounted for: an item without a container, which is optional in the API and
  which an update may leave out since \<open>ValidateUpdate\<close> accepts every update; a node in an unexpected
  state; or the description of a topology whose environment variables are injected.
\<close>

definition work_panic :: "env \<Rightarrow> topo_libs \<Rightarrow> TestWorkload \<Rightarrow> string \<Rightarrow> bool" where
  "work_panic e lib w p \<longleftrightarrow>
     (\<exists>item\<in>set (items_of w). wi_DockerContainer item = None) \<or>
     (\<exists>item\<in>set (items_of w). \<exists>node. node_read e w item node \<and> unexpected w node) \<or>
     (\<exists>topo resources. BuildInjectEnvs lib topo resources = Panicked p)"

text \<open>What \<open>ValidateCreate\<close> asks of a new workload: every item has a container.\<close>

definition containers_named :: "TestWorkload \<Rightarrow> bool" where
  "containers_named w \<longleftrightarrow> (\<forall>item\<in>set (items_of w). wi_DockerContainer item \<noteq> None)"

lemma accepted_containers: "TestWorkload_ValidateCreate parse w = Done None \<Longrightarrow> containers_named w"
  by (auto simp: TestWorkload_ValidateCreate_def containers_named_def go_bind_Done_iff validateWorkload_accepts)

section \<open>The loops\<close>

lemma node_lookup_returns:
  "run_state (getWorkloadRequestNode e ns c) h = (Panicked p, h') \<Longrightarrow> c = None"
  by (cases c) (auto simp: getWorkloadRequestNode_def io_simps split: sum.splits)

lemma with_node_returns:
  assumes "wi_DockerContainer item \<noteq> None" "\<And>node. node_read e w item node \<Longrightarrow> panics_only P (f node)"
  shows "panics_only P (with_node e w item reason f)"
  using assms(1) unfolding with_node_def Let_def
  by (intro panics_intros) (auto intro: assms(2) dest: node_lookup_returns getWorkloadRequestNode_read(1))

lemma injected_panic: "buildTopologyEnvs lib refs topologies resources = Panicked p \<Longrightarrow>
  \<exists>topo. BuildInjectEnvs lib topo resources = Panicked p"
  by (induction refs) (auto simp: Let_def res_bind_def go_bind_Panicked_iff split: option.splits sum.splits)

lemma pending_node_returns:
  assumes "item \<in> set (items_of w)" "node_read e w item node" "tw_State w = TestWorkloadStatePending"
    and "panics_only (work_panic e lib w) skip" "panics_only (work_panic e lib w) counted"
  shows "panics_only (work_panic e lib w) (pending_node e lib w topologies resources item c skip counted node)"
proof -
  have bug: "work_panic e lib w p" if "unexpected w node" for p
    using that assms(1,2) unfolding work_panic_def by blast
  have envs: "work_panic e lib w p" if "claim_node lib w topologies resources item c node = Panicked p" for p
  proof -
    from that have "buildTopologyEnvs lib (ws_ClusterTopologiesRefs (tw_Spec w)) topologies resources = Panicked p"
      by (auto simp: claim_node_def Let_def res_bind_def go_bind_Panicked_iff split: sum.splits)
    from injected_panic [OF this] show ?thesis by (auto simp: work_panic_def)
  qed
  show ?thesis
    unfolding pending_node_def pending_installed_def Let_def
    by (cases "tr_State node") (auto intro!: panics_intros assms(4,5) intro: bug dest: envs simp: unexpected_def assms(3))
qed

lemma pending_items_returns:
  assumes "tw_State w = TestWorkloadStatePending" "containers_named w" "\<And>n. panics_only (work_panic e lib w) (k n)"
  shows "set items \<subseteq> set (items_of w) \<Longrightarrow> panics_only (work_panic e lib w) (pending_items e lib w topologies resources items n k)"
proof (induction items arbitrary: n)
  case (Cons item items)
  then have "wi_DockerContainer item \<noteq> None" using assms(2) by (auto simp: containers_named_def)
  with Cons show ?case
    unfolding pending_items.simps by (intro with_node_returns) (auto intro!: panics_intros pending_node_returns assms(1))
qed (simp add: assms(3))

lemma running_items_returns:
  assumes "tw_State w0 = TestWorkloadStateRunning" "containers_named w0" "\<And>w t. panics_only (work_panic e lib w0) (k w t)"
  shows "set items \<subseteq> set (items_of w0) \<Longrightarrow> node_read e w = node_read e w0 \<Longrightarrow>
    panics_only (work_panic e lib w0) (running_items e w items t k)"
proof (induction items arbitrary: w t)
  case (Cons item items)
  have rest: "panics_only (work_panic e lib w0) (running_items e (set_phases m w) items t' k)" for m t'
    using Cons by simp
  have bug: "work_panic e lib w0 p" if "node_read e w item node" "tr_State node \<notin> {ResourceUninitialized, ResourceReady, ResourceFinish}" for node p
    using that Cons.prems assms(1) unfolding work_panic_def unexpected_def by auto
  from Cons.prems have "wi_DockerContainer item \<noteq> None" using assms(2) by (auto simp: containers_named_def)
  then show ?case
    unfolding running_items.simps Let_def
    by (intro with_node_returns panics_intros rest) (auto intro: bug)
qed (simp add: assms(3))

lemma pending_workload_returns:
  assumes "tw_State w = TestWorkloadStatePending" "containers_named w"
  shows "panics_only (work_panic e lib w) (Workload_reconcilePending e lib order w)"
  unfolding Workload_reconcilePending_def
  by (intro panics_intros pending_items_returns [OF assms]) simp

lemma running_workload_returns:
  assumes "tw_State w = TestWorkloadStateRunning" "containers_named w"
  shows "panics_only (work_panic e lib w) (Workload_reconcileRunning e w)"
  unfolding Workload_reconcileRunning_def Let_def
  by (intro panics_intros running_items_returns [OF assms]) simp_all

section \<open>Deletion\<close>

lemma uninstall_returns: "\<forall>item\<in>set items. wi_DockerContainer item \<noteq> None \<Longrightarrow> panics_only P (uninstallWorkload e w items)"
proof (induction items)
  case (Cons item items)
  then show ?case unfolding uninstallWorkload.simps by (intro panics_intros) (auto dest: node_lookup_returns)
qed (simp add: panics_intros)

lemma finalize_workload_returns:
  assumes "containers_named w" "meta_Finalizers (tw_Meta w) \<noteq> []"
  shows "panics_only P (finalize_workload e w)"
proof -
  have uninstall: "panics_only P (uninstallWorkload e w (items_of w))" for P
    using assms(1) by (intro uninstall_returns) (simp add: containers_named_def)
  have "P p" if "run_state (if b then uninstallWorkload e w (items_of w) else State_Monad.return (Done None)) h = (Panicked p, h')" for b h p h'
    using that panics_onlyD [OF uninstall] by (auto split: if_splits)
  moreover have "drop_finalizer f (tw_Meta w) \<noteq> Panicked p" for f p
    using assms(2) by (simp add: drop_finalizer_def go_bind_Panicked_iff StringsRemove_def)
  ultimately show ?thesis unfolding finalize_workload_def by (intro panics_intros) auto
qed

section \<open>The controller\<close>

text \<open>The API server keeps a deleted object only as long as it has a finalizer.\<close>

definition workload_world :: "env \<Rightarrow> nsname \<Rightarrow> bool" where
  "workload_world e req \<longleftrightarrow>
     (\<forall>h w. ask_workload e h req = Inr w \<longrightarrow> meta_DeletionTimestamp (tw_Meta w) \<noteq> None \<longrightarrow> meta_Finalizers (tw_Meta w) \<noteq> [])"

lemma unnamed_panics: "\<not> containers_named w \<Longrightarrow> work_panic e lib w p"
  by (auto simp: containers_named_def work_panic_def)

lemma workload_state_named: "containers_named w \<Longrightarrow> panics_only (work_panic e lib w) (workload_state e lib order w)"
  unfolding workload_state_def Workload_reconcileFinish_def
  by (cases "tw_State w") (auto intro!: panics_intros pending_workload_returns running_workload_returns)

lemma workload_state_returns: "panics_only (work_panic e lib w) (workload_state e lib order w)"
  by (metis panics_only_def unnamed_panics workload_state_named)

text \<open>C25: as long as every deleted workload it reads still has a finalizer, the workload controller panics
  only for a workload with an item that has no container, for a node it has read in a state it does
  not expect, or when the description of a topology panics.\<close>

theorem workload_panics:
  assumes "workload_world e req" "run_state (Workload_Reconcile e lib order req) h = (Panicked p, h')"
  shows "\<exists>h0 w. ask_workload e h0 req = Inr w \<and> work_panic e lib w p"
proof -
  let ?P = "\<lambda>p. \<exists>h0 w. ask_workload e h0 req = Inr w \<and> work_panic e lib w p"
  have same: "work_panic e lib (w\<lparr>tw_Meta := add_finalizer f (tw_Meta w)\<rparr>) = work_panic e lib w" for w f
    by (simp add: fun_eq_iff work_panic_def node_read_def unexpected_def add_finalizer_def)
  have state: "panics_only ?P (workload_state e lib order w')"
    if "ask_workload e h0 req = Inr w" "w' = w \<or> w' = w\<lparr>tw_Meta := add_finalizer testWorkloadFinalizer (tw_Meta w)\<rparr>" for h0 w w'
  proof -
    have "panics_only (work_panic e lib w') (workload_state e lib order w')" by (rule workload_state_returns)
    moreover have "work_panic e lib w' = work_panic e lib w" using that(2) by (elim disjE) (simp_all only: same)
    ultimately have "panics_only (work_panic e lib w) (workload_state e lib order w')" by (simp only:)
    then show ?thesis by (rule panics_weaken) (use that(1) in blast)
  qed
  have deleted: "panics_only ?P (finalize_workload e w)"
    if "ask_workload e h0 req = Inr w" "meta_DeletionTimestamp (tw_Meta w) \<noteq> None" for h0 w
  proof (cases "containers_named w")
    case True
    then show ?thesis using assms(1) that unfolding workload_world_def by (intro finalize_workload_returns) blast+
  next
    case False
    then show ?thesis using that(1) unnamed_panics unfolding panics_only_def by blast
  qed
  have "panics_only ?P (Workload_Reconcile e lib order req)"
    unfolding Workload_Reconcile_def Let_def
    by (intro panics_intros) (auto simp: io_simps intro: state deleted)
  then show ?thesis using assms(2) by (rule panics_onlyD)
qed

section \<open>A node that waits for a place\<close>

text \<open>
  A resource is pending from its creation until its request is admitted, however long that takes. A
  workload that names such a node and has nothing else to wait for takes the controller down.
\<close>

lemma waiting_node_panics:
  assumes w: "\<And>h. ask_workload e h req = Inr w" "meta_DeletionTimestamp (tw_Meta w) = None"
      "testWorkloadFinalizer \<in> set (meta_Finalizers (tw_Meta w))" "tw_State w = TestWorkloadStatePending"
      "ws_ClusterTopologiesRefs (tw_Spec w) = []" "order [] = []" "items_of w = item # items" "wi_DockerContainer item = Some c"
    and world: "\<And>h. ask_resources e h (meta_Namespace (tw_Meta w)) = Inr rs"
      "\<And>h. ask_request e h \<lparr>nn_Namespace = meta_Namespace (tw_Meta w), nn_Name = rrf_Name (cs_ResourceRequest c)\<rparr> = Inr rr"
      "\<And>h. ask_resource e h \<lparr>nn_Namespace = meta_Namespace (tw_Meta w), nn_Name = rrf_Node (cs_ResourceRequest c)\<rparr> = Inr node"
    and node: "tr_State node = ResourcePending" "trst_ClaimRef (tr_Status node) = None"
  shows "\<exists>h'. run_state (Workload_Reconcile e lib order req) h = (Panicked ''there's a bug, it shouldn't see the `pending` state'', h')"
  using assms by (simp add: Workload_Reconcile_def workload_state_def Workload_reconcilePending_def topology_keys_def
      StringsContains_iff io_simps with_node_def getWorkloadRequestNode_def pending_node_def occupied_def)

text \<open>
  An update that drops the container of the first item is accepted, and the next run of the
  controller on the workload dereferences nil, whether it waits, runs or is being deleted.
\<close>

lemma dropped_container_panics:
  assumes w: "ask_workload e h req = Inr w" "testWorkloadFinalizer \<in> set (meta_Finalizers (tw_Meta w))"
    and item: "items_of w = item # items" "wi_DockerContainer item = None"
    and busy: "meta_DeletionTimestamp (tw_Meta w) \<noteq> None \<or> tw_State w = TestWorkloadStateRunning"
  shows "\<exists>h'. run_state (Workload_Reconcile e lib order req) h = (Panicked nil_deref, h')"
  using assms
  by (cases "meta_DeletionTimestamp (tw_Meta w)")
     (auto simp: Workload_Reconcile_def workload_state_def Workload_reconcileRunning_def finalize_workload_def
      StringsContains_iff io_simps with_node_def getWorkloadRequestNode_def)

definition demo_new_workload :: TestWorkload where
  "demo_new_workload = demo_workload\<lparr>tw_Meta := (tw_Meta demo_workload)\<lparr>meta_Finalizers := [testWorkloadFinalizer]\<rparr>,
     tw_Status := (tw_Status demo_workload)\<lparr>twst_State := TestWorkloadStatePending\<rparr>\<rparr>"

definition demo_waiting_env :: env where
  "demo_waiting_env = demo_env\<lparr>ask_workload := \<lambda>h n. Inr demo_new_workload,
     ask_resource := \<lambda>h n. Inr (demo_resource (nn_Name n) ''u3'' (demo_spec 2 []))\<rparr>"

theorem workload_panics_witness:
  "\<exists>p h'. run_state (Workload_Reconcile demo_waiting_env demo_topo_libs (\<lambda>ks. ks) relationshipName) [] = (Panicked p, h') \<and>
     (\<exists>h0 w. ask_workload demo_waiting_env h0 relationshipName = Inr w \<and> work_panic demo_waiting_env demo_topo_libs w p)"
proof -
  have world: "workload_world demo_waiting_env relationshipName"
    by (simp add: workload_world_def demo_waiting_env_def) (simp add: demo_new_workload_def)
  have "\<exists>h'. run_state (Workload_Reconcile demo_waiting_env demo_topo_libs (\<lambda>ks. ks) relationshipName) [] =
      (Panicked ''there's a bug, it shouldn't see the `pending` state'', h')"
    by (rule waiting_node_panics [where w = demo_new_workload and item = demo_item and rs = "[]" and items = "[]"
        and c = "the (wi_DockerContainer demo_item)"
        and node = "demo_resource ''n1'' ''u3'' (demo_spec 2 [])"])
      (simp_all add: demo_waiting_env_def demo_new_workload_def demo_workload_def demo_item_def demo_env_def demo_resource_def
        demo_meta_def zero_meta_def zero_ResourceStatus_def)
  then obtain p h' where run: "run_state (Workload_Reconcile demo_waiting_env demo_topo_libs (\<lambda>ks. ks) relationshipName) [] = (Panicked p, h')"
    by blast
  with workload_panics [OF world run] show ?thesis by blast
qed

end
