(* ===== verification/Spec2Isabelle.thy ===== *)
theory Spec2Isabelle
  imports System Tiup_Scale Topology_Order Topology_Ports Workload_Props Chaos_Props Plugin
    Isolation Concurrency Progress Webhooks Wiring Deepcopy_Props
    Request_Returns Resource_Returns Workload_Returns
begin

text \<open>
  Verification of Naglfar, a Kubernetes operator for testing TiDB.

  \<^bold>\<open>The program.\<close> A \<open>Machine\<close> object describes a host with a Docker daemon. A
  \<open>TestResourceRequest\<close> asks for a set of \<open>TestResource\<close>s, containers with cores, memory and disks
  of their own; a scheduler places them all at once or not at all. One shared object, the
  \<open>Relationship\<close>, records which resource is on which machine with what binding, which requests are
  accepted, and which machines are locked for a request. A \<open>TestClusterTopology\<close> installs a TiDB, DM or
  Flink cluster on the resources of a request with \<open>tiup\<close> over SSH; a \<open>TestWorkload\<close> runs programs on further
  resources; a \<open>ProcChaos\<close> kills processes in them. Each kind of object has a controller, which is
  called with the name of an object, reads the API server, acts on Docker daemons and hosts, and
  writes its findings back; the controllers share nothing but the objects on the API server.

  \<^bold>\<open>The world.\<close> \<open>Env\<close> models everything outside as a record \<open>env\<close> of answers. An action is a state
  transformer over the history of events; every answer is a function of the history, so each read
  may see a different object and each call may fail. A controller is a function from \<open>env\<close> and a
  name to such a transformer, with the result \<open>Done (result, error)\<close> or \<open>Panicked\<close>. \<open>Traces\<close> has
  \<open>emits P m\<close> (every event of every run satisfies \<open>P\<close>) and \<open>always P m h\<close> (so does every event
  with the history before it), and rules that follow the structure of the code. Their quantifiers
  over worlds and histories cover every interleaving with the other controllers and every failure.

  \<^bold>\<open>Theories and sources.\<close>
  \<^item> \<open>Prelude\<close>, \<open>GoStrings\<close>: Go's errors, panics, maps, \<open>sort.Slice\<close> (locale \<open>weak_order\<close>), and the string
    functions used. \<open>Util\<close>, \<open>GoTime\<close>: \<open>pkg/util\<close>, \<open>pkg/ref\<close>, \<open>pkg/kubeutil\<close>; \<open>GoTime\<close> shows that
    a time that is written is read back.
  \<^item> \<open>Relationship\<close>, \<open>Machine\<close>, \<open>Resource\<close>, \<open>Request\<close>, \<open>Topology\<close>, \<open>Topology_Webhook\<close>, \<open>Workload\<close>:
    the objects of \<open>api/v1\<close> as records, their methods and their webhooks. \<open>Topology_Webhook\<close> also says,
    in terms of the servers, which edits of a running cluster its webhook accepts (\<open>one_change\<close>).
  \<^item> \<open>Scheduler\<close>: the placement in \<open>controllers/testresourcerequest_controller.go\<close>. \<open>Placement\<close>,
    \<open>Admission\<close>, \<open>NoPanic\<close>: resources on a machine stay exclusive (locale of an allocator, interpreted
    on the code's fit), locks are respected, items are placed completely and together, the two
    indices stay inverse, and no nil pointer is followed. \<open>Capacity\<close>: a machine gives no more cores,
    disks and memory than it has, up to the rounding of printed sizes, and a machine that can take
    a resource is found.
  \<^item> \<open>Webhooks\<close>: the operations of the webhooks that accept everything, and the objects of one kind in
    the API server as a store that changes through its webhook (locale \<open>webhook\<close>, interpreted for
    machines, resources and process chaos): what every stored object satisfies, the resources made
    from an accepted request, and the update of a request that the scheduler panics on.
  \<^item> \<open>Docker\<close>: \<open>pkg/docker-util\<close> and \<open>pkg/container\<close>. \<open>Request_Controller\<close>, \<open>Resource_Controller\<close>,
    \<open>Machine_Controller\<close> (with the relationship controller): the controllers of the same names.
    \<open>Progress\<close>: a pending request is admitted when there is room, one with two items of a name never.
    \<open>Request_Props\<close>, \<open>Resource_Props\<close> and the end of \<open>Machine_Controller\<close>: state machines of the
    objects, and the order in which finalizers go: what must have been written and removed before
    (\<open>taken_away\<close> of \<open>Traces\<close>: a container was found missing or removed by force).
  \<^item> \<open>Ssh\<close>: \<open>pkg/ssh\<close>. \<open>Tiup_Spec\<close>, \<open>Tiup_Cluster\<close>, \<open>Tiup_DM\<close>, \<open>Flink\<close>, \<open>Haproxy\<close>: \<open>pkg/tiup\<close>,
    \<open>pkg/flink\<close>, \<open>pkg/haproxy\<close>. \<open>Tiup_Spec_Props\<close>, \<open>Tiup_Props\<close>, \<open>Tiup_Scale\<close>: when a description can be
    built, where its servers stand, the order of an installation, and which nodes a scaling changes.
  \<^item> \<open>Topology_Controller\<close>, \<open>Topology_Reconcile\<close>: \<open>controllers/testclustertopology_controller.go\<close>.
    \<open>Topology_Props\<close>, \<open>Topology_Order\<close>, \<open>Topology_Ports\<close>: its state machine, the topologies that its runs
    and the edits of others lead to (\<open>topo_stored\<close>), what comes before it says ready or lets go, and
    the ports it has opened.
  \<^item> \<open>Workload_Controller\<close>, \<open>Workload_Props\<close>: \<open>controllers/testworkload_controller.go\<close>.
    \<open>Chaos_Controller\<close>, \<open>Chaos_Props\<close>: \<open>controllers/procchaos_controller.go\<close> and its webhook.
  \<^item> \<open>Client\<close>: \<open>client\<close>. \<open>Plugin\<close>: \<open>pkg/cmd\<close> and \<open>cmd/daemon\<close>.
  \<^item> \<open>Wiring\<close>: the start of the process in \<open>main.go\<close> and the test workflows, which do nothing yet.
  \<^item> \<open>System\<close>: the relationship as a state machine over the steps of the four controllers that
    write it, its invariant and its abstract state. Steps that admit only requests with fresh items of
    names without slashes, and release a resource only with the machine key its entry records
    (\<open>proper_step\<close>), keep the indices inverse. The properties are at the end of this theory.
  \<^item> \<open>Concurrency\<close>: workers that read the relationship from lagging caches and whose writes are refused
    unless their copy is current (\<open>race\<close>) take steps one at a time; what steps keep (locale \<open>kept\<close>,
    interpreted for both invariants of \<open>System\<close>) holds of every version.
  \<^item> \<open>Panics\<close>, \<open>Request_Returns\<close>, \<open>Resource_Returns\<close>, \<open>Workload_Returns\<close>: with which panics a run of a
    controller can end. The request and resource controllers are left with unreadable sizes
    (\<open>controllers_return\<close>), given accepted requests whose items are not renamed, machines that are not
    replaced and published ports (\<open>request_world\<close>, \<open>resource_world\<close>); the workload controller
    panics on a node that still waits for a place and on an item without a container.
  \<^item> \<open>Memory\<close>, \<open>Copying\<close>, \<open>Api_Types\<close>, \<open>Deepcopy\<close>, \<open>Deepcopy_Props\<close>: a memory of cells, the statements of
    which the functions of \<open>api/v1/zz_generated.deepcopy.go\<close> consist, the structs of \<open>api/v1\<close> with their
    pointers, slices and maps, and the functions themselves (\<open>copy_functions\<close> lists them all). Each statement keeps the contract of a deep copy
    (\<open>fresh_copy\<close>; locale \<open>deep_copier\<close>), so each function does, and the cluster that a topology
    records stays apart from its specification. The copies of Kubernetes' metadata are parameters.
  \<^item> \<open>Isolation\<close>: which containers the resource controller creates, with which cores, memory and mounts,
    and that those of two resources on a machine that have a core at all share none.
  \<^item> \<open>Demo\<close>, \<open>Demo_Cluster\<close>, \<open>Demo_World\<close>: small inputs on which the theorems are applied.

  \<^bold>\<open>Conventions.\<close> A struct is a record and a string enumeration a datatype with a constructor for every
  other text; a pointer or map that may be nil is an \<open>option\<close>. A Go map is an association list in the
  order of its iteration, and the choices Go leaves open (iteration orders, the shuffle, random
  numbers, the order of an unstable sort) are parameters: theorems hold for all of them. Integers
  are \<open>int\<close>; where a 64-bit wrap can matter (\<open>int64\<close>, \<open>Atoi\<close>, durations) it is written out. Sizes are
  texts read and printed by a record \<open>units\<close>, which stands for \<open>go-units\<close>.

  \<^bold>\<open>Fuel.\<close> Only \<open>Run\<close>, the loop that inspects, creates and starts a container, has fuel. Three rounds
  are enough with a daemon that shows what it did (\<open>Run_returns\<close>): one creates, one starts, one
  returns. The controllers get the fuel as an argument; their theorems hold for every value.

  \<^bold>\<open>Parameters.\<close> The answers of the API server, the Docker daemons, SSH, SCP, HTTP, the clock and
  the random generator (\<open>env\<close>); parsing and printing of YAML and JSON, the defaults of the tiup and
  Flink packages, the templates of HAProxy (\<open>tiup_libs\<close>, \<open>topo_libs\<close>, \<open>machine_libs\<close>,
  \<open>chaos_libs\<close>); the scripts packed into the binary; the time zone of the process.

  \<^bold>\<open>Assumptions on the world.\<close> Where a property needs one it is a named predicate, which its statement
  shows: the iteration orders and choices keep the elements (\<open>fair\<close>); an error of the Docker client is none
  of the API server (\<open>docker_errors\<close>); no machine has an empty name and the empty text is no size
  (\<open>no_empty_name\<close>, \<open>no_empty_size\<close>); \<open>diff.Diff\<close> finds no change exactly between equal values
  (\<open>exact_differ\<close>); a daemon shows the containers it has made (\<open>daemon_shows\<close>); and the worlds of the
  theorems on panics (\<open>request_world\<close>, \<open>resource_world\<close>, \<open>workload_world\<close>).

  \<^bold>\<open>Not modelled.\<close> The flags and the scheme in \<open>main.go\<close>, the \<open>SetupWithManager\<close> of the
  controllers, the set-up of the command line, logging: they hand data to libraries and keep no state.
  \<open>pkg/chaos/pb\<close> is generated and \<open>pkg/chaos\<close>, its only user, is not called. \<open>pkg/script\<close> is one variable. The
  rest of this development takes objects as values; that copies and originals stay apart is shown in \<open>Deepcopy_Props\<close>. Network timeouts, cancellation by contexts and the
  \<open>Close\<close> of connections leave no trace in the model. The fraction of a duration is computed
  exactly, where Go's floating point can differ below the nanosecond.
\<close>

section \<open>The relationship, over all controllers\<close>

text \<open>C2: whatever the world answers, each of the four controllers that write the relationship
  writes only the result of one step from a relationship that was read.\<close>

theorem relationship_writes:
  assumes "fair c"
  shows "emits (writes_step e u) (Relationship_Reconcile e req) \<and>
    emits (writes_step e u) (Machine_Reconcile e lib fuel req) \<and>
    emits (writes_step e u) (Request_Reconcile e u c setref req) \<and>
    emits (writes_step e u) (TestResource_Reconcile e u req)"
  using relationship_controller_steps machine_controller_steps request_controller_steps [OF assms]
    resource_controller_steps by simp

theorem relationship_writes_witness: "emits (writes_step demo_env demo_units) (TestResource_Reconcile demo_env demo_units relationshipName)"
  using relationship_writes [OF fair_demo] by blast

text \<open>C1: whatever the order in which any number of workers read the relationship, from caches that may
  lag behind, and write the results of their steps, in every version that is ever stored no two resources
  on a machine share a core or a disk, and a machine is locked only for a request that is accepted.\<close>

theorem concurrent_exclusive:
  assumes "race (rel_step u) (rel_Status zero_Relationship) \<sigma> ls" "s \<in> set (sh_Versions \<sigma>)"
  shows "machines_exclusive s \<and>
    (\<forall>n self. nil_get (MachineLocks s) n = Some self \<longrightarrow> IfExist (AcceptedRequests s) self)"
  using rel_kept.version_inv [OF assms] by (simp add: rel_inv_def)

theorem concurrent_exclusive_witness: "machines_exclusive demo_placed"
proof -
  obtain \<sigma> where "race (rel_step demo_units) (rel_Status zero_Relationship) \<sigma> [Initialised, Admitted demo_request demo_resources]"
    "sh_Versions \<sigma> = [rel_Status zero_Relationship, demo_status, demo_placed]" by (rule demo_race)
  with concurrent_exclusive [OF this(1), of demo_placed] show ?thesis by simp
qed

text \<open>C3: the relationship refines the abstract state of placements, acceptances and locks, also under
  concurrency: after every write, whatever reads and refused writes came between, the stored version is,
  seen abstractly, the result of the abstract steps that were written, one after the other.\<close>

theorem concurrent_refines:
  assumes "race (rel_step u) (rel_Status zero_Relationship) \<sigma> ls"
  shows "spec_run ls (rel_abs (last (sh_Versions \<sigma>)))"
proof -
  from race_versions [OF assms] have len: "length (sh_Versions \<sigma>) = Suc (length ls)"
    and "run_of (rel_step u) (rel_Status zero_Relationship) (take (length ls) ls) (sh_Versions \<sigma> ! length ls)" by blast+
  then have "rel_run u (rel_Status zero_Relationship) ls (last (sh_Versions \<sigma>))"
    by (metis run_of_rel_run take_all order_refl last_conv_nth diff_Suc_1 list.size(3) nat.distinct(1))
  then show ?thesis using rel_run_refines by blast
qed

theorem concurrent_refines_witness:
  "spec_run [Initialised, Admitted demo_request demo_resources] (rel_abs demo_placed)"
proof -
  obtain \<sigma> where "race (rel_step demo_units) (rel_Status zero_Relationship) \<sigma> [Initialised, Admitted demo_request demo_resources]"
    "sh_Versions \<sigma> = [rel_Status zero_Relationship, demo_status, demo_placed]" by (rule demo_race)
  with concurrent_refines [OF this(1)] show ?thesis by simp
qed

text \<open>C4: suppose that every step that is written is proper (\<open>proper_step\<close>): a request is admitted only when
  its items have no place yet, a resource is released only with the machine key that its entry records,
  so that no machine object was replaced by one of another UID meanwhile, and the namespaces, names and
  UIDs of the resources have no slash. Then in every version that concurrent workers store the two
  indices of the relationship are inverse to each other, with equal bindings, and every resource that
  has a place can be released under the machine of its entry without a panic.\<close>

theorem concurrent_indexed:
  assumes "race (proper_rel_step u) (rel_Status zero_Relationship) \<sigma> ls" "s \<in> set (sh_Versions \<sigma>)"
  shows "indexed s \<and>
    (\<forall>r mr. nil_get (ResourceToMachine s) (resource_key r) = Some mr \<longrightarrow>
       (\<exists>s'. release_resource s (Key (mr_Ref mr)) r = Done s'))"
  using proper_kept.version_inv [OF assms] release_possible by (auto simp: index_inv_def)

theorem concurrent_indexed_witness: "indexed demo_released"
proof -
  obtain \<sigma> where "race (proper_rel_step demo_units) (rel_Status zero_Relationship) \<sigma>
      [Initialised, Admitted demo_request demo_resources, Released (resource_key demo_first)]"
    "sh_Versions \<sigma> = [rel_Status zero_Relationship, demo_status, demo_placed, demo_released]"
    by (rule demo_proper_race)
  with concurrent_indexed [OF this(1), of demo_released] show ?thesis by simp
qed

text \<open>C15: neither the request controller nor the resource controller ends a run with a panic other than
  that of a size that cannot be read, in a world of the following kind. Every request that is read passes
  \<open>ValidateCreate\<close>, and the resources it owns bear the names of its items, so no item was renamed;
  machines have a reserve; the relationship is found and initialised by the request controller, and the
  resource controller reads one of the versions that concurrent workers store by proper steps
  (\<open>proper_step\<close>) and, under the reference of an entry, the machine that was recorded and no later
  one of its name; and containers publish every port they expose. The conditions are needed: an
  accepted request that was updated, or an item that was renamed (\<open>renamed_item_panics\<close>), panics.\<close>

theorem controllers_return:
  assumes "fair c" "race (proper_rel_step u) (rel_Status zero_Relationship) \<sigma> ls"
    and "request_world e u req" "resource_world e (set (sh_Versions \<sigma>))"
    and "run_state (Request_Reconcile e u c setref req) h = (Panicked p, h') \<or>
      run_state (TestResource_Reconcile e u req) h = (Panicked p, h')"
  shows "size_panic p"
  using assms(5) request_returns [OF assms(1,3)] resource_returns [OF assms(2,4)] by blast

theorem controllers_return_witness:
  "\<exists>p h'. run_state (Request_Reconcile demo_broken_env demo_units demo_choices (\<lambda>_ r. Inr r) relationshipName) [] = (Panicked p, h') \<and>
     size_panic p"
proof -
  obtain \<sigma> where race: "race (proper_rel_step demo_units) (rel_Status zero_Relationship) \<sigma>
      [Initialised, Admitted demo_request demo_resources, Released (resource_key demo_first)]"
    and versions: "sh_Versions \<sigma> = [rel_Status zero_Relationship, demo_status, demo_placed, demo_released]"
    by (rule demo_proper_race)
  have "resource_world demo_broken_env (set (sh_Versions \<sigma>))"
    unfolding versions
    by (auto simp: resource_world_def demo_broken_env_def demo_pending_env_def demo_status_def demo_env_def demo_container_def
        nil_get_def split: if_splits)
  moreover obtain p h' where
    "run_state (Request_Reconcile demo_broken_env demo_units demo_choices (\<lambda>_ r. Inr r) relationshipName) [] = (Panicked p, h')"
    using demo_broken_panics by blast
  ultimately show ?thesis using controllers_return [OF fair_demo race demo_broken_world] by blast
qed

end
